(* ===== verification/Prelude.thy ===== *)
theory Prelude
  imports Main "HOL-Library.AList" "HOL-Library.Multiset" "HOL-Library.List_Lexorder"
    "HOL-Library.Char_ord"
begin

text \<open>
  Shared vocabulary of the development: the collections of simplification rules the component
  theories add to, facts about lists with a key index (a Go map kept beside a slice of its keys),
  counting in association lists, and decimal numerals.
\<close>

named_theorems enum_defs \<open>the closed enumerations and their Valid methods\<close>
named_theorems validate_defs \<open>the Validate methods of records and payloads\<close>
named_theorems op_defs \<open>the reducer's operations\<close>

section \<open>Maps that are kept beside the list of their keys\<close>

text \<open>
  The projection keeps several maps together with a slice of their keys, so that rendering has a
  stable order. The two agree when the slice has no duplicates and lists exactly the keys.
\<close>

definition indexed :: "('k \<rightharpoonup> 'v) \<Rightarrow> 'k list \<Rightarrow> bool" where
  "indexed m ks \<longleftrightarrow> distinct ks \<and> set ks = dom m"

lemma indexed_empty [simp, intro]: "indexed Map.empty []"
  by (simp add: indexed_def)

lemma indexed_insert: "indexed m ks \<Longrightarrow> m k = None \<Longrightarrow> indexed (m(k \<mapsto> v)) (ks @ [k])"
  by (auto simp: indexed_def)

lemma indexed_overwrite: "indexed m ks \<Longrightarrow> m k \<noteq> None \<Longrightarrow> indexed (m(k \<mapsto> v)) ks"
  by (auto simp: indexed_def)

lemma indexed_delete: "indexed m ks \<Longrightarrow> indexed (m(k := None)) (filter (\<lambda>x. x \<noteq> k) ks)"
  by (auto simp: indexed_def)

lemma indexed_lookup: "indexed m ks \<Longrightarrow> k \<in> set ks \<Longrightarrow> \<exists>v. m k = Some v"
  by (auto simp: indexed_def)

lemma indexed_mem: "indexed m ks \<Longrightarrow> m k = Some v \<Longrightarrow> k \<in> set ks"
  by (auto simp: indexed_def)

section \<open>Association lists as maps the code ranges over\<close>

definition keys :: "('k \<times> 'v) list \<Rightarrow> 'k list" where
  "keys m = map fst m"

lemma keys_update: "distinct (keys m) \<Longrightarrow> distinct (keys (AList.update k v m))"
  by (simp add: keys_def distinct_update)

lemma keys_delete: "distinct (keys m) \<Longrightarrow> distinct (keys (AList.delete k m))"
  by (simp add: keys_def distinct_delete)

lemma map_of_update: "map_of (AList.update k v m) = (map_of m)(k \<mapsto> v)"
  by (simp add: update_conv')

lemma map_of_delete: "map_of (AList.delete k m) = (map_of m)(k := None)"
  by (simp add: delete_conv')

text \<open>Counting the entries whose value satisfies a test: what a Go range loop over a map does.\<close>

definition count_values :: "('v \<Rightarrow> bool) \<Rightarrow> ('k \<times> 'v) list \<Rightarrow> nat" where
  "count_values P m = length (filter (\<lambda>kv. P (snd kv)) m)"

lemma count_values_card:
  assumes "distinct (keys m)"
  shows "count_values P m = card {k. \<exists>v. map_of m k = Some v \<and> P v}"
proof -
  have d: "distinct (map fst (filter (\<lambda>kv. P (snd kv)) m))"
    using assms by (simp add: keys_def distinct_map_filter)
  have "{k. \<exists>v. map_of m k = Some v \<and> P v} = set (map fst (filter (\<lambda>kv. P (snd kv)) m))"
    using assms by (force simp: keys_def dest: map_of_SomeD intro: map_of_is_SomeI)
  then show ?thesis
    using d by (simp only: distinct_card count_values_def) simp
qed

section \<open>Lists\<close>

lemma filter_neq_notin [simp]: "x \<notin> set xs \<Longrightarrow> filter (\<lambda>y. y \<noteq> x) xs = xs"
  by (induction xs) auto

lemma sorted_wrt_snoc:
  "sorted_wrt R (xs @ [x]) \<longleftrightarrow> sorted_wrt R xs \<and> (\<forall>y \<in> set xs. R y x)"
  by (auto simp: sorted_wrt_append)

section \<open>Decimal numerals\<close>

definition digit_char :: "nat \<Rightarrow> char" where
  "digit_char d = char_of (48 + d)"

definition char_digit :: "char \<Rightarrow> nat" where
  "char_digit c = of_char c - 48"

definition is_digit :: "char \<Rightarrow> bool" where
  "is_digit c \<longleftrightarrow> 48 \<le> (of_char c :: nat) \<and> (of_char c :: nat) \<le> 57"

fun decimal :: "nat \<Rightarrow> string" where
  "decimal n = (if n < 10 then [digit_char n] else decimal (n div 10) @ [digit_char (n mod 10)])"

declare decimal.simps [simp del]

definition parse_decimal :: "string \<Rightarrow> nat" where
  "parse_decimal s = foldl (\<lambda>n c. 10 * n + char_digit c) 0 s"

lemma of_char_digit [simp]: "d < 10 \<Longrightarrow> (of_char (digit_char d) :: nat) = 48 + d"
  by (simp add: digit_char_def)

lemma char_digit_char [simp]: "d < 10 \<Longrightarrow> char_digit (digit_char d) = d"
  by (simp add: char_digit_def)

lemma is_digit_char [simp]: "d < 10 \<Longrightarrow> is_digit (digit_char d)"
  by (simp add: is_digit_def)

lemma digit_char_0: "digit_char 0 = CHR ''0''"
  unfolding digit_char_def by code_simp

lemma parse_decimal_snoc: "parse_decimal (s @ [c]) = 10 * parse_decimal s + char_digit c"
  by (simp add: parse_decimal_def)

lemma parse_decimal_decimal [simp]: "parse_decimal (decimal n) = n"
proof (induction n rule: decimal.induct)
  case (1 n)
  show ?case
  proof (cases "n < 10")
    case True
    then show ?thesis by (subst decimal.simps) (simp add: parse_decimal_def)
  next
    case False
    with 1 show ?thesis by (subst decimal.simps) (simp add: parse_decimal_snoc)
  qed
qed

lemma decimal_digits: "list_all is_digit (decimal n)"
proof (induction n rule: decimal.induct)
  case (1 n)
  then show ?case by (subst decimal.simps) auto
qed

lemma decimal_nonempty [simp]: "decimal n \<noteq> []"
  by (subst decimal.simps) auto

lemma parse_decimal_zeros: "parse_decimal (replicate k (CHR ''0'') @ s) = parse_decimal s"
proof -
  have "foldl (\<lambda>n c. 10 * n + char_digit c) 0 (replicate k (CHR ''0'')) = 0"
    by (induction k) (simp_all add: char_digit_def)
  then show ?thesis by (simp add: parse_decimal_def)
qed

text \<open>The verb \<open>%0wd\<close> of fmt for a number that is not negative: pad with zeros to width w.\<close>

definition pad_decimal :: "nat \<Rightarrow> nat \<Rightarrow> string" where
  "pad_decimal w n = replicate (w - length (decimal n)) (CHR ''0'') @ decimal n"

lemma parse_pad_decimal [simp]: "parse_decimal (pad_decimal w n) = n"
  by (simp add: pad_decimal_def parse_decimal_zeros)

lemma length_pad_decimal: "w \<le> length (pad_decimal w n)"
  by (simp add: pad_decimal_def)

lemma pad_decimal_digits: "list_all is_digit (pad_decimal w n)"
proof -
  have "list_all is_digit (replicate k (CHR ''0''))" for k
    by (induction k) (simp_all add: is_digit_def)
  then show ?thesis by (simp add: pad_decimal_def decimal_digits)
qed

end
