(* ===== verification/Errs.thy ===== *)
theory Errs
  imports Prelude
begin

text \<open>
  The error taxonomy of internal/errs and the shape every fallible routine of the model has.
  A Go error is None (nil) or Some error; an error of the taxonomy carries its category and its
  wrapped cause. The formatted message is left out: it supplements the category and no routine
  modelled here reads it. Foreign stands for an error of another package or a sentinel value, known
  by its identity, which may wrap one.
\<close>

datatype Category =
    CategoryContradictedAssumption | CategoryValidationFailed | CategoryPolicyDenied
  | CategoryNeedsPrincipal | CategoryConsultantUnavailable | CategoryModelUnavailable
  | CategoryWorktreeConflict | CategoryUnsupported | CategoryUnauthenticated
  | CategoryProbeFailed | CategoryProbeTimeout | CategoryNoEligibleEndpoint
  | CategorySchemaVersionUnsupported | CategoryInvalidTransition | CategoryInvalidArgument
  | CategoryNotFound | CategoryConflict | CategoryIntegrity | CategoryContextUnfit
  | CategoryInternal

datatype go_error =
    Err (err_Category: Category) (err_Cause: "go_error option")
  | Foreign string "go_error option"

fun Unwrap :: "go_error \<Rightarrow> go_error option" where
  "Unwrap (Err c cause) = cause"
| "Unwrap (Foreign i cause) = cause"

definition New :: "Category \<Rightarrow> go_error" where
  "New c = Err c None"

definition Wrap :: "Category \<Rightarrow> go_error option \<Rightarrow> go_error option" where
  "Wrap c cause = (case cause of None \<Rightarrow> None | Some e \<Rightarrow> Some (Err c (Some e)))"

text \<open>errors.As for *Error: the first error of the taxonomy on the wrap chain.\<close>

fun as_Error :: "go_error \<Rightarrow> Category option" where
  "as_Error (Err c cause) = Some c"
| "as_Error (Foreign i None) = None"
| "as_Error (Foreign i (Some e)) = as_Error e"

text \<open>The empty category that CategoryOf returns for a nil error is None here.\<close>

definition CategoryOf :: "go_error option \<Rightarrow> Category option" where
  "CategoryOf err =
     (case err of
        None \<Rightarrow> None
      | Some e \<Rightarrow> (case as_Error e of Some c \<Rightarrow> Some c | None \<Rightarrow> Some CategoryInternal))"

text \<open>errors.Is against the sentinel of a category: some error on the chain has the category.\<close>

fun Is_Category :: "go_error \<Rightarrow> Category \<Rightarrow> bool" where
  "Is_Category (Err c None) d \<longleftrightarrow> c = d"
| "Is_Category (Err c (Some e)) d \<longleftrightarrow> c = d \<or> Is_Category e d"
| "Is_Category (Foreign i None) d \<longleftrightarrow> False"
| "Is_Category (Foreign i (Some e)) d \<longleftrightarrow> Is_Category e d"

text \<open>errors.Is against a sentinel value: some error on the chain is that value.\<close>

fun Is_Sentinel :: "go_error \<Rightarrow> string \<Rightarrow> bool" where
  "Is_Sentinel (Err c None) i \<longleftrightarrow> False"
| "Is_Sentinel (Err c (Some e)) i \<longleftrightarrow> Is_Sentinel e i"
| "Is_Sentinel (Foreign j None) i \<longleftrightarrow> j = i"
| "Is_Sentinel (Foreign j (Some e)) i \<longleftrightarrow> j = i \<or> Is_Sentinel e i"

lemma CategoryOf_New [simp]: "CategoryOf (Some (New c)) = Some c"
  by (simp add: CategoryOf_def New_def)

lemma CategoryOf_None [simp]: "CategoryOf None = None"
  by (simp add: CategoryOf_def)

lemma New_inject [simp]: "New c = New d \<longleftrightarrow> c = d"
  by (simp add: New_def)

lemma as_Error_Is: "as_Error e = Some c \<Longrightarrow> Is_Category e c"
  by (induction e rule: as_Error.induct)
     (auto elim: Is_Category.elims simp: Is_Category.simps split: option.splits,
      metis Is_Category.simps(1,2) not_None_eq)

lemma as_Error_None: "as_Error e = None \<Longrightarrow> \<not> Is_Category e c"
  by (induction e rule: as_Error.induct) auto

lemma CategoryOf_Wrap: "CategoryOf (Wrap c cause) = (if cause = None then None else Some c)"
  by (cases cause) (simp_all add: Wrap_def CategoryOf_def)

lemma Is_Wrap: "Wrap c (Some e) = Some w \<Longrightarrow> Is_Category w d \<longleftrightarrow> d = c \<or> Is_Category e d"
  by (auto simp: Wrap_def)

section \<open>Chains of checks\<close>

text \<open>
  A Validate method is a chain of early returns: the first check that fails is the error
  returned. \<open>check bad c\<close> is one \<open>if bad { return errs.New(c, ...) }\<close>.
\<close>

definition check :: "bool \<Rightarrow> Category \<Rightarrow> go_error option" where
  "check bad c = (if bad then Some (New c) else None)"

fun first_err :: "go_error option list \<Rightarrow> go_error option" where
  "first_err [] = None"
| "first_err (x # xs) = (case x of Some e \<Rightarrow> Some e | None \<Rightarrow> first_err xs)"

lemma check_None [simp]: "check bad c = None \<longleftrightarrow> \<not> bad"
  by (simp add: check_def)

lemma check_Some: "check bad c = Some e \<longleftrightarrow> bad \<and> e = New c"
  by (auto simp: check_def)

lemma first_err_Cons_None [simp]: "first_err (x # xs) = None \<longleftrightarrow> x = None \<and> first_err xs = None"
  by (simp split: option.splits)

lemma first_err_pass [simp]: "first_err (None # xs) = first_err xs"
  by simp

lemma first_err_fail [simp]: "first_err (Some e # xs) = Some e"
  by simp

lemma check_simps [simp]: "check True c = Some (New c)" "check False c = None"
  by (simp_all add: check_def)

declare first_err.simps(2) [simp del]

lemma first_err_append: "first_err (xs @ ys) =
    (case first_err xs of Some e \<Rightarrow> Some e | None \<Rightarrow> first_err ys)"
  by (induction xs) (auto simp: first_err.simps(2) split: option.splits)

lemma first_err_None_iff: "first_err xs = None \<longleftrightarrow> (\<forall>x \<in> set xs. x = None)"
  by (induction xs) auto

section \<open>Functions that may fail\<close>

type_synonym 'a result = "go_error + 'a"

definition bind_result :: "'a result \<Rightarrow> ('a \<Rightarrow> 'b result) \<Rightarrow> 'b result" where
  "bind_result r k = (case r of Inl e \<Rightarrow> Inl e | Inr x \<Rightarrow> k x)"

definition require :: "go_error option \<Rightarrow> 'b result \<Rightarrow> 'b result" where
  "require c k = (case c of Some e \<Rightarrow> Inl e | None \<Rightarrow> k)"

lemma bind_result_ok [simp]: "bind_result r k = Inr y \<longleftrightarrow> (\<exists>x. r = Inr x \<and> k x = Inr y)"
  by (simp add: bind_result_def split: sum.splits)

lemma require_ok [simp]: "require c k = Inr y \<longleftrightarrow> c = None \<and> k = Inr y"
  by (simp add: require_def split: option.splits)

lemma bind_result_Inr [simp]: "bind_result (Inr x) k = k x"
  by (simp add: bind_result_def)

lemma bind_result_Inl [simp]: "bind_result (Inl e) k = Inl e"
  by (simp add: bind_result_def)

lemma require_simps [simp]: "require None k = k" "require (Some e) k = Inl e"
  by (simp_all add: require_def)

lemma require_error: "require c k = Inl e \<longleftrightarrow> c = Some e \<or> (c = None \<and> k = Inl e)"
  by (auto simp: require_def split: option.splits)

section \<open>Operations on a mutable state\<close>

text \<open>
  An operation mutates its receiver and returns an error. The model returns the error together
  with the receiver as the operation left it, also when the error is not nil, so that what a
  failing operation has already changed stays visible.
\<close>

type_synonym 's outcome = "go_error option \<times> 's"

definition guard :: "go_error option \<Rightarrow> 's \<Rightarrow> 's outcome \<Rightarrow> 's outcome" where
  "guard c s k = (case c of Some e \<Rightarrow> (Some e, s) | None \<Rightarrow> k)"

definition with_result :: "go_error + 'a \<Rightarrow> 's \<Rightarrow> ('a \<Rightarrow> 's outcome) \<Rightarrow> 's outcome" where
  "with_result r s k = (case r of Inl e \<Rightarrow> (Some e, s) | Inr x \<Rightarrow> k x)"

definition andThen :: "'s outcome \<Rightarrow> ('s \<Rightarrow> 's outcome) \<Rightarrow> 's outcome" where
  "andThen r k = (case r of (Some e, s) \<Rightarrow> (Some e, s) | (None, s) \<Rightarrow> k s)"

lemma guard_ok: "guard c s k = (None, s') \<longleftrightarrow> c = None \<and> k = (None, s')"
  by (auto simp: guard_def split: option.splits)

lemma guard_None [simp]: "guard None s k = k"
  by (simp add: guard_def)

lemma guard_Some [simp]: "guard (Some e) s k = (Some e, s)"
  by (simp add: guard_def)

lemma with_result_ok:
  "with_result r s k = (None, s') \<longleftrightarrow> (\<exists>x. r = Inr x \<and> k x = (None, s'))"
  by (auto simp: with_result_def split: sum.splits)

lemma with_result_Inl [simp]: "with_result (Inl e) s k = (Some e, s)"
  by (simp add: with_result_def)

lemma with_result_Inr [simp]: "with_result (Inr x) s k = k x"
  by (simp add: with_result_def)

lemma andThen_ok:
  "andThen r k = (None, s') \<longleftrightarrow> (\<exists>s. r = (None, s) \<and> k s = (None, s'))"
  by (auto simp: andThen_def split: option.splits prod.splits)

lemma andThen_None [simp]: "andThen (None, s) k = k s"
  by (simp add: andThen_def)

lemma andThen_Some [simp]: "andThen (Some e, s) k = (Some e, s)"
  by (simp add: andThen_def)

text \<open>
  \<open>atomic s r\<close>: the outcome r of an operation on s is all-or-nothing, so an error comes
  with an unchanged receiver.
\<close>

definition atomic :: "'s \<Rightarrow> 's outcome \<Rightarrow> bool" where
  "atomic s r \<longleftrightarrow> (fst r \<noteq> None \<longrightarrow> snd r = s)"

lemma atomic_error [simp, intro]: "atomic s (Some e, s)"
  by (simp add: atomic_def)

lemma atomic_ok [simp, intro]: "atomic s (None, s')"
  by (simp add: atomic_def)

lemma atomic_guard: "(c = None \<Longrightarrow> atomic s k) \<Longrightarrow> atomic s (guard c s k)"
  by (cases c) auto

lemma atomic_with_result: "(\<And>x. r = Inr x \<Longrightarrow> atomic s (k x)) \<Longrightarrow> atomic s (with_result r s k)"
  by (cases r) auto

lemma atomic_andThen:
  assumes "atomic s r" and "\<And>s'. r = (None, s') \<Longrightarrow> \<exists>s''. k s' = (None, s'')"
  shows "atomic s (andThen r k)"
proof (cases r)
  case (Pair e s')
  with assms show ?thesis by (cases e) (auto simp: atomic_def)
qed

lemmas outcome_ok = guard_ok with_result_ok andThen_ok
lemmas atomic_intros = atomic_guard atomic_with_result atomic_andThen

end
