(* ===== verification/Enums.thy ===== *)
theory Enums
  imports Errs
begin

text \<open>
  The closed enumerations of internal/protocol (and AmbiguityOutcome of internal/events) with
  their Valid methods, and the small protocol values built on them: actors, schema versions,
  artifact references and module definitions.

  Each enumeration is a Go string type whose constants are the known values. The datatype has one
  constructor per constant; the constructor Unknown stands for every other string, the empty one
  (the zero value of an omitted field) included, so Valid has something to reject.
  The outcome of a validation run is pass, fail, error or cancelled; its constants are called
  Outcome here because the protocol's ValidationStatus uses the name ValidationUnknown.
\<close>

section \<open>Enumerations\<close>

datatype ActorKind =
    ActorHuman | ActorPrincipal | ActorControlPlane | ActorLocalAgent
  | ActorConsultant | ActorTool
  | UnknownActorKind string

definition ActorKind_Valid :: "ActorKind \<Rightarrow> bool" where
  [enum_defs]: "ActorKind_Valid x \<longleftrightarrow> x \<in> set
     [ActorHuman, ActorPrincipal, ActorControlPlane, ActorLocalAgent, ActorConsultant,
      ActorTool]"

datatype EvidenceRefKind =
    EvidenceRefSource | EvidenceRefSymbol | EvidenceRefGit | EvidenceRefCommand
  | EvidenceRefTest | EvidenceRefExternalSource | EvidenceRefConsultation | EvidenceRefArtifact
  | UnknownEvidenceRefKind string

definition EvidenceRefKind_Valid :: "EvidenceRefKind \<Rightarrow> bool" where
  [enum_defs]: "EvidenceRefKind_Valid x \<longleftrightarrow> x \<in> set
     [EvidenceRefSource, EvidenceRefSymbol, EvidenceRefGit, EvidenceRefCommand,
      EvidenceRefTest, EvidenceRefExternalSource, EvidenceRefConsultation, EvidenceRefArtifact]"

datatype ChangeClass =
    ChangeLocal | ChangeSystemic | ChangeArchitectural
  | UnknownChangeClass string

definition ChangeClass_Valid :: "ChangeClass \<Rightarrow> bool" where
  [enum_defs]: "ChangeClass_Valid x \<longleftrightarrow> x \<in> set
     [ChangeLocal, ChangeSystemic, ChangeArchitectural]"

datatype ReviewDimension =
    DimensionCorrectness | DimensionArchitecture | DimensionInvariants | DimensionSecurity
  | DimensionTestAdequacy | DimensionConcurrency | DimensionPerformance | DimensionMaintainability
  | DimensionOther
  | UnknownReviewDimension string

definition ReviewDimension_Valid :: "ReviewDimension \<Rightarrow> bool" where
  [enum_defs]: "ReviewDimension_Valid x \<longleftrightarrow> x \<in> set
     [DimensionCorrectness, DimensionArchitecture, DimensionInvariants, DimensionSecurity,
      DimensionTestAdequacy, DimensionConcurrency, DimensionPerformance,
      DimensionMaintainability, DimensionOther]"

datatype ReviewVerdict =
    VerdictPass | VerdictConcern | VerdictFail | VerdictUnableToVerify
  | UnknownReviewVerdict string

definition ReviewVerdict_Valid :: "ReviewVerdict \<Rightarrow> bool" where
  [enum_defs]: "ReviewVerdict_Valid x \<longleftrightarrow> x \<in> set
     [VerdictPass, VerdictConcern, VerdictFail, VerdictUnableToVerify]"

datatype ValidationOutcome =
    OutcomePass | OutcomeFail | OutcomeError | OutcomeCancelled
  | UnknownValidationOutcome string

definition ValidationOutcome_Valid :: "ValidationOutcome \<Rightarrow> bool" where
  [enum_defs]: "ValidationOutcome_Valid x \<longleftrightarrow> x \<in> set
     [OutcomePass, OutcomeFail, OutcomeError, OutcomeCancelled]"

datatype ValidationScope =
    ScopeAttempt | ScopeIntegration | ScopeBaseline
  | UnknownValidationScope string

definition ValidationScope_Valid :: "ValidationScope \<Rightarrow> bool" where
  [enum_defs]: "ValidationScope_Valid x \<longleftrightarrow> x \<in> set
     [ScopeAttempt, ScopeIntegration, ScopeBaseline]"

datatype ValidationStatus =
    ValidationGreen | ValidationYellow | ValidationRed | ValidationUnknown
  | UnknownValidationStatus string

definition ValidationStatus_Valid :: "ValidationStatus \<Rightarrow> bool" where
  [enum_defs]: "ValidationStatus_Valid x \<longleftrightarrow> x \<in> set
     [ValidationGreen, ValidationYellow, ValidationRed, ValidationUnknown]"

datatype ContractState =
    ContractStable | ContractEvolving | ContractDeprecated | ContractUnknown
  | UnknownContractState string

definition ContractState_Valid :: "ContractState \<Rightarrow> bool" where
  [enum_defs]: "ContractState_Valid x \<longleftrightarrow> x \<in> set
     [ContractStable, ContractEvolving, ContractDeprecated, ContractUnknown]"

datatype HealthStatus =
    HealthGreen | HealthWatch | HealthRefactorDue | HealthUnknown
  | UnknownHealthStatus string

definition HealthStatus_Valid :: "HealthStatus \<Rightarrow> bool" where
  [enum_defs]: "HealthStatus_Valid x \<longleftrightarrow> x \<in> set
     [HealthGreen, HealthWatch, HealthRefactorDue, HealthUnknown]"

datatype DecisionAuthority =
    AuthorityPolicy | AuthorityPrincipal | AuthorityConsultant | AuthorityHuman
  | UnknownDecisionAuthority string

definition DecisionAuthority_Valid :: "DecisionAuthority \<Rightarrow> bool" where
  [enum_defs]: "DecisionAuthority_Valid x \<longleftrightarrow> x \<in> set
     [AuthorityPolicy, AuthorityPrincipal, AuthorityConsultant, AuthorityHuman]"

datatype ProductDecisionStatus =
    ProductDecisionConfirmed | ProductDecisionSuperseded | ProductDecisionWithdrawn
  | UnknownProductDecisionStatus string

definition ProductDecisionStatus_Valid :: "ProductDecisionStatus \<Rightarrow> bool" where
  [enum_defs]: "ProductDecisionStatus_Valid x \<longleftrightarrow> x \<in> set
     [ProductDecisionConfirmed, ProductDecisionSuperseded, ProductDecisionWithdrawn]"

datatype RequirementKind =
    RequirementFunctional | RequirementNonFunctional | RequirementConstraint | RequirementNonGoal
  | UnknownRequirementKind string

definition RequirementKind_Valid :: "RequirementKind \<Rightarrow> bool" where
  [enum_defs]: "RequirementKind_Valid x \<longleftrightarrow> x \<in> set
     [RequirementFunctional, RequirementNonFunctional, RequirementConstraint,
      RequirementNonGoal]"

datatype RequirementStrength =
    RequirementMust | RequirementShould | RequirementMay
  | UnknownRequirementStrength string

definition RequirementStrength_Valid :: "RequirementStrength \<Rightarrow> bool" where
  [enum_defs]: "RequirementStrength_Valid x \<longleftrightarrow> x \<in> set
     [RequirementMust, RequirementShould, RequirementMay]"

datatype RequirementStatus =
    RequirementConfirmed | RequirementEvidenceBacked | RequirementProposed | RequirementAssumed
  | RequirementDeferred | RequirementRejected | RequirementSuperseded
  | UnknownRequirementStatus string

definition RequirementStatus_Valid :: "RequirementStatus \<Rightarrow> bool" where
  [enum_defs]: "RequirementStatus_Valid x \<longleftrightarrow> x \<in> set
     [RequirementConfirmed, RequirementEvidenceBacked, RequirementProposed,
      RequirementAssumed, RequirementDeferred, RequirementRejected, RequirementSuperseded]"

datatype ResolutionAuthority =
    ResolveByHuman | ResolveByRepositoryTool | ResolveByExternalResearch | ResolveByExperiment
  | ResolveByConsultant | ResolveByPrincipal
  | UnknownResolutionAuthority string

definition ResolutionAuthority_Valid :: "ResolutionAuthority \<Rightarrow> bool" where
  [enum_defs]: "ResolutionAuthority_Valid x \<longleftrightarrow> x \<in> set
     [ResolveByHuman, ResolveByRepositoryTool, ResolveByExternalResearch,
      ResolveByExperiment, ResolveByConsultant, ResolveByPrincipal]"

datatype ImpactLevel =
    ImpactLow | ImpactMedium | ImpactHigh | ImpactCritical
  | UnknownImpactLevel string

definition ImpactLevel_Valid :: "ImpactLevel \<Rightarrow> bool" where
  [enum_defs]: "ImpactLevel_Valid x \<longleftrightarrow> x \<in> set
     [ImpactLow, ImpactMedium, ImpactHigh, ImpactCritical]"

datatype ExperimentStatus =
    ExperimentPlanned | ExperimentRunning | ExperimentCompleted | ExperimentInconclusive
  | ExperimentCancelled
  | UnknownExperimentStatus string

definition ExperimentStatus_Valid :: "ExperimentStatus \<Rightarrow> bool" where
  [enum_defs]: "ExperimentStatus_Valid x \<longleftrightarrow> x \<in> set
     [ExperimentPlanned, ExperimentRunning, ExperimentCompleted, ExperimentInconclusive,
      ExperimentCancelled]"

datatype ReadinessVerdict =
    NotReady | ReadyForArchitecture | ReadyWithExplicitRisks
  | UnknownReadinessVerdict string

definition ReadinessVerdict_Valid :: "ReadinessVerdict \<Rightarrow> bool" where
  [enum_defs]: "ReadinessVerdict_Valid x \<longleftrightarrow> x \<in> set
     [NotReady, ReadyForArchitecture, ReadyWithExplicitRisks]"

datatype LessonScope =
    LessonScopeTask | LessonScopeProject | LessonScopeLanguageFramework | LessonScopeOrganization
  | LessonScopeGlobal
  | UnknownLessonScope string

definition LessonScope_Valid :: "LessonScope \<Rightarrow> bool" where
  [enum_defs]: "LessonScope_Valid x \<longleftrightarrow> x \<in> set
     [LessonScopeTask, LessonScopeProject, LessonScopeLanguageFramework,
      LessonScopeOrganization, LessonScopeGlobal]"

datatype AmbiguityOutcome =
    AmbiguityOutcomeResolved | AmbiguityOutcomeDeferred
  | UnknownAmbiguityOutcome string

definition AmbiguityOutcome_Valid :: "AmbiguityOutcome \<Rightarrow> bool" where
  [enum_defs]: "AmbiguityOutcome_Valid x \<longleftrightarrow> x \<in> set
     [AmbiguityOutcomeResolved, AmbiguityOutcomeDeferred]"

datatype Severity =
    SeverityInfo | SeverityLow | SeverityMedium | SeverityHigh | SeverityCritical
  | UnknownSeverity string

definition Severity_ValidRisk :: "Severity \<Rightarrow> bool" where
  [enum_defs]: "Severity_ValidRisk x \<longleftrightarrow> x \<in> set
     [SeverityLow, SeverityMedium, SeverityHigh, SeverityCritical]"

definition Severity_ValidFinding :: "Severity \<Rightarrow> bool" where
  [enum_defs]: "Severity_ValidFinding x \<longleftrightarrow> x = SeverityInfo \<or> Severity_ValidRisk x"

definition ImpactLevel_ValidSecurityImpact :: "ImpactLevel \<Rightarrow> bool" where
  [enum_defs]: "ImpactLevel_ValidSecurityImpact x \<longleftrightarrow>
     x = UnknownImpactLevel ''none'' \<or> ImpactLevel_Valid x"

datatype SourceType =
    SourceHuman | SourceExternalFact | SourceRepositoryFact | SourceExperiment
  | SourcePolicy | SourceInference | SourceProductDecision | SourceHumanStatement
  | SourcePrincipalInference
  | UnknownSourceType string

definition SourceType_ValidConstraintSource :: "SourceType \<Rightarrow> bool" where
  [enum_defs]: "SourceType_ValidConstraintSource x \<longleftrightarrow> x \<in> set
     [SourceHuman, SourceExternalFact, SourceRepositoryFact, SourceExperiment, SourcePolicy,
      SourceInference]"

definition SourceType_ValidRequirementSource :: "SourceType \<Rightarrow> bool" where
  [enum_defs]: "SourceType_ValidRequirementSource x \<longleftrightarrow> x \<in> set
     [SourceProductDecision, SourceHumanStatement, SourceExternalFact, SourceRepositoryFact,
      SourceExperiment, SourcePrincipalInference, SourcePolicy]"

fun ReviewDimension_string :: "ReviewDimension \<Rightarrow> string" where
  "ReviewDimension_string DimensionCorrectness = ''correctness''"
| "ReviewDimension_string DimensionArchitecture = ''architecture''"
| "ReviewDimension_string DimensionInvariants = ''invariants''"
| "ReviewDimension_string DimensionSecurity = ''security''"
| "ReviewDimension_string DimensionTestAdequacy = ''test_adequacy''"
| "ReviewDimension_string DimensionConcurrency = ''concurrency''"
| "ReviewDimension_string DimensionPerformance = ''performance''"
| "ReviewDimension_string DimensionMaintainability = ''maintainability''"
| "ReviewDimension_string DimensionOther = ''other''"
| "ReviewDimension_string (UnknownReviewDimension s) = s"

section \<open>Schema versions, actors, artifact references\<close>

type_synonym SchemaVersion = string

definition SchemaVersion1 :: SchemaVersion where
  "SchemaVersion1 = ''1.0''"

definition SchemaVersion_Validate :: "SchemaVersion \<Rightarrow> go_error option" where
  [validate_defs]: "SchemaVersion_Validate v =
     (if v = SchemaVersion1 then None
      else if v = '''' then Some (New CategoryInvalidArgument)
      else Some (New CategorySchemaVersionUnsupported))"

record Actor =
  actor_Kind :: ActorKind
  actor_ID :: string

definition Actor_Validate :: "Actor \<Rightarrow> go_error option" where
  [validate_defs]: "Actor_Validate a = first_err
     [check (\<not> ActorKind_Valid (actor_Kind a)) CategoryInvalidArgument,
      check (actor_ID a = '''') CategoryInvalidArgument]"

record ArtifactRef =
  ar_ID :: string
  ar_Kind :: string
  ar_Locator :: string
  ar_MediaType :: string
  ar_Digest :: string
  ar_SizeBytes :: int
  ar_Truncated :: bool

definition ArtifactRef_Validate :: "ArtifactRef \<Rightarrow> go_error option" where
  [validate_defs]: "ArtifactRef_Validate r = first_err
     [check (ar_ID r = '''') CategoryInvalidArgument,
      check (ar_Locator r = '''') CategoryInvalidArgument]"

text \<open>
  A timestamp is an instant in UTC with microsecond resolution: the number of microseconds since
  Go's zero time, which IsZero recognises.
\<close>

type_synonym Timestamp = int

definition Timestamp_IsZero :: "Timestamp \<Rightarrow> bool" where
  "Timestamp_IsZero t \<longleftrightarrow> t = 0"

section \<open>Module definitions\<close>

record ModuleDefinition =
  md_ID :: string
  md_Path :: string
  md_ManifestPath :: string
  md_Language :: string
  md_Dependencies :: "string list"
  md_Properties :: "string \<rightharpoonup> string"

text \<open>
  strings.TrimSpace, ReplaceAll and TrimPrefix on the bytes of a path. TrimSpace also strips the
  white space Unicode has beyond ASCII, which is not modelled.
\<close>

definition is_space :: "char \<Rightarrow> bool" where
  "is_space c \<longleftrightarrow> (of_char c :: nat) \<in> {9, 10, 11, 12, 13, 32}"

definition TrimSpace :: "string \<Rightarrow> string" where
  "TrimSpace s = rev (dropWhile is_space (rev (dropWhile is_space s)))"

definition HasPrefix :: "string \<Rightarrow> string \<Rightarrow> bool" where
  "HasPrefix s p \<longleftrightarrow> take (length p) s = p"

definition TrimPrefix :: "string \<Rightarrow> string \<Rightarrow> string" where
  "TrimPrefix s p = (if HasPrefix s p then drop (length p) s else s)"

definition backslash_to_slash :: "string \<Rightarrow> string" where
  "backslash_to_slash s = map (\<lambda>c. if c = char_of (92::nat) then CHR ''/'' else c) s"

definition cleanRelativePath :: "string \<Rightarrow> string" where
  "cleanRelativePath p = TrimPrefix (backslash_to_slash (TrimSpace p)) ''./''"

definition path_escapes :: "string \<Rightarrow> bool" where
  "path_escapes p \<longleftrightarrow>
     (let cleaned = cleanRelativePath p
      in cleaned = '''' \<or> HasPrefix cleaned ''..'' \<or> HasPrefix cleaned ''/'')"

definition ModuleDefinition_Validate :: "ModuleDefinition \<Rightarrow> go_error option" where
  [validate_defs]: "ModuleDefinition_Validate m = first_err
     [check (md_ID m = '''') CategoryInvalidArgument,
      check (md_Path m = '''') CategoryInvalidArgument,
      check (path_escapes (md_Path m)) CategoryInvalidArgument,
      check (md_ManifestPath m \<noteq> '''' \<and> path_escapes (md_ManifestPath m))
        CategoryInvalidArgument]"

text \<open>The containment check looks at the start of the path only, so a path that climbs out of the
  repository after its first segment is accepted.\<close>

lemma module_path_may_escape:
  "ModuleDefinition_Validate
     \<lparr>md_ID = ''m'', md_Path = ''a/../../x'', md_ManifestPath = '''', md_Language = '''',
      md_Dependencies = [], md_Properties = Map.empty\<rparr> = None"
  by code_simp

end
