(* ===== verification/Tasks.thy ===== *)
theory Tasks
  imports Enums "HOL-Library.Sublist"
begin

text \<open>
  internal/tasks: the delivery task state machine (state.go), the blocked reason and the task
  record (task.go) and the attempt record with its lifecycle (attempt.go). State and
  AttemptStatus are Go string types; the constructor UnknownState (UnknownAttemptStatus) stands
  for a stored string that is none of the constants.
\<close>

section \<open>Task states\<close>

datatype State =
    StateProposed | StateScouting | StateDesigning | StateReady | StateRunning
  | StateValidating | StateReviewing | StateAccepted | StateIntegrating
  | StateIntegrationValidating | StateDone | StateBlocked
  | UnknownState string

fun State_string :: "State \<Rightarrow> string" where
  "State_string StateProposed = ''proposed''"
| "State_string StateScouting = ''scouting''"
| "State_string StateDesigning = ''designing''"
| "State_string StateReady = ''ready''"
| "State_string StateRunning = ''running''"
| "State_string StateValidating = ''validating''"
| "State_string StateReviewing = ''reviewing''"
| "State_string StateAccepted = ''accepted''"
| "State_string StateIntegrating = ''integrating''"
| "State_string StateIntegrationValidating = ''integration_validating''"
| "State_string StateDone = ''done''"
| "State_string StateBlocked = ''blocked''"
| "State_string (UnknownState s) = s"

definition AllStates :: "State list" where
  "AllStates =
     [StateProposed, StateScouting, StateDesigning, StateReady, StateRunning,
      StateValidating, StateReviewing, StateAccepted, StateIntegrating,
      StateIntegrationValidating, StateDone, StateBlocked]"

definition State_Valid :: "State \<Rightarrow> bool" where
  "State_Valid s \<longleftrightarrow> s \<in> set AllStates"

definition State_Terminal :: "State \<Rightarrow> bool" where
  "State_Terminal s \<longleftrightarrow> s = StateDone"

definition State_Active :: "State \<Rightarrow> bool" where
  "State_Active s \<longleftrightarrow> State_Valid s \<and> s \<noteq> StateDone \<and> s \<noteq> StateBlocked"

fun transitions :: "State \<Rightarrow> State list" where
  "transitions StateProposed = [StateScouting, StateDesigning]"
| "transitions StateScouting = [StateDesigning]"
| "transitions StateDesigning = [StateReady]"
| "transitions StateReady = [StateRunning]"
| "transitions StateRunning = [StateValidating]"
| "transitions StateValidating = [StateRunning, StateReviewing]"
| "transitions StateReviewing = [StateRunning, StateAccepted]"
| "transitions StateAccepted = [StateIntegrating]"
| "transitions StateIntegrating = [StateIntegrationValidating]"
| "transitions StateIntegrationValidating = [StateDone]"
| "transitions StateBlocked = [StateDesigning]"
| "transitions StateDone = []"
| "transitions (UnknownState s) = []"

definition Allowed :: "State \<Rightarrow> State list" where
  "Allowed s = sort_key State_string
     (transitions s @ (if State_Active s then [StateBlocked] else []))"

definition CanTransition :: "State \<Rightarrow> State \<Rightarrow> bool" where
  "CanTransition from_s to_s \<longleftrightarrow>
     (if \<not> State_Valid from_s \<or> \<not> State_Valid to_s then False
      else if to_s = StateBlocked then State_Active from_s
      else to_s \<in> set (transitions from_s))"

definition CheckTransition :: "State \<Rightarrow> State \<Rightarrow> go_error option" where
  "CheckTransition from_s to_s =
     (if \<not> State_Valid from_s then Some (New CategoryIntegrity)
      else if \<not> State_Valid to_s then Some (New CategoryInvalidArgument)
      else if CanTransition from_s to_s then None
      else Some (New CategoryInvalidTransition))"

datatype Bucket =
  BucketNone | BucketReady | BucketRunning | BucketBlocked | BucketAwaitingPrincipal

fun Buckets :: "State \<Rightarrow> DecisionAuthority \<Rightarrow> Bucket list" where
  "Buckets StateReady _ = [BucketReady]"
| "Buckets StateScouting _ = [BucketRunning]"
| "Buckets StateRunning _ = [BucketRunning]"
| "Buckets StateValidating _ = [BucketRunning]"
| "Buckets StateReviewing _ = [BucketRunning]"
| "Buckets StateIntegrating _ = [BucketRunning]"
| "Buckets StateIntegrationValidating _ = [BucketRunning]"
| "Buckets StateDesigning _ = [BucketAwaitingPrincipal]"
| "Buckets StateBlocked blockedAuthority =
     (if blockedAuthority = AuthorityPrincipal then [BucketBlocked, BucketAwaitingPrincipal]
      else [BucketBlocked])"
| "Buckets _ _ = []"

section \<open>Tasks\<close>

record BlockedReason =
  br_Trigger :: string
  br_Statement :: string
  br_Authority :: DecisionAuthority
  br_EvidenceRefs :: "string list"
  br_AttemptID :: string
  br_BlockedFrom :: State

definition BlockedReason_Validate :: "BlockedReason \<Rightarrow> go_error option" where
  [validate_defs]: "BlockedReason_Validate r = first_err
     [check (br_Trigger r = '''') CategoryInvalidArgument,
      check (br_Statement r = '''') CategoryInvalidArgument,
      check (\<not> DecisionAuthority_Valid (br_Authority r)) CategoryInvalidArgument,
      check (\<not> list_ex (\<lambda>ref. ref \<noteq> '''') (br_EvidenceRefs r)) CategoryInvalidArgument]"

record Task =
  t_ID :: string
  t_ProjectID :: string
  t_Alias :: string
  t_Title :: string
  t_MilestoneID :: string
  t_ChangeClass :: ChangeClass
  t_State :: State
  t_WorkPackageID :: string
  t_WorkPackageVersion :: int
  t_CurrentAttemptID :: string
  t_Blocked :: "BlockedReason option"
  t_AcceptedCommit :: string
  t_CreatedSeq :: int
  t_UpdatedSeq :: int

definition Task_Validate :: "Task \<Rightarrow> go_error option" where
  [validate_defs]: "Task_Validate t = first_err
     [check (t_ID t = '''') CategoryInvalidArgument,
      check (t_ProjectID t = '''') CategoryInvalidArgument,
      check (t_Title t = '''') CategoryInvalidArgument,
      check (\<not> State_Valid (t_State t)) CategoryIntegrity,
      check (t_ChangeClass t \<noteq> UnknownChangeClass '''' \<and> \<not> ChangeClass_Valid (t_ChangeClass t))
        CategoryInvalidArgument,
      check ((t_State t = StateBlocked) \<noteq> (t_Blocked t \<noteq> None)) CategoryIntegrity,
      (case t_Blocked t of None \<Rightarrow> None | Some r \<Rightarrow> BlockedReason_Validate r)]"

definition Task_BlockedAuthority :: "Task \<Rightarrow> DecisionAuthority" where
  "Task_BlockedAuthority t =
     (case t_Blocked t of None \<Rightarrow> UnknownDecisionAuthority '''' | Some r \<Rightarrow> br_Authority r)"

section \<open>Attempts\<close>

datatype AttemptStatus =
    StatusRunning | StatusCandidateProduced | StatusBlocked | StatusFailed | StatusCancelled
  | UnknownAttemptStatus string

definition AttemptStatus_Valid :: "AttemptStatus \<Rightarrow> bool" where
  [enum_defs]: "AttemptStatus_Valid s \<longleftrightarrow> s \<in> set
     [StatusRunning, StatusCandidateProduced, StatusBlocked, StatusFailed, StatusCancelled]"

definition AttemptStatus_Terminal :: "AttemptStatus \<Rightarrow> bool" where
  "AttemptStatus_Terminal s \<longleftrightarrow> AttemptStatus_Valid s \<and> s \<noteq> StatusRunning"

fun attemptTransitions :: "AttemptStatus \<Rightarrow> AttemptStatus list" where
  "attemptTransitions StatusRunning =
     [StatusCandidateProduced, StatusBlocked, StatusFailed, StatusCancelled]"
| "attemptTransitions _ = []"

definition CheckAttemptTransition :: "AttemptStatus \<Rightarrow> AttemptStatus \<Rightarrow> go_error option" where
  "CheckAttemptTransition from_s to_s =
     (if \<not> AttemptStatus_Valid from_s then Some (New CategoryIntegrity)
      else if \<not> AttemptStatus_Valid to_s then Some (New CategoryInvalidArgument)
      else if to_s \<in> set (attemptTransitions from_s) then None
      else Some (New CategoryInvalidTransition))"

record Attempt =
  a_ID :: string
  a_ProjectID :: string
  a_TaskID :: string
  a_Ordinal :: int
  a_WorkPackageID :: string
  a_WorkPackageVersion :: int
  a_ProjectStateRevision :: string
  a_BaseCommit :: string
  a_WorkerRole :: string
  a_WorkerProfile :: string
  a_ModelIdentity :: string
  a_WorktreeID :: string
  a_Status :: AttemptStatus
  a_StartedAt :: Timestamp
  a_FinishedAt :: "Timestamp option"
  a_CandidateCommit :: string
  a_RepairIterations :: int
  a_BlockReason :: "BlockedReason option"
  a_FailureSummary :: string
  a_Artifacts :: "ArtifactRef list"
  a_CreatedSeq :: int
  a_UpdatedSeq :: int

definition Attempt_Validate :: "Attempt \<Rightarrow> go_error option" where
  [validate_defs]: "Attempt_Validate a = first_err
     [check (a_ID a = '''') CategoryInvalidArgument,
      check (a_TaskID a = '''') CategoryInvalidArgument,
      check (a_ProjectID a = '''') CategoryInvalidArgument,
      check (a_Ordinal a < 1) CategoryInvalidArgument,
      check (a_WorkerRole a = '''') CategoryInvalidArgument,
      check (\<not> AttemptStatus_Valid (a_Status a)) CategoryIntegrity,
      check (a_RepairIterations a < 0) CategoryInvalidArgument,
      check (AttemptStatus_Terminal (a_Status a) \<noteq> (a_FinishedAt a \<noteq> None)) CategoryIntegrity,
      check (case a_FinishedAt a of None \<Rightarrow> False | Some f \<Rightarrow> f < a_StartedAt a)
        CategoryIntegrity,
      check ((a_Status a = StatusBlocked) \<noteq> (a_BlockReason a \<noteq> None)) CategoryIntegrity,
      (case a_BlockReason a of None \<Rightarrow> None | Some r \<Rightarrow> BlockedReason_Validate r),
      check (a_Status a = StatusCandidateProduced \<and> a_CandidateCommit a = '''')
        CategoryIntegrity,
      first_err (map ArtifactRef_Validate (a_Artifacts a))]"

section \<open>Lifecycles\<close>

text \<open>
  A path is lawful when every step passes the machine's check. What a state machine of this
  package promises: only known states take part in a step, and a terminal state is final. Task
  states and attempt statuses are the two instances.
\<close>

fun lawful :: "('s \<Rightarrow> 's \<Rightarrow> go_error option) \<Rightarrow> 's \<Rightarrow> 's list \<Rightarrow> bool" where
  "lawful step_check s [] \<longleftrightarrow> True"
| "lawful step_check s (t # ts) \<longleftrightarrow> step_check s t = None \<and> lawful step_check t ts"

lemma lawful_append: "lawful c s (xs @ ys) \<longleftrightarrow>
    lawful c s xs \<and> lawful c (if xs = [] then s else last xs) ys"
  by (induction xs arbitrary: s) auto

locale lifecycle =
  fixes valid :: "'s \<Rightarrow> bool"
    and terminal :: "'s \<Rightarrow> bool"
    and step_check :: "'s \<Rightarrow> 's \<Rightarrow> go_error option"
  assumes step_valid: "step_check s t = None \<Longrightarrow> valid s \<and> valid t"
    and terminal_final: "terminal s \<Longrightarrow> step_check s t \<noteq> None"
begin

lemma path_valid: "lawful step_check s ts \<Longrightarrow> t \<in> set ts \<Longrightarrow> valid t"
  by (induction ts arbitrary: s) (auto dest: step_valid)

lemma path_terminal: "lawful step_check s ts \<Longrightarrow> terminal s \<Longrightarrow> ts = []"
  by (cases ts) (auto dest: terminal_final)

lemma terminal_last:
  assumes "lawful step_check s ts" and "t \<in> set ts" and "terminal t"
  shows "last ts = t"
proof -
  from assms(2) obtain xs ys where ts: "ts = xs @ t # ys" by (meson split_list)
  with assms(1) have "lawful step_check t ys" by (simp add: lawful_append)
  then have "ys = []" using assms(3) by (rule path_terminal)
  with ts show ?thesis by simp
qed

end

lemmas state_defs = State_Valid_def AllStates_def State_Active_def State_Terminal_def

lemma State_Valid_iff: "State_Valid s \<longleftrightarrow> (\<forall>u. s \<noteq> UnknownState u)"
  by (cases s) (simp_all add: state_defs)

lemma State_Valid_simps [simp]:
  "State_Valid StateProposed" "State_Valid StateScouting" "State_Valid StateDesigning"
  "State_Valid StateReady" "State_Valid StateRunning" "State_Valid StateValidating"
  "State_Valid StateReviewing" "State_Valid StateAccepted" "State_Valid StateIntegrating"
  "State_Valid StateIntegrationValidating" "State_Valid StateDone" "State_Valid StateBlocked"
  "\<not> State_Valid (UnknownState u)"
  by (simp_all add: State_Valid_iff)

lemma CheckTransition_None: "CheckTransition s t = None \<longleftrightarrow> CanTransition s t"
  by (simp add: CheckTransition_def CanTransition_def)

interpretation task_life: lifecycle State_Valid State_Terminal CheckTransition
proof unfold_locales
  show "CheckTransition s t = None \<Longrightarrow> State_Valid s \<and> State_Valid t" for s t
    by (simp add: CheckTransition_def split: if_splits)
  show "State_Terminal s \<Longrightarrow> CheckTransition s t \<noteq> None" for s t
    by (simp add: CheckTransition_None CanTransition_def state_defs)
qed

interpretation attempt_life: lifecycle AttemptStatus_Valid AttemptStatus_Terminal
  CheckAttemptTransition
proof unfold_locales
  show "CheckAttemptTransition s t = None \<Longrightarrow> AttemptStatus_Valid s \<and> AttemptStatus_Valid t" for s t
    by (simp add: CheckAttemptTransition_def split: if_splits)
  show "AttemptStatus_Terminal s \<Longrightarrow> CheckAttemptTransition s t \<noteq> None" for s t
    by (cases s) (simp_all add: CheckAttemptTransition_def AttemptStatus_Terminal_def)
qed

text \<open>The two machines step by step.\<close>

lemma CanTransition_cases:
  "CanTransition s t \<longleftrightarrow> t \<in> set (transitions s) \<or> (t = StateBlocked \<and> State_Active s)"
  by (cases s; cases t) (simp_all add: CanTransition_def state_defs)

lemma CanTransition_edges [simp]:
  "CanTransition s StateScouting \<longleftrightarrow> s = StateProposed"
  "CanTransition s StateDesigning \<longleftrightarrow> s \<in> {StateProposed, StateScouting, StateBlocked}"
  "CanTransition s StateReady \<longleftrightarrow> s = StateDesigning"
  "CanTransition s StateRunning \<longleftrightarrow> s \<in> {StateReady, StateValidating, StateReviewing}"
  "CanTransition s StateValidating \<longleftrightarrow> s = StateRunning"
  "CanTransition s StateReviewing \<longleftrightarrow> s = StateValidating"
  "CanTransition s StateAccepted \<longleftrightarrow> s = StateReviewing"
  "CanTransition s StateIntegrating \<longleftrightarrow> s = StateAccepted"
  "CanTransition s StateIntegrationValidating \<longleftrightarrow> s = StateIntegrating"
  "CanTransition s StateDone \<longleftrightarrow> s = StateIntegrationValidating"
  "CanTransition s StateBlocked \<longleftrightarrow> State_Active s"
  "\<not> CanTransition s StateProposed"
  by (cases s; simp add: CanTransition_cases state_defs)+

lemma CheckAttemptTransition_None:
  "CheckAttemptTransition s t = None \<longleftrightarrow>
     s = StatusRunning \<and> t \<in> {StatusCandidateProduced, StatusBlocked, StatusFailed, StatusCancelled}"
  by (cases s; cases t) (simp_all add: CheckAttemptTransition_def enum_defs)

section \<open>Properties\<close>

text \<open>Allowed lists, without repetition and in the order of their names, exactly the states that
  CanTransition admits, so the list an error message shows is the truth about the machine.\<close>

theorem Allowed_iff_CanTransition:
  "(t \<in> set (Allowed s) \<longleftrightarrow> CanTransition s t) \<and> distinct (Allowed s)
     \<and> sorted (map State_string (Allowed s))"
proof -
  have "distinct (Allowed s)"
    by (cases s) (simp_all add: Allowed_def state_defs)
  then show ?thesis
    by (auto simp: Allowed_def CanTransition_cases)
qed

text \<open>The states a task has to have been in, in order, before it is in a given one.\<close>

definition delivery_stages :: "State list" where
  "delivery_stages = [StateDesigning, StateReady, StateRunning, StateValidating, StateReviewing,
     StateAccepted, StateIntegrating, StateIntegrationValidating, StateDone]"

fun stage_number :: "State \<Rightarrow> nat" where
  "stage_number StateDesigning = 1"
| "stage_number StateReady = 2"
| "stage_number StateRunning = 3"
| "stage_number StateValidating = 4"
| "stage_number StateReviewing = 5"
| "stage_number StateAccepted = 6"
| "stage_number StateIntegrating = 7"
| "stage_number StateIntegrationValidating = 8"
| "stage_number StateDone = 9"
| "stage_number _ = 0"

definition milestones :: "State \<Rightarrow> State list" where
  "milestones s = take (stage_number s) delivery_stages"

lemma milestones_step: "CanTransition s t \<Longrightarrow> subseq (milestones t) (milestones s @ [t])"
  by (cases s; cases t)
     (simp_all add: CanTransition_cases state_defs milestones_def delivery_stages_def)

lemma milestones_path:
  "lawful CheckTransition StateProposed ts \<Longrightarrow> ts \<noteq> [] \<Longrightarrow> subseq (milestones (last ts)) ts"
proof (induction ts rule: rev_induct)
  case Nil
  then show ?case by simp
next
  case (snoc t ts)
  let ?s = "if ts = [] then StateProposed else last ts"
  from snoc.prems have ts: "lawful CheckTransition StateProposed ts" and st: "CanTransition ?s t"
    by (auto simp: lawful_append CheckTransition_None)
  have "subseq (milestones ?s) ts" using snoc.IH ts by (simp add: milestones_def)
  then have "subseq (milestones ?s @ [t]) (ts @ [t])" by (simp only: subseq_append)
  with milestones_step [OF st] show ?case by (auto intro: subseq_order.trans)
qed

text \<open>C13: No task is done without having been designed, approved, delegated, validated, reviewed,
  accepted, integrated and validated after integration, in that order, however often it was
  blocked or sent back in between.\<close>

theorem done_requires_every_stage:
  assumes "lawful CheckTransition StateProposed ts" and "ts \<noteq> []" and "last ts = StateDone"
  shows "subseq [StateDesigning, StateReady, StateRunning, StateValidating, StateReviewing,
    StateAccepted, StateIntegrating, StateIntegrationValidating, StateDone] ts"
  using milestones_path [OF assms(1,2)] assms(3)
  by (simp add: milestones_def delivery_stages_def)

theorem done_requires_every_stage_witness:
  "subseq [StateDesigning, StateReady, StateRunning, StateValidating, StateReviewing,
    StateAccepted, StateIntegrating, StateIntegrationValidating, StateDone]
    [StateScouting, StateBlocked, StateDesigning, StateReady, StateRunning, StateValidating,
     StateRunning, StateValidating, StateReviewing, StateAccepted, StateIntegrating,
     StateIntegrationValidating, StateDone]"
  by (rule done_requires_every_stage)
     (simp_all add: CheckTransition_None state_defs)

lemma finishes_step:
  assumes "CanTransition s t" and "\<exists>ts. lawful CheckTransition t ts \<and> last (t # ts) = StateDone"
  shows "\<exists>ts. lawful CheckTransition s ts \<and> last (s # ts) = StateDone"
proof -
  from assms(2) obtain ts where "lawful CheckTransition t ts" "last (t # ts) = StateDone" by blast
  with assms(1) have "lawful CheckTransition s (t # ts) \<and> last (s # t # ts) = StateDone"
    by (simp add: CheckTransition_None)
  then show ?thesis by blast
qed

text \<open>C14: No known state is a dead end: from every state of the lifecycle, blocked included, some
  sequence of permitted steps leads to done, and from a state the machine does not know none does.\<close>

theorem every_known_state_can_finish:
  "State_Valid s \<longleftrightarrow> (\<exists>ts. lawful CheckTransition s ts \<and> last (s # ts) = StateDone)"
proof
  let ?F = "\<lambda>s. \<exists>ts. lawful CheckTransition s ts \<and> last (s # ts) = StateDone"
  have d: "?F StateDone" by (rule exI [of _ "[]"]) simp
  have iv: "?F StateIntegrationValidating" by (rule finishes_step [OF _ d]) simp
  have i: "?F StateIntegrating" by (rule finishes_step [OF _ iv]) simp
  have a: "?F StateAccepted" by (rule finishes_step [OF _ i]) simp
  have rv: "?F StateReviewing" by (rule finishes_step [OF _ a]) simp
  have v: "?F StateValidating" by (rule finishes_step [OF _ rv]) simp
  have r: "?F StateRunning" by (rule finishes_step [OF _ v]) simp
  have rd: "?F StateReady" by (rule finishes_step [OF _ r]) simp
  have ds: "?F StateDesigning" by (rule finishes_step [OF _ rd]) simp
  have rest: "?F StateBlocked" "?F StateScouting" "?F StateProposed"
    by (rule finishes_step [OF _ ds]; simp)+
  assume "State_Valid s"
  then show "?F s" using d iv i a rv v r rd ds rest by (cases s) simp_all
next
  assume "\<exists>ts. lawful CheckTransition s ts \<and> last (s # ts) = StateDone"
  then obtain ts where ts: "lawful CheckTransition s ts" "last (s # ts) = StateDone" by blast
  show "State_Valid s"
  proof (cases ts)
    case Nil
    with ts show ?thesis by simp
  next
    case (Cons t us)
    with ts show ?thesis by (auto dest: task_life.step_valid)
  qed
qed

text \<open>An attempt's history has at most one step, from running to a terminal status: a finished
  attempt is never reopened and never changes its outcome.\<close>

theorem attempt_history_is_one_step:
  "lawful CheckAttemptTransition s (t # ts) \<longleftrightarrow>
     s = StatusRunning \<and> AttemptStatus_Terminal t \<and> ts = []"
proof
  assume l: "lawful CheckAttemptTransition s (t # ts)"
  then have "CheckAttemptTransition s t = None" by simp
  then have st: "s = StatusRunning" "AttemptStatus_Terminal t"
    by (auto simp: CheckAttemptTransition_None AttemptStatus_Terminal_def enum_defs)
  with l show "s = StatusRunning \<and> AttemptStatus_Terminal t \<and> ts = []"
    using attempt_life.path_terminal by fastforce
next
  assume "s = StatusRunning \<and> AttemptStatus_Terminal t \<and> ts = []"
  then show "lawful CheckAttemptTransition s (t # ts)"
    by (cases t) (simp_all add: CheckAttemptTransition_None AttemptStatus_Terminal_def enum_defs)
qed

end
