(* ===== verification/Payloads.thy ===== *)
theory Payloads
  imports Tasks
begin

text \<open>
  The typed event payloads of internal/events: one record per payload struct (its fields in the
  order of the struct, with a prefix of their own) and its Validate method as the chain of its
  early returns. The union of all payloads and the event envelope are in the theory Events.
\<close>

definition requireTaskID :: "string \<Rightarrow> go_error option" where
  [validate_defs]: "requireTaskID taskID = check (taskID = '''') CategoryInvalidArgument"

text \<open>The loop of ModuleCatalogRecorded.Validate over the modules, with the ids already seen.\<close>

fun catalog_modules :: "string list \<Rightarrow> ModuleDefinition list \<Rightarrow> go_error option" where
  "catalog_modules seen [] = None"
| "catalog_modules seen (m # ms) =
     (case ModuleDefinition_Validate m of
        Some e \<Rightarrow> Some e
      | None \<Rightarrow> (if md_ID m \<in> set seen then Some (New CategoryInvalidArgument)
                 else catalog_modules (md_ID m # seen) ms))"

section \<open>Project payloads (payloads_project.go)\<close>

record ProjectInitialized =
  pi_Name :: string
  pi_AcceptedCommit :: string
  pi_Branch :: string
  pi_RepositoryPath :: string
  pi_VisionRef :: string
  pi_CurrentOutcome :: string
  pi_MilestoneID :: string
  pi_MilestoneTitle :: string
  pi_ActiveInvariants :: "string list"

definition ProjectInitialized_Validate :: "ProjectInitialized \<Rightarrow> go_error option" where
  [validate_defs]: "ProjectInitialized_Validate p = first_err
     [check (pi_Name p = '''') CategoryInvalidArgument,
      check (pi_MilestoneID p = '''' \<or> pi_MilestoneTitle p = '''') CategoryInvalidArgument,
      check (pi_AcceptedCommit p \<noteq> '''' \<and> length (pi_AcceptedCommit p) < 7)
        CategoryInvalidArgument]"

record MilestoneStarted =
  ms_MilestoneID :: string
  ms_Title :: string
  ms_Status :: string

definition MilestoneStarted_Validate :: "MilestoneStarted \<Rightarrow> go_error option" where
  [validate_defs]: "MilestoneStarted_Validate p = first_err
     [check (ms_MilestoneID p = '''' \<or> ms_Title p = '''') CategoryInvalidArgument]"

record RequirementRecorded =
  rq_RequirementID :: string
  rq_Statement :: string
  rq_Kind :: RequirementKind
  rq_Strength :: RequirementStrength
  rq_Status :: RequirementStatus
  rq_SourceType :: SourceType
  rq_SourceRef :: string
  rq_RecordDigest :: string

definition RequirementRecorded_Validate :: "RequirementRecorded \<Rightarrow> go_error option" where
  [validate_defs]: "RequirementRecorded_Validate p = first_err
     [check (rq_RequirementID p = '''' \<or> rq_Statement p = '''') CategoryInvalidArgument,
      check (\<not> RequirementStatus_Valid (rq_Status p)) CategoryInvalidArgument,
      check (\<not> SourceType_ValidRequirementSource (rq_SourceType p)) CategoryInvalidArgument,
      check (rq_Kind p \<noteq> UnknownRequirementKind '''' \<and> \<not> RequirementKind_Valid (rq_Kind p))
        CategoryInvalidArgument,
      check (rq_Strength p \<noteq> UnknownRequirementStrength '''' \<and> \<not> RequirementStrength_Valid (rq_Strength p))
        CategoryInvalidArgument,
      check (rq_Status p = RequirementConfirmed \<and>
        rq_SourceType p \<notin> {SourceProductDecision, SourceHumanStatement})
        CategoryInvalidArgument,
      check (rq_Status p = RequirementConfirmed \<and> rq_SourceRef p = '''')
        CategoryInvalidArgument]"

record ComponentDeclared =
  cd_ComponentID :: string
  cd_Responsibility :: string
  cd_Status :: string
  cd_ContractState :: ContractState
  cd_EvidenceRefs :: "string list"

definition ComponentDeclared_Validate :: "ComponentDeclared \<Rightarrow> go_error option" where
  [validate_defs]: "ComponentDeclared_Validate p = first_err
     [check (cd_ComponentID p = '''' \<or> cd_Status p = '''') CategoryInvalidArgument,
      check (cd_ContractState p \<noteq> UnknownContractState '''' \<and> \<not> ContractState_Valid (cd_ContractState p))
        CategoryInvalidArgument]"

record DesignCandidateCreated =
  dcc_CandidateID :: string
  dcc_Summary :: string
  dcc_ArtifactRef :: string

definition DesignCandidateCreated_Validate :: "DesignCandidateCreated \<Rightarrow> go_error option" where
  [validate_defs]: "DesignCandidateCreated_Validate p = first_err
     [check (dcc_CandidateID p = '''' \<or> dcc_Summary p = '''') CategoryInvalidArgument]"

record DecisionRequired =
  dr_DecisionRequiredID :: string
  dr_Question :: string
  dr_Authority :: DecisionAuthority
  dr_EvidenceRefs :: "string list"

definition DecisionRequired_Validate :: "DecisionRequired \<Rightarrow> go_error option" where
  [validate_defs]: "DecisionRequired_Validate p = first_err
     [check (dr_DecisionRequiredID p = '''' \<or> dr_Question p = '''') CategoryInvalidArgument,
      check (\<not> DecisionAuthority_Valid (dr_Authority p)) CategoryInvalidArgument]"

record DecisionRecorded =
  dc_DecisionID :: string
  dc_RecordDigest :: string
  dc_Question :: string
  dc_Selected :: string
  dc_ADRRef :: string
  dc_ResolvesDecisionRequired :: string
  dc_InvariantChanges :: "string list"

definition DecisionRecorded_Validate :: "DecisionRecorded \<Rightarrow> go_error option" where
  [validate_defs]: "DecisionRecorded_Validate p = first_err
     [check (dc_DecisionID p = '''' \<or> dc_Question p = '''' \<or>
        dc_Selected p = '''') CategoryInvalidArgument,
      check (dc_RecordDigest p = '''') CategoryInvalidArgument]"

record RiskRecorded =
  rk_RiskID :: string
  rk_Severity :: Severity
  rk_Statement :: string
  rk_EvidenceRefs :: "string list"

definition RiskRecorded_Validate :: "RiskRecorded \<Rightarrow> go_error option" where
  [validate_defs]: "RiskRecorded_Validate p = first_err
     [check (rk_RiskID p = '''' \<or> rk_Statement p = '''') CategoryInvalidArgument,
      check (\<not> Severity_ValidRisk (rk_Severity p)) CategoryInvalidArgument]"

record RiskResolved =
  rr_RiskID :: string
  rr_Resolution :: string

definition RiskResolved_Validate :: "RiskResolved \<Rightarrow> go_error option" where
  [validate_defs]: "RiskResolved_Validate p = first_err
     [check (rr_RiskID p = '''' \<or> rr_Resolution p = '''') CategoryInvalidArgument]"

record HealthReportRecorded =
  hr_ReportID :: string
  hr_Status :: HealthStatus
  hr_KnownDebt :: "string list"

definition HealthReportRecorded_Validate :: "HealthReportRecorded \<Rightarrow> go_error option" where
  [validate_defs]: "HealthReportRecorded_Validate p = first_err
     [check (hr_ReportID p = '''') CategoryInvalidArgument,
      check (\<not> HealthStatus_Valid (hr_Status p)) CategoryInvalidArgument]"

record ModuleCatalogRecorded =
  mc_ConfigDigest :: string
  mc_RootModuleID :: string
  mc_Modules :: "ModuleDefinition list"

definition ModuleCatalogRecorded_Validate :: "ModuleCatalogRecorded \<Rightarrow> go_error option" where
  [validate_defs]: "ModuleCatalogRecorded_Validate p = first_err
     [check (mc_ConfigDigest p = '''') CategoryInvalidArgument,
      catalog_modules [] (mc_Modules p),
      check (mc_RootModuleID p \<noteq> '''' \<and> mc_RootModuleID p \<notin> set (map md_ID (mc_Modules p)))
        CategoryInvalidArgument]"

section \<open>Task payloads (payloads_task.go)\<close>

record TaskCreated =
  tc_TaskID :: string
  tc_Alias :: string
  tc_Title :: string
  tc_MilestoneID :: string
  tc_ChangeClass :: ChangeClass
  tc_DependsOn :: "string list"

definition TaskCreated_Validate :: "TaskCreated \<Rightarrow> go_error option" where
  [validate_defs]: "TaskCreated_Validate p = first_err
     [check (tc_TaskID p = '''' \<or> tc_Title p = '''') CategoryInvalidArgument,
      check (tc_Alias p = '''') CategoryInvalidArgument,
      check (\<not> ChangeClass_Valid (tc_ChangeClass p)) CategoryInvalidArgument]"

record TaskScoutingStarted =
  ts_TaskID :: string
  ts_InvestigationID :: string

definition TaskScoutingStarted_Validate :: "TaskScoutingStarted \<Rightarrow> go_error option" where
  [validate_defs]: "TaskScoutingStarted_Validate p = first_err
     [requireTaskID (ts_TaskID p)]"

record TaskDesignStarted =
  td_TaskID :: string
  td_Reason :: string
  td_EvidencePacketRefs :: "string list"

definition TaskDesignStarted_Validate :: "TaskDesignStarted \<Rightarrow> go_error option" where
  [validate_defs]: "TaskDesignStarted_Validate p = first_err
     [requireTaskID (td_TaskID p),
      check (td_Reason p = '''') CategoryInvalidArgument]"

record WorkPackageProposed =
  wp_TaskID :: string
  wp_WorkPackageID :: string
  wp_Version :: int
  wp_ProjectStateRevision :: string
  wp_BaseCommit :: string
  wp_RecordDigest :: string

definition WorkPackageProposed_Validate :: "WorkPackageProposed \<Rightarrow> go_error option" where
  [validate_defs]: "WorkPackageProposed_Validate p = first_err
     [requireTaskID (wp_TaskID p),
      check (wp_WorkPackageID p = '''' \<or> wp_RecordDigest p = '''' \<or>
        wp_BaseCommit p = '''') CategoryInvalidArgument,
      check (wp_Version p < 1) CategoryInvalidArgument,
      check (wp_ProjectStateRevision p = '''') CategoryInvalidArgument]"

record WorkPackageApproved =
  wa_TaskID :: string
  wa_WorkPackageID :: string
  wa_WorkPackageVersion :: int
  wa_RecordDigest :: string
  wa_ProjectStateRevision :: string
  wa_BaseCommit :: string
  wa_ChangeClass :: ChangeClass

definition WorkPackageApproved_Validate :: "WorkPackageApproved \<Rightarrow> go_error option" where
  [validate_defs]: "WorkPackageApproved_Validate p = first_err
     [requireTaskID (wa_TaskID p),
      check (wa_WorkPackageID p = '''' \<or> wa_RecordDigest p = '''') CategoryInvalidArgument,
      check (wa_WorkPackageVersion p < 1) CategoryInvalidArgument,
      check (wa_ProjectStateRevision p = '''') CategoryInvalidArgument,
      check (\<not> ChangeClass_Valid (wa_ChangeClass p)) CategoryInvalidArgument]"

record TaskDelegated =
  dg_TaskID :: string
  dg_WorkPackageID :: string
  dg_WorkerRole :: string
  dg_WorkerProfile :: string
  dg_MaxAttempts :: int

definition TaskDelegated_Validate :: "TaskDelegated \<Rightarrow> go_error option" where
  [validate_defs]: "TaskDelegated_Validate p = first_err
     [requireTaskID (dg_TaskID p),
      check (dg_WorkPackageID p = '''' \<or> dg_WorkerRole p = '''') CategoryInvalidArgument,
      check (dg_MaxAttempts p < 0) CategoryInvalidArgument]"

record AttemptStarted =
  as_TaskID :: string
  as_AttemptID :: string
  as_WorkPackageID :: string
  as_WorkPackageVersion :: int
  as_ProjectStateRevision :: string
  as_BaseCommit :: string
  as_WorkerRole :: string
  as_WorkerProfile :: string
  as_ModelIdentity :: string
  as_WorktreeID :: string

definition AttemptStarted_Validate :: "AttemptStarted \<Rightarrow> go_error option" where
  [validate_defs]: "AttemptStarted_Validate p = first_err
     [requireTaskID (as_TaskID p),
      check (as_AttemptID p = '''' \<or> as_WorkPackageID p = '''' \<or>
        as_WorkerRole p = '''') CategoryInvalidArgument,
      check (as_WorkPackageVersion p < 1) CategoryInvalidArgument,
      check (as_ProjectStateRevision p = '''') CategoryInvalidArgument]"

record CandidateProduced =
  cp_TaskID :: string
  cp_AttemptID :: string
  cp_CandidateCommit :: string
  cp_Summary :: string
  cp_RepairIterations :: int
  cp_Artifacts :: "ArtifactRef list"

definition CandidateProduced_Validate :: "CandidateProduced \<Rightarrow> go_error option" where
  [validate_defs]: "CandidateProduced_Validate p = first_err
     [requireTaskID (cp_TaskID p),
      check (cp_AttemptID p = '''' \<or> cp_CandidateCommit p = '''') CategoryInvalidArgument,
      check (cp_RepairIterations p < 0) CategoryInvalidArgument,
      first_err (map ArtifactRef_Validate (cp_Artifacts p))]"

record AttemptBlocked =
  ab_TaskID :: string
  ab_AttemptID :: string
  ab_Reason :: BlockedReason

definition AttemptBlocked_Validate :: "AttemptBlocked \<Rightarrow> go_error option" where
  [validate_defs]: "AttemptBlocked_Validate p = first_err
     [requireTaskID (ab_TaskID p),
      check (ab_AttemptID p = '''') CategoryInvalidArgument,
      BlockedReason_Validate (ab_Reason p)]"

record AttemptFailed =
  af_TaskID :: string
  af_AttemptID :: string
  af_Summary :: string
  af_Cancelled :: bool
  af_RepairIterations :: int
  af_Artifacts :: "ArtifactRef list"

definition AttemptFailed_Validate :: "AttemptFailed \<Rightarrow> go_error option" where
  [validate_defs]: "AttemptFailed_Validate p = first_err
     [requireTaskID (af_TaskID p),
      check (af_AttemptID p = '''' \<or> af_Summary p = '''') CategoryInvalidArgument]"

record ValidationCompleted =
  vc_TaskID :: string
  vc_AttemptID :: string
  vc_ValidationID :: string
  vc_Scope :: ValidationScope
  vc_Status :: ValidationOutcome
  vc_Commit :: string
  vc_RecordDigest :: string
  vc_FailedChecks :: "string list"

definition ValidationCompleted_Validate :: "ValidationCompleted \<Rightarrow> go_error option" where
  [validate_defs]: "ValidationCompleted_Validate p = first_err
     [check (vc_ValidationID p = '''' \<or> vc_RecordDigest p = '''') CategoryInvalidArgument,
      check (\<not> ValidationScope_Valid (vc_Scope p)) CategoryInvalidArgument,
      check (\<not> ValidationOutcome_Valid (vc_Status p)) CategoryInvalidArgument,
      check (vc_Scope p \<noteq> ScopeBaseline \<and> vc_TaskID p = '''') CategoryInvalidArgument,
      check (vc_Scope p = ScopeAttempt \<and> vc_AttemptID p = '''') CategoryInvalidArgument,
      check (vc_Scope p \<noteq> ScopeAttempt \<and> vc_AttemptID p \<noteq> '''')
        CategoryInvalidArgument,
      check (vc_Scope p = ScopeBaseline \<and> vc_TaskID p \<noteq> '''') CategoryInvalidArgument,
      check (vc_Commit p = '''') CategoryInvalidArgument,
      check (vc_Status p = OutcomePass \<and> length (vc_FailedChecks p) > 0) CategoryIntegrity]"

record ReviewInvocationStarted =
  ri_TaskID :: string
  ri_AttemptID :: string
  ri_WorkPackageID :: string
  ri_ReviewID :: string
  ri_InvocationID :: string
  ri_Dimension :: ReviewDimension
  ri_CandidateCommit :: string
  ri_RecordDigest :: string

definition ReviewInvocationStarted_Validate :: "ReviewInvocationStarted \<Rightarrow> go_error option" where
  [validate_defs]: "ReviewInvocationStarted_Validate p = first_err
     [requireTaskID (ri_TaskID p),
      check (ri_AttemptID p = '''' \<or> ri_ReviewID p = '''' \<or>
        ri_InvocationID p = '''' \<or> ri_RecordDigest p = '''') CategoryInvalidArgument,
      check (ri_WorkPackageID p = '''') CategoryInvalidArgument,
      check (ri_CandidateCommit p = '''') CategoryInvalidArgument,
      check (\<not> ReviewDimension_Valid (ri_Dimension p)) CategoryInvalidArgument]"

record ReviewCompleted =
  rc_TaskID :: string
  rc_AttemptID :: string
  rc_ReviewID :: string
  rc_WorkPackageID :: string
  rc_Dimension :: ReviewDimension
  rc_Verdict :: ReviewVerdict
  rc_RecordDigest :: string
  rc_PrincipalEscalationRecommended :: bool

definition ReviewCompleted_Validate :: "ReviewCompleted \<Rightarrow> go_error option" where
  [validate_defs]: "ReviewCompleted_Validate p = first_err
     [requireTaskID (rc_TaskID p),
      check (rc_AttemptID p = '''' \<or> rc_ReviewID p = '''' \<or>
        rc_RecordDigest p = '''') CategoryInvalidArgument,
      check (rc_WorkPackageID p = '''') CategoryInvalidArgument,
      check (\<not> ReviewDimension_Valid (rc_Dimension p)) CategoryInvalidArgument,
      check (\<not> ReviewVerdict_Valid (rc_Verdict p)) CategoryInvalidArgument]"

record ChangeAccepted =
  ca_TaskID :: string
  ca_AttemptID :: string
  ca_WorkPackageID :: string
  ca_CandidateCommit :: string
  ca_SemanticSummary :: string
  ca_ValidationIDs :: "string list"
  ca_ReviewIDs :: "string list"
  ca_UnresolvedDisagreements :: "string list"
  ca_DecidedBy :: DecisionAuthority

definition ChangeAccepted_Validate :: "ChangeAccepted \<Rightarrow> go_error option" where
  [validate_defs]: "ChangeAccepted_Validate p = first_err
     [requireTaskID (ca_TaskID p),
      check (ca_AttemptID p = '''' \<or> ca_CandidateCommit p = '''' \<or>
        ca_SemanticSummary p = '''') CategoryInvalidArgument,
      check (ca_WorkPackageID p = '''') CategoryInvalidArgument,
      check (length (ca_ValidationIDs p) = 0) CategoryInvalidArgument,
      check (length (ca_ReviewIDs p) = 0) CategoryInvalidArgument,
      check (\<not> DecisionAuthority_Valid (ca_DecidedBy p)) CategoryInvalidArgument]"

record ChangeRejected =
  cr_TaskID :: string
  cr_AttemptID :: string
  cr_Reason :: string
  cr_RequestedRepairs :: "string list"
  cr_DecidedBy :: DecisionAuthority

definition ChangeRejected_Validate :: "ChangeRejected \<Rightarrow> go_error option" where
  [validate_defs]: "ChangeRejected_Validate p = first_err
     [requireTaskID (cr_TaskID p),
      check (cr_AttemptID p = '''' \<or> cr_Reason p = '''') CategoryInvalidArgument,
      check (\<not> DecisionAuthority_Valid (cr_DecidedBy p)) CategoryInvalidArgument]"

record EscalationRaised =
  er_TaskID :: string
  er_EscalationID :: string
  er_Reason :: BlockedReason
  er_Options :: "string list"
  er_Tried :: "string list"

definition EscalationRaised_Validate :: "EscalationRaised \<Rightarrow> go_error option" where
  [validate_defs]: "EscalationRaised_Validate p = first_err
     [requireTaskID (er_TaskID p),
      check (er_EscalationID p = '''') CategoryInvalidArgument,
      BlockedReason_Validate (er_Reason p)]"

record IntegrationStarted =
  is_TaskID :: string
  is_IntegrationID :: string
  is_BaseCommit :: string

definition IntegrationStarted_Validate :: "IntegrationStarted \<Rightarrow> go_error option" where
  [validate_defs]: "IntegrationStarted_Validate p = first_err
     [requireTaskID (is_TaskID p),
      check (is_IntegrationID p = '''') CategoryInvalidArgument]"

record IntegrationValidationStarted =
  iv_TaskID :: string
  iv_IntegrationID :: string
  iv_IntegratedCommit :: string

definition IntegrationValidationStarted_Validate :: "IntegrationValidationStarted \<Rightarrow> go_error option" where
  [validate_defs]: "IntegrationValidationStarted_Validate p = first_err
     [requireTaskID (iv_TaskID p),
      check (iv_IntegrationID p = '''') CategoryInvalidArgument]"

section \<open>Discovery payloads (payloads_discovery.go)\<close>

record ProblemModelRevised =
  pm_ProblemModelID :: string
  pm_Revision :: int
  pm_RecordDigest :: string
  pm_Summary :: string
  pm_MaterialAssumptionsUnverified :: int
  pm_AmbiguityLedgerID :: string
  pm_HumanReflectionRevision :: int

definition ProblemModelRevised_Validate :: "ProblemModelRevised \<Rightarrow> go_error option" where
  [validate_defs]: "ProblemModelRevised_Validate p = first_err
     [check (pm_ProblemModelID p = '''' \<or> pm_RecordDigest p = '''' \<or>
        pm_Summary p = '''') CategoryInvalidArgument,
      check (pm_Revision p < 1) CategoryInvalidArgument,
      check (pm_MaterialAssumptionsUnverified p < 0) CategoryInvalidArgument,
      check (pm_HumanReflectionRevision p < 0 \<or>
        pm_HumanReflectionRevision p > pm_Revision p) CategoryIntegrity]"

record AmbiguityOpened =
  ao_AmbiguityID :: string
  ao_AmbiguityLedgerID :: string
  ao_Question :: string
  ao_ResolutionAuthority :: ResolutionAuthority
  ao_ArchitecturalImpact :: ImpactLevel
  ao_CostOfWrongAssumption :: ImpactLevel
  ao_WhyItMatters :: string

definition AmbiguityOpened_Validate :: "AmbiguityOpened \<Rightarrow> go_error option" where
  [validate_defs]: "AmbiguityOpened_Validate p = first_err
     [check (ao_AmbiguityID p = '''' \<or> ao_AmbiguityLedgerID p = '''' \<or>
        ao_Question p = '''' \<or> ao_WhyItMatters p = '''') CategoryInvalidArgument,
      check (\<not> ResolutionAuthority_Valid (ao_ResolutionAuthority p)) CategoryInvalidArgument,
      check (\<not> ImpactLevel_Valid (ao_ArchitecturalImpact p)) CategoryInvalidArgument,
      check (\<not> ImpactLevel_Valid (ao_CostOfWrongAssumption p)) CategoryInvalidArgument]"

record AmbiguityResolved =
  am_AmbiguityID :: string
  am_Outcome :: AmbiguityOutcome
  am_Resolution :: string
  am_ResolvedBy :: ResolutionAuthority
  am_SafeDeferralBoundary :: string
  am_ProductDecisionRef :: string
  am_EvidenceRefs :: "string list"

definition AmbiguityResolved_Validate :: "AmbiguityResolved \<Rightarrow> go_error option" where
  [validate_defs]: "AmbiguityResolved_Validate p = first_err
     [check (am_AmbiguityID p = '''' \<or> am_Resolution p = '''') CategoryInvalidArgument,
      check (\<not> AmbiguityOutcome_Valid (am_Outcome p)) CategoryInvalidArgument,
      check (\<not> ResolutionAuthority_Valid (am_ResolvedBy p)) CategoryInvalidArgument,
      check (am_Outcome p = AmbiguityOutcomeDeferred \<and> am_SafeDeferralBoundary p = '''')
        CategoryInvalidArgument]"

record ProductDecisionRecorded =
  pd_ProductDecisionID :: string
  pd_Question :: string
  pd_Answer :: string
  pd_RecordDigest :: string
  pd_Status :: ProductDecisionStatus
  pd_AuthorityActor :: string
  pd_Supersedes :: string
  pd_ResolvesAmbiguity :: string

definition ProductDecisionRecorded_Validate :: "ProductDecisionRecorded \<Rightarrow> go_error option" where
  [validate_defs]: "ProductDecisionRecorded_Validate p = first_err
     [check (pd_ProductDecisionID p = '''' \<or> pd_Question p = '''' \<or> pd_Answer p = '''' \<or>
        pd_RecordDigest p = '''') CategoryInvalidArgument,
      check (\<not> ProductDecisionStatus_Valid (pd_Status p)) CategoryInvalidArgument]"

record DiscoveryExperimentStarted =
  es_ExperimentID :: string
  es_Question :: string
  es_Hypothesis :: string
  es_RecordDigest :: string
  es_ResolvesAmbiguity :: string

definition DiscoveryExperimentStarted_Validate :: "DiscoveryExperimentStarted \<Rightarrow> go_error option" where
  [validate_defs]: "DiscoveryExperimentStarted_Validate p = first_err
     [check (es_ExperimentID p = '''' \<or> es_Question p = '''' \<or> es_Hypothesis p = '''' \<or>
        es_RecordDigest p = '''') CategoryInvalidArgument]"

record DiscoveryExperimentCompleted =
  ec_ExperimentID :: string
  ec_Status :: ExperimentStatus
  ec_ResultSummary :: string
  ec_RecordDigest :: string
  ec_Limitations :: "string list"

definition DiscoveryExperimentCompleted_Validate :: "DiscoveryExperimentCompleted \<Rightarrow> go_error option" where
  [validate_defs]: "DiscoveryExperimentCompleted_Validate p = first_err
     [check (ec_ExperimentID p = '''' \<or> ec_RecordDigest p = '''') CategoryInvalidArgument,
      check (\<not> ExperimentStatus_Valid (ec_Status p)) CategoryInvalidArgument,
      check (ec_Status p = ExperimentPlanned \<or>
        ec_Status p = ExperimentRunning) CategoryInvalidArgument,
      check (ec_Status p = ExperimentCompleted \<and> ec_ResultSummary p = '''')
        CategoryInvalidArgument]"

record SpecificationReviewCompleted =
  sv_ReviewID :: string
  sv_ReviewerProfile :: string
  sv_MaterialGapsFound :: "string list"
  sv_Summary :: string
  sv_RecordDigest :: string

definition SpecificationReviewCompleted_Validate :: "SpecificationReviewCompleted \<Rightarrow> go_error option" where
  [validate_defs]: "SpecificationReviewCompleted_Validate p = first_err
     [check (sv_ReviewID p = '''' \<or> sv_ReviewerProfile p = '''' \<or>
        sv_Summary p = '''') CategoryInvalidArgument]"

record SpecificationReadinessRecorded =
  sr_ReadinessID :: string
  sr_ProblemModelID :: string
  sr_ProblemModelRevision :: int
  sr_Verdict :: ReadinessVerdict
  sr_RecordDigest :: string

definition SpecificationReadinessRecorded_Validate :: "SpecificationReadinessRecorded \<Rightarrow> go_error option" where
  [validate_defs]: "SpecificationReadinessRecorded_Validate p = first_err
     [check (sr_ReadinessID p = '''' \<or> sr_ProblemModelID p = '''' \<or>
        sr_RecordDigest p = '''') CategoryInvalidArgument,
      check (sr_ProblemModelRevision p < 1) CategoryInvalidArgument,
      check (\<not> ReadinessVerdict_Valid (sr_Verdict p)) CategoryInvalidArgument]"

section \<open>Payloads of later milestones (payloads_future.go)\<close>

record LessonCandidateCreated =
  lc_LessonCandidateID :: string
  lc_Scope :: LessonScope
  lc_Observation :: string
  lc_RecordDigest :: string

definition LessonCandidateCreated_Validate :: "LessonCandidateCreated \<Rightarrow> go_error option" where
  [validate_defs]: "LessonCandidateCreated_Validate p = first_err
     [check (lc_LessonCandidateID p = '''' \<or> lc_Observation p = '''' \<or>
        lc_RecordDigest p = '''') CategoryInvalidArgument,
      check (\<not> LessonScope_Valid (lc_Scope p)) CategoryInvalidArgument]"

record LessonPromoted =
  lp_LessonCandidateID :: string
  lp_PromotedBy :: string
  lp_TargetRef :: string
  lp_Version :: string

definition LessonPromoted_Validate :: "LessonPromoted \<Rightarrow> go_error option" where
  [validate_defs]: "LessonPromoted_Validate p = first_err
     [check (lp_LessonCandidateID p = '''' \<or> lp_PromotedBy p = '''' \<or>
        lp_TargetRef p = '''' \<or> lp_Version p = '''') CategoryInvalidArgument]"

record RefactoringEpochStarted =
  rf_EpochID :: string
  rf_Trigger :: string
  rf_Scope :: string

definition RefactoringEpochStarted_Validate :: "RefactoringEpochStarted \<Rightarrow> go_error option" where
  [validate_defs]: "RefactoringEpochStarted_Validate p = first_err
     [check (rf_EpochID p = '''' \<or> rf_Trigger p = '''') CategoryInvalidArgument]"

record ArchitectureReconciled =
  al_ReconciliationID :: string
  al_Outcome :: string
  al_SupersededADRs :: "string list"
  al_MigrationRef :: string

definition ArchitectureReconciled_Validate :: "ArchitectureReconciled \<Rightarrow> go_error option" where
  [validate_defs]: "ArchitectureReconciled_Validate p = first_err
     [check (al_ReconciliationID p = '''' \<or> al_Outcome p = '''') CategoryInvalidArgument]"

end
