(* ===== verification/Events.thy ===== *)
theory Events
  imports Payloads
begin

text \<open>
  internal/events: the payload union, the registry of event types, the event envelope with its
  validation, and the correlation identifiers an event carries (CorrelationFor of registry.go and
  canonicalCorrelation of internal/controlplane/correlation.go).
\<close>

section \<open>Payloads\<close>

text \<open>The Payload interface: one constructor per registered payload type.\<close>

datatype Payload =
    PProjectInitialized ProjectInitialized
  | PMilestoneStarted MilestoneStarted
  | PRequirementRecorded RequirementRecorded
  | PComponentDeclared ComponentDeclared
  | PDesignCandidateCreated DesignCandidateCreated
  | PDecisionRequired DecisionRequired
  | PDecisionRecorded DecisionRecorded
  | PRiskRecorded RiskRecorded
  | PRiskResolved RiskResolved
  | PHealthReportRecorded HealthReportRecorded
  | PModuleCatalogRecorded ModuleCatalogRecorded
  | PTaskCreated TaskCreated
  | PTaskScoutingStarted TaskScoutingStarted
  | PTaskDesignStarted TaskDesignStarted
  | PWorkPackageProposed WorkPackageProposed
  | PWorkPackageApproved WorkPackageApproved
  | PTaskDelegated TaskDelegated
  | PAttemptStarted AttemptStarted
  | PCandidateProduced CandidateProduced
  | PAttemptBlocked AttemptBlocked
  | PAttemptFailed AttemptFailed
  | PValidationCompleted ValidationCompleted
  | PReviewInvocationStarted ReviewInvocationStarted
  | PReviewCompleted ReviewCompleted
  | PChangeAccepted ChangeAccepted
  | PChangeRejected ChangeRejected
  | PEscalationRaised EscalationRaised
  | PIntegrationStarted IntegrationStarted
  | PIntegrationValidationStarted IntegrationValidationStarted
  | PProblemModelRevised ProblemModelRevised
  | PAmbiguityOpened AmbiguityOpened
  | PAmbiguityResolved AmbiguityResolved
  | PProductDecisionRecorded ProductDecisionRecorded
  | PDiscoveryExperimentStarted DiscoveryExperimentStarted
  | PDiscoveryExperimentCompleted DiscoveryExperimentCompleted
  | PSpecificationReviewCompleted SpecificationReviewCompleted
  | PSpecificationReadinessRecorded SpecificationReadinessRecorded
  | PLessonCandidateCreated LessonCandidateCreated
  | PLessonPromoted LessonPromoted
  | PRefactoringEpochStarted RefactoringEpochStarted
  | PArchitectureReconciled ArchitectureReconciled

primrec Payload_Type :: "Payload \<Rightarrow> string" where
  "Payload_Type (PProjectInitialized p) = ''ProjectInitialized''"
| "Payload_Type (PMilestoneStarted p) = ''MilestoneStarted''"
| "Payload_Type (PRequirementRecorded p) = ''RequirementRecorded''"
| "Payload_Type (PComponentDeclared p) = ''ComponentDeclared''"
| "Payload_Type (PDesignCandidateCreated p) = ''DesignCandidateCreated''"
| "Payload_Type (PDecisionRequired p) = ''DecisionRequired''"
| "Payload_Type (PDecisionRecorded p) = ''DecisionRecorded''"
| "Payload_Type (PRiskRecorded p) = ''RiskRecorded''"
| "Payload_Type (PRiskResolved p) = ''RiskResolved''"
| "Payload_Type (PHealthReportRecorded p) = ''HealthReportRecorded''"
| "Payload_Type (PModuleCatalogRecorded p) = ''ModuleCatalogRecorded''"
| "Payload_Type (PTaskCreated p) = ''TaskCreated''"
| "Payload_Type (PTaskScoutingStarted p) = ''TaskScoutingStarted''"
| "Payload_Type (PTaskDesignStarted p) = ''TaskDesignStarted''"
| "Payload_Type (PWorkPackageProposed p) = ''WorkPackageProposed''"
| "Payload_Type (PWorkPackageApproved p) = ''WorkPackageApproved''"
| "Payload_Type (PTaskDelegated p) = ''TaskDelegated''"
| "Payload_Type (PAttemptStarted p) = ''AttemptStarted''"
| "Payload_Type (PCandidateProduced p) = ''CandidateProduced''"
| "Payload_Type (PAttemptBlocked p) = ''AttemptBlocked''"
| "Payload_Type (PAttemptFailed p) = ''AttemptFailed''"
| "Payload_Type (PValidationCompleted p) = ''ValidationCompleted''"
| "Payload_Type (PReviewInvocationStarted p) = ''ReviewInvocationStarted''"
| "Payload_Type (PReviewCompleted p) = ''ReviewCompleted''"
| "Payload_Type (PChangeAccepted p) = ''ChangeAccepted''"
| "Payload_Type (PChangeRejected p) = ''ChangeRejected''"
| "Payload_Type (PEscalationRaised p) = ''EscalationRaised''"
| "Payload_Type (PIntegrationStarted p) = ''IntegrationStarted''"
| "Payload_Type (PIntegrationValidationStarted p) = ''IntegrationValidationStarted''"
| "Payload_Type (PProblemModelRevised p) = ''ProblemModelRevised''"
| "Payload_Type (PAmbiguityOpened p) = ''AmbiguityOpened''"
| "Payload_Type (PAmbiguityResolved p) = ''AmbiguityResolved''"
| "Payload_Type (PProductDecisionRecorded p) = ''ProductDecisionRecorded''"
| "Payload_Type (PDiscoveryExperimentStarted p) = ''DiscoveryExperimentStarted''"
| "Payload_Type (PDiscoveryExperimentCompleted p) = ''DiscoveryExperimentCompleted''"
| "Payload_Type (PSpecificationReviewCompleted p) = ''SpecificationReviewCompleted''"
| "Payload_Type (PSpecificationReadinessRecorded p) = ''SpecificationReadinessRecorded''"
| "Payload_Type (PLessonCandidateCreated p) = ''LessonCandidateCreated''"
| "Payload_Type (PLessonPromoted p) = ''LessonPromoted''"
| "Payload_Type (PRefactoringEpochStarted p) = ''RefactoringEpochStarted''"
| "Payload_Type (PArchitectureReconciled p) = ''ArchitectureReconciled''"

primrec Payload_Validate :: "Payload \<Rightarrow> go_error option" where
  "Payload_Validate (PProjectInitialized p) = ProjectInitialized_Validate p"
| "Payload_Validate (PMilestoneStarted p) = MilestoneStarted_Validate p"
| "Payload_Validate (PRequirementRecorded p) = RequirementRecorded_Validate p"
| "Payload_Validate (PComponentDeclared p) = ComponentDeclared_Validate p"
| "Payload_Validate (PDesignCandidateCreated p) = DesignCandidateCreated_Validate p"
| "Payload_Validate (PDecisionRequired p) = DecisionRequired_Validate p"
| "Payload_Validate (PDecisionRecorded p) = DecisionRecorded_Validate p"
| "Payload_Validate (PRiskRecorded p) = RiskRecorded_Validate p"
| "Payload_Validate (PRiskResolved p) = RiskResolved_Validate p"
| "Payload_Validate (PHealthReportRecorded p) = HealthReportRecorded_Validate p"
| "Payload_Validate (PModuleCatalogRecorded p) = ModuleCatalogRecorded_Validate p"
| "Payload_Validate (PTaskCreated p) = TaskCreated_Validate p"
| "Payload_Validate (PTaskScoutingStarted p) = TaskScoutingStarted_Validate p"
| "Payload_Validate (PTaskDesignStarted p) = TaskDesignStarted_Validate p"
| "Payload_Validate (PWorkPackageProposed p) = WorkPackageProposed_Validate p"
| "Payload_Validate (PWorkPackageApproved p) = WorkPackageApproved_Validate p"
| "Payload_Validate (PTaskDelegated p) = TaskDelegated_Validate p"
| "Payload_Validate (PAttemptStarted p) = AttemptStarted_Validate p"
| "Payload_Validate (PCandidateProduced p) = CandidateProduced_Validate p"
| "Payload_Validate (PAttemptBlocked p) = AttemptBlocked_Validate p"
| "Payload_Validate (PAttemptFailed p) = AttemptFailed_Validate p"
| "Payload_Validate (PValidationCompleted p) = ValidationCompleted_Validate p"
| "Payload_Validate (PReviewInvocationStarted p) = ReviewInvocationStarted_Validate p"
| "Payload_Validate (PReviewCompleted p) = ReviewCompleted_Validate p"
| "Payload_Validate (PChangeAccepted p) = ChangeAccepted_Validate p"
| "Payload_Validate (PChangeRejected p) = ChangeRejected_Validate p"
| "Payload_Validate (PEscalationRaised p) = EscalationRaised_Validate p"
| "Payload_Validate (PIntegrationStarted p) = IntegrationStarted_Validate p"
| "Payload_Validate (PIntegrationValidationStarted p) = IntegrationValidationStarted_Validate p"
| "Payload_Validate (PProblemModelRevised p) = ProblemModelRevised_Validate p"
| "Payload_Validate (PAmbiguityOpened p) = AmbiguityOpened_Validate p"
| "Payload_Validate (PAmbiguityResolved p) = AmbiguityResolved_Validate p"
| "Payload_Validate (PProductDecisionRecorded p) = ProductDecisionRecorded_Validate p"
| "Payload_Validate (PDiscoveryExperimentStarted p) = DiscoveryExperimentStarted_Validate p"
| "Payload_Validate (PDiscoveryExperimentCompleted p) = DiscoveryExperimentCompleted_Validate p"
| "Payload_Validate (PSpecificationReviewCompleted p) = SpecificationReviewCompleted_Validate p"
| "Payload_Validate (PSpecificationReadinessRecorded p) = SpecificationReadinessRecorded_Validate p"
| "Payload_Validate (PLessonCandidateCreated p) = LessonCandidateCreated_Validate p"
| "Payload_Validate (PLessonPromoted p) = LessonPromoted_Validate p"
| "Payload_Validate (PRefactoringEpochStarted p) = RefactoringEpochStarted_Validate p"
| "Payload_Validate (PArchitectureReconciled p) = ArchitectureReconciled_Validate p"

text \<open>The init functions register every payload type; nothing else does.\<close>

definition registered_items :: "string list" where
  "registered_items =
     [''ProjectInitialized'', ''MilestoneStarted'', ''RequirementRecorded'',
      ''ComponentDeclared'', ''DesignCandidateCreated'', ''DecisionRequired'',
      ''DecisionRecorded'', ''RiskRecorded'', ''RiskResolved'', ''HealthReportRecorded'',
      ''ModuleCatalogRecorded'', ''TaskCreated'', ''TaskScoutingStarted'',
      ''TaskDesignStarted'', ''WorkPackageProposed'', ''WorkPackageApproved'',
      ''TaskDelegated'', ''AttemptStarted'', ''CandidateProduced'', ''AttemptBlocked'',
      ''AttemptFailed'', ''ValidationCompleted'', ''ReviewInvocationStarted'',
      ''ReviewCompleted'', ''ChangeAccepted'', ''ChangeRejected'', ''EscalationRaised'',
      ''IntegrationStarted'', ''IntegrationValidationStarted'', ''ProblemModelRevised'',
      ''AmbiguityOpened'', ''AmbiguityResolved'', ''ProductDecisionRecorded'',
      ''DiscoveryExperimentStarted'', ''DiscoveryExperimentCompleted'',
      ''SpecificationReviewCompleted'', ''SpecificationReadinessRecorded'',
      ''LessonCandidateCreated'', ''LessonPromoted'', ''RefactoringEpochStarted'',
      ''ArchitectureReconciled'']"

definition Registered :: "string \<Rightarrow> bool" where
  "Registered t \<longleftrightarrow> t \<in> set registered_items"

definition RegisteredTypes :: "string list" where
  "RegisteredTypes = sort registered_items"

lemma Registered_Payload_Type [simp]: "Registered (Payload_Type p)"
  by (cases p) (simp_all add: Registered_def registered_items_def)

section \<open>The envelope\<close>

record Correlation =
  co_MilestoneID :: string
  co_TaskID :: string
  co_WorkPackageID :: string
  co_AttemptID :: string
  co_AgentRunID :: string
  co_EvidencePacketID :: string
  co_ValidationID :: string
  co_ReviewID :: string
  co_ConsultationID :: string
  co_DecisionID :: string

record Event =
  ev_Seq :: int
  ev_SchemaVersion :: SchemaVersion
  ev_EventID :: string
  ev_ProjectID :: string
  ev_EventType :: string
  ev_OccurredAt :: Timestamp
  ev_Actor :: Actor
  ev_Correlation :: Correlation
  ev_Payload :: "Payload option"
  ev_PayloadDigest :: string

definition Event_Validate :: "Event \<Rightarrow> go_error option" where
  "Event_Validate e = first_err
     [SchemaVersion_Validate (ev_SchemaVersion e),
      check (ev_EventID e = '''') CategoryInvalidArgument,
      check (ev_ProjectID e = '''') CategoryInvalidArgument,
      check (\<not> Registered (ev_EventType e)) CategoryInvalidArgument,
      Actor_Validate (ev_Actor e),
      check (Timestamp_IsZero (ev_OccurredAt e)) CategoryInvalidArgument,
      check (ev_Payload e = None) CategoryInvalidArgument,
      check (case ev_Payload e of None \<Rightarrow> False | Some p \<Rightarrow> Payload_Type p \<noteq> ev_EventType e)
        CategoryIntegrity,
      (case ev_Payload e of None \<Rightarrow> None | Some p \<Rightarrow> Payload_Validate p)]"

lemma Event_Validate_None:
  "Event_Validate e = None \<longleftrightarrow>
     ev_SchemaVersion e = SchemaVersion1 \<and> ev_EventID e \<noteq> '''' \<and> ev_ProjectID e \<noteq> '''' \<and>
     Actor_Validate (ev_Actor e) = None \<and> \<not> Timestamp_IsZero (ev_OccurredAt e) \<and>
     (\<exists>p. ev_Payload e = Some p \<and> Payload_Type p = ev_EventType e \<and> Payload_Validate p = None)"
proof -
  have "\<And>p. Payload_Type p = ev_EventType e \<Longrightarrow> Registered (ev_EventType e)"
    by (metis Registered_Payload_Type)
  then show ?thesis
    by (cases "ev_Payload e") (auto simp: Event_Validate_def SchemaVersion_Validate_def)
qed

section \<open>Correlation\<close>

definition NoCorrelation :: Correlation where
  "NoCorrelation =
     \<lparr>co_MilestoneID = '''', co_TaskID = '''', co_WorkPackageID = '''', co_AttemptID = '''',
      co_AgentRunID = '''', co_EvidencePacketID = '''', co_ValidationID = '''', co_ReviewID = '''',
      co_ConsultationID = '''', co_DecisionID = ''''\<rparr>"

primrec CorrelationFor :: "Payload \<Rightarrow> Correlation" where
  "CorrelationFor (PProjectInitialized p) = NoCorrelation
     \<lparr>co_MilestoneID := pi_MilestoneID p\<rparr>"
| "CorrelationFor (PMilestoneStarted p) = NoCorrelation
     \<lparr>co_MilestoneID := ms_MilestoneID p\<rparr>"
| "CorrelationFor (PRequirementRecorded p) = NoCorrelation"
| "CorrelationFor (PComponentDeclared p) = NoCorrelation"
| "CorrelationFor (PDesignCandidateCreated p) = NoCorrelation"
| "CorrelationFor (PDecisionRequired p) = NoCorrelation"
| "CorrelationFor (PDecisionRecorded p) = NoCorrelation
     \<lparr>co_DecisionID := dc_DecisionID p\<rparr>"
| "CorrelationFor (PRiskRecorded p) = NoCorrelation"
| "CorrelationFor (PRiskResolved p) = NoCorrelation"
| "CorrelationFor (PHealthReportRecorded p) = NoCorrelation"
| "CorrelationFor (PModuleCatalogRecorded p) = NoCorrelation"
| "CorrelationFor (PTaskCreated p) = NoCorrelation
     \<lparr>co_TaskID := tc_TaskID p, co_MilestoneID := tc_MilestoneID p\<rparr>"
| "CorrelationFor (PTaskScoutingStarted p) = NoCorrelation
     \<lparr>co_TaskID := ts_TaskID p\<rparr>"
| "CorrelationFor (PTaskDesignStarted p) = NoCorrelation
     \<lparr>co_TaskID := td_TaskID p\<rparr>"
| "CorrelationFor (PWorkPackageProposed p) = NoCorrelation
     \<lparr>co_TaskID := wp_TaskID p, co_WorkPackageID := wp_WorkPackageID p\<rparr>"
| "CorrelationFor (PWorkPackageApproved p) = NoCorrelation
     \<lparr>co_TaskID := wa_TaskID p, co_WorkPackageID := wa_WorkPackageID p\<rparr>"
| "CorrelationFor (PTaskDelegated p) = NoCorrelation
     \<lparr>co_TaskID := dg_TaskID p, co_WorkPackageID := dg_WorkPackageID p\<rparr>"
| "CorrelationFor (PAttemptStarted p) = NoCorrelation
     \<lparr>co_TaskID := as_TaskID p, co_AttemptID := as_AttemptID p,
       co_WorkPackageID := as_WorkPackageID p\<rparr>"
| "CorrelationFor (PCandidateProduced p) = NoCorrelation
     \<lparr>co_TaskID := cp_TaskID p, co_AttemptID := cp_AttemptID p\<rparr>"
| "CorrelationFor (PAttemptBlocked p) = NoCorrelation
     \<lparr>co_TaskID := ab_TaskID p, co_AttemptID := ab_AttemptID p\<rparr>"
| "CorrelationFor (PAttemptFailed p) = NoCorrelation
     \<lparr>co_TaskID := af_TaskID p, co_AttemptID := af_AttemptID p\<rparr>"
| "CorrelationFor (PValidationCompleted p) = NoCorrelation
     \<lparr>co_TaskID := vc_TaskID p, co_AttemptID := vc_AttemptID p,
       co_ValidationID := vc_ValidationID p\<rparr>"
| "CorrelationFor (PReviewInvocationStarted p) = NoCorrelation
     \<lparr>co_TaskID := ri_TaskID p, co_AttemptID := ri_AttemptID p,
       co_WorkPackageID := ri_WorkPackageID p, co_ReviewID := ri_ReviewID p\<rparr>"
| "CorrelationFor (PReviewCompleted p) = NoCorrelation
     \<lparr>co_TaskID := rc_TaskID p, co_AttemptID := rc_AttemptID p,
       co_WorkPackageID := rc_WorkPackageID p, co_ReviewID := rc_ReviewID p\<rparr>"
| "CorrelationFor (PChangeAccepted p) = NoCorrelation
     \<lparr>co_TaskID := ca_TaskID p, co_AttemptID := ca_AttemptID p,
       co_WorkPackageID := ca_WorkPackageID p\<rparr>"
| "CorrelationFor (PChangeRejected p) = NoCorrelation
     \<lparr>co_TaskID := cr_TaskID p, co_AttemptID := cr_AttemptID p\<rparr>"
| "CorrelationFor (PEscalationRaised p) = NoCorrelation
     \<lparr>co_TaskID := er_TaskID p\<rparr>"
| "CorrelationFor (PIntegrationStarted p) = NoCorrelation
     \<lparr>co_TaskID := is_TaskID p\<rparr>"
| "CorrelationFor (PIntegrationValidationStarted p) = NoCorrelation
     \<lparr>co_TaskID := iv_TaskID p\<rparr>"
| "CorrelationFor (PProblemModelRevised p) = NoCorrelation"
| "CorrelationFor (PAmbiguityOpened p) = NoCorrelation"
| "CorrelationFor (PAmbiguityResolved p) = NoCorrelation"
| "CorrelationFor (PProductDecisionRecorded p) = NoCorrelation"
| "CorrelationFor (PDiscoveryExperimentStarted p) = NoCorrelation"
| "CorrelationFor (PDiscoveryExperimentCompleted p) = NoCorrelation"
| "CorrelationFor (PSpecificationReviewCompleted p) = NoCorrelation"
| "CorrelationFor (PSpecificationReadinessRecorded p) = NoCorrelation"
| "CorrelationFor (PLessonCandidateCreated p) = NoCorrelation"
| "CorrelationFor (PLessonPromoted p) = NoCorrelation"
| "CorrelationFor (PRefactoringEpochStarted p) = NoCorrelation"
| "CorrelationFor (PArchitectureReconciled p) = NoCorrelation"

text \<open>
  canonicalCorrelation runs over its table of ten fields in order: each row merges one derived
  identifier with the supplied one, or refuses when both are given and differ.
\<close>

definition merge_field :: "string \<Rightarrow> string \<Rightarrow> go_error + string" where
  "merge_field derived supplied =
     (if supplied = '''' then Inr derived
      else if derived = '''' then Inr supplied
      else if derived \<noteq> supplied then Inl (New CategoryInvalidArgument)
      else Inr derived)"

fun merge_fields :: "(string \<times> string) list \<Rightarrow> go_error + string list" where
  "merge_fields [] = Inr []"
| "merge_fields ((d, s) # rest) =
     (case merge_field d s of
        Inl e \<Rightarrow> Inl e
      | Inr x \<Rightarrow> (case merge_fields rest of Inl e \<Rightarrow> Inl e | Inr xs \<Rightarrow> Inr (x # xs)))"

definition correlation_fields :: "Correlation \<Rightarrow> string list" where
  "correlation_fields c =
     [co_MilestoneID c, co_TaskID c, co_WorkPackageID c, co_AttemptID c,
      co_AgentRunID c, co_EvidencePacketID c, co_ValidationID c,
      co_ReviewID c, co_ConsultationID c, co_DecisionID c]"

fun correlation_of :: "string list \<Rightarrow> Correlation" where
  "correlation_of [m, t, w, a, g, e, v, r, c, d] =
     \<lparr>co_MilestoneID = m, co_TaskID = t, co_WorkPackageID = w, co_AttemptID = a,
      co_AgentRunID = g, co_EvidencePacketID = e, co_ValidationID = v, co_ReviewID = r,
      co_ConsultationID = c, co_DecisionID = d\<rparr>"
| "correlation_of _ = NoCorrelation"

definition canonicalCorrelation :: "Payload \<Rightarrow> Correlation \<Rightarrow> go_error + Correlation" where
  "canonicalCorrelation payload supplied =
     (case merge_fields (zip (correlation_fields (CorrelationFor payload))
                             (correlation_fields supplied)) of
        Inl e \<Rightarrow> Inl e
      | Inr xs \<Rightarrow> Inr (correlation_of xs))"

text \<open>An identifier agrees with what was derived and what was supplied when neither contradicts it.\<close>

definition agrees :: "string \<Rightarrow> string \<Rightarrow> bool" where
  "agrees d s \<longleftrightarrow> d = '''' \<or> s = '''' \<or> d = s"

lemma merge_field_spec:
  "merge_field d s = (if agrees d s then Inr (if d = '''' then s else d)
                      else Inl (New CategoryInvalidArgument))"
  by (simp add: merge_field_def agrees_def)

lemma merge_fields_spec:
  "merge_fields ps =
     (if list_all (\<lambda>(d, s). agrees d s) ps
      then Inr (map (\<lambda>(d, s). if d = '''' then s else d) ps)
      else Inl (New CategoryInvalidArgument))"
  by (induction ps) (auto simp: merge_field_spec split: prod.splits)

lemma correlation_fields_of:
  "length xs = 10 \<Longrightarrow> correlation_fields (correlation_of xs) = xs"
  by (auto simp: correlation_fields_def length_Suc_conv eval_nat_numeral)

lemma length_correlation_fields [simp]: "length (correlation_fields c) = 10"
  by (simp add: correlation_fields_def)


end
