(* ===== verification/Discovery.thy ===== *)
theory Discovery
  imports Events
begin

text \<open>
  internal/state/discovery.go: the reducer's working set for the discovery projection, its five
  operations and the rendering into the compact DiscoveryState of ProjectState. The maps the code
  ranges over or takes the length of are association lists with distinct keys.
\<close>

record openAmbiguity =
  oa_authority :: ResolutionAuthority
  oa_architecturalImpact :: ImpactLevel

definition material :: "openAmbiguity \<Rightarrow> bool" where
  "material a \<longleftrightarrow> oa_architecturalImpact a \<in> {ImpactMedium, ImpactHigh, ImpactCritical}"

definition awaitingHuman :: "openAmbiguity \<Rightarrow> bool" where
  "awaitingHuman a \<longleftrightarrow> oa_authority a = ResolveByHuman"

record discoveryState =
  d_problemModelID :: string
  d_problemModelRevision :: int
  d_ambiguityLedgerID :: string
  d_materialAssumptionsUnverified :: int
  d_openAmbiguities :: "(string \<times> openAmbiguity) list"
  d_ambiguityOrder :: "string list"
  d_requirementStatus :: "(string \<times> RequirementStatus) list"
  d_productDecisionStatus :: "(string \<times> ProductDecisionStatus) list"
  d_readinessVerdict :: ReadinessVerdict
  d_readinessRef :: string
  d_readinessProblemModelRevision :: int

definition newDiscoveryState :: discoveryState where
  "newDiscoveryState =
     \<lparr>d_problemModelID = '''', d_problemModelRevision = 0, d_ambiguityLedgerID = '''',
      d_materialAssumptionsUnverified = 0, d_openAmbiguities = [], d_ambiguityOrder = [],
      d_requirementStatus = [], d_productDecisionStatus = [],
      d_readinessVerdict = UnknownReadinessVerdict '''', d_readinessRef = '''',
      d_readinessProblemModelRevision = 0\<rparr>"

definition discovery_active :: "discoveryState \<Rightarrow> bool" where
  "discovery_active d \<longleftrightarrow>
     d_problemModelID d \<noteq> '''' \<or> d_ambiguityLedgerID d \<noteq> '''' \<or>
     length (d_openAmbiguities d) > 0 \<or> length (d_requirementStatus d) > 0 \<or>
     length (d_productDecisionStatus d) > 0 \<or> d_readinessRef d \<noteq> ''''"

definition removeString :: "string list \<Rightarrow> string \<Rightarrow> string list" where
  "removeString xs value = filter (\<lambda>item. item \<noteq> value) xs"

section \<open>Operations\<close>

definition applyProblemModelRevised ::
  "ProblemModelRevised \<Rightarrow> discoveryState \<Rightarrow> discoveryState outcome" where
  [op_defs]: "applyProblemModelRevised p d =
     guard (check (pm_ProblemModelID p = d_problemModelID d \<and>
                   pm_Revision p \<le> d_problemModelRevision d) CategoryConflict) d
     (let d1 = d\<lparr>d_problemModelID := pm_ProblemModelID p,
                 d_problemModelRevision := pm_Revision p,
                 d_materialAssumptionsUnverified := pm_MaterialAssumptionsUnverified p\<rparr>
      in (None, if pm_AmbiguityLedgerID p \<noteq> ''''
                then d1\<lparr>d_ambiguityLedgerID := pm_AmbiguityLedgerID p\<rparr> else d1))"

definition applyAmbiguityOpened ::
  "AmbiguityOpened \<Rightarrow> discoveryState \<Rightarrow> discoveryState outcome" where
  [op_defs]: "applyAmbiguityOpened p d =
     guard (check (map_of (d_openAmbiguities d) (ao_AmbiguityID p) \<noteq> None) CategoryConflict) d
     (None, d\<lparr>d_ambiguityLedgerID := ao_AmbiguityLedgerID p,
              d_openAmbiguities := AList.update (ao_AmbiguityID p)
                \<lparr>oa_authority = ao_ResolutionAuthority p,
                 oa_architecturalImpact = ao_ArchitecturalImpact p\<rparr> (d_openAmbiguities d),
              d_ambiguityOrder := d_ambiguityOrder d @ [ao_AmbiguityID p]\<rparr>)"

definition close_ambiguity :: "string \<Rightarrow> discoveryState \<Rightarrow> discoveryState" where
  "close_ambiguity a d = d\<lparr>d_openAmbiguities := AList.delete a (d_openAmbiguities d),
                           d_ambiguityOrder := removeString (d_ambiguityOrder d) a\<rparr>"

definition applyAmbiguityResolved ::
  "AmbiguityResolved \<Rightarrow> discoveryState \<Rightarrow> discoveryState outcome" where
  [op_defs]: "applyAmbiguityResolved p d =
     guard (check (map_of (d_openAmbiguities d) (am_AmbiguityID p) = None) CategoryIntegrity) d
     (None, close_ambiguity (am_AmbiguityID p) d)"

definition applyProductDecisionRecorded ::
  "ProductDecisionRecorded \<Rightarrow> discoveryState \<Rightarrow> discoveryState outcome" where
  [op_defs]: "applyProductDecisionRecorded p d =
     guard (check (pd_ResolvesAmbiguity p \<noteq> '''' \<and>
                   map_of (d_openAmbiguities d) (pd_ResolvesAmbiguity p) = None)
              CategoryIntegrity) d
     (guard (check (pd_Supersedes p \<noteq> '''' \<and>
                    map_of (d_productDecisionStatus d) (pd_Supersedes p) = None)
               CategoryIntegrity) d
     (let d1 = (if pd_ResolvesAmbiguity p \<noteq> ''''
                then close_ambiguity (pd_ResolvesAmbiguity p) d else d);
          d2 = (if pd_Supersedes p \<noteq> ''''
                then d1\<lparr>d_productDecisionStatus := AList.update (pd_Supersedes p)
                          ProductDecisionSuperseded (d_productDecisionStatus d1)\<rparr>
                else d1)
      in (None, d2\<lparr>d_productDecisionStatus := AList.update (pd_ProductDecisionID p)
                     (pd_Status p) (d_productDecisionStatus d2)\<rparr>)))"

definition applyRequirementRecorded ::
  "RequirementRecorded \<Rightarrow> discoveryState \<Rightarrow> discoveryState outcome" where
  [op_defs]: "applyRequirementRecorded p d =
     guard (if rq_Status p = RequirementConfirmed \<and> rq_SourceType p = SourceProductDecision
            then (case map_of (d_productDecisionStatus d) (rq_SourceRef p) of
                    None \<Rightarrow> Some (New CategoryIntegrity)
                  | Some status \<Rightarrow> check (status = ProductDecisionWithdrawn) CategoryIntegrity)
            else None) d
     (None, d\<lparr>d_requirementStatus := AList.update (rq_RequirementID p) (rq_Status p)
                (d_requirementStatus d)\<rparr>)"

definition applyReadinessRecorded ::
  "SpecificationReadinessRecorded \<Rightarrow> discoveryState \<Rightarrow> discoveryState outcome" where
  [op_defs]: "applyReadinessRecorded p d =
     guard (check (d_problemModelID d \<noteq> '''' \<and> sr_ProblemModelID p \<noteq> d_problemModelID d)
              CategoryIntegrity) d
     (guard (check (d_problemModelRevision d \<noteq> 0 \<and>
                    sr_ProblemModelRevision p > d_problemModelRevision d) CategoryIntegrity) d
     (None, d\<lparr>d_readinessVerdict := sr_Verdict p, d_readinessRef := sr_ReadinessID p,
              d_readinessProblemModelRevision := sr_ProblemModelRevision p\<rparr>))"

section \<open>Rendering\<close>

record DiscoveryState =
  ds_ProblemModelID :: "string option"
  ds_ProblemModelRevision :: "int option"
  ds_AmbiguityLedgerID :: "string option"
  ds_OpenMaterialAmbiguities :: int
  ds_AwaitingHumanAmbiguities :: int
  ds_ConfirmedRequirements :: int
  ds_ProposedRequirements :: int
  ds_MaterialAssumptionsUnverified :: int
  ds_ActiveProductDecisions :: int
  ds_SpecificationReadinessVerdict :: "ReadinessVerdict option"
  ds_SpecificationReadinessRef :: "string option"
  ds_CurrentQuestionRefs :: "string list"

text \<open>The loop over ambiguityOrder: material count, awaiting count, awaiting ids. A missing key
  reads as the zero entry.\<close>

definition ambiguity_entry :: "discoveryState \<Rightarrow> string \<Rightarrow> openAmbiguity" where
  "ambiguity_entry d a =
     (case map_of (d_openAmbiguities d) a of
        None \<Rightarrow> \<lparr>oa_authority = UnknownResolutionAuthority '''',
                 oa_architecturalImpact = UnknownImpactLevel ''''\<rparr>
      | Some entry \<Rightarrow> entry)"

fun count_ambiguities ::
  "discoveryState \<Rightarrow> string list \<Rightarrow> int \<times> int \<times> string list \<Rightarrow> int \<times> int \<times> string list" where
  "count_ambiguities d [] acc = acc"
| "count_ambiguities d (a # as) (mat, awaits, refs) =
     (let entry = ambiguity_entry d a;
          mat' = (if material entry then mat + 1 else mat)
      in if awaitingHuman entry then count_ambiguities d as (mat', awaits + 1, refs @ [a])
         else count_ambiguities d as (mat', awaits, refs))"

definition render_discovery :: "discoveryState \<Rightarrow> DiscoveryState option" where
  "render_discovery d =
     (if \<not> discovery_active d then None
      else
        (case count_ambiguities d (d_ambiguityOrder d) (0, 0, []) of
           (mat, awaits, refs) \<Rightarrow> Some
        \<lparr>ds_ProblemModelID =
           (if d_problemModelID d \<noteq> '''' then Some (d_problemModelID d) else None),
         ds_ProblemModelRevision =
           (if d_problemModelID d \<noteq> '''' then Some (d_problemModelRevision d) else None),
         ds_AmbiguityLedgerID =
           (if d_ambiguityLedgerID d \<noteq> '''' then Some (d_ambiguityLedgerID d) else None),
         ds_OpenMaterialAmbiguities = mat,
         ds_AwaitingHumanAmbiguities = awaits,
         ds_ConfirmedRequirements =
           int (count_values (\<lambda>s. s = RequirementConfirmed) (d_requirementStatus d)),
         ds_ProposedRequirements =
           int (count_values (\<lambda>s. s = RequirementProposed) (d_requirementStatus d)),
         ds_MaterialAssumptionsUnverified = d_materialAssumptionsUnverified d,
         ds_ActiveProductDecisions =
           int (count_values (\<lambda>s. s = ProductDecisionConfirmed) (d_productDecisionStatus d)),
         ds_SpecificationReadinessVerdict =
           (if d_readinessRef d \<noteq> '''' \<and>
               d_readinessProblemModelRevision d = d_problemModelRevision d
            then Some (d_readinessVerdict d) else None),
         ds_SpecificationReadinessRef =
           (if d_readinessRef d \<noteq> '''' then Some (d_readinessRef d) else None),
         ds_CurrentQuestionRefs = refs\<rparr>))"

section \<open>Invariant\<close>

definition inv_discovery :: "discoveryState \<Rightarrow> bool" where
  "inv_discovery d \<longleftrightarrow>
     distinct (keys (d_openAmbiguities d)) \<and> distinct (keys (d_requirementStatus d)) \<and>
     distinct (keys (d_productDecisionStatus d)) \<and>
     indexed (map_of (d_openAmbiguities d)) (d_ambiguityOrder d) \<and>
     (d_problemModelID d \<noteq> '''' \<longrightarrow> 1 \<le> d_problemModelRevision d) \<and>
     (d_problemModelID d = '''' \<longrightarrow> d_problemModelRevision d = 0) \<and>
     0 \<le> d_materialAssumptionsUnverified d \<and>
     (d_readinessRef d \<noteq> '''' \<longrightarrow> ReadinessVerdict_Valid (d_readinessVerdict d))"

lemma inv_newDiscoveryState: "inv_discovery newDiscoveryState"
  by (simp add: inv_discovery_def newDiscoveryState_def keys_def)

lemma inv_close_ambiguity: "inv_discovery d \<Longrightarrow> inv_discovery (close_ambiguity a d)"
  by (simp add: inv_discovery_def close_ambiguity_def removeString_def keys_delete map_of_delete
      indexed_delete)

lemma inv_ProblemModelRevised:
  assumes "inv_discovery d" "ProblemModelRevised_Validate p = None"
    "applyProblemModelRevised p d = (None, d')"
  shows "inv_discovery d'"
proof -
  have led: "inv_discovery (e\<lparr>d_ambiguityLedgerID := x\<rparr>) = inv_discovery e" for e x
    by (simp add: inv_discovery_def)
  have "inv_discovery (d\<lparr>d_problemModelID := pm_ProblemModelID p,
      d_problemModelRevision := pm_Revision p,
      d_materialAssumptionsUnverified := pm_MaterialAssumptionsUnverified p\<rparr>)"
    using assms(1,2) by (simp add: inv_discovery_def ProblemModelRevised_Validate_def)
  with led assms(3) show ?thesis
    by (auto simp add: applyProblemModelRevised_def outcome_ok Let_def simp del: led)
qed

lemma inv_AmbiguityOpened:
  assumes "inv_discovery d" "applyAmbiguityOpened p d = (None, d')"
  shows "inv_discovery d'"
  using assms by (auto simp: inv_discovery_def op_defs outcome_ok keys_update map_of_update
      intro: indexed_insert)

lemma inv_AmbiguityResolved:
  assumes "inv_discovery d" "applyAmbiguityResolved p d = (None, d')"
  shows "inv_discovery d'"
  using assms inv_close_ambiguity by (auto simp: op_defs outcome_ok)

lemma inv_ProductDecisionRecorded:
  assumes "inv_discovery d" "applyProductDecisionRecorded p d = (None, d')"
  shows "inv_discovery d'"
proof -
  have upd: "inv_discovery (e\<lparr>d_productDecisionStatus := AList.update k v (d_productDecisionStatus e)\<rparr>)"
    if "inv_discovery e" for e k v
    using that by (simp add: inv_discovery_def keys_update)
  from assms show ?thesis
    by (auto simp: op_defs outcome_ok Let_def intro!: upd inv_close_ambiguity)
qed

lemma inv_RequirementRecorded:
  assumes "inv_discovery d" "applyRequirementRecorded p d = (None, d')"
  shows "inv_discovery d'"
  using assms by (auto simp: inv_discovery_def op_defs outcome_ok keys_update)

lemma inv_ReadinessRecorded:
  assumes "inv_discovery d" "SpecificationReadinessRecorded_Validate p = None"
    "applyReadinessRecorded p d = (None, d')"
  shows "inv_discovery d'"
  using assms by (auto simp: inv_discovery_def op_defs validate_defs outcome_ok)

lemma discovery_atomic [simp, intro]:
  "atomic d (applyProblemModelRevised pm d)" "atomic d (applyAmbiguityOpened ao d)"
  "atomic d (applyAmbiguityResolved ar d)" "atomic d (applyProductDecisionRecorded pd d)"
  "atomic d (applyRequirementRecorded rq d)" "atomic d (applyReadinessRecorded sr d)"
  by (auto simp: op_defs Let_def intro!: atomic_guard)

section \<open>What the rendered counts mean\<close>

lemma count_ambiguities_spec:
  "count_ambiguities d as (mat, awaits, refs) =
     (mat + int (length (filter (\<lambda>a. material (ambiguity_entry d a)) as)),
      awaits + int (length (filter (\<lambda>a. awaitingHuman (ambiguity_entry d a)) as)),
      refs @ filter (\<lambda>a. awaitingHuman (ambiguity_entry d a)) as)"
  by (induction as arbitrary: mat awaits refs) (simp_all add: Let_def)

lemma order_count:
  assumes "inv_discovery d"
  shows "length (filter (\<lambda>a. P (ambiguity_entry d a)) (d_ambiguityOrder d)) =
    card {a. \<exists>e. map_of (d_openAmbiguities d) a = Some e \<and> P e}"
proof -
  have i: "indexed (map_of (d_openAmbiguities d)) (d_ambiguityOrder d)"
    using assms by (simp add: inv_discovery_def)
  have "{a. \<exists>e. map_of (d_openAmbiguities d) a = Some e \<and> P e} =
      set (filter (\<lambda>a. P (ambiguity_entry d a)) (d_ambiguityOrder d))"
    using i by (auto simp: indexed_def ambiguity_entry_def dom_def split: option.splits)
  then show ?thesis
    using i by (simp only: indexed_def distinct_filter distinct_card)
qed

text \<open>The counts are the numbers of entries of each kind in the working set.\<close>

lemma discovery_counts:
  assumes "inv_discovery d" and "render_discovery d = Some s"
  shows "ds_OpenMaterialAmbiguities s =
       int (card {a. \<exists>e. map_of (d_openAmbiguities d) a = Some e \<and> material e})"
    and "ds_AwaitingHumanAmbiguities s =
       int (card {a. \<exists>e. map_of (d_openAmbiguities d) a = Some e \<and> awaitingHuman e})"
    and "set (ds_CurrentQuestionRefs s) =
       {a. \<exists>e. map_of (d_openAmbiguities d) a = Some e \<and> awaitingHuman e}"
    and "ds_ConfirmedRequirements s =
       int (card {r. map_of (d_requirementStatus d) r = Some RequirementConfirmed})"
    and "ds_ProposedRequirements s =
       int (card {r. map_of (d_requirementStatus d) r = Some RequirementProposed})"
    and "ds_ActiveProductDecisions s =
       int (card {r. map_of (d_productDecisionStatus d) r = Some ProductDecisionConfirmed})"
proof -
  have i: "indexed (map_of (d_openAmbiguities d)) (d_ambiguityOrder d)"
    "distinct (keys (d_requirementStatus d))" "distinct (keys (d_productDecisionStatus d))"
    using assms(1) by (simp_all add: inv_discovery_def)
  from assms(2) have "discovery_active d" by (simp add: render_discovery_def split: if_splits)
  with assms(2) have r: "s = (case render_discovery d of Some x \<Rightarrow> x)"
    by (simp add: \<open>discovery_active d\<close>)
  note r = r [unfolded render_discovery_def count_ambiguities_spec]
  show "ds_OpenMaterialAmbiguities s =
       int (card {a. \<exists>e. map_of (d_openAmbiguities d) a = Some e \<and> material e})"
    "ds_AwaitingHumanAmbiguities s =
       int (card {a. \<exists>e. map_of (d_openAmbiguities d) a = Some e \<and> awaitingHuman e})"
    using r by (simp_all add: order_count [OF assms(1)] \<open>discovery_active d\<close>)
  show "set (ds_CurrentQuestionRefs s) =
       {a. \<exists>e. map_of (d_openAmbiguities d) a = Some e \<and> awaitingHuman e}"
    using r i(1) by (auto simp: \<open>discovery_active d\<close> indexed_def ambiguity_entry_def dom_def
        split: option.splits)
  show "ds_ConfirmedRequirements s =
       int (card {r. map_of (d_requirementStatus d) r = Some RequirementConfirmed})"
    "ds_ProposedRequirements s =
       int (card {r. map_of (d_requirementStatus d) r = Some RequirementProposed})"
    "ds_ActiveProductDecisions s =
       int (card {r. map_of (d_productDecisionStatus d) r = Some ProductDecisionConfirmed})"
    using r i(2,3) by (simp_all add: count_values_card \<open>discovery_active d\<close>)
qed

end
