(* ===== verification/Projection.thy ===== *)
theory Projection
  imports Discovery
begin

text \<open>
  internal/state/projection.go and lineage.go: the materialised reduction of an event prefix, its
  lookups, and the lineage checks the reducer's operations share. Go maps that are only looked up
  are partial functions; attemptsByTask is total because a missing key reads as the nil slice.
  A pointer into the task or attempt map is the entry at its key: writing through it is an update
  of the map at that key.
\<close>

section \<open>The values a projection holds\<close>

record MilestoneState =
  mi_ID :: string
  mi_Title :: string
  mi_Status :: string
  mi_CompletedTasks :: int
  mi_TotalTasks :: int

record ComponentState =
  cs_ID :: string
  cs_Responsibility :: "string option"
  cs_Status :: string
  cs_ContractState :: ContractState
  cs_EvidenceRefs :: "string list"

record ValidationState =
  vs_Status :: ValidationStatus
  vs_AcceptedCommitVerified :: bool
  vs_LastFullValidationID :: "string option"

record HealthState =
  hs_Status :: HealthStatus
  hs_LastReportID :: "string option"
  hs_KnownDebt :: "string list"

record Risk =
  risk_ID :: string
  risk_Severity :: Severity
  risk_Statement :: string
  risk_EvidenceRefs :: "string list"

record OpenDecision =
  od_ID :: string
  od_Question :: string
  od_Authority :: DecisionAuthority
  od_EvidenceRefs :: "string list"

record SemanticChange =
  sc_TaskID :: string
  sc_Commit :: "string option"
  sc_Summary :: string

record evidenceRef =
  ev_scope :: string
  ev_taskID :: string
  ev_attemptID :: string
  ev_commit :: string

record Projection =
  p_ProjectID :: string
  p_Name :: string
  p_initialised :: bool
  p_HighWatermark :: int
  p_LastOccurredAt :: Timestamp
  p_AcceptedCommit :: string
  p_Branch :: string
  p_RepositoryPath :: string
  p_VisionRef :: string
  p_CurrentOutcome :: string
  p_Milestone :: MilestoneState
  p_ActiveInvariants :: "string list"
  p_ActiveDecisions :: "string list"
  p_Validation :: ValidationState
  p_Health :: HealthState
  p_components :: "string \<rightharpoonup> ComponentState"
  p_componentIDs :: "string list"
  p_modules :: "ModuleDefinition list"
  p_risks :: "string \<rightharpoonup> Risk"
  p_riskIDs :: "string list"
  p_decisionsRequired :: "string \<rightharpoonup> OpenDecision"
  p_decisionRequiredIDs :: "string list"
  p_tasks :: "string \<rightharpoonup> Task"
  p_taskIDs :: "string list"
  p_attempts :: "string \<rightharpoonup> Attempt"
  p_attemptsByTask :: "string \<Rightarrow> string list"
  p_semanticChanges :: "SemanticChange list"
  p_aliases :: "string \<rightharpoonup> string"
  p_discovery :: discoveryState
  p_validations :: "string \<rightharpoonup> evidenceRef"
  p_reviews :: "string \<rightharpoonup> evidenceRef"
  p_proposals :: "string \<rightharpoonup> int"

definition New_Projection :: Projection where
  "New_Projection =
     \<lparr>p_ProjectID = '''', p_Name = '''', p_initialised = False, p_HighWatermark = 0,
      p_LastOccurredAt = 0, p_AcceptedCommit = '''', p_Branch = '''', p_RepositoryPath = '''',
      p_VisionRef = '''', p_CurrentOutcome = '''',
      p_Milestone = \<lparr>mi_ID = '''', mi_Title = '''', mi_Status = '''', mi_CompletedTasks = 0,
                     mi_TotalTasks = 0\<rparr>,
      p_ActiveInvariants = [], p_ActiveDecisions = [],
      p_Validation = \<lparr>vs_Status = ValidationUnknown, vs_AcceptedCommitVerified = False,
                      vs_LastFullValidationID = None\<rparr>,
      p_Health = \<lparr>hs_Status = HealthUnknown, hs_LastReportID = None, hs_KnownDebt = []\<rparr>,
      p_components = Map.empty, p_componentIDs = [], p_modules = [],
      p_risks = Map.empty, p_riskIDs = [],
      p_decisionsRequired = Map.empty, p_decisionRequiredIDs = [],
      p_tasks = Map.empty, p_taskIDs = [],
      p_attempts = Map.empty, p_attemptsByTask = (\<lambda>_. []),
      p_semanticChanges = [], p_aliases = Map.empty, p_discovery = newDiscoveryState,
      p_validations = Map.empty, p_reviews = Map.empty, p_proposals = Map.empty\<rparr>"

section \<open>Lookups\<close>

definition Task_of :: "Projection \<Rightarrow> string \<Rightarrow> go_error + Task" where
  "Task_of p tid = (case p_tasks p tid of None \<Rightarrow> Inl (New CategoryNotFound) | Some t \<Rightarrow> Inr t)"

definition TaskByAlias :: "Projection \<Rightarrow> string \<Rightarrow> go_error + Task" where
  "TaskByAlias p alias =
     (case p_aliases p alias of None \<Rightarrow> Inl (New CategoryNotFound) | Some tid \<Rightarrow> Task_of p tid)"

definition Tasks_of :: "Projection \<Rightarrow> Task option list" where
  "Tasks_of p = map (p_tasks p) (p_taskIDs p)"

definition Attempt_of :: "Projection \<Rightarrow> string \<Rightarrow> go_error + Attempt" where
  "Attempt_of p aid =
     (case p_attempts p aid of None \<Rightarrow> Inl (New CategoryNotFound) | Some a \<Rightarrow> Inr a)"

definition AttemptsForTask :: "Projection \<Rightarrow> string \<Rightarrow> Attempt option list" where
  "AttemptsForTask p tid = map (p_attempts p) (p_attemptsByTask p tid)"

lemma Task_of_ok [simp]: "Task_of p tid = Inr t \<longleftrightarrow> p_tasks p tid = Some t"
  by (simp add: Task_of_def split: option.splits)

lemma Attempt_of_ok [simp]: "Attempt_of p aid = Inr a \<longleftrightarrow> p_attempts p aid = Some a"
  by (simp add: Attempt_of_def split: option.splits)

definition put_task :: "Task \<Rightarrow> string \<Rightarrow> Projection \<Rightarrow> Projection" where
  "put_task t tid p = p\<lparr>p_tasks := (p_tasks p)(tid \<mapsto> t)\<rparr>"

definition put_attempt :: "Attempt \<Rightarrow> string \<Rightarrow> Projection \<Rightarrow> Projection" where
  "put_attempt a aid p = p\<lparr>p_attempts := (p_attempts p)(aid \<mapsto> a)\<rparr>"

section \<open>Lineage\<close>

definition requireTaskInState :: "Projection \<Rightarrow> string \<Rightarrow> State \<Rightarrow> go_error + Task" where
  "requireTaskInState p taskID want =
     (case Task_of p taskID of
        Inl e \<Rightarrow> Inl e
      | Inr task \<Rightarrow> (if t_State task \<noteq> want then Inl (New CategoryInvalidTransition) else Inr task))"

definition requireAttemptOf :: "Projection \<Rightarrow> string \<Rightarrow> string \<Rightarrow> go_error + Attempt" where
  "requireAttemptOf p taskID attemptID =
     (if attemptID = '''' then Inl (New CategoryInvalidArgument)
      else
        (case Attempt_of p attemptID of
           Inl e \<Rightarrow> Inl e
         | Inr attempt \<Rightarrow>
             (if a_TaskID attempt \<noteq> taskID then Inl (New CategoryIntegrity) else Inr attempt)))"

definition requireCandidate :: "Attempt \<Rightarrow> go_error option" where
  "requireCandidate attempt =
     check (a_Status attempt \<noteq> StatusCandidateProduced \<or> a_CandidateCommit attempt = '''')
       CategoryIntegrity"

definition requireCandidateCommit :: "Attempt \<Rightarrow> string \<Rightarrow> go_error option" where
  "requireCandidateCommit attempt claimed = first_err
     [check (claimed = '''') CategoryInvalidArgument,
      check (claimed \<noteq> a_CandidateCommit attempt) CategoryIntegrity]"

text \<open>recordEvidence on the validation index and on the review index of the projection.\<close>

definition recordValidation :: "string \<Rightarrow> evidenceRef \<Rightarrow> Projection \<Rightarrow> Projection outcome" where
  "recordValidation vid ref p =
     guard (check (p_validations p vid \<noteq> None) CategoryConflict) p
     (None, p\<lparr>p_validations := (p_validations p)(vid \<mapsto> ref)\<rparr>)"

definition recordReview :: "string \<Rightarrow> evidenceRef \<Rightarrow> Projection \<Rightarrow> Projection outcome" where
  "recordReview rid ref p =
     guard (check (p_reviews p rid \<noteq> None) CategoryConflict) p
     (None, p\<lparr>p_reviews := (p_reviews p)(rid \<mapsto> ref)\<rparr>)"

definition evidence_check ::
  "(string \<rightharpoonup> evidenceRef) \<Rightarrow> Task \<Rightarrow> Attempt \<Rightarrow> string \<Rightarrow> go_error option" where
  "evidence_check index task attempt eid =
     (case index eid of
        None \<Rightarrow> Some (New CategoryIntegrity)
      | Some ref \<Rightarrow> first_err
          [check (ev_scope ref \<noteq> '''' \<and> ev_scope ref \<noteq> ''attempt'') CategoryIntegrity,
           check (ev_taskID ref \<noteq> t_ID task) CategoryIntegrity,
           check (ev_attemptID ref \<noteq> a_ID attempt) CategoryIntegrity,
           check (ev_commit ref \<noteq> '''' \<and> ev_commit ref \<noteq> a_CandidateCommit attempt)
             CategoryIntegrity])"

definition requireEvidenceFor ::
  "(string \<rightharpoonup> evidenceRef) \<Rightarrow> string list \<Rightarrow> Task \<Rightarrow> Attempt \<Rightarrow> go_error option" where
  "requireEvidenceFor index ids task attempt =
     first_err (map (evidence_check index task attempt) ids)"

lemma requireTaskInState_ok:
  "requireTaskInState p tid s = Inr t \<longleftrightarrow> p_tasks p tid = Some t \<and> t_State t = s"
  by (auto simp: requireTaskInState_def Task_of_def split: option.splits)

lemma requireAttemptOf_ok:
  "requireAttemptOf p tid aid = Inr a \<longleftrightarrow>
     aid \<noteq> '''' \<and> p_attempts p aid = Some a \<and> a_TaskID a = tid"
  by (auto simp: requireAttemptOf_def Attempt_of_def split: option.splits)

lemma requireCandidate_ok:
  "requireCandidate a = None \<longleftrightarrow>
     a_Status a = StatusCandidateProduced \<and> a_CandidateCommit a \<noteq> ''''"
  by (simp add: requireCandidate_def)

lemma requireCandidateCommit_ok:
  "requireCandidateCommit a c = None \<longleftrightarrow> c \<noteq> '''' \<and> c = a_CandidateCommit a"
  by (simp add: requireCandidateCommit_def)

lemma evidence_check_ok:
  "evidence_check index t a i = None \<longleftrightarrow>
     (\<exists>ref. index i = Some ref \<and> ev_scope ref \<in> {'''', ''attempt''} \<and> ev_taskID ref = t_ID t \<and>
        ev_attemptID ref = a_ID a \<and> ev_commit ref \<in> {'''', a_CandidateCommit a})"
  by (auto simp: evidence_check_def split: option.splits)

lemma requireEvidenceFor_ok:
  "requireEvidenceFor index ids t a = None \<longleftrightarrow>
     (\<forall>i \<in> set ids. evidence_check index t a i = None)"
  by (auto simp: requireEvidenceFor_def first_err_None_iff)

lemmas lineage_ok = requireTaskInState_ok requireAttemptOf_ok requireCandidate_ok
  requireCandidateCommit_ok

end
