(* ===== verification/Reducer.thy ===== *)
theory Reducer
  imports Projection
begin

text \<open>
  internal/state/reduce.go: Apply and every operation it dispatches to. Each operation returns the
  error and the projection as the code leaves it, so a mutation made before a later check fails
  stays visible; that no operation does this is a theorem of the theory Invariant.
\<close>

section \<open>Project facts\<close>

definition applyProjectInitialized ::
  "Event \<Rightarrow> ProjectInitialized \<Rightarrow> Projection \<Rightarrow> Projection outcome" where
  [op_defs]: "applyProjectInitialized e pl p =
     (None, p\<lparr>p_initialised := True, p_ProjectID := ev_ProjectID e, p_Name := pi_Name pl,
              p_AcceptedCommit := pi_AcceptedCommit pl, p_Branch := pi_Branch pl,
              p_RepositoryPath := pi_RepositoryPath pl, p_VisionRef := pi_VisionRef pl,
              p_CurrentOutcome := pi_CurrentOutcome pl,
              p_Milestone := \<lparr>mi_ID = pi_MilestoneID pl, mi_Title = pi_MilestoneTitle pl,
                mi_Status = '''', mi_CompletedTasks = 0, mi_TotalTasks = 0\<rparr>,
              p_ActiveInvariants := sort (pi_ActiveInvariants pl)\<rparr>)"

definition applyMilestoneStarted :: "MilestoneStarted \<Rightarrow> Projection \<Rightarrow> Projection outcome" where
  [op_defs]: "applyMilestoneStarted pl p =
     (None, p\<lparr>p_Milestone := \<lparr>mi_ID = ms_MilestoneID pl, mi_Title = ms_Title pl,
                mi_Status = ms_Status pl, mi_CompletedTasks = 0, mi_TotalTasks = 0\<rparr>\<rparr>)"

definition applyHealthReportRecorded ::
  "HealthReportRecorded \<Rightarrow> Projection \<Rightarrow> Projection outcome" where
  [op_defs]: "applyHealthReportRecorded pl p =
     (None, p\<lparr>p_Health := \<lparr>hs_Status = hr_Status pl, hs_LastReportID = Some (hr_ReportID pl),
                           hs_KnownDebt = hr_KnownDebt pl\<rparr>\<rparr>)"

definition applyComponentDeclared :: "ComponentDeclared \<Rightarrow> Projection \<Rightarrow> Projection outcome" where
  [op_defs]: "applyComponentDeclared pl p =
     (let component = \<lparr>cs_ID = cd_ComponentID pl,
            cs_Responsibility =
              (if cd_Responsibility pl \<noteq> '''' then Some (cd_Responsibility pl) else None),
            cs_Status = cd_Status pl, cs_ContractState = cd_ContractState pl,
            cs_EvidenceRefs = cd_EvidenceRefs pl\<rparr>
      in (None, p\<lparr>p_componentIDs :=
                    (if p_components p (cd_ComponentID pl) = None
                     then p_componentIDs p @ [cd_ComponentID pl] else p_componentIDs p),
                  p_components := (p_components p)(cd_ComponentID pl \<mapsto> component)\<rparr>))"

definition applyModuleCatalogRecorded ::
  "ModuleCatalogRecorded \<Rightarrow> Projection \<Rightarrow> Projection outcome" where
  [op_defs]: "applyModuleCatalogRecorded pl p = (None, p\<lparr>p_modules := mc_Modules pl\<rparr>)"

definition applyDecisionRequired :: "DecisionRequired \<Rightarrow> Projection \<Rightarrow> Projection outcome" where
  [op_defs]: "applyDecisionRequired pl p =
     guard (check (p_decisionsRequired p (dr_DecisionRequiredID pl) \<noteq> None) CategoryConflict) p
     (None, p\<lparr>p_decisionsRequired := (p_decisionsRequired p)(dr_DecisionRequiredID pl \<mapsto>
                \<lparr>od_ID = dr_DecisionRequiredID pl, od_Question = dr_Question pl,
                 od_Authority = dr_Authority pl, od_EvidenceRefs = dr_EvidenceRefs pl\<rparr>),
              p_decisionRequiredIDs := p_decisionRequiredIDs p @ [dr_DecisionRequiredID pl]\<rparr>)"

definition applyDecisionRecorded :: "DecisionRecorded \<Rightarrow> Projection \<Rightarrow> Projection outcome" where
  [op_defs]: "applyDecisionRecorded pl p =
     guard (check (dc_ResolvesDecisionRequired pl \<noteq> '''' \<and>
                   p_decisionsRequired p (dc_ResolvesDecisionRequired pl) = None)
              CategoryIntegrity) p
     (guard (check (dc_DecisionID pl \<in> set (p_ActiveDecisions p)) CategoryConflict) p
     (let p1 = (if dc_ResolvesDecisionRequired pl \<noteq> ''''
                then p\<lparr>p_decisionsRequired :=
                         (p_decisionsRequired p)(dc_ResolvesDecisionRequired pl := None),
                       p_decisionRequiredIDs :=
                         removeString (p_decisionRequiredIDs p) (dc_ResolvesDecisionRequired pl)\<rparr>
                else p)
      in (None, p1\<lparr>p_ActiveDecisions := p_ActiveDecisions p1 @ [dc_DecisionID pl]\<rparr>)))"

definition applyRiskRecorded :: "RiskRecorded \<Rightarrow> Projection \<Rightarrow> Projection outcome" where
  [op_defs]: "applyRiskRecorded pl p =
     guard (check (p_risks p (rk_RiskID pl) \<noteq> None) CategoryConflict) p
     (None, p\<lparr>p_risks := (p_risks p)(rk_RiskID pl \<mapsto>
                \<lparr>risk_ID = rk_RiskID pl, risk_Severity = rk_Severity pl,
                 risk_Statement = rk_Statement pl, risk_EvidenceRefs = rk_EvidenceRefs pl\<rparr>),
              p_riskIDs := p_riskIDs p @ [rk_RiskID pl]\<rparr>)"

definition applyRiskResolved :: "RiskResolved \<Rightarrow> Projection \<Rightarrow> Projection outcome" where
  [op_defs]: "applyRiskResolved pl p =
     guard (check (p_risks p (rr_RiskID pl) = None) CategoryIntegrity) p
     (None, p\<lparr>p_risks := (p_risks p)(rr_RiskID pl := None),
              p_riskIDs := removeString (p_riskIDs p) (rr_RiskID pl)\<rparr>)"

section \<open>Tasks\<close>

definition new_task :: "Event \<Rightarrow> TaskCreated \<Rightarrow> Projection \<Rightarrow> Task" where
  "new_task e pl p =
     \<lparr>t_ID = tc_TaskID pl, t_ProjectID = ev_ProjectID e, t_Alias = tc_Alias pl,
      t_Title = tc_Title pl,
      t_MilestoneID =
        (if tc_MilestoneID pl = '''' then mi_ID (p_Milestone p) else tc_MilestoneID pl),
      t_ChangeClass = tc_ChangeClass pl, t_State = StateProposed, t_WorkPackageID = '''',
      t_WorkPackageVersion = 0, t_CurrentAttemptID = '''', t_Blocked = None,
      t_AcceptedCommit = '''', t_CreatedSeq = ev_Seq e, t_UpdatedSeq = ev_Seq e\<rparr>"

definition applyTaskCreated :: "Event \<Rightarrow> TaskCreated \<Rightarrow> Projection \<Rightarrow> Projection outcome" where
  [op_defs]: "applyTaskCreated e pl p =
     guard (check (p_tasks p (tc_TaskID pl) \<noteq> None) CategoryConflict) p
     (guard (check (p_aliases p (tc_Alias pl) \<noteq> None) CategoryConflict) p
     (let task = new_task e pl p
      in guard (Task_Validate task) p
         (None, p\<lparr>p_tasks := (p_tasks p)(t_ID task \<mapsto> task),
                  p_taskIDs := p_taskIDs p @ [t_ID task],
                  p_aliases := (p_aliases p)(t_Alias task \<mapsto> t_ID task)\<rparr>)))"

text \<open>transitionTask: the mutate callback returns an error or the staged task it changed.\<close>

definition transitionTask ::
  "Event \<Rightarrow> string \<Rightarrow> State \<Rightarrow> (Task \<Rightarrow> go_error + Task) \<Rightarrow> Projection \<Rightarrow> Projection outcome" where
  "transitionTask e taskID to_s mutate p =
     with_result (Task_of p taskID) p (\<lambda>task.
     guard (CheckTransition (t_State task) to_s) p
     (with_result (mutate (task\<lparr>t_State := to_s\<rparr>)) p (\<lambda>mutated.
      let staged = mutated\<lparr>t_UpdatedSeq := ev_Seq e\<rparr>
      in guard (Task_Validate staged) p (None, put_task staged taskID p))))"

definition applyTaskScoutingStarted ::
  "Event \<Rightarrow> TaskScoutingStarted \<Rightarrow> Projection \<Rightarrow> Projection outcome" where
  [op_defs]: "applyTaskScoutingStarted e pl p =
     transitionTask e (ts_TaskID pl) StateScouting Inr p"

definition applyTaskDesignStarted ::
  "Event \<Rightarrow> TaskDesignStarted \<Rightarrow> Projection \<Rightarrow> Projection outcome" where
  [op_defs]: "applyTaskDesignStarted e pl p =
     transitionTask e (td_TaskID pl) StateDesigning (\<lambda>t. Inr (t\<lparr>t_Blocked := None\<rparr>)) p"

definition proposed_version :: "Projection \<Rightarrow> string \<Rightarrow> int" where
  "proposed_version p wid = (case p_proposals p wid of None \<Rightarrow> 0 | Some v \<Rightarrow> v)"

definition applyWorkPackageProposed ::
  "WorkPackageProposed \<Rightarrow> Projection \<Rightarrow> Projection outcome" where
  [op_defs]: "applyWorkPackageProposed pl p =
     with_result (requireTaskInState p (wp_TaskID pl) StateDesigning) p (\<lambda>task.
     guard (check (wp_Version pl \<le> proposed_version p (wp_WorkPackageID pl)) CategoryConflict) p
     (guard (check (t_WorkPackageID task = wp_WorkPackageID pl \<and>
                    wp_Version pl \<le> t_WorkPackageVersion task) CategoryConflict) p
     (None, p\<lparr>p_proposals := (p_proposals p)(wp_WorkPackageID pl \<mapsto> wp_Version pl)\<rparr>)))"

definition approve_mutation :: "WorkPackageApproved \<Rightarrow> Task \<Rightarrow> go_error + Task" where
  "approve_mutation pl t =
     (if t_WorkPackageID t = wa_WorkPackageID pl \<and>
         wa_WorkPackageVersion pl \<le> t_WorkPackageVersion t
      then Inl (New CategoryConflict)
      else
        (let t1 = t\<lparr>t_WorkPackageID := wa_WorkPackageID pl,
                    t_WorkPackageVersion := wa_WorkPackageVersion pl\<rparr>
         in Inr (if wa_ChangeClass pl \<noteq> UnknownChangeClass ''''
                 then t1\<lparr>t_ChangeClass := wa_ChangeClass pl\<rparr> else t1)))"

definition applyWorkPackageApproved ::
  "Event \<Rightarrow> WorkPackageApproved \<Rightarrow> Projection \<Rightarrow> Projection outcome" where
  [op_defs]: "applyWorkPackageApproved e pl p =
     transitionTask e (wa_TaskID pl) StateReady (approve_mutation pl) p"

definition applyTaskDelegated ::
  "Event \<Rightarrow> TaskDelegated \<Rightarrow> Projection \<Rightarrow> Projection outcome" where
  [op_defs]: "applyTaskDelegated e pl p =
     transitionTask e (dg_TaskID pl) StateRunning
       (\<lambda>t. if t_WorkPackageID t \<noteq> dg_WorkPackageID pl then Inl (New CategoryIntegrity)
             else Inr t) p"

section \<open>Attempts\<close>

text \<open>
  The loop over the task's attempts dereferences each entry, which would panic on an id that is
  not in the map; the model reads such an id as not running, and the invariant shows that every
  listed id is in the map.
\<close>

definition running_attempt :: "Projection \<Rightarrow> string \<Rightarrow> bool" where
  "running_attempt p aid =
     (case p_attempts p aid of None \<Rightarrow> False | Some a \<Rightarrow> a_Status a = StatusRunning)"

definition new_attempt :: "Event \<Rightarrow> AttemptStarted \<Rightarrow> Projection \<Rightarrow> Attempt" where
  "new_attempt e pl p =
     \<lparr>a_ID = as_AttemptID pl, a_ProjectID = ev_ProjectID e, a_TaskID = as_TaskID pl,
      a_Ordinal = int (length (p_attemptsByTask p (as_TaskID pl))) + 1,
      a_WorkPackageID = as_WorkPackageID pl, a_WorkPackageVersion = as_WorkPackageVersion pl,
      a_ProjectStateRevision = as_ProjectStateRevision pl, a_BaseCommit = as_BaseCommit pl,
      a_WorkerRole = as_WorkerRole pl, a_WorkerProfile = as_WorkerProfile pl,
      a_ModelIdentity = as_ModelIdentity pl, a_WorktreeID = as_WorktreeID pl,
      a_Status = StatusRunning, a_StartedAt = ev_OccurredAt e, a_FinishedAt = None,
      a_CandidateCommit = '''', a_RepairIterations = 0, a_BlockReason = None,
      a_FailureSummary = '''', a_Artifacts = [], a_CreatedSeq = ev_Seq e,
      a_UpdatedSeq = ev_Seq e\<rparr>"

definition add_attempt :: "Attempt \<Rightarrow> string \<Rightarrow> Projection \<Rightarrow> Projection" where
  "add_attempt a tid p =
     p\<lparr>p_attempts := (p_attempts p)(a_ID a \<mapsto> a),
       p_attemptsByTask := (p_attemptsByTask p)(tid := p_attemptsByTask p tid @ [a_ID a])\<rparr>"

definition applyAttemptStarted ::
  "Event \<Rightarrow> AttemptStarted \<Rightarrow> Projection \<Rightarrow> Projection outcome" where
  [op_defs]: "applyAttemptStarted e pl p =
     with_result (Task_of p (as_TaskID pl)) p (\<lambda>task.
     guard (check (t_State task \<noteq> StateRunning) CategoryInvalidTransition) p
     (guard (check (as_WorkPackageID pl \<noteq> t_WorkPackageID task) CategoryIntegrity) p
     (guard (check (as_WorkPackageVersion pl \<noteq> t_WorkPackageVersion task) CategoryIntegrity) p
     (guard (check (p_attempts p (as_AttemptID pl) \<noteq> None) CategoryConflict) p
     (guard (check (list_ex (running_attempt p) (p_attemptsByTask p (as_TaskID pl)))
               CategoryConflict) p
     (let attempt = new_attempt e pl p
      in guard (Attempt_Validate attempt) p
         (None, put_task (task\<lparr>t_CurrentAttemptID := a_ID attempt, t_UpdatedSeq := ev_Seq e\<rparr>)
                  (as_TaskID pl) (add_attempt attempt (as_TaskID pl) p))))))))"

definition finishAttempt ::
  "Event \<Rightarrow> string \<Rightarrow> string \<Rightarrow> AttemptStatus \<Rightarrow> (Attempt \<Rightarrow> Attempt) \<Rightarrow> Projection
     \<Rightarrow> Projection outcome" where
  "finishAttempt e taskID attemptID to_s mutate p =
     with_result (Attempt_of p attemptID) p (\<lambda>attempt.
     guard (check (a_TaskID attempt \<noteq> taskID) CategoryIntegrity) p
     (guard (CheckAttemptTransition (a_Status attempt) to_s) p
     (let staged = mutate (attempt\<lparr>a_Status := to_s, a_FinishedAt := Some (ev_OccurredAt e),
                                   a_UpdatedSeq := ev_Seq e\<rparr>)
      in guard (Attempt_Validate staged) p (None, put_attempt staged attemptID p))))"

definition applyCandidateProduced ::
  "Event \<Rightarrow> CandidateProduced \<Rightarrow> Projection \<Rightarrow> Projection outcome" where
  [op_defs]: "applyCandidateProduced e pl p =
     with_result (Task_of p (cp_TaskID pl)) p (\<lambda>task.
     guard (CheckTransition (t_State task) StateValidating) p
     (andThen
        (finishAttempt e (cp_TaskID pl) (cp_AttemptID pl) StatusCandidateProduced
           (\<lambda>a. a\<lparr>a_CandidateCommit := cp_CandidateCommit pl,
                  a_RepairIterations := cp_RepairIterations pl,
                  a_Artifacts := a_Artifacts a @ cp_Artifacts pl\<rparr>) p)
        (transitionTask e (cp_TaskID pl) StateValidating Inr)))"

definition applyAttemptBlocked ::
  "Event \<Rightarrow> AttemptBlocked \<Rightarrow> Projection \<Rightarrow> Projection outcome" where
  [op_defs]: "applyAttemptBlocked e pl p =
     (let reason = (ab_Reason pl)\<lparr>br_AttemptID := ab_AttemptID pl\<rparr>
      in finishAttempt e (ab_TaskID pl) (ab_AttemptID pl) StatusBlocked
           (\<lambda>a. a\<lparr>a_BlockReason := Some reason\<rparr>) p)"

definition applyAttemptFailed ::
  "Event \<Rightarrow> AttemptFailed \<Rightarrow> Projection \<Rightarrow> Projection outcome" where
  [op_defs]: "applyAttemptFailed e pl p =
     finishAttempt e (af_TaskID pl) (af_AttemptID pl)
       (if af_Cancelled pl then StatusCancelled else StatusFailed)
       (\<lambda>a. a\<lparr>a_FailureSummary := af_Summary pl,
              a_RepairIterations := af_RepairIterations pl,
              a_Artifacts := a_Artifacts a @ af_Artifacts pl\<rparr>) p"

section \<open>Evidence and decisions\<close>

definition applyAttemptValidation ::
  "Event \<Rightarrow> ValidationCompleted \<Rightarrow> Projection \<Rightarrow> Projection outcome" where
  [op_defs]: "applyAttemptValidation e pl p =
     with_result (requireTaskInState p (vc_TaskID pl) StateValidating) p (\<lambda>task.
     with_result (requireAttemptOf p (t_ID task) (vc_AttemptID pl)) p (\<lambda>attempt.
     guard (requireCandidate attempt) p
     (guard (requireCandidateCommit attempt (vc_Commit pl)) p
     (andThen
        (recordValidation (vc_ValidationID pl)
           \<lparr>ev_scope = ''attempt'', ev_taskID = t_ID task, ev_attemptID = a_ID attempt,
            ev_commit = a_CandidateCommit attempt\<rparr> p)
        (transitionTask e (vc_TaskID pl)
           (if vc_Status pl = OutcomePass then StateReviewing else StateRunning) Inr)))))"

definition applyIntegrationValidation ::
  "Event \<Rightarrow> ValidationCompleted \<Rightarrow> Projection \<Rightarrow> Projection outcome" where
  [op_defs]: "applyIntegrationValidation e pl p =
     with_result (requireTaskInState p (vc_TaskID pl) StateIntegrationValidating) p (\<lambda>task.
     andThen
       (recordValidation (vc_ValidationID pl)
          \<lparr>ev_scope = ''integration'', ev_taskID = t_ID task, ev_attemptID = '''',
           ev_commit = vc_Commit pl\<rparr> p)
       (\<lambda>p1. if vc_Status pl \<noteq> OutcomePass then (None, p1)
             else andThen (transitionTask e (vc_TaskID pl) StateDone Inr p1)
               (\<lambda>p2. (None, if vc_Commit pl \<noteq> '''' then p2\<lparr>p_AcceptedCommit := vc_Commit pl\<rparr>
                            else if t_AcceptedCommit task \<noteq> ''''
                            then p2\<lparr>p_AcceptedCommit := t_AcceptedCommit task\<rparr>
                            else p2))))"

definition baseline_status :: "ValidationOutcome \<Rightarrow> ValidationStatus" where
  "baseline_status s =
     (case s of OutcomePass \<Rightarrow> ValidationGreen
      | OutcomeCancelled \<Rightarrow> ValidationUnknown
      | OutcomeError \<Rightarrow> ValidationUnknown
      | _ \<Rightarrow> ValidationRed)"

definition applyBaselineValidation ::
  "ValidationCompleted \<Rightarrow> Projection \<Rightarrow> Projection outcome" where
  [op_defs]: "applyBaselineValidation pl p =
     (None, p\<lparr>p_Validation :=
        \<lparr>vs_Status = baseline_status (vc_Status pl),
         vs_AcceptedCommitVerified =
           (vc_Status pl = OutcomePass \<and> vc_Commit pl \<noteq> '''' \<and>
            vc_Commit pl = p_AcceptedCommit p),
         vs_LastFullValidationID = Some (vc_ValidationID pl)\<rparr>\<rparr>)"

definition applyValidationCompleted ::
  "Event \<Rightarrow> ValidationCompleted \<Rightarrow> Projection \<Rightarrow> Projection outcome" where
  [op_defs]: "applyValidationCompleted e pl p =
     (case vc_Scope pl of
        ScopeBaseline \<Rightarrow> applyBaselineValidation pl p
      | ScopeAttempt \<Rightarrow> applyAttemptValidation e pl p
      | ScopeIntegration \<Rightarrow> applyIntegrationValidation e pl p
      | _ \<Rightarrow> (Some (New CategoryInternal), p))"

definition applyReviewCompleted :: "ReviewCompleted \<Rightarrow> Projection \<Rightarrow> Projection outcome" where
  [op_defs]: "applyReviewCompleted pl p =
     with_result (requireTaskInState p (rc_TaskID pl) StateReviewing) p (\<lambda>task.
     with_result (requireAttemptOf p (t_ID task) (rc_AttemptID pl)) p (\<lambda>attempt.
     guard (requireCandidate attempt) p
     (guard (check (rc_WorkPackageID pl \<noteq> a_WorkPackageID attempt) CategoryIntegrity) p
     (recordReview (rc_ReviewID pl)
        \<lparr>ev_scope = ''attempt'', ev_taskID = t_ID task, ev_attemptID = a_ID attempt,
         ev_commit = a_CandidateCommit attempt\<rparr> p))))"

definition applyChangeAccepted ::
  "Event \<Rightarrow> ChangeAccepted \<Rightarrow> Projection \<Rightarrow> Projection outcome" where
  [op_defs]: "applyChangeAccepted e pl p =
     with_result (requireTaskInState p (ca_TaskID pl) StateReviewing) p (\<lambda>task.
     with_result (requireAttemptOf p (t_ID task) (ca_AttemptID pl)) p (\<lambda>attempt.
     guard (requireCandidate attempt) p
     (guard (requireCandidateCommit attempt (ca_CandidateCommit pl)) p
     (guard (check (ca_WorkPackageID pl \<noteq> t_WorkPackageID task) CategoryIntegrity) p
     (guard (check (a_WorkPackageID attempt \<noteq> t_WorkPackageID task \<or>
                    a_WorkPackageVersion attempt \<noteq> t_WorkPackageVersion task)
               CategoryIntegrity) p
     (guard (requireEvidenceFor (p_validations p) (ca_ValidationIDs pl) task attempt) p
     (guard (requireEvidenceFor (p_reviews p) (ca_ReviewIDs pl) task attempt) p
     (andThen
        (transitionTask e (ca_TaskID pl) StateAccepted
           (\<lambda>t. Inr (t\<lparr>t_AcceptedCommit := ca_CandidateCommit pl\<rparr>)) p)
        (\<lambda>p1. (None, p1\<lparr>p_semanticChanges := p_semanticChanges p1 @
           [\<lparr>sc_TaskID = t_Alias task, sc_Commit = Some (ca_CandidateCommit pl),
             sc_Summary = ca_SemanticSummary pl\<rparr>]\<rparr>))))))))))"

definition applyChangeRejected ::
  "Event \<Rightarrow> ChangeRejected \<Rightarrow> Projection \<Rightarrow> Projection outcome" where
  [op_defs]: "applyChangeRejected e pl p =
     with_result (requireTaskInState p (cr_TaskID pl) StateReviewing) p (\<lambda>task.
     with_result (requireAttemptOf p (t_ID task) (cr_AttemptID pl)) p (\<lambda>attempt.
     guard (requireCandidate attempt) p
     (transitionTask e (cr_TaskID pl) StateRunning Inr p)))"

definition applyEscalationRaised ::
  "Event \<Rightarrow> EscalationRaised \<Rightarrow> Projection \<Rightarrow> Projection outcome" where
  [op_defs]: "applyEscalationRaised e pl p =
     with_result (Task_of p (er_TaskID pl)) p (\<lambda>task.
     guard (if br_AttemptID (er_Reason pl) \<noteq> ''''
            then (case requireAttemptOf p (t_ID task) (br_AttemptID (er_Reason pl)) of
                    Inl err \<Rightarrow> Some err | Inr _ \<Rightarrow> None)
            else None) p
     (let reason = (er_Reason pl)\<lparr>br_BlockedFrom := t_State task\<rparr>
      in transitionTask e (er_TaskID pl) StateBlocked
           (\<lambda>t. Inr (t\<lparr>t_Blocked := Some reason\<rparr>)) p))"

definition applyIntegrationStarted ::
  "Event \<Rightarrow> IntegrationStarted \<Rightarrow> Projection \<Rightarrow> Projection outcome" where
  [op_defs]: "applyIntegrationStarted e pl p =
     transitionTask e (is_TaskID pl) StateIntegrating Inr p"

definition applyIntegrationValidationStarted ::
  "Event \<Rightarrow> IntegrationValidationStarted \<Rightarrow> Projection \<Rightarrow> Projection outcome" where
  [op_defs]: "applyIntegrationValidationStarted e pl p =
     transitionTask e (iv_TaskID pl) StateIntegrationValidating Inr p"

section \<open>Dispatch\<close>

text \<open>An operation on the discovery working set the projection points to.\<close>

definition on_discovery ::
  "(discoveryState \<Rightarrow> discoveryState outcome) \<Rightarrow> Projection \<Rightarrow> Projection outcome" where
  "on_discovery f p = (case f (p_discovery p) of (err, d) \<Rightarrow> (err, p\<lparr>p_discovery := d\<rparr>))"

primrec applyPayload :: "Event \<Rightarrow> Payload \<Rightarrow> Projection \<Rightarrow> Projection outcome" where
  "applyPayload e (PProjectInitialized pl) p = applyProjectInitialized e pl p"
| "applyPayload e (PMilestoneStarted pl) p = applyMilestoneStarted pl p"
| "applyPayload e (PRequirementRecorded pl) p = on_discovery (applyRequirementRecorded pl) p"
| "applyPayload e (PComponentDeclared pl) p = applyComponentDeclared pl p"
| "applyPayload e (PDesignCandidateCreated pl) p = (None, p)"
| "applyPayload e (PDecisionRequired pl) p = applyDecisionRequired pl p"
| "applyPayload e (PDecisionRecorded pl) p = applyDecisionRecorded pl p"
| "applyPayload e (PRiskRecorded pl) p = applyRiskRecorded pl p"
| "applyPayload e (PRiskResolved pl) p = applyRiskResolved pl p"
| "applyPayload e (PHealthReportRecorded pl) p = applyHealthReportRecorded pl p"
| "applyPayload e (PModuleCatalogRecorded pl) p = applyModuleCatalogRecorded pl p"
| "applyPayload e (PTaskCreated pl) p = applyTaskCreated e pl p"
| "applyPayload e (PTaskScoutingStarted pl) p = applyTaskScoutingStarted e pl p"
| "applyPayload e (PTaskDesignStarted pl) p = applyTaskDesignStarted e pl p"
| "applyPayload e (PWorkPackageProposed pl) p = applyWorkPackageProposed pl p"
| "applyPayload e (PWorkPackageApproved pl) p = applyWorkPackageApproved e pl p"
| "applyPayload e (PTaskDelegated pl) p = applyTaskDelegated e pl p"
| "applyPayload e (PAttemptStarted pl) p = applyAttemptStarted e pl p"
| "applyPayload e (PCandidateProduced pl) p = applyCandidateProduced e pl p"
| "applyPayload e (PAttemptBlocked pl) p = applyAttemptBlocked e pl p"
| "applyPayload e (PAttemptFailed pl) p = applyAttemptFailed e pl p"
| "applyPayload e (PValidationCompleted pl) p = applyValidationCompleted e pl p"
| "applyPayload e (PReviewInvocationStarted pl) p = (None, p)"
| "applyPayload e (PReviewCompleted pl) p = applyReviewCompleted pl p"
| "applyPayload e (PChangeAccepted pl) p = applyChangeAccepted e pl p"
| "applyPayload e (PChangeRejected pl) p = applyChangeRejected e pl p"
| "applyPayload e (PEscalationRaised pl) p = applyEscalationRaised e pl p"
| "applyPayload e (PIntegrationStarted pl) p = applyIntegrationStarted e pl p"
| "applyPayload e (PIntegrationValidationStarted pl) p = applyIntegrationValidationStarted e pl p"
| "applyPayload e (PProblemModelRevised pl) p = on_discovery (applyProblemModelRevised pl) p"
| "applyPayload e (PAmbiguityOpened pl) p = on_discovery (applyAmbiguityOpened pl) p"
| "applyPayload e (PAmbiguityResolved pl) p = on_discovery (applyAmbiguityResolved pl) p"
| "applyPayload e (PProductDecisionRecorded pl) p = on_discovery (applyProductDecisionRecorded pl) p"
| "applyPayload e (PSpecificationReadinessRecorded pl) p = on_discovery (applyReadinessRecorded pl) p"
| "applyPayload e (PDiscoveryExperimentStarted pl) p = (None, p)"
| "applyPayload e (PDiscoveryExperimentCompleted pl) p = (None, p)"
| "applyPayload e (PSpecificationReviewCompleted pl) p = (None, p)"
| "applyPayload e (PLessonCandidateCreated pl) p = (None, p)"
| "applyPayload e (PLessonPromoted pl) p = (None, p)"
| "applyPayload e (PRefactoringEpochStarted pl) p = (None, p)"
| "applyPayload e (PArchitectureReconciled pl) p = (None, p)"

text \<open>Apply: the envelope, the sequence, the project, then the payload and the watermark. A nil
  payload matches no case of the dispatch.\<close>

definition Apply :: "Event \<Rightarrow> Projection \<Rightarrow> Projection outcome" where
  "Apply e p =
     guard (Event_Validate e) p
     (guard (check (ev_Seq e \<le> p_HighWatermark p) CategoryIntegrity) p
     (guard (if p_initialised p
             then first_err
               [check (ev_ProjectID e \<noteq> p_ProjectID p) CategoryIntegrity,
                check (ev_EventType e = ''ProjectInitialized'') CategoryIntegrity]
             else check (ev_EventType e \<noteq> ''ProjectInitialized'') CategoryIntegrity) p
     (andThen
        (case ev_Payload e of
           None \<Rightarrow> (Some (New CategoryInternal), p)
         | Some pl \<Rightarrow> applyPayload e pl p)
        (\<lambda>p1. (None, p1\<lparr>p_HighWatermark := ev_Seq e, p_LastOccurredAt := ev_OccurredAt e\<rparr>)))))"

text \<open>Reduce stops at the first event Apply refuses and returns its error.\<close>

fun reduce_from :: "Projection \<Rightarrow> Event list \<Rightarrow> go_error + Projection" where
  "reduce_from p [] = Inr p"
| "reduce_from p (e # es) =
     (case Apply e p of (Some err, _) \<Rightarrow> Inl err | (None, p1) \<Rightarrow> reduce_from p1 es)"

definition Reduce :: "Event list \<Rightarrow> go_error + Projection" where
  "Reduce stream = reduce_from New_Projection stream"

end
