(* ===== verification/Invariant.thy ===== *)
theory Invariant
  imports Reducer
begin

text \<open>
  The well-formedness of a projection and its preservation by every operation of the reducer, and
  the proof that a refused event changes nothing. The invariant has five parts: the registries
  (components, risks, open decisions), the tasks with their aliases, the attempts with their order
  per task, the recorded evidence, and the justification of accepted tasks.
\<close>

section \<open>The invariant\<close>

text \<open>A registry: a map beside the list of its keys, with well-formed entries.\<close>

definition registry :: "('k \<Rightarrow> 'v \<Rightarrow> bool) \<Rightarrow> ('k \<rightharpoonup> 'v) \<Rightarrow> 'k list \<Rightarrow> bool" where
  "registry good m ks \<longleftrightarrow> indexed m ks \<and> (\<forall>k v. m k = Some v \<longrightarrow> good k v)"

lemma registry_empty [simp]: "registry good Map.empty []"
  by (simp add: registry_def)

lemma registry_insert: "registry good m ks \<Longrightarrow> m k = None \<Longrightarrow> good k v \<Longrightarrow> registry good (m(k \<mapsto> v)) (ks @ [k])"
  by (auto simp: registry_def indexed_insert)

lemma registry_put: "registry good m ks \<Longrightarrow> good k v \<Longrightarrow>
    registry good (m(k \<mapsto> v)) (if m k = None then ks @ [k] else ks)"
  by (simp add: registry_insert) (auto simp: registry_def indexed_overwrite)

lemma registry_delete: "registry good m ks \<Longrightarrow> registry good (m(k := None)) (removeString ks k)"
  by (simp add: registry_def removeString_def indexed_delete)

lemma registry_lookup: "registry good m ks \<Longrightarrow> k \<in> set ks \<Longrightarrow> \<exists>v. m k = Some v \<and> good k v"
  by (auto simp: registry_def dest: indexed_lookup)

definition wf_component :: "string \<Rightarrow> ComponentState \<Rightarrow> bool" where
  "wf_component k c \<longleftrightarrow> cs_ID c = k \<and> k \<noteq> '''' \<and> cs_Status c \<noteq> '''' \<and>
     (cs_ContractState c \<noteq> UnknownContractState '''' \<longrightarrow> ContractState_Valid (cs_ContractState c))"

definition wf_risk :: "string \<Rightarrow> Risk \<Rightarrow> bool" where
  "wf_risk k r \<longleftrightarrow>
     risk_ID r = k \<and> k \<noteq> '''' \<and> Severity_ValidRisk (risk_Severity r) \<and> risk_Statement r \<noteq> ''''"

definition wf_open :: "string \<Rightarrow> OpenDecision \<Rightarrow> bool" where
  "wf_open k d \<longleftrightarrow>
     od_ID d = k \<and> k \<noteq> '''' \<and> od_Question d \<noteq> '''' \<and> DecisionAuthority_Valid (od_Authority d)"

definition inv_registry :: "Projection \<Rightarrow> bool" where
  "inv_registry p \<longleftrightarrow>
     registry wf_component (p_components p) (p_componentIDs p) \<and>
     registry wf_risk (p_risks p) (p_riskIDs p) \<and>
     registry wf_open (p_decisionsRequired p) (p_decisionRequiredIDs p) \<and>
     distinct (p_ActiveDecisions p) \<and>
     ValidationStatus_Valid (vs_Status (p_Validation p)) \<and>
     HealthStatus_Valid (hs_Status (p_Health p))"

definition inv_project :: "Projection \<Rightarrow> bool" where
  "inv_project p \<longleftrightarrow>
     0 \<le> p_HighWatermark p \<and> (\<not> p_initialised p \<longrightarrow> p = New_Projection) \<and>
     (p_initialised p \<longrightarrow> p_ProjectID p \<noteq> '''' \<and> mi_ID (p_Milestone p) \<noteq> '''' \<and>
        mi_Title (p_Milestone p) \<noteq> '''')"

definition inv_changes :: "Projection \<Rightarrow> bool" where
  "inv_changes p \<longleftrightarrow>
     (\<forall>c \<in> set (p_semanticChanges p). sc_TaskID c \<noteq> '''' \<and> sc_Summary c \<noteq> '''')"

definition wf_task :: "Projection \<Rightarrow> string \<Rightarrow> Task \<Rightarrow> bool" where
  "wf_task p tid t \<longleftrightarrow>
     t_ID t = tid \<and> Task_Validate t = None \<and> t_Alias t \<noteq> '''' \<and>
     t_ProjectID t = p_ProjectID p \<and> p_aliases p (t_Alias t) = Some tid \<and>
     t_CurrentAttemptID t =
       (if p_attemptsByTask p tid = [] then '''' else last (p_attemptsByTask p tid))"

definition inv_tasks :: "Projection \<Rightarrow> bool" where
  "inv_tasks p \<longleftrightarrow>
     indexed (p_tasks p) (p_taskIDs p) \<and>
     (\<forall>tid t. p_tasks p tid = Some t \<longrightarrow> wf_task p tid t) \<and>
     (\<forall>h tid. p_aliases p h = Some tid \<longrightarrow>
        (\<exists>t. p_tasks p tid = Some t \<and> t_Alias t = h))"

definition wf_attempt :: "Projection \<Rightarrow> string \<Rightarrow> Attempt \<Rightarrow> bool" where
  "wf_attempt p aid a \<longleftrightarrow>
     a_ID a = aid \<and> Attempt_Validate a = None \<and> p_tasks p (a_TaskID a) \<noteq> None \<and>
     aid \<in> set (p_attemptsByTask p (a_TaskID a))"

definition wf_order :: "Projection \<Rightarrow> string \<Rightarrow> bool" where
  "wf_order p tid \<longleftrightarrow>
     distinct (p_attemptsByTask p tid) \<and>
     (\<forall>i < length (p_attemptsByTask p tid). \<exists>a.
        p_attempts p (p_attemptsByTask p tid ! i) = Some a \<and> a_TaskID a = tid \<and>
        a_Ordinal a = int i + 1 \<and>
        (Suc i < length (p_attemptsByTask p tid) \<longrightarrow> a_Status a \<noteq> StatusRunning))"

definition inv_attempts :: "Projection \<Rightarrow> bool" where
  "inv_attempts p \<longleftrightarrow>
     (\<forall>aid a. p_attempts p aid = Some a \<longrightarrow> wf_attempt p aid a) \<and> (\<forall>tid. wf_order p tid)"

text \<open>A reference to evidence about a candidate: the attempt exists, is the task's, and produced it.\<close>

definition wf_evidence :: "Projection \<Rightarrow> evidenceRef \<Rightarrow> bool" where
  "wf_evidence p r \<longleftrightarrow>
     (\<exists>a. p_attempts p (ev_attemptID r) = Some a \<and> a_TaskID a = ev_taskID r \<and>
        a_Status a = StatusCandidateProduced \<and> a_CandidateCommit a = ev_commit r \<and>
        ev_commit r \<noteq> '''')"

definition inv_evidence :: "Projection \<Rightarrow> bool" where
  "inv_evidence p \<longleftrightarrow>
     (\<forall>v r. p_validations p v = Some r \<longrightarrow>
        ev_scope r = ''integration'' \<or> (ev_scope r = ''attempt'' \<and> wf_evidence p r)) \<and>
     (\<forall>v r. p_reviews p v = Some r \<longrightarrow> ev_scope r = ''attempt'' \<and> wf_evidence p r)"

text \<open>What acceptance rests on: an attempt of the task that produced exactly the accepted commit
  against the approved work package, with a recorded validation and a recorded review of it.\<close>

definition justified :: "Projection \<Rightarrow> Task \<Rightarrow> bool" where
  "justified p t \<longleftrightarrow>
     (\<exists>a v vr r rr.
        p_attempts p (a_ID a) = Some a \<and> a_TaskID a = t_ID t \<and>
        a_Status a = StatusCandidateProduced \<and> a_CandidateCommit a = t_AcceptedCommit t \<and>
        t_AcceptedCommit t \<noteq> '''' \<and> a_WorkPackageID a = t_WorkPackageID t \<and>
        a_WorkPackageVersion a = t_WorkPackageVersion t \<and>
        p_validations p v = Some vr \<and> ev_attemptID vr = a_ID a \<and> ev_commit vr = t_AcceptedCommit t \<and>
        p_reviews p r = Some rr \<and> ev_attemptID rr = a_ID a \<and> ev_commit rr = t_AcceptedCommit t)"

text \<open>What justification reads of the task.\<close>

lemma justified_cong:
  "t_ID u = t_ID t \<Longrightarrow> t_AcceptedCommit u = t_AcceptedCommit t \<Longrightarrow>
   t_WorkPackageID u = t_WorkPackageID t \<Longrightarrow> t_WorkPackageVersion u = t_WorkPackageVersion t \<Longrightarrow>
   justified p u = justified p t"
  by (simp only: justified_def)

definition accepted_states :: "State list" where
  "accepted_states =
     [StateAccepted, StateIntegrating, StateIntegrationValidating, StateDone]"

definition inv_accept :: "Projection \<Rightarrow> bool" where
  "inv_accept p \<longleftrightarrow>
     (\<forall>tid t. p_tasks p tid = Some t \<and> t_State t \<in> set accepted_states \<longrightarrow> justified p t)"

definition inv :: "Projection \<Rightarrow> bool" where
  "inv p \<longleftrightarrow> inv_project p \<and> inv_registry p \<and> inv_changes p \<and> inv_discovery (p_discovery p) \<and>
     inv_tasks p \<and> inv_attempts p \<and> inv_evidence p \<and> inv_accept p"

lemma inv_parts:
  assumes "inv p"
  shows "inv_project p" "inv_registry p" "inv_changes p" "inv_discovery (p_discovery p)"
    "inv_tasks p" "inv_attempts p" "inv_evidence p" "inv_accept p"
  using assms by (simp_all add: inv_def)

lemma inv_New: "inv New_Projection"
  by (simp add: inv_def inv_project_def inv_registry_def inv_changes_def inv_tasks_def
      inv_attempts_def inv_evidence_def inv_accept_def wf_order_def New_Projection_def
      inv_newDiscoveryState enum_defs)

section \<open>Frames\<close>

text \<open>The part of the projection the task, attempt, evidence and acceptance invariants read.\<close>

definition same_work :: "Projection \<Rightarrow> Projection \<Rightarrow> bool" where
  "same_work p q \<longleftrightarrow>
     p_ProjectID q = p_ProjectID p \<and> p_tasks q = p_tasks p \<and> p_taskIDs q = p_taskIDs p \<and>
     p_aliases q = p_aliases p \<and> p_attempts q = p_attempts p \<and>
     p_attemptsByTask q = p_attemptsByTask p \<and> p_validations q = p_validations p \<and>
     p_reviews q = p_reviews p"

definition inv_work :: "Projection \<Rightarrow> bool" where
  "inv_work p \<longleftrightarrow> inv_tasks p \<and> inv_attempts p \<and> inv_evidence p \<and> inv_accept p"

lemmas work_defs = inv_tasks_def inv_attempts_def inv_evidence_def inv_accept_def wf_task_def
  wf_attempt_def wf_order_def wf_evidence_def justified_def

lemma inv_work_cong: "same_work p q \<Longrightarrow> inv_work p \<Longrightarrow> inv_work q"
proof -
  assume "same_work p q"
  then have "inv_work q = inv_work p"
    by (simp only: same_work_def inv_work_def work_defs)
  then show "inv_work p \<Longrightarrow> inv_work q" by simp
qed

text \<open>The part the registry, project, change and discovery invariants read.\<close>

definition same_facts :: "Projection \<Rightarrow> Projection \<Rightarrow> bool" where
  "same_facts p q \<longleftrightarrow>
     p_ProjectID q = p_ProjectID p \<and> p_initialised q = p_initialised p \<and>
     p_HighWatermark q = p_HighWatermark p \<and> p_Milestone q = p_Milestone p \<and>
     p_components q = p_components p \<and> p_componentIDs q = p_componentIDs p \<and>
     p_risks q = p_risks p \<and> p_riskIDs q = p_riskIDs p \<and>
     p_decisionsRequired q = p_decisionsRequired p \<and>
     p_decisionRequiredIDs q = p_decisionRequiredIDs p \<and>
     p_ActiveDecisions q = p_ActiveDecisions p \<and> p_Validation q = p_Validation p \<and>
     p_Health q = p_Health p \<and> p_semanticChanges q = p_semanticChanges p \<and>
     p_discovery q = p_discovery p"

definition inv_facts :: "Projection \<Rightarrow> bool" where
  "inv_facts p \<longleftrightarrow> p_initialised p \<and> inv_project p \<and> inv_registry p \<and> inv_changes p \<and>
     inv_discovery (p_discovery p)"

lemma inv_facts_cong: "same_facts p q \<Longrightarrow> inv_facts p \<Longrightarrow> inv_facts q"
  by (simp add: same_facts_def inv_facts_def inv_project_def inv_registry_def inv_changes_def)

text \<open>Once the project is initialised the two halves are the invariant.\<close>

definition live :: "Projection \<Rightarrow> bool" where
  "live p \<longleftrightarrow> inv_facts p \<and> inv_work p"

lemma live_iff: "live p \<longleftrightarrow> inv p \<and> p_initialised p"
  by (auto simp: live_def inv_facts_def inv_work_def inv_def)

lemma live_facts: "live p \<Longrightarrow> inv_facts p"
  by (simp add: live_def)

lemma live_work: "live p \<Longrightarrow> inv_work p"
  by (simp add: live_def)

lemma live_by_facts: "live p \<Longrightarrow> same_work p q \<Longrightarrow> inv_facts q \<Longrightarrow> live q"
  by (auto simp: live_def intro: inv_work_cong)

lemma live_by_work: "live p \<Longrightarrow> same_facts p q \<Longrightarrow> inv_work q \<Longrightarrow> live q"
  by (auto simp: live_def intro: inv_facts_cong)

section \<open>Changing one task\<close>

lemma inv_tasks_task: "inv_tasks p \<Longrightarrow> p_tasks p tid = Some t \<Longrightarrow> wf_task p tid t"
  by (simp add: inv_tasks_def)

lemma live_task: "live p \<Longrightarrow> p_tasks p tid = Some t \<Longrightarrow> wf_task p tid t"
  by (simp add: live_def inv_work_def inv_tasks_task)

text \<open>Writing a task that keeps its identity and is valid, and justified if it is accepted, keeps
  everything.\<close>

definition same_identity :: "Task \<Rightarrow> Task \<Rightarrow> bool" where
  "same_identity t u \<longleftrightarrow> t_ID u = t_ID t \<and> t_Alias u = t_Alias t \<and>
     t_ProjectID u = t_ProjectID t \<and> t_CurrentAttemptID u = t_CurrentAttemptID t"

lemma p_tasks_put_task [simp]: "p_tasks (put_task u tid p) = (p_tasks p)(tid \<mapsto> u)"
  by (simp add: put_task_def)

lemma justified_put_task [simp]: "justified (put_task u tid p) t = justified p t"
  by (simp add: justified_def put_task_def)

lemma inv_work_put_task:
  assumes w: "inv_work p" and t: "p_tasks p tid = Some t" and u: "same_identity t u"
    and v: "Task_Validate u = None"
    and j: "t_State u \<in> set accepted_states \<Longrightarrow> justified p u"
  shows "inv_work (put_task u tid p)"
proof -
  have tasks: "inv_tasks p" "inv_attempts p" "inv_evidence p" "inv_accept p"
    using w by (simp_all add: inv_work_def)
  have wf: "wf_task p tid t" using tasks(1) t by (rule inv_tasks_task)
  have wf': "wf_task (put_task u tid p) k s \<longleftrightarrow> wf_task p k s" for k s
    by (simp add: wf_task_def put_task_def)
  have al: "t_Alias t = h" if "p_aliases p h = Some tid" for h
    using tasks(1) t that unfolding inv_tasks_def by fastforce
  have "wf_task p tid u" using wf u v by (simp add: wf_task_def same_identity_def)
  moreover have "t_Alias u = t_Alias t" using u by (simp add: same_identity_def)
  ultimately have "inv_tasks (put_task u tid p)"
    using tasks(1) t unfolding inv_tasks_def wf'
    by (auto simp: put_task_def intro: indexed_overwrite al)
  moreover have "inv_attempts (put_task u tid p)"
    using tasks(2) by (simp add: inv_attempts_def put_task_def wf_attempt_def wf_order_def)
  moreover have "inv_evidence (put_task u tid p)"
    using tasks(3) by (simp add: inv_evidence_def put_task_def wf_evidence_def)
  moreover have "inv_accept (put_task u tid p)"
    using tasks(4) j by (auto simp: inv_accept_def split: if_splits)
  ultimately show ?thesis by (simp add: inv_work_def)
qed

lemma same_facts_put_task [simp]: "same_facts p (put_task u tid p)"
  by (simp add: same_facts_def put_task_def)

lemma live_put_task:
  assumes "live p" "p_tasks p tid = Some t" "same_identity t u" "Task_Validate u = None"
    "t_State u \<in> set accepted_states \<Longrightarrow> justified p u"
  shows "live (put_task u tid p)"
  using assms by (blast intro: live_by_work same_facts_put_task inv_work_put_task live_work)

section \<open>Transitions\<close>

lemma transitionTask_ok:
  "transitionTask e tid to_s f p = (None, p') \<longleftrightarrow>
     (\<exists>t u. p_tasks p tid = Some t \<and> CanTransition (t_State t) to_s \<and>
        f (t\<lparr>t_State := to_s\<rparr>) = Inr u \<and> Task_Validate (u\<lparr>t_UpdatedSeq := ev_Seq e\<rparr>) = None \<and>
        p' = put_task (u\<lparr>t_UpdatedSeq := ev_Seq e\<rparr>) tid p)"
  by (auto simp: transitionTask_def outcome_ok Let_def CheckTransition_None)

lemma transitionTask_atomic [simp, intro]: "atomic p (transitionTask e tid to_s f p)"
  by (auto simp: transitionTask_def Let_def intro!: atomic_intros)

lemma Task_Validate_ok:
  "Task_Validate t = None \<longleftrightarrow>
     t_ID t \<noteq> '''' \<and> t_ProjectID t \<noteq> '''' \<and> t_Title t \<noteq> '''' \<and> State_Valid (t_State t) \<and>
     (t_ChangeClass t = UnknownChangeClass '''' \<or> ChangeClass_Valid (t_ChangeClass t)) \<and>
     ((t_State t = StateBlocked) = (t_Blocked t \<noteq> None)) \<and>
     (case t_Blocked t of None \<Rightarrow> True | Some r \<Rightarrow> BlockedReason_Validate r = None)"
  by (auto simp: Task_Validate_def split: option.splits)

text \<open>A step between states that are not blocked cannot fail after its check.\<close>

lemma transitionTask_succeeds:
  assumes l: "inv_tasks p" and t: "p_tasks p tid = Some t"
    and c: "CanTransition (t_State t) to_s" and nb: "t_State t \<noteq> StateBlocked"
      "to_s \<noteq> StateBlocked"
  shows "transitionTask e tid to_s Inr p =
    (None, put_task (t\<lparr>t_State := to_s, t_UpdatedSeq := ev_Seq e\<rparr>) tid p)"
proof -
  have v: "Task_Validate t = None" using inv_tasks_task [OF l t] by (simp add: wf_task_def)
  have s: "State_Valid to_s" using c by (simp add: CanTransition_def split: if_splits)
  have "Task_Validate (t\<lparr>t_State := to_s, t_UpdatedSeq := ev_Seq e\<rparr>) = None"
    using v s nb by (auto simp: Task_Validate_ok)
  then show ?thesis by (simp add: transitionTask_ok t c)
qed

lemma live_transition:
  assumes l: "live p" and tr: "transitionTask e tid to_s f p = (None, p')"
    and id: "\<And>t u. f t = Inr u \<Longrightarrow> same_identity t u \<and> t_State u = t_State t"
    and j: "\<And>t u. to_s \<in> set accepted_states \<Longrightarrow> p_tasks p tid = Some t \<Longrightarrow>
      CanTransition (t_State t) to_s \<Longrightarrow> f (t\<lparr>t_State := to_s\<rparr>) = Inr u \<Longrightarrow> justified p u"
  shows "live p'"
proof -
  from tr obtain t u where t: "p_tasks p tid = Some t" and c: "CanTransition (t_State t) to_s"
    and u: "f (t\<lparr>t_State := to_s\<rparr>) = Inr u"
    and v: "Task_Validate (u\<lparr>t_UpdatedSeq := ev_Seq e\<rparr>) = None"
    and p': "p' = put_task (u\<lparr>t_UpdatedSeq := ev_Seq e\<rparr>) tid p"
    by (auto simp: transitionTask_ok)
  from id [OF u] have i: "same_identity t (u\<lparr>t_UpdatedSeq := ev_Seq e\<rparr>)" "t_State u = to_s"
    by (simp_all add: same_identity_def)
  have "justified p (u\<lparr>t_UpdatedSeq := ev_Seq e\<rparr>)" if "to_s \<in> set accepted_states"
    using j [OF that t c u] by (simp add: justified_def)
  with i v show ?thesis unfolding p' by (intro live_put_task [OF l t]) simp_all
qed

section \<open>Changing one attempt\<close>

lemma p_attempts_put_attempt [simp]:
  "p_attempts (put_attempt a aid p) = (p_attempts p)(aid \<mapsto> a)"
  by (simp add: put_attempt_def)

lemma put_attempt_frame [simp]:
  "p_tasks (put_attempt a aid p) = p_tasks p" "p_taskIDs (put_attempt a aid p) = p_taskIDs p"
  "p_aliases (put_attempt a aid p) = p_aliases p"
  "p_ProjectID (put_attempt a aid p) = p_ProjectID p"
  "p_attemptsByTask (put_attempt a aid p) = p_attemptsByTask p"
  "p_validations (put_attempt a aid p) = p_validations p"
  "p_reviews (put_attempt a aid p) = p_reviews p"
  "same_facts p (put_attempt a aid p)"
  by (simp_all add: put_attempt_def same_facts_def)

lemma live_attempt: "live p \<Longrightarrow> p_attempts p aid = Some a \<Longrightarrow> wf_attempt p aid a"
  by (simp add: live_def inv_work_def inv_attempts_def)

lemma wf_evidence_put_attempt:
  assumes "p_attempts p aid = Some a" "a_Status a = StatusRunning" "wf_evidence p r"
  shows "wf_evidence (put_attempt b aid p) r"
  using assms by (auto simp: wf_evidence_def)

lemma justified_put_attempt:
  assumes "p_attempts p aid = Some a" "a_Status a = StatusRunning" "justified p t"
  shows "justified (put_attempt b aid p) t"
proof -
  from assms(3) show ?thesis
    unfolding justified_def put_attempt_frame p_attempts_put_attempt
  proof (elim exE conjE, intro exI conjI)
    fix c v vr r rr
    assume "p_attempts p (a_ID c) = Some c" "a_Status c = StatusCandidateProduced"
    with assms(1,2) have "a_ID c \<noteq> aid" by auto
    with \<open>p_attempts p (a_ID c) = Some c\<close> show "((p_attempts p)(aid \<mapsto> b)) (a_ID c) = Some c" by simp
  qed
qed

lemma wf_order_put_attempt:
  assumes "wf_order p tid" "p_attempts p aid = Some a"
    "a_TaskID b = a_TaskID a" "a_Ordinal b = a_Ordinal a" "a_Status b \<noteq> StatusRunning"
  shows "wf_order (put_attempt b aid p) tid"
proof -
  have "\<exists>c. ((p_attempts p)(aid \<mapsto> b)) (p_attemptsByTask p tid ! i) = Some c \<and> a_TaskID c = tid \<and>
      a_Ordinal c = int i + 1 \<and>
      (Suc i < length (p_attemptsByTask p tid) \<longrightarrow> a_Status c \<noteq> StatusRunning)"
    if i: "i < length (p_attemptsByTask p tid)" for i
  proof -
    from assms(1) i obtain c where c: "p_attempts p (p_attemptsByTask p tid ! i) = Some c"
      "a_TaskID c = tid" "a_Ordinal c = int i + 1"
      "Suc i < length (p_attemptsByTask p tid) \<longrightarrow> a_Status c \<noteq> StatusRunning"
      by (auto simp: wf_order_def)
    with assms(2-) show ?thesis by (cases "p_attemptsByTask p tid ! i = aid") auto
  qed
  then show ?thesis using assms(1) by (simp add: wf_order_def)
qed

text \<open>Finishing a running attempt keeps everything: no evidence was about it yet.\<close>

lemma live_put_attempt:
  assumes l: "live p" and a: "p_attempts p aid = Some a" and run: "a_Status a = StatusRunning"
    and b: "a_ID b = a_ID a" "a_TaskID b = a_TaskID a" "a_Ordinal b = a_Ordinal a"
      "a_Status b \<noteq> StatusRunning" "Attempt_Validate b = None"
  shows "live (put_attempt b aid p)"
proof (rule live_by_work [OF l])
  have w: "inv_tasks p" "inv_attempts p" "inv_evidence p" "inv_accept p"
    using live_work [OF l] by (simp_all add: inv_work_def)
  have "inv_tasks (put_attempt b aid p)"
    using w(1) by (simp add: inv_tasks_def wf_task_def)
  moreover have "inv_attempts (put_attempt b aid p)"
    using w(2) live_attempt [OF l a] b wf_order_put_attempt [OF _ a b(2-4)]
    by (auto simp: inv_attempts_def wf_attempt_def)
  moreover have "inv_evidence (put_attempt b aid p)"
    using w(3) wf_evidence_put_attempt [OF a run] by (simp add: inv_evidence_def) blast
  moreover have "inv_accept (put_attempt b aid p)"
    using w(4) justified_put_attempt [OF a run] by (simp add: inv_accept_def) blast
  ultimately show "inv_work (put_attempt b aid p)" by (simp add: inv_work_def)
qed simp

lemma finishAttempt_ok:
  "finishAttempt e tid aid to_s f p = (None, p') \<longleftrightarrow>
     (\<exists>a. p_attempts p aid = Some a \<and> a_TaskID a = tid \<and> a_Status a = StatusRunning \<and>
        to_s \<in> {StatusCandidateProduced, StatusBlocked, StatusFailed, StatusCancelled} \<and>
        Attempt_Validate (f (a\<lparr>a_Status := to_s, a_FinishedAt := Some (ev_OccurredAt e),
                               a_UpdatedSeq := ev_Seq e\<rparr>)) = None \<and>
        p' = put_attempt (f (a\<lparr>a_Status := to_s, a_FinishedAt := Some (ev_OccurredAt e),
                               a_UpdatedSeq := ev_Seq e\<rparr>)) aid p)"
  by (auto simp: finishAttempt_def outcome_ok Let_def CheckAttemptTransition_None)

lemma finishAttempt_atomic [simp, intro]: "atomic p (finishAttempt e tid aid to_s f p)"
  by (auto simp: finishAttempt_def Let_def intro!: atomic_intros)

text \<open>The callbacks of finishAttempt fill in outcome fields only.\<close>

definition outcome_only :: "(Attempt \<Rightarrow> Attempt) \<Rightarrow> bool" where
  "outcome_only f \<longleftrightarrow> (\<forall>a. a_ID (f a) = a_ID a \<and> a_TaskID (f a) = a_TaskID a \<and>
     a_Ordinal (f a) = a_Ordinal a \<and> a_Status (f a) = a_Status a \<and>
     a_WorkPackageID (f a) = a_WorkPackageID a \<and>
     a_WorkPackageVersion (f a) = a_WorkPackageVersion a)"

lemma live_finish:
  assumes l: "live p" and f: "finishAttempt e tid aid to_s f p = (None, p')" and o: "outcome_only f"
  shows "live p'"
proof -
  from f obtain a where a: "p_attempts p aid = Some a" "a_Status a = StatusRunning"
    and s: "to_s \<noteq> StatusRunning"
    and v: "Attempt_Validate (f (a\<lparr>a_Status := to_s, a_FinishedAt := Some (ev_OccurredAt e),
               a_UpdatedSeq := ev_Seq e\<rparr>)) = None"
    and p': "p' = put_attempt (f (a\<lparr>a_Status := to_s, a_FinishedAt := Some (ev_OccurredAt e),
               a_UpdatedSeq := ev_Seq e\<rparr>)) aid p"
    by (auto simp: finishAttempt_ok)
  show ?thesis unfolding p'
    by (rule live_put_attempt [OF l a]) (use o s v in \<open>simp_all add: outcome_only_def\<close>)
qed

section \<open>Recording evidence\<close>

lemma wf_evidence_of:
  assumes "wf_attempt p aid a" "p_attempts p aid = Some a" "requireCandidate a = None"
  shows "wf_evidence p \<lparr>ev_scope = s, ev_taskID = a_TaskID a, ev_attemptID = a_ID a,
    ev_commit = a_CandidateCommit a\<rparr>"
  using assms by (auto simp: wf_evidence_def wf_attempt_def requireCandidate_ok)

lemma wf_evidence_cong [simp]:
  "wf_evidence (p\<lparr>p_validations := x\<rparr>) r = wf_evidence p r"
  "wf_evidence (p\<lparr>p_reviews := x\<rparr>) r = wf_evidence p r"
  by (simp_all add: wf_evidence_def)

lemma justified_more:
  assumes "justified p t" "p_validations p \<subseteq>\<^sub>m V" "p_reviews p \<subseteq>\<^sub>m R"
  shows "justified (p\<lparr>p_validations := V, p_reviews := R\<rparr>) t"
proof -
  from assms(1) obtain a v vr r rr where
    a: "p_attempts p (a_ID a) = Some a" "a_TaskID a = t_ID t"
      "a_Status a = StatusCandidateProduced" "a_CandidateCommit a = t_AcceptedCommit t"
      "t_AcceptedCommit t \<noteq> ''''" "a_WorkPackageID a = t_WorkPackageID t"
      "a_WorkPackageVersion a = t_WorkPackageVersion t"
    and v: "p_validations p v = Some vr" "ev_attemptID vr = a_ID a"
      "ev_commit vr = t_AcceptedCommit t"
    and r: "p_reviews p r = Some rr" "ev_attemptID rr = a_ID a" "ev_commit rr = t_AcceptedCommit t"
    unfolding justified_def by blast
  have "V v = Some vr" using v(1) assms(2) by (auto simp: map_le_def dom_def)
  moreover have "R r = Some rr" using r(1) assms(3) by (auto simp: map_le_def dom_def)
  ultimately show ?thesis using a v(2,3) r(2,3)
    unfolding justified_def by (intro exI [of _ a] exI [of _ v] exI [of _ vr] exI [of _ r]
        exI [of _ rr]) simp
qed

lemma recordValidation_ok:
  "recordValidation v r p = (None, p') \<longleftrightarrow>
     p_validations p v = None \<and> p' = p\<lparr>p_validations := (p_validations p)(v \<mapsto> r)\<rparr>"
  by (auto simp: recordValidation_def outcome_ok)

lemma recordReview_ok:
  "recordReview v r p = (None, p') \<longleftrightarrow>
     p_reviews p v = None \<and> p' = p\<lparr>p_reviews := (p_reviews p)(v \<mapsto> r)\<rparr>"
  by (auto simp: recordReview_def outcome_ok)

lemma record_atomic [simp, intro]:
  "atomic p (recordValidation v r p)" "atomic p (recordReview v r p)"
  by (auto simp: recordValidation_def recordReview_def intro!: atomic_guard)

lemma live_evidence:
  assumes l: "live p"
    and V: "p_validations p \<subseteq>\<^sub>m V" "\<And>v r. V v = Some r \<Longrightarrow> p_validations p v \<noteq> Some r \<Longrightarrow>
        ev_scope r = ''integration'' \<or> (ev_scope r = ''attempt'' \<and> wf_evidence p r)"
    and R: "p_reviews p \<subseteq>\<^sub>m R" "\<And>v r. R v = Some r \<Longrightarrow> p_reviews p v \<noteq> Some r \<Longrightarrow>
        ev_scope r = ''attempt'' \<and> wf_evidence p r"
  shows "live (p\<lparr>p_validations := V, p_reviews := R\<rparr>)"
proof (rule live_by_work [OF l])
  let ?q = "p\<lparr>p_validations := V, p_reviews := R\<rparr>"
  have w: "inv_tasks p" "inv_attempts p" "inv_evidence p" "inv_accept p"
    using live_work [OF l] by (simp_all add: inv_work_def)
  have "inv_tasks ?q" using w(1) by (simp add: inv_tasks_def wf_task_def)
  moreover have "inv_attempts ?q"
    using w(2) by (simp add: inv_attempts_def wf_attempt_def wf_order_def)
  moreover have "inv_evidence ?q"
    using w(3) V(2) R(2) by (simp add: inv_evidence_def) blast
  moreover have "inv_accept ?q"
    using w(4) justified_more [OF _ V(1) R(1)] by (simp add: inv_accept_def) blast
  ultimately show "inv_work ?q" by (simp add: inv_work_def)
  show "same_facts p ?q" by (simp add: same_facts_def)
qed

lemma live_validation:
  assumes "live p" "recordValidation v r p = (None, p')"
    "ev_scope r = ''integration'' \<or> (ev_scope r = ''attempt'' \<and> wf_evidence p r)"
  shows "live p'"
proof -
  have "p' = p\<lparr>p_validations := (p_validations p)(v \<mapsto> r), p_reviews := p_reviews p\<rparr>"
    and n: "p_validations p v = None"
    using assms(2) by (auto simp: recordValidation_ok)
  moreover have "live (p\<lparr>p_validations := (p_validations p)(v \<mapsto> r), p_reviews := p_reviews p\<rparr>)"
    by (rule live_evidence [OF assms(1)]) (use n assms(3) in \<open>auto simp: map_le_def split: if_splits\<close>)
  ultimately show ?thesis by simp
qed

lemma live_review:
  assumes "live p" "recordReview v r p = (None, p')" "ev_scope r = ''attempt''" "wf_evidence p r"
  shows "live p'"
proof -
  have "p' = p\<lparr>p_validations := p_validations p, p_reviews := (p_reviews p)(v \<mapsto> r)\<rparr>"
    and n: "p_reviews p v = None"
    using assms(2) by (auto simp: recordReview_ok)
  moreover have "live (p\<lparr>p_validations := p_validations p, p_reviews := (p_reviews p)(v \<mapsto> r)\<rparr>)"
    by (rule live_evidence [OF assms(1)]) (use n assms(3,4) in \<open>auto simp: map_le_def split: if_splits\<close>)
  ultimately show ?thesis by simp
qed

end
