(* ===== verification/Preserve.thy ===== *)
theory Preserve
  imports Invariant
begin

text \<open>
  Every operation of the reducer keeps the invariant, and Apply does. The operations on project
  facts leave the task half of the projection alone; those on tasks, attempts and evidence go
  through the step lemmas of the theory Invariant.
\<close>

section \<open>Project facts\<close>

lemma live_factsI:
  assumes "live p" "same_work p q" "p_initialised q" "inv_project q" "inv_registry q"
    "inv_changes q" "inv_discovery (p_discovery q)"
  shows "live q"
  using assms by (auto simp: inv_facts_def intro: live_by_facts)

lemma live_parts:
  assumes "live p"
  shows "p_initialised p" "inv_project p" "inv_registry p" "inv_changes p"
    "inv_discovery (p_discovery p)" "inv_tasks p" "inv_attempts p" "inv_evidence p" "inv_accept p"
  using assms by (simp_all add: live_def inv_facts_def inv_work_def)

lemma live_MilestoneStarted:
  assumes "live p" "MilestoneStarted_Validate pl = None" "applyMilestoneStarted pl p = (None, p')"
  shows "live p'"
  using assms(3) live_parts [OF assms(1)] assms(2)
  by (intro live_factsI [OF assms(1)])
    (auto simp: op_defs validate_defs same_work_def inv_project_def inv_registry_def inv_changes_def)

lemma live_HealthReportRecorded:
  assumes "live p" "HealthReportRecorded_Validate pl = None"
    "applyHealthReportRecorded pl p = (None, p')"
  shows "live p'"
  using assms(3) live_parts [OF assms(1)] assms(2)
  by (intro live_factsI [OF assms(1)])
    (auto simp: op_defs validate_defs same_work_def inv_project_def inv_registry_def inv_changes_def)

lemma live_ModuleCatalogRecorded:
  assumes "live p" "applyModuleCatalogRecorded pl p = (None, p')"
  shows "live p'"
  using assms(2) live_parts [OF assms(1)]
  by (intro live_factsI [OF assms(1)])
    (auto simp: op_defs same_work_def inv_project_def inv_registry_def inv_changes_def)

lemma baseline_status_Valid: "ValidationStatus_Valid (baseline_status s)"
  by (cases s) (simp_all add: baseline_status_def enum_defs)

lemma live_BaselineValidation:
  assumes "live p" "applyBaselineValidation pl p = (None, p')"
  shows "live p'"
  using assms(2) live_parts [OF assms(1)]
  by (intro live_factsI [OF assms(1)])
    (auto simp: op_defs same_work_def inv_project_def inv_registry_def inv_changes_def
      baseline_status_Valid)

lemma live_proposals:
  assumes "live p"
  shows "live (p\<lparr>p_proposals := x\<rparr>)"
  using live_parts(1-5) [OF assms]
  by (intro live_factsI [OF assms])
    (simp_all add: same_work_def inv_project_def inv_registry_def inv_changes_def)

text \<open>The registries of components, open decisions and risks.\<close>

lemma live_registry:
  assumes "live p" "same_work p q" "p_initialised q" "p_ProjectID q = p_ProjectID p"
    "p_Milestone q = p_Milestone p" "p_HighWatermark q = p_HighWatermark p"
    "p_semanticChanges q = p_semanticChanges p" "p_discovery q = p_discovery p" "inv_registry q"
  shows "live q"
  using assms live_parts [OF assms(1)]
  by (intro live_factsI [OF assms(1)]) (simp_all add: inv_project_def inv_changes_def)

lemma wf_component_declared:
  "ComponentDeclared_Validate pl = None \<Longrightarrow> wf_component (cd_ComponentID pl)
     \<lparr>cs_ID = cd_ComponentID pl, cs_Responsibility = r, cs_Status = cd_Status pl,
      cs_ContractState = cd_ContractState pl, cs_EvidenceRefs = ids\<rparr>"
  by (auto simp: validate_defs wf_component_def)

lemma live_ComponentDeclared:
  assumes "live p" "ComponentDeclared_Validate pl = None" "applyComponentDeclared pl p = (None, p')"
  shows "live p'"
proof -
  have "inv_registry p'"
    using assms(2,3) live_parts(3) [OF assms(1)]
    by (auto simp: applyComponentDeclared_def inv_registry_def Let_def 
        split del: if_split intro!: registry_put wf_component_declared)
  then show ?thesis
    using assms(3) live_parts(1) [OF assms(1)]
    by (intro live_registry [OF assms(1)]) (auto simp: op_defs same_work_def Let_def)
qed

lemma live_DecisionRequired:
  assumes "live p" "DecisionRequired_Validate pl = None" "applyDecisionRequired pl p = (None, p')"
  shows "live p'"
proof -
  have "inv_registry p'"
    using assms(2,3) live_parts(3) [OF assms(1)]
    by (auto simp: op_defs validate_defs inv_registry_def outcome_ok wf_open_def
        intro!: registry_insert)
  then show ?thesis
    using assms(3) live_parts(1) [OF assms(1)]
    by (intro live_registry [OF assms(1)]) (auto simp: op_defs same_work_def outcome_ok)
qed

lemma live_DecisionRecorded:
  assumes "live p" "applyDecisionRecorded pl p = (None, p')"
  shows "live p'"
proof -
  have "inv_registry p'"
    using assms(2) live_parts(3) [OF assms(1)]
    by (auto simp: op_defs inv_registry_def outcome_ok Let_def intro!: registry_delete)
  then show ?thesis
    using assms(2) live_parts(1) [OF assms(1)]
    by (intro live_registry [OF assms(1)]) (auto simp: op_defs same_work_def outcome_ok Let_def)
qed

lemma live_RiskRecorded:
  assumes "live p" "RiskRecorded_Validate pl = None" "applyRiskRecorded pl p = (None, p')"
  shows "live p'"
proof -
  have "inv_registry p'"
    using assms(2,3) live_parts(3) [OF assms(1)]
    by (auto simp: op_defs validate_defs inv_registry_def outcome_ok wf_risk_def
        intro!: registry_insert)
  then show ?thesis
    using assms(3) live_parts(1) [OF assms(1)]
    by (intro live_registry [OF assms(1)]) (auto simp: op_defs same_work_def outcome_ok)
qed

lemma live_RiskResolved:
  assumes "live p" "applyRiskResolved pl p = (None, p')"
  shows "live p'"
proof -
  have "inv_registry p'"
    using assms(2) live_parts(3) [OF assms(1)]
    by (auto simp: op_defs inv_registry_def outcome_ok intro!: registry_delete)
  then show ?thesis
    using assms(2) live_parts(1) [OF assms(1)]
    by (intro live_registry [OF assms(1)]) (auto simp: op_defs same_work_def outcome_ok)
qed

lemma live_discovery:
  assumes "live p" "on_discovery f p = (None, p')"
    and "\<And>d. f (p_discovery p) = (None, d) \<Longrightarrow> inv_discovery d"
  shows "live p'"
proof -
  from assms(2) obtain d where "f (p_discovery p) = (None, d)" "p' = p\<lparr>p_discovery := d\<rparr>"
    by (auto simp: on_discovery_def split: prod.splits)
  with assms(3) live_parts [OF assms(1)] show ?thesis
    by (intro live_factsI [OF assms(1)])
      (simp_all add: same_work_def inv_project_def inv_registry_def inv_changes_def)
qed

section \<open>Tasks\<close>

lemma live_TaskCreated:
  assumes l: "live p" and pid: "ev_ProjectID e = p_ProjectID p"
    and va: "TaskCreated_Validate pl = None" and ok: "applyTaskCreated e pl p = (None, p')"
  shows "live p'"
proof -
  define t where "t = new_task e pl p"
  have ids: "t_ID t = tc_TaskID pl" "t_Alias t = tc_Alias pl"
    and t: "t_ProjectID t = p_ProjectID p" "t_CurrentAttemptID t = ''''" "t_State t = StateProposed"
    using pid by (simp_all add: t_def new_task_def)
  have fresh: "p_tasks p (t_ID t) = None" "p_aliases p (t_Alias t) = None"
    and valid: "Task_Validate t = None"
    and p': "p' = p\<lparr>p_tasks := (p_tasks p)(t_ID t \<mapsto> t), p_taskIDs := p_taskIDs p @ [t_ID t],
                p_aliases := (p_aliases p)(t_Alias t \<mapsto> t_ID t)\<rparr>"
    using ok ids unfolding applyTaskCreated_def by (simp_all add: outcome_ok Let_def t_def)
  have named: "t_Alias t \<noteq> ''''" using va ids by (simp add: validate_defs)
  note w = live_parts(6-9) [OF l]
  have no_attempt: "p_attemptsByTask p (t_ID t) = []"
  proof (rule ccontr)
    assume "p_attemptsByTask p (t_ID t) \<noteq> []"
    moreover have "wf_order p (t_ID t)" using w(2) by (simp add: inv_attempts_def)
    ultimately obtain a where a: "p_attempts p (p_attemptsByTask p (t_ID t) ! 0) = Some a"
      "a_TaskID a = t_ID t"
      by (auto simp: wf_order_def)
    have "p_tasks p (a_TaskID a) \<noteq> None"
      using w(2) a(1) unfolding inv_attempts_def wf_attempt_def by blast
    with a(2) fresh(1) show False by simp
  qed
  have tasks: "wf_task p' k s" if "wf_task p k s" "p_tasks p k = Some s" for k s
    using that fresh(2) unfolding p' by (auto simp: wf_task_def)
  have "wf_task p' (t_ID t) t"
    using t valid named no_attempt unfolding p' by (simp add: wf_task_def)
  moreover have "\<exists>s. p_tasks p k = Some s \<and> t_Alias s = h" if "p_aliases p h = Some k" for h k
    using w(1) that by (simp add: inv_tasks_def)
  moreover have "indexed (p_tasks p') (p_taskIDs p')"
    using w(1) fresh(1) unfolding p' inv_tasks_def by (simp add: indexed_insert)
  ultimately have "inv_tasks p'"
    using w(1) fresh tasks unfolding inv_tasks_def
    by (simp add: p') (metis option.distinct(1))
  moreover have "inv_attempts p'"
    using w(2) unfolding p' inv_attempts_def wf_attempt_def wf_order_def by simp
  moreover have "inv_evidence p'"
    using w(3) unfolding p' inv_evidence_def wf_evidence_def by simp
  moreover have "justified p' s = justified p s" for s
    unfolding p' justified_def by simp
  then have "inv_accept p'"
    using w(4) t(3) unfolding inv_accept_def by (simp add: p' accepted_states_def) blast
  ultimately have "inv_work p'" by (simp add: inv_work_def)
  moreover have "same_facts p p'" unfolding p' by (simp add: same_facts_def)
  ultimately show ?thesis using live_by_work [OF l] by blast
qed

lemma live_simple_transition:
  assumes "live p" "transitionTask e tid to_s Inr p = (None, p')"
    and "\<And>t. p_tasks p tid = Some t \<Longrightarrow> to_s \<in> set accepted_states \<Longrightarrow>
      t_State t \<in> set accepted_states"
  shows "live p'"
proof (rule live_transition [OF assms(1,2)])
  show "same_identity t u \<and> t_State u = t_State t" if "Inr t = (Inr u :: go_error + Task)" for t u
    using that by (simp add: same_identity_def)
  show "justified p u" if "to_s \<in> set accepted_states" "p_tasks p tid = Some t"
    "(Inr (t\<lparr>t_State := to_s\<rparr>) :: go_error + Task) = Inr u" for t u
  proof -
    have "justified p t"
      using live_parts(9) [OF assms(1)] assms(3) that unfolding inv_accept_def by blast
    moreover have "justified p u = justified p t" using that(3) by (intro justified_cong) auto
    ultimately show ?thesis by simp
  qed
qed

lemma live_TaskScoutingStarted:
  "live p \<Longrightarrow> applyTaskScoutingStarted e pl p = (None, p') \<Longrightarrow> live p'"
  unfolding applyTaskScoutingStarted_def
  by (erule live_simple_transition, assumption) (simp add: accepted_states_def)

lemma live_TaskDesignStarted:
  assumes "live p" "applyTaskDesignStarted e pl p = (None, p')"
  shows "live p'"
  using assms(2) unfolding applyTaskDesignStarted_def
  by (rule live_transition [OF assms(1)]) (auto simp: same_identity_def accepted_states_def)

lemma live_WorkPackageProposed:
  assumes "live p" "applyWorkPackageProposed pl p = (None, p')"
  shows "live p'"
  using assms live_proposals by (auto simp: op_defs outcome_ok)

lemma approve_mutation_identity:
  "approve_mutation pl t = Inr u \<Longrightarrow> same_identity t u \<and> t_State u = t_State t"
  by (auto simp: approve_mutation_def same_identity_def Let_def split: if_splits)

lemma live_WorkPackageApproved:
  assumes "live p" "applyWorkPackageApproved e pl p = (None, p')"
  shows "live p'"
  using assms(2) unfolding applyWorkPackageApproved_def
  by (rule live_transition [OF assms(1)])
    (simp_all add: approve_mutation_identity accepted_states_def)

lemma live_TaskDelegated:
  assumes "live p" "applyTaskDelegated e pl p = (None, p')"
  shows "live p'"
  using assms(2) unfolding applyTaskDelegated_def
  by (rule live_transition [OF assms(1)])
    (auto simp: same_identity_def accepted_states_def split: if_splits)

lemma live_EscalationRaised:
  assumes "live p" "applyEscalationRaised e pl p = (None, p')"
  shows "live p'"
proof -
  from assms(2) obtain r where
    "transitionTask e (er_TaskID pl) StateBlocked (\<lambda>t. Inr (t\<lparr>t_Blocked := Some r\<rparr>)) p = (None, p')"
    by (auto simp: op_defs outcome_ok Let_def)
  then show ?thesis
    by (rule live_transition [OF assms(1)]) (auto simp: same_identity_def accepted_states_def)
qed

lemma live_IntegrationStarted:
  assumes "live p" "applyIntegrationStarted e pl p = (None, p')"
  shows "live p'"
  using assms(2) unfolding applyIntegrationStarted_def transitionTask_ok
  by (intro live_simple_transition [OF assms(1), of e "is_TaskID pl" StateIntegrating])
    (auto simp: transitionTask_ok accepted_states_def)

lemma live_IntegrationValidationStarted:
  assumes "live p" "applyIntegrationValidationStarted e pl p = (None, p')"
  shows "live p'"
  using assms(2) unfolding applyIntegrationValidationStarted_def transitionTask_ok
  by (intro live_simple_transition [OF assms(1), of e "iv_TaskID pl" StateIntegrationValidating])
    (auto simp: transitionTask_ok accepted_states_def)

section \<open>Attempts\<close>

lemma justified_more_attempts:
  assumes "justified p t" "p_attempts p x = None" "p_attempts q = (p_attempts p)(x \<mapsto> b)"
    "p_validations q = p_validations p" "p_reviews q = p_reviews p"
  shows "justified q t"
  using assms(1) unfolding justified_def assms(3-5)
proof (elim exE conjE, intro exI conjI)
  fix a
  assume a: "p_attempts p (a_ID a) = Some a"
  with assms(2) have "a_ID a \<noteq> x" by auto
  with a show "((p_attempts p)(x \<mapsto> b)) (a_ID a) = Some a" by simp
qed

lemma wf_order_fresh:
  assumes "inv_attempts p" "p_attempts p x = None"
  shows "x \<notin> set (p_attemptsByTask p tid)"
proof
  assume "x \<in> set (p_attemptsByTask p tid)"
  then obtain i where "i < length (p_attemptsByTask p tid)" "p_attemptsByTask p tid ! i = x"
    by (auto simp: in_set_conv_nth)
  moreover have "wf_order p tid" using assms(1) by (simp add: inv_attempts_def)
  ultimately show False using assms(2) unfolding wf_order_def by (metis option.distinct(1))
qed

lemma add_attempt_frame [simp]:
  "p_tasks (add_attempt a tid p) = p_tasks p" "p_taskIDs (add_attempt a tid p) = p_taskIDs p"
  "p_aliases (add_attempt a tid p) = p_aliases p"
  "p_ProjectID (add_attempt a tid p) = p_ProjectID p"
  "p_validations (add_attempt a tid p) = p_validations p"
  "p_reviews (add_attempt a tid p) = p_reviews p"
  "p_attempts (add_attempt a tid p) = (p_attempts p)(a_ID a \<mapsto> a)"
  "p_attemptsByTask (add_attempt a tid p) =
     (p_attemptsByTask p)(tid := p_attemptsByTask p tid @ [a_ID a])"
  "same_facts p (add_attempt a tid p)"
  by (simp_all add: add_attempt_def same_facts_def)

text \<open>The order of attempts after one more, when none of the task's attempts is running.\<close>

lemma wf_order_add_attempt:
  assumes inv: "inv_attempts p" and fresh: "p_attempts p (a_ID a) = None"
    and a: "a_TaskID a = tid" "a_Ordinal a = int (length (p_attemptsByTask p tid)) + 1"
    and idle: "\<forall>x \<in> set (p_attemptsByTask p tid). \<not> running_attempt p x"
  shows "wf_order (add_attempt a tid p) k"
proof -
  let ?l = "p_attemptsByTask p k" and ?A = "(p_attempts p)(a_ID a \<mapsto> a)"
  have w: "wf_order p k" using inv by (simp add: inv_attempts_def)
  have new: "a_ID a \<notin> set ?l" by (rule wf_order_fresh [OF inv fresh])
  have old: "\<exists>c. ?A (?l ! i) = Some c \<and> a_TaskID c = k \<and> a_Ordinal c = int i + 1 \<and>
      (k = tid \<longrightarrow> a_Status c \<noteq> StatusRunning) \<and>
      (Suc i < length ?l \<longrightarrow> a_Status c \<noteq> StatusRunning)" if i: "i < length ?l" for i
  proof -
    from w i obtain c where c: "p_attempts p (?l ! i) = Some c" "a_TaskID c = k"
      "a_Ordinal c = int i + 1" "Suc i < length ?l \<longrightarrow> a_Status c \<noteq> StatusRunning"
      by (auto simp: wf_order_def)
    moreover have "a_Status c \<noteq> StatusRunning" if "k = tid"
      using bspec [OF idle, of "?l ! i"] i c(1) that by (simp add: running_attempt_def)
    moreover have "?l ! i \<noteq> a_ID a" using new i by (metis nth_mem)
    ultimately show ?thesis by auto
  qed
  show ?thesis
  proof (cases "k = tid")
    case True
    have "\<exists>c. ?A ((?l @ [a_ID a]) ! i) = Some c \<and> a_TaskID c = k \<and> a_Ordinal c = int i + 1 \<and>
        (Suc i < length (?l @ [a_ID a]) \<longrightarrow> a_Status c \<noteq> StatusRunning)"
      if i: "i < length (?l @ [a_ID a])" for i
    proof (cases "i < length ?l")
      case True
      then show ?thesis using old [OF True] \<open>k = tid\<close> by (auto simp: nth_append)
    next
      case False
      with i have "i = length ?l" by simp
      then show ?thesis using a \<open>k = tid\<close> by simp
    qed
    then show ?thesis using w new True by (simp add: wf_order_def)
  next
    case False
    have "\<exists>c. ?A (?l ! i) = Some c \<and> a_TaskID c = k \<and> a_Ordinal c = int i + 1 \<and>
        (Suc i < length ?l \<longrightarrow> a_Status c \<noteq> StatusRunning)" if "i < length ?l" for i
      using old [OF that] by blast
    with w False show ?thesis by (simp add: wf_order_def)
  qed
qed

lemma live_add_attempt:
  assumes l: "live p" and t: "p_tasks p tid = Some t" and fresh: "p_attempts p (a_ID a) = None"
    and a: "a_TaskID a = tid" "a_Ordinal a = int (length (p_attemptsByTask p tid)) + 1"
      "Attempt_Validate a = None"
    and idle: "\<forall>x \<in> set (p_attemptsByTask p tid). \<not> running_attempt p x"
    and u: "u = t\<lparr>t_CurrentAttemptID := a_ID a, t_UpdatedSeq := n\<rparr>"
    and st: "t_State t \<notin> set accepted_states"
  shows "live (put_task u tid (add_attempt a tid p))"
proof (rule live_by_work [OF l])
  let ?r = "add_attempt a tid p" and ?q = "put_task u tid (add_attempt a tid p)"
  note w = live_parts(6-9) [OF l]
  have wt: "wf_task p tid t" using live_task [OF l t] .
  have "wf_task ?q k s" if "wf_task p k s" "k \<noteq> tid" for k s
    using that by (simp add: wf_task_def put_task_def)
  moreover have "wf_task ?q tid u"
    using wt unfolding u by (auto simp: wf_task_def put_task_def Task_Validate_ok)
  moreover have "indexed (p_tasks ?q) (p_taskIDs ?q)"
    using w(1) t by (simp add: inv_tasks_def put_task_def indexed_overwrite)
  moreover have "\<exists>s. p_tasks ?q k = Some s \<and> t_Alias s = h" if "p_aliases p h = Some k" for h k
  proof -
    have "\<exists>s. p_tasks p k = Some s \<and> t_Alias s = h" using w(1) that by (simp add: inv_tasks_def)
    then show ?thesis using t u by auto
  qed
  ultimately have "inv_tasks ?q"
    using w(1) unfolding inv_tasks_def by (simp add: put_task_def)
  moreover have "inv_attempts ?q"
  proof -
    have "wf_attempt ?q (a_ID a) a"
      using a by (simp add: wf_attempt_def put_task_def)
    moreover have "wf_attempt ?q k b" if "wf_attempt p k b" for k b
      using that by (auto simp: wf_attempt_def put_task_def)
    moreover have "wf_order ?q k" for k
      using wf_order_add_attempt [OF w(2) fresh a(1,2) idle] by (simp add: wf_order_def put_task_def)
    ultimately show ?thesis using w(2) by (simp add: inv_attempts_def put_task_def)
  qed
  moreover have "wf_evidence ?q r" if "wf_evidence p r" for r
    using that fresh by (auto simp: wf_evidence_def put_task_def)
  then have "inv_evidence ?q"
    using w(3) by (simp add: inv_evidence_def put_task_def) blast
  moreover have "justified ?r s" if "justified p s" for s
    using that fresh by (rule justified_more_attempts) simp_all
  then have "inv_accept ?q"
    using w(4) st u by (simp add: inv_accept_def) blast
  ultimately show "inv_work ?q" by (simp add: inv_work_def)
  show "same_facts p ?q" by (simp add: same_facts_def put_task_def add_attempt_def)
qed

lemma live_AttemptStarted:
  assumes l: "live p" and ok: "applyAttemptStarted e pl p = (None, p')"
  shows "live p'"
proof -
  from ok obtain t where t: "p_tasks p (as_TaskID pl) = Some t" and st: "t_State t = StateRunning"
    and fresh: "p_attempts p (as_AttemptID pl) = None"
    and idle: "\<not> list_ex (running_attempt p) (p_attemptsByTask p (as_TaskID pl))"
    and v: "Attempt_Validate (new_attempt e pl p) = None"
    and p': "p' = put_task (t\<lparr>t_CurrentAttemptID := a_ID (new_attempt e pl p),
               t_UpdatedSeq := ev_Seq e\<rparr>) (as_TaskID pl)
               (add_attempt (new_attempt e pl p) (as_TaskID pl) p)"
    unfolding applyAttemptStarted_def by (auto simp: outcome_ok Let_def)
  show ?thesis unfolding p'
    by (rule live_add_attempt [OF l t])
      (use fresh idle v st in \<open>simp_all add: new_attempt_def list_ex_iff accepted_states_def\<close>)
qed

lemma live_CandidateProduced:
  assumes l: "live p" and ok: "applyCandidateProduced e pl p = (None, p')"
  shows "live p'"
proof -
  obtain p1 where f: "finishAttempt e (cp_TaskID pl) (cp_AttemptID pl) StatusCandidateProduced
      (\<lambda>a. a\<lparr>a_CandidateCommit := cp_CandidateCommit pl,
             a_RepairIterations := cp_RepairIterations pl,
             a_Artifacts := a_Artifacts a @ cp_Artifacts pl\<rparr>) p = (None, p1)"
    and tr: "transitionTask e (cp_TaskID pl) StateValidating Inr p1 = (None, p')"
    using ok unfolding applyCandidateProduced_def by (auto simp: outcome_ok)
  have "live p1" by (rule live_finish [OF l f]) (simp add: outcome_only_def)
  then show ?thesis using tr by (rule live_simple_transition) (simp add: accepted_states_def)
qed

lemma live_AttemptBlocked:
  assumes "live p" "applyAttemptBlocked e pl p = (None, p')"
  shows "live p'"
  using assms(2) unfolding applyAttemptBlocked_def Let_def
  by (rule live_finish [OF assms(1)]) (simp add: outcome_only_def)

lemma live_AttemptFailed:
  assumes "live p" "applyAttemptFailed e pl p = (None, p')"
  shows "live p'"
  using assms(2) unfolding applyAttemptFailed_def
  by (rule live_finish [OF assms(1)]) (simp add: outcome_only_def)

section \<open>Evidence and decisions\<close>

lemma requireAttemptOf_wf:
  "live p \<Longrightarrow> requireAttemptOf p tid aid = Inr a \<Longrightarrow>
     wf_attempt p aid a \<and> p_attempts p (a_ID a) = Some a \<and> a_TaskID a = tid"
  using live_attempt [of p aid a] by (auto simp: requireAttemptOf_ok wf_attempt_def)

lemma requireTaskInState_wf:
  "live p \<Longrightarrow> requireTaskInState p tid s = Inr t \<Longrightarrow> t_ID t = tid"
  using live_task [of p tid t] by (auto simp: requireTaskInState_ok wf_task_def)

lemma candidate_evidence:
  assumes "live p" "requireAttemptOf p tid aid = Inr a" "requireCandidate a = None"
  shows "wf_evidence p \<lparr>ev_scope = s, ev_taskID = tid, ev_attemptID = a_ID a,
    ev_commit = a_CandidateCommit a\<rparr>"
  using requireAttemptOf_wf [OF assms(1,2)] assms(3)
  by (auto simp: wf_evidence_def requireCandidate_ok)

lemma live_AttemptValidation:
  assumes l: "live p" and ok: "applyAttemptValidation e pl p = (None, p')"
  shows "live p'"
proof -
  from ok obtain t :: Task and a p1 where a: "requireAttemptOf p (t_ID t) (vc_AttemptID pl) = Inr a"
    "requireCandidate a = None"
    and r: "recordValidation (vc_ValidationID pl) \<lparr>ev_scope = ''attempt'', ev_taskID = t_ID t,
        ev_attemptID = a_ID a, ev_commit = a_CandidateCommit a\<rparr> p = (None, p1)"
    and tr: "transitionTask e (vc_TaskID pl)
        (if vc_Status pl = OutcomePass then StateReviewing else StateRunning) Inr p1 = (None, p')"
    unfolding applyAttemptValidation_def by (auto simp: outcome_ok)
  have "live p1" using candidate_evidence [OF l a] by (intro live_validation [OF l r]) simp
  then show ?thesis using tr
    by (rule live_simple_transition) (simp add: accepted_states_def split: if_splits)
qed

lemma live_accepted_commit:
  assumes "live p"
  shows "live (p\<lparr>p_AcceptedCommit := c\<rparr>)"
  using live_parts(1-5) [OF assms]
  by (intro live_factsI [OF assms])
    (simp_all add: same_work_def inv_project_def inv_registry_def inv_changes_def)

lemma live_IntegrationValidation:
  assumes l: "live p" and ok: "applyIntegrationValidation e pl p = (None, p')"
  shows "live p'"
proof -
  obtain t p1 where t: "requireTaskInState p (vc_TaskID pl) StateIntegrationValidating = Inr t"
    and r: "recordValidation (vc_ValidationID pl) \<lparr>ev_scope = ''integration'', ev_taskID = t_ID t,
        ev_attemptID = '''', ev_commit = vc_Commit pl\<rparr> p = (None, p1)"
    and rest: "vc_Status pl \<noteq> OutcomePass \<and> p' = p1 \<or>
      (\<exists>p2. transitionTask e (vc_TaskID pl) StateDone Inr p1 = (None, p2) \<and>
        (\<exists>c. p' = p2 \<or> p' = p2\<lparr>p_AcceptedCommit := c\<rparr>))"
    using ok unfolding applyIntegrationValidation_def
    by (auto simp: outcome_ok split: if_splits)
  have l1: "live p1" by (rule live_validation [OF l r]) simp
  have t1: "p_tasks p1 (vc_TaskID pl) = Some t" "t_State t = StateIntegrationValidating"
    using t r by (auto simp: requireTaskInState_ok recordValidation_ok)
  show ?thesis
  proof (cases "p' = p1")
    case False
    with rest obtain p2 c where tr: "transitionTask e (vc_TaskID pl) StateDone Inr p1 = (None, p2)"
      and p': "p' = p2 \<or> p' = p2\<lparr>p_AcceptedCommit := c\<rparr>" by blast
    have "live p2" using l1 tr by (rule live_simple_transition) (use t1 in \<open>simp add: accepted_states_def\<close>)
    with p' show ?thesis by (auto intro: live_accepted_commit)
  qed (simp add: l1)
qed

lemma live_ValidationCompleted:
  assumes "live p" "applyValidationCompleted e pl p = (None, p')"
  shows "live p'"
  using assms by (auto simp: applyValidationCompleted_def split: ValidationScope.splits
      intro: live_BaselineValidation live_AttemptValidation live_IntegrationValidation)

lemma live_ReviewCompleted:
  assumes l: "live p" and ok: "applyReviewCompleted pl p = (None, p')"
  shows "live p'"
proof -
  from ok obtain t :: Task and a where a: "requireAttemptOf p (t_ID t) (rc_AttemptID pl) = Inr a"
    "requireCandidate a = None"
    and r: "recordReview (rc_ReviewID pl) \<lparr>ev_scope = ''attempt'', ev_taskID = t_ID t,
        ev_attemptID = a_ID a, ev_commit = a_CandidateCommit a\<rparr> p = (None, p')"
    unfolding applyReviewCompleted_def by (auto simp: outcome_ok)
  show ?thesis using candidate_evidence [OF l a] by (intro live_review [OF l r]) simp_all
qed

text \<open>Evidence cited for an attempt is about the commit the attempt produced.\<close>

lemma cited_validation:
  assumes "live p" "requireEvidenceFor (p_validations p) ids t a = None" "v \<in> set ids"
    "p_attempts p (a_ID a) = Some a"
  shows "\<exists>r. p_validations p v = Some r \<and> ev_attemptID r = a_ID a \<and>
    ev_commit r = a_CandidateCommit a"
proof -
  obtain r where r: "p_validations p v = Some r" "ev_scope r \<in> {'''', ''attempt''}"
    "ev_attemptID r = a_ID a"
    using assms(2,3) by (auto simp: requireEvidenceFor_ok evidence_check_ok)
  then have "wf_evidence p r"
    using live_parts(8) [OF assms(1)] unfolding inv_evidence_def by fastforce
  with r assms(4) show ?thesis by (auto simp: wf_evidence_def)
qed

lemma cited_review:
  assumes "live p" "requireEvidenceFor (p_reviews p) ids t a = None" "v \<in> set ids"
    "p_attempts p (a_ID a) = Some a"
  shows "\<exists>r. p_reviews p v = Some r \<and> ev_attemptID r = a_ID a \<and>
    ev_commit r = a_CandidateCommit a"
proof -
  obtain r where r: "p_reviews p v = Some r" "ev_attemptID r = a_ID a"
    using assms(2,3) by (auto simp: requireEvidenceFor_ok evidence_check_ok)
  then have "wf_evidence p r"
    using live_parts(8) [OF assms(1)] unfolding inv_evidence_def by blast
  with r assms(4) show ?thesis by (auto simp: wf_evidence_def)
qed

lemma live_changes:
  assumes "live p" "sc_TaskID c \<noteq> ''''" "sc_Summary c \<noteq> ''''"
  shows "live (p\<lparr>p_semanticChanges := p_semanticChanges p @ [c]\<rparr>)"
  using live_parts(1-5) [OF assms(1)] assms(2,3)
  by (intro live_factsI [OF assms(1)])
    (auto simp: same_work_def inv_project_def inv_registry_def inv_changes_def)

lemma live_ChangeAccepted:
  assumes l: "live p" and va: "ChangeAccepted_Validate pl = None"
    and ok: "applyChangeAccepted e pl p = (None, p')"
  shows "live p'"
proof -
  obtain t :: Task and a p1
    where t: "requireTaskInState p (ca_TaskID pl) StateReviewing = Inr t"
    and a: "requireAttemptOf p (t_ID t) (ca_AttemptID pl) = Inr a" "requireCandidate a = None"
      "requireCandidateCommit a (ca_CandidateCommit pl) = None"
    and wp: "a_WorkPackageID a = t_WorkPackageID t" "a_WorkPackageVersion a = t_WorkPackageVersion t"
    and v: "requireEvidenceFor (p_validations p) (ca_ValidationIDs pl) t a = None"
    and r: "requireEvidenceFor (p_reviews p) (ca_ReviewIDs pl) t a = None"
    and tr: "transitionTask e (ca_TaskID pl) StateAccepted
        (\<lambda>t. Inr (t\<lparr>t_AcceptedCommit := ca_CandidateCommit pl\<rparr>)) p = (None, p1)"
    and p': "p' = p1\<lparr>p_semanticChanges := p_semanticChanges p1 @
           [\<lparr>sc_TaskID = t_Alias t, sc_Commit = Some (ca_CandidateCommit pl),
             sc_Summary = ca_SemanticSummary pl\<rparr>]\<rparr>"
    using ok unfolding applyChangeAccepted_def by (auto simp: outcome_ok)
  have tid: "p_tasks p (ca_TaskID pl) = Some t" using t by (simp add: requireTaskInState_ok)
  have named: "t_Alias t \<noteq> ''''" using live_task [OF l tid] by (simp add: wf_task_def)
  note at = requireAttemptOf_wf [OF l a(1)]
  have ids: "ca_ValidationIDs pl \<noteq> []" "ca_ReviewIDs pl \<noteq> []" "ca_SemanticSummary pl \<noteq> ''''"
    using va by (auto simp: validate_defs)
  have c: "a_CandidateCommit a = ca_CandidateCommit pl" "ca_CandidateCommit pl \<noteq> ''''"
    "a_Status a = StatusCandidateProduced"
    using a(2,3) by (auto simp: lineage_ok)
  obtain vr where vr: "p_validations p (hd (ca_ValidationIDs pl)) = Some vr"
    "ev_attemptID vr = a_ID a" "ev_commit vr = ca_CandidateCommit pl"
    using cited_validation [OF l v hd_in_set] ids(1) at c(1) by auto
  obtain rr where rr: "p_reviews p (hd (ca_ReviewIDs pl)) = Some rr"
    "ev_attemptID rr = a_ID a" "ev_commit rr = ca_CandidateCommit pl"
    using cited_review [OF l r hd_in_set] ids(2) at c(1) by auto
  have "justified p (t\<lparr>t_State := StateAccepted, t_AcceptedCommit := ca_CandidateCommit pl\<rparr>)"
    unfolding justified_def
    by (intro exI [of _ a] exI [of _ "hd (ca_ValidationIDs pl)"] exI [of _ vr]
        exI [of _ "hd (ca_ReviewIDs pl)"] exI [of _ rr])
      (use at c wp vr rr in simp)
  then have "live p1"
    using tid by (intro live_transition [OF l tr]) (auto simp: same_identity_def)
  then show ?thesis unfolding p' using named ids(3) by (intro live_changes) simp_all
qed

lemma live_ChangeRejected:
  assumes "live p" "applyChangeRejected e pl p = (None, p')"
  shows "live p'"
proof -
  have "transitionTask e (cr_TaskID pl) StateRunning Inr p = (None, p')"
    using assms(2) unfolding applyChangeRejected_def by (auto simp: outcome_ok)
  then show ?thesis by (rule live_simple_transition [OF assms(1)]) (simp add: accepted_states_def)
qed

section \<open>Dispatch\<close>

lemmas live_facts_ops = live_MilestoneStarted live_HealthReportRecorded live_ModuleCatalogRecorded
  live_ComponentDeclared live_DecisionRequired live_DecisionRecorded live_RiskRecorded
  live_RiskResolved

lemmas live_work_ops = live_TaskCreated live_TaskScoutingStarted live_TaskDesignStarted
  live_WorkPackageProposed live_WorkPackageApproved live_TaskDelegated live_EscalationRaised
  live_IntegrationStarted live_IntegrationValidationStarted live_AttemptStarted
  live_CandidateProduced live_AttemptBlocked live_AttemptFailed live_ValidationCompleted
  live_ReviewCompleted live_ChangeAccepted live_ChangeRejected

lemma live_discovery_ops:
  assumes "live p"
  shows "ProblemModelRevised_Validate a = None \<Longrightarrow>
      on_discovery (applyProblemModelRevised a) p = (None, p') \<Longrightarrow> live p'"
    and "on_discovery (applyAmbiguityOpened b) p = (None, p') \<Longrightarrow> live p'"
    and "on_discovery (applyAmbiguityResolved c) p = (None, p') \<Longrightarrow> live p'"
    and "on_discovery (applyProductDecisionRecorded d) p = (None, p') \<Longrightarrow> live p'"
    and "on_discovery (applyRequirementRecorded g) p = (None, p') \<Longrightarrow> live p'"
    and "SpecificationReadinessRecorded_Validate h = None \<Longrightarrow>
      on_discovery (applyReadinessRecorded h) p = (None, p') \<Longrightarrow> live p'"
  using live_parts(5) [OF assms]
  by (auto intro: live_discovery [OF assms] inv_ProblemModelRevised inv_AmbiguityOpened
      inv_AmbiguityResolved inv_ProductDecisionRecorded inv_RequirementRecorded
      inv_ReadinessRecorded)

lemma live_applyPayload:
  assumes l: "live p" and pid: "ev_ProjectID e = p_ProjectID p"
    and va: "Payload_Validate pl = None" and ok: "applyPayload e pl p = (None, p')"
    and ni: "Payload_Type pl \<noteq> ''ProjectInitialized''"
  shows "live p'"
  using va ok ni l pid
  by (cases pl) (simp_all, (rule live_facts_ops live_work_ops live_discovery_ops; assumption)+)

lemma live_ProjectInitialized:
  assumes "ProjectInitialized_Validate pl = None" "ev_ProjectID e \<noteq> ''''"
    "applyProjectInitialized e pl New_Projection = (None, p')"
  shows "live p'"
proof -
  have "inv_registry p'" "inv_project p'" "inv_changes p'" "inv_discovery (p_discovery p')"
    using assms inv_newDiscoveryState
    by (auto simp: op_defs validate_defs New_Projection_def inv_registry_def inv_project_def
        inv_changes_def enum_defs)
  moreover have "p_initialised p'" "inv_work p'"
    using assms(3) by (auto simp: op_defs New_Projection_def inv_work_def work_defs)
  ultimately show ?thesis by (simp add: live_def inv_facts_def)
qed

text \<open>Apply succeeds exactly when every check passes and the payload's operation does.\<close>

lemma Apply_ok:
  "Apply e p = (None, p') \<longleftrightarrow>
     Event_Validate e = None \<and> p_HighWatermark p < ev_Seq e \<and>
     (if p_initialised p
      then ev_ProjectID e = p_ProjectID p \<and> ev_EventType e \<noteq> ''ProjectInitialized''
      else ev_EventType e = ''ProjectInitialized'') \<and>
     (\<exists>pl p1. ev_Payload e = Some pl \<and> applyPayload e pl p = (None, p1) \<and>
        p' = p1\<lparr>p_HighWatermark := ev_Seq e, p_LastOccurredAt := ev_OccurredAt e\<rparr>)"
  by (auto simp: Apply_def outcome_ok not_le split: option.splits)

lemma live_watermark:
  assumes "live p" "0 \<le> n"
  shows "live (p\<lparr>p_HighWatermark := n, p_LastOccurredAt := o_at\<rparr>)"
  using live_parts(1-5) [OF assms(1)] assms(2)
  by (intro live_factsI [OF assms(1)])
    (simp_all add: same_work_def inv_project_def inv_registry_def inv_changes_def)

lemma Apply_live:
  assumes i: "inv p" and ok: "Apply e p = (None, p')"
  shows "live p'"
proof -
  from ok obtain pl p1 where v: "Event_Validate e = None" and seq: "p_HighWatermark p < ev_Seq e"
    and proj: "if p_initialised p
      then ev_ProjectID e = p_ProjectID p \<and> ev_EventType e \<noteq> ''ProjectInitialized''
      else ev_EventType e = ''ProjectInitialized''"
    and pl: "ev_Payload e = Some pl" "applyPayload e pl p = (None, p1)"
    and p': "p' = p1\<lparr>p_HighWatermark := ev_Seq e, p_LastOccurredAt := ev_OccurredAt e\<rparr>"
    by (auto simp: Apply_ok)
  from v pl(1) have pv: "Payload_Type pl = ev_EventType e" "Payload_Validate pl = None"
    "ev_ProjectID e \<noteq> ''''"
    by (auto simp: Event_Validate_None)
  have "live p1"
  proof (cases "p_initialised p")
    case True
    then have "live p" using i by (simp add: live_iff)
    then show ?thesis by (rule live_applyPayload [OF _ _ pv(2) pl(2)]) (use True proj pv(1) in simp_all)
  next
    case False
    then have "p = New_Projection" using i by (simp add: inv_def inv_project_def)
    moreover obtain i where "pl = PProjectInitialized i"
      using False proj pv(1) by (cases pl) simp_all
    ultimately show ?thesis
      using pl(2) pv(2,3) by (intro live_ProjectInitialized [of i e]) simp_all
  qed
  moreover have "0 \<le> ev_Seq e" using seq i by (simp add: inv_def inv_project_def)
  ultimately show ?thesis unfolding p' by (rule live_watermark)
qed

lemma Apply_inv: "inv p \<Longrightarrow> Apply e p = (None, p') \<Longrightarrow> inv p' \<and> p_initialised p'"
  using Apply_live by (simp add: live_iff)

end
