(* ===== verification/Journal.thy ===== *)
theory Journal
  imports Errs
begin

text \<open>
  What an event-sourced reducer owes its journal, whatever its state is: the reduction of an event
  sequence, the live state that is kept up to date by applying events one at a time and ignoring
  the refused ones, and the locale of the laws a reducer has to satisfy for the two to agree.
\<close>

section \<open>Running a step over a sequence\<close>

fun run :: "('e \<Rightarrow> 's \<Rightarrow> 's outcome) \<Rightarrow> 's \<Rightarrow> 'e list \<Rightarrow> go_error + 's" where
  "run step s [] = Inr s"
| "run step s (e # es) =
     (case step e s of (Some err, _) \<Rightarrow> Inl err | (None, s1) \<Rightarrow> run step s1 es)"

fun feed :: "('e \<Rightarrow> 's \<Rightarrow> 's outcome) \<Rightarrow> 's \<Rightarrow> 'e list \<Rightarrow> 's" where
  "feed step s [] = s"
| "feed step s (e # es) = feed step (snd (step e s)) es"

fun admitted :: "('e \<Rightarrow> 's \<Rightarrow> 's outcome) \<Rightarrow> 's \<Rightarrow> 'e list \<Rightarrow> 'e list" where
  "admitted step s [] = []"
| "admitted step s (e # es) =
     (case step e s of
        (Some _, s1) \<Rightarrow> admitted step s1 es
      | (None, s1) \<Rightarrow> e # admitted step s1 es)"

lemma run_append:
  "run step s (xs @ ys) =
     (case run step s xs of Inl err \<Rightarrow> Inl err | Inr s1 \<Rightarrow> run step s1 ys)"
  by (induction xs arbitrary: s) (auto split: prod.splits option.splits)

lemma run_snoc:
  "run step s (xs @ [e]) = Inr s' \<longleftrightarrow> (\<exists>s1. run step s xs = Inr s1 \<and> step e s1 = (None, s'))"
  by (auto simp: run_append split: sum.splits prod.splits option.splits)

lemma run_Cons:
  "run step s (e # es) = Inr s' \<longleftrightarrow> (\<exists>s1. step e s = (None, s1) \<and> run step s1 es = Inr s')"
  by (auto split: prod.splits option.splits)

declare run.simps(2) [simp del]

text \<open>Induction on an accepted sequence from its end.\<close>

lemma run_induct [consumes 1, case_names empty snoc]:
  assumes "run step s es = Inr s'" and "P [] s"
    and "\<And>es s1 e s2. run step s es = Inr s1 \<Longrightarrow> P es s1 \<Longrightarrow> step e s1 = (None, s2) \<Longrightarrow> P (es @ [e]) s2"
  shows "P es s'"
  using assms(1)
proof (induction es arbitrary: s' rule: rev_induct)
  case Nil
  then show ?case using assms(2) by simp
next
  case (snoc e es)
  then show ?case using assms(3) by (auto simp: run_snoc)
qed

lemma increasing_last:
  "sorted_wrt (<) (xs :: int list) \<Longrightarrow> x \<in> set xs \<Longrightarrow> x \<le> last xs"
  by (induction xs rule: rev_induct) (auto simp: sorted_wrt_append)

section \<open>The laws of a reducer\<close>

locale reducer =
  fixes step :: "'e \<Rightarrow> 's \<Rightarrow> 's outcome"
    and initial :: 's
    and invar :: "'s \<Rightarrow> bool"
    and seq :: "'e \<Rightarrow> int"
    and mark :: "'s \<Rightarrow> int"
  assumes invar_initial: "invar initial"
    and invar_step: "invar s \<Longrightarrow> step e s = (None, s') \<Longrightarrow> invar s'"
    and all_or_nothing: "invar s \<Longrightarrow> atomic s (step e s)"
    and seq_step: "step e s = (None, s') \<Longrightarrow> mark s < seq e \<and> mark s' = seq e"
begin

lemma refused: "invar s \<Longrightarrow> step e s = (Some err, s') \<Longrightarrow> s' = s"
  using all_or_nothing [of s e] by (simp add: atomic_def)

lemma run_invar: "run step s es = Inr s' \<Longrightarrow> invar s \<Longrightarrow> invar s'"
  by (induction rule: run_induct) (auto intro: invar_step)

lemma reduction_invar: "run step initial es = Inr s \<Longrightarrow> invar s"
  using run_invar invar_initial by blast

lemma run_mark: "run step s es = Inr s' \<Longrightarrow> mark s' = last (mark s # map seq es)"
  by (induction rule: run_induct) (auto dest: seq_step)

lemma run_increasing: "run step s es = Inr s' \<Longrightarrow> sorted_wrt (<) (mark s # map seq es)"
proof (induction rule: run_induct)
  case empty
  then show ?case by simp
next
  case (snoc es s1 e s2)
  have m: "mark s1 < seq e" using seq_step [OF snoc.hyps(2)] by simp
  have "mark s1 = last (mark s # map seq es)" using snoc.hyps(1) by (rule run_mark)
  then have "\<forall>x \<in> set (mark s # map seq es). x < seq e"
    using m increasing_last [OF snoc.IH] by fastforce
  then have "sorted_wrt (<) ((mark s # map seq es) @ [seq e])"
    using snoc.IH by (simp only: sorted_wrt_snoc)
  then show ?case by simp
qed

text \<open>The live state is the reduction of what was admitted.\<close>

lemma feed_is_run: "invar s \<Longrightarrow> run step s (admitted step s es) = Inr (feed step s es)"
proof (induction es arbitrary: s)
  case Nil
  then show ?case by simp
next
  case (Cons e es)
  obtain r s1 where r: "step e s = (r, s1)" by (cases "step e s")
  then show ?case
  proof (cases r)
    case None
    with r Cons show ?thesis by (auto simp: run_Cons intro: invar_step)
  next
    case (Some err)
    then have "s1 = s" using refused [OF Cons.prems] r by blast
    with r Some Cons show ?thesis by simp
  qed
qed

text \<open>A relation that every step respects relates the ends of every run.\<close>

lemma run_respects:
  assumes run: "run step s es = Inr s'" and inv: "invar s"
    and refl: "\<And>s. R s s" and trans: "\<And>a b c. R a b \<Longrightarrow> R b c \<Longrightarrow> R a c"
    and step: "\<And>e s s'. invar s \<Longrightarrow> step e s = (None, s') \<Longrightarrow> R s s'"
  shows "R s s'"
  using run
proof (induction rule: run_induct)
  case empty
  then show ?case by (rule refl)
next
  case (snoc es s1 e s2)
  have "invar s1" using run_invar [OF snoc.hyps(1) inv] .
  then show ?case using snoc.IH snoc.hyps(2) step trans by blast
qed

end

end
