(* ===== verification/Reduction.thy ===== *)
theory Reduction
  imports Preserve Journal
begin

text \<open>
  Apply is all-or-nothing, and what that gives the reduction of a journal: the locale of an
  event-sourced reducer with its laws, its instance on Apply, and the properties of Reduce. The
  laws are what the package documentation of internal/state promises: a refused event changes
  nothing, sequence numbers only grow, and the projection is always a reduction of the prefix
  that was accepted.
\<close>

section \<open>A refused event changes nothing\<close>

lemma atomic_on_discovery: "atomic (p_discovery p) (f (p_discovery p)) \<Longrightarrow> atomic p (on_discovery f p)"
  by (cases "f (p_discovery p)") (auto simp: on_discovery_def atomic_def)

lemma facts_atomic [simp, intro]:
  "atomic p (applyMilestoneStarted ms p)" "atomic p (applyHealthReportRecorded hr p)"
  "atomic p (applyModuleCatalogRecorded mc p)" "atomic p (applyComponentDeclared cd p)"
  "atomic p (applyDecisionRequired dr p)" "atomic p (applyDecisionRecorded dc p)"
  "atomic p (applyRiskRecorded rk p)" "atomic p (applyRiskResolved rr p)"
  "atomic p (applyBaselineValidation vc p)" "atomic p (applyProjectInitialized e pi p)"
  by (auto simp: op_defs Let_def intro!: atomic_guard)

lemma task_atomic [simp, intro]:
  "atomic p (applyTaskCreated e tc p)" "atomic p (applyTaskScoutingStarted e ts p)"
  "atomic p (applyTaskDesignStarted e td p)" "atomic p (applyWorkPackageProposed wp p)"
  "atomic p (applyWorkPackageApproved e wa p)" "atomic p (applyTaskDelegated e dg p)"
  "atomic p (applyEscalationRaised e er p)" "atomic p (applyIntegrationStarted e ig p)"
  "atomic p (applyIntegrationValidationStarted e iv p)"
  by (auto simp: op_defs Let_def intro!: atomic_guard atomic_with_result)

lemma attempt_atomic [simp, intro]:
  "atomic p (applyAttemptStarted e at p)" "atomic p (applyAttemptBlocked e ab p)"
  "atomic p (applyAttemptFailed e af p)" "atomic p (applyReviewCompleted rc p)"
  "atomic p (applyChangeRejected e cr p)"
  by (auto simp: op_defs Let_def intro!: atomic_guard atomic_with_result)

lemma atomic_ChangeAccepted [simp, intro]: "atomic p (applyChangeAccepted e ca p)"
  unfolding applyChangeAccepted_def
  by (intro atomic_with_result atomic_guard atomic_andThen) auto

text \<open>
  Three operations change the projection and only then attempt the task transition. The check they
  make first rules out that the transition fails.
\<close>

lemma transition_after:
  assumes "inv_tasks p" "p_tasks p tid = Some t" "CanTransition (t_State t) to_s"
    "t_State t \<noteq> StateBlocked" "to_s \<noteq> StateBlocked"
  shows "\<exists>p'. transitionTask e tid to_s Inr p = (None, p')"
  using transitionTask_succeeds [OF assms] by blast

lemma atomic_CandidateProduced:
  assumes "live p"
  shows "atomic p (applyCandidateProduced e pl p)"
  unfolding applyCandidateProduced_def
proof (intro atomic_with_result atomic_guard atomic_andThen finishAttempt_atomic)
  fix t p1
  assume t: "Task_of p (cp_TaskID pl) = Inr t" "CheckTransition (t_State t) StateValidating = None"
    and f: "finishAttempt e (cp_TaskID pl) (cp_AttemptID pl) StatusCandidateProduced
      (\<lambda>a. a\<lparr>a_CandidateCommit := cp_CandidateCommit pl,
             a_RepairIterations := cp_RepairIterations pl,
             a_Artifacts := a_Artifacts a @ cp_Artifacts pl\<rparr>) p = (None, p1)"
  have "live p1" by (rule live_finish [OF assms f]) (simp add: outcome_only_def)
  moreover have "p_tasks p1 (cp_TaskID pl) = Some t"
    using f t(1) by (auto simp: finishAttempt_ok)
  moreover have "t_State t = StateRunning" using t(2) by (simp add: CheckTransition_None)
  ultimately show "\<exists>p'. transitionTask e (cp_TaskID pl) StateValidating Inr p1 = (None, p')"
    by (intro transition_after [of p1 _ t]) (simp_all add: live_parts)
qed

lemma recordValidation_tasks:
  "inv_tasks p \<Longrightarrow> recordValidation v r p = (None, p1) \<Longrightarrow> inv_tasks p1 \<and> p_tasks p1 = p_tasks p"
  by (auto simp: recordValidation_ok inv_tasks_def wf_task_def)

lemma atomic_AttemptValidation:
  assumes "inv_tasks p"
  shows "atomic p (applyAttemptValidation e pl p)"
  unfolding applyAttemptValidation_def
proof (intro atomic_with_result atomic_guard atomic_andThen record_atomic)
  fix t :: Task and a p1
  assume "requireTaskInState p (vc_TaskID pl) StateValidating = Inr t"
    and "recordValidation (vc_ValidationID pl) \<lparr>ev_scope = ''attempt'', ev_taskID = t_ID t,
        ev_attemptID = a_ID a, ev_commit = a_CandidateCommit a\<rparr> p = (None, p1)"
  then show "\<exists>p'. transitionTask e (vc_TaskID pl)
      (if vc_Status pl = OutcomePass then StateReviewing else StateRunning) Inr p1 = (None, p')"
    using recordValidation_tasks [OF assms]
    by (intro transition_after [of p1 _ t]) (auto simp: requireTaskInState_ok)
qed

lemma atomic_IntegrationValidation:
  assumes "inv_tasks p"
  shows "atomic p (applyIntegrationValidation e pl p)"
  unfolding applyIntegrationValidation_def
proof (intro atomic_with_result atomic_andThen [OF record_atomic(1)])
  fix t :: Task and p1
  assume "requireTaskInState p (vc_TaskID pl) StateIntegrationValidating = Inr t"
    and "recordValidation (vc_ValidationID pl) \<lparr>ev_scope = ''integration'', ev_taskID = t_ID t,
        ev_attemptID = '''', ev_commit = vc_Commit pl\<rparr> p = (None, p1)"
  then have "\<exists>p2. transitionTask e (vc_TaskID pl) StateDone Inr p1 = (None, p2)"
    using recordValidation_tasks [OF assms]
    by (intro transition_after [of p1 _ t]) (auto simp: requireTaskInState_ok)
  then show "\<exists>p'. (if vc_Status pl \<noteq> OutcomePass then (None, p1)
      else andThen (transitionTask e (vc_TaskID pl) StateDone Inr p1)
        (\<lambda>p2. (None, if vc_Commit pl \<noteq> '''' then p2\<lparr>p_AcceptedCommit := vc_Commit pl\<rparr>
                     else if t_AcceptedCommit t \<noteq> ''''
                     then p2\<lparr>p_AcceptedCommit := t_AcceptedCommit t\<rparr> else p2))) = (None, p')"
    by auto
qed

lemma atomic_applyPayload:
  assumes "live p"
  shows "atomic p (applyPayload e pl p)"
proof -
  have "atomic p (applyValidationCompleted e vc p)" for vc
    using atomic_AttemptValidation atomic_IntegrationValidation live_parts(6) [OF assms]
    by (simp add: applyValidationCompleted_def split: ValidationScope.split)
  then show ?thesis
    using atomic_CandidateProduced [OF assms] by (cases pl) (auto intro: atomic_on_discovery)
qed

lemma Apply_atomic:
  assumes "inv p"
  shows "atomic p (Apply e p)"
proof -
  have "atomic p (case ev_Payload e of None \<Rightarrow> (Some (New CategoryInternal), p)
      | Some pl \<Rightarrow> applyPayload e pl p)"
    if v: "Event_Validate e = None" and
      proj: "(if p_initialised p
         then first_err [check (ev_ProjectID e \<noteq> p_ProjectID p) CategoryIntegrity,
           check (ev_EventType e = ''ProjectInitialized'') CategoryIntegrity]
         else check (ev_EventType e \<noteq> ''ProjectInitialized'') CategoryIntegrity) = None"
  proof -
    obtain pl where pl: "ev_Payload e = Some pl" "Payload_Type pl = ev_EventType e"
      using v by (auto simp: Event_Validate_None)
    have "atomic p (applyPayload e pl p)"
    proof (cases "p_initialised p")
      case True
      then show ?thesis using assms by (simp add: atomic_applyPayload live_iff)
    next
      case False
      then have "Payload_Type pl = ''ProjectInitialized''" using proj pl(2) by simp
      then show ?thesis by (cases pl) simp_all
    qed
    then show ?thesis using pl by simp
  qed
  then show ?thesis unfolding Apply_def
    by (intro atomic_guard atomic_andThen) auto
qed

section \<open>Apply as an event-sourced reducer\<close>

lemma reduce_from_run: "reduce_from p es = run Apply p es"
  by (induction es arbitrary: p) (auto simp: run.simps(2) split: prod.splits option.splits)

lemma Reduce_run: "Reduce es = run Apply New_Projection es"
  by (simp add: Reduce_def reduce_from_run)

interpretation state_reducer: reducer Apply New_Projection inv ev_Seq p_HighWatermark
proof unfold_locales
  show "inv New_Projection" by (rule inv_New)
  show "inv p \<Longrightarrow> Apply e p = (None, p') \<Longrightarrow> inv p'" for p e p'
    using Apply_inv by blast
  show "inv p \<Longrightarrow> atomic p (Apply e p)" for p e by (rule Apply_atomic)
  show "Apply e p = (None, p') \<Longrightarrow> p_HighWatermark p < ev_Seq e \<and> p_HighWatermark p' = ev_Seq e"
    for e p p'
    by (auto simp: Apply_ok)
qed

lemma Reduce_inv: "Reduce es = Inr p \<Longrightarrow> inv p"
  unfolding Reduce_run by (rule state_reducer.reduction_invar)

lemma Reduce_live: "Reduce es = Inr p \<Longrightarrow> es \<noteq> [] \<Longrightarrow> live p"
proof -
  assume r: "Reduce es = Inr p" and "es \<noteq> []"
  then obtain fs e where "es = fs @ [e]" by (cases es rule: rev_cases) auto
  with r obtain q where "Reduce fs = Inr q" "Apply e q = (None, p)"
    by (auto simp: Reduce_run run_snoc)
  then show "live p" by (blast intro: Apply_live Reduce_inv)
qed

end
