(* ===== verification/History.thy ===== *)
theory History
  imports Reduction
begin

text \<open>
  What a journal means for the history of its tasks and attempts: an abstract board that holds only
  the state of each task, the refinement of the board by the reducer, and what never changes once
  it is recorded.
\<close>

section \<open>The board\<close>

type_synonym board = "string \<rightharpoonup> State"

definition task_board :: "Projection \<Rightarrow> board" where
  "task_board p tid = map_option t_State (p_tasks p tid)"

text \<open>The task an event creates, and the task it moves with the state it moves it to.\<close>

fun creates :: "Payload \<Rightarrow> string option" where
  "creates (PTaskCreated pl) = Some (tc_TaskID pl)"
| "creates _ = None"

fun moves :: "Payload \<Rightarrow> (string \<times> State) option" where
  "moves (PTaskScoutingStarted pl) = Some (ts_TaskID pl, StateScouting)"
| "moves (PTaskDesignStarted pl) = Some (td_TaskID pl, StateDesigning)"
| "moves (PWorkPackageApproved pl) = Some (wa_TaskID pl, StateReady)"
| "moves (PTaskDelegated pl) = Some (dg_TaskID pl, StateRunning)"
| "moves (PCandidateProduced pl) = Some (cp_TaskID pl, StateValidating)"
| "moves (PValidationCompleted pl) =
     (if vc_Scope pl = ScopeAttempt
      then Some (vc_TaskID pl, if vc_Status pl = OutcomePass then StateReviewing else StateRunning)
      else if vc_Scope pl = ScopeIntegration \<and> vc_Status pl = OutcomePass
      then Some (vc_TaskID pl, StateDone) else None)"
| "moves (PChangeAccepted pl) = Some (ca_TaskID pl, StateAccepted)"
| "moves (PChangeRejected pl) = Some (cr_TaskID pl, StateRunning)"
| "moves (PEscalationRaised pl) = Some (er_TaskID pl, StateBlocked)"
| "moves (PIntegrationStarted pl) = Some (is_TaskID pl, StateIntegrating)"
| "moves (PIntegrationValidationStarted pl) = Some (iv_TaskID pl, StateIntegrationValidating)"
| "moves _ = None"

definition board_step :: "Payload \<Rightarrow> board \<Rightarrow> board option" where
  "board_step pl b =
     (case creates pl of
        Some tid \<Rightarrow> if b tid = None then Some (b(tid \<mapsto> StateProposed)) else None
      | None \<Rightarrow>
         (case moves pl of
            None \<Rightarrow> Some b
          | Some (tid, s) \<Rightarrow>
              (case b tid of
                 None \<Rightarrow> None
               | Some s0 \<Rightarrow> if CanTransition s0 s then Some (b(tid \<mapsto> s)) else None)))"

lemma board_put_task [simp]: "task_board (put_task t tid p) = (task_board p)(tid \<mapsto> t_State t)"
  by (rule ext) (simp add: task_board_def)

lemma board_same_tasks: "p_tasks q = p_tasks p \<Longrightarrow> task_board q = task_board p"
  by (simp add: task_board_def fun_eq_iff)

lemma board_transition:
  assumes "transitionTask e tid s f p = (None, p')" "\<And>t u. f t = Inr u \<Longrightarrow> t_State u = t_State t"
  shows "\<exists>s0. task_board p tid = Some s0 \<and> CanTransition s0 s \<and>
    task_board p' = (task_board p)(tid \<mapsto> s)"
proof -
  from assms(1) obtain t u where "p_tasks p tid = Some t" "CanTransition (t_State t) s"
    "f (t\<lparr>t_State := s\<rparr>) = Inr u" "p' = put_task (u\<lparr>t_UpdatedSeq := ev_Seq e\<rparr>) tid p"
    by (auto simp: transitionTask_ok)
  moreover from this(3) have "t_State u = s" using assms(2) by fastforce
  ultimately show ?thesis by (simp add: task_board_def)
qed

lemma finishAttempt_tasks: "finishAttempt e tid aid s f p = (None, p') \<Longrightarrow> p_tasks p' = p_tasks p"
  by (auto simp: finishAttempt_ok)

lemma record_tasks:
  "recordValidation v r p = (None, p') \<Longrightarrow> p_tasks p' = p_tasks p"
  "recordReview v r p = (None, p') \<Longrightarrow> p_tasks p' = p_tasks p"
  by (auto simp: recordValidation_ok recordReview_ok)

text \<open>Operations on project facts.\<close>

definition facts_only :: "Projection \<Rightarrow> Projection \<Rightarrow> bool" where
  "facts_only p q \<longleftrightarrow> same_work p q \<and> p_semanticChanges q = p_semanticChanges p \<and>
     p_initialised q = p_initialised p"

lemma facts_ops:
  "applyMilestoneStarted ms p = (None, p') \<Longrightarrow> facts_only p p'"
  "applyHealthReportRecorded hr p = (None, p') \<Longrightarrow> facts_only p p'"
  "applyModuleCatalogRecorded mc p = (None, p') \<Longrightarrow> facts_only p p'"
  "applyComponentDeclared cd p = (None, p') \<Longrightarrow> facts_only p p'"
  "applyDecisionRequired dr p = (None, p') \<Longrightarrow> facts_only p p'"
  "applyRiskRecorded rk p = (None, p') \<Longrightarrow> facts_only p p'"
  "applyRiskResolved rr p = (None, p') \<Longrightarrow> facts_only p p'"
  "applyBaselineValidation vc p = (None, p') \<Longrightarrow> facts_only p p'"
  "applyWorkPackageProposed wp p = (None, p') \<Longrightarrow> facts_only p p'"
  "on_discovery f p = (None, p') \<Longrightarrow> facts_only p p'"
  by (auto simp: op_defs outcome_ok Let_def on_discovery_def facts_only_def same_work_def
      split: prod.splits)

lemma facts_DecisionRecorded: "applyDecisionRecorded dc p = (None, p') \<Longrightarrow> facts_only p p'"
  by (cases "dc_ResolvesDecisionRequired dc = ''''")
    (auto simp: op_defs outcome_ok facts_only_def same_work_def)

lemma facts_tasks: "facts_only p q \<Longrightarrow> p_tasks q = p_tasks p"
  by (simp add: facts_only_def same_work_def)

lemma init_tasks: "applyProjectInitialized e pl p = (None, p') \<Longrightarrow> p_tasks p' = p_tasks p"
  by (auto simp: op_defs)

lemmas tasks_untouched = facts_ops [THEN facts_tasks] facts_DecisionRecorded [THEN facts_tasks]
  init_tasks

lemma attempts_leave_tasks:
  "applyAttemptBlocked e ab p = (None, p') \<Longrightarrow> p_tasks p' = p_tasks p"
  "applyAttemptFailed e af p = (None, p') \<Longrightarrow> p_tasks p' = p_tasks p"
  "applyReviewCompleted rc p = (None, p') \<Longrightarrow> p_tasks p' = p_tasks p"
  by (auto simp: op_defs outcome_ok Let_def finishAttempt_tasks dest!: record_tasks)

lemma board_AttemptStarted:
  assumes "applyAttemptStarted e pl p = (None, p')"
  shows "task_board p' = task_board p"
  using assms by (auto simp: applyAttemptStarted_def outcome_ok Let_def task_board_def fun_eq_iff)

text \<open>The operations that move a task make exactly the move of their payload.\<close>

definition board_move :: "board \<Rightarrow> string \<Rightarrow> State \<Rightarrow> board \<Rightarrow> bool" where
  "board_move b tid s b' \<longleftrightarrow>
     (\<exists>s0. b tid = Some s0 \<and> CanTransition s0 s \<and> b' = b(tid \<mapsto> s))"

lemma move_transition:
  "transitionTask e tid s f p = (None, p') \<Longrightarrow> (\<And>t u. f t = Inr u \<Longrightarrow> t_State u = t_State t) \<Longrightarrow>
     board_move (task_board p) tid s (task_board p')"
  unfolding board_move_def by (rule board_transition)

lemma move_simple_ops:
  "applyTaskScoutingStarted e ts p = (None, p') \<Longrightarrow>
     board_move (task_board p) (ts_TaskID ts) StateScouting (task_board p')"
  "applyTaskDesignStarted e td p = (None, p') \<Longrightarrow>
     board_move (task_board p) (td_TaskID td) StateDesigning (task_board p')"
  "applyWorkPackageApproved e wa p = (None, p') \<Longrightarrow>
     board_move (task_board p) (wa_TaskID wa) StateReady (task_board p')"
  "applyTaskDelegated e dg p = (None, p') \<Longrightarrow>
     board_move (task_board p) (dg_TaskID dg) StateRunning (task_board p')"
  "applyIntegrationStarted e ig p = (None, p') \<Longrightarrow>
     board_move (task_board p) (is_TaskID ig) StateIntegrating (task_board p')"
  "applyIntegrationValidationStarted e iv p = (None, p') \<Longrightarrow>
     board_move (task_board p) (iv_TaskID iv) StateIntegrationValidating (task_board p')"
  unfolding applyTaskScoutingStarted_def applyTaskDesignStarted_def applyWorkPackageApproved_def
    applyTaskDelegated_def applyIntegrationStarted_def applyIntegrationValidationStarted_def
  by (erule move_transition;
      auto dest: approve_mutation_identity split: if_splits)+

lemma move_CandidateProduced:
  assumes "applyCandidateProduced e pl p = (None, p')"
  shows "board_move (task_board p) (cp_TaskID pl) StateValidating (task_board p')"
proof -
  obtain p1 where "finishAttempt e (cp_TaskID pl) (cp_AttemptID pl) StatusCandidateProduced
      (\<lambda>a. a\<lparr>a_CandidateCommit := cp_CandidateCommit pl,
             a_RepairIterations := cp_RepairIterations pl,
             a_Artifacts := a_Artifacts a @ cp_Artifacts pl\<rparr>) p = (None, p1)"
    and tr: "transitionTask e (cp_TaskID pl) StateValidating Inr p1 = (None, p')"
    using assms unfolding applyCandidateProduced_def by (auto simp: outcome_ok)
  then have "task_board p1 = task_board p" by (intro board_same_tasks finishAttempt_tasks)
  with move_transition [OF tr] show ?thesis by simp
qed

lemma move_AttemptValidation:
  assumes "applyAttemptValidation e pl p = (None, p')"
  shows "board_move (task_board p) (vc_TaskID pl)
    (if vc_Status pl = OutcomePass then StateReviewing else StateRunning) (task_board p')"
proof -
  obtain r p1 where "recordValidation (vc_ValidationID pl) r p = (None, p1)"
    and tr: "transitionTask e (vc_TaskID pl)
      (if vc_Status pl = OutcomePass then StateReviewing else StateRunning) Inr p1 = (None, p')"
    using assms unfolding applyAttemptValidation_def by (auto simp: outcome_ok)
  then have "task_board p1 = task_board p" by (intro board_same_tasks record_tasks)
  with move_transition [OF tr] show ?thesis by simp
qed

text \<open>The two ways an integration validation is applied.\<close>

lemma IntegrationValidation_cases:
  assumes "applyIntegrationValidation e pl p = (None, p')"
  obtains (fails) t p1 where "requireTaskInState p (vc_TaskID pl) StateIntegrationValidating = Inr t"
      "recordValidation (vc_ValidationID pl) \<lparr>ev_scope = ''integration'', ev_taskID = t_ID t,
         ev_attemptID = '''', ev_commit = vc_Commit pl\<rparr> p = (None, p1)"
      "vc_Status pl \<noteq> OutcomePass" "p' = p1"
  | (passes) t p1 p2 c where "requireTaskInState p (vc_TaskID pl) StateIntegrationValidating = Inr t"
      "recordValidation (vc_ValidationID pl) \<lparr>ev_scope = ''integration'', ev_taskID = t_ID t,
         ev_attemptID = '''', ev_commit = vc_Commit pl\<rparr> p = (None, p1)"
      "vc_Status pl = OutcomePass"
      "transitionTask e (vc_TaskID pl) StateDone Inr p1 = (None, p2)"
      "p' = p2\<lparr>p_AcceptedCommit := c\<rparr>"
proof -
  from assms obtain t p1 where
    t: "requireTaskInState p (vc_TaskID pl) StateIntegrationValidating = Inr t"
      "recordValidation (vc_ValidationID pl) \<lparr>ev_scope = ''integration'', ev_taskID = t_ID t,
         ev_attemptID = '''', ev_commit = vc_Commit pl\<rparr> p = (None, p1)"
    and k: "(if vc_Status pl \<noteq> OutcomePass then (None, p1)
      else andThen (transitionTask e (vc_TaskID pl) StateDone Inr p1)
        (\<lambda>p2. (None, if vc_Commit pl \<noteq> '''' then p2\<lparr>p_AcceptedCommit := vc_Commit pl\<rparr>
                     else if t_AcceptedCommit t \<noteq> ''''
                     then p2\<lparr>p_AcceptedCommit := t_AcceptedCommit t\<rparr> else p2))) = (None, p')"
    unfolding applyIntegrationValidation_def with_result_ok andThen_ok by blast
  show thesis
  proof (cases "vc_Status pl = OutcomePass")
    case False
    with k t fails show thesis by simp
  next
    case True
    with k obtain p2 where tr: "transitionTask e (vc_TaskID pl) StateDone Inr p1 = (None, p2)"
      and p': "p' = (if vc_Commit pl \<noteq> '''' then p2\<lparr>p_AcceptedCommit := vc_Commit pl\<rparr>
                 else if t_AcceptedCommit t \<noteq> ''''
                 then p2\<lparr>p_AcceptedCommit := t_AcceptedCommit t\<rparr> else p2)"
      by (auto simp: andThen_ok)
    have "p' = p2\<lparr>p_AcceptedCommit := p_AcceptedCommit p'\<rparr>"
      by (cases "vc_Commit pl = ''''"; cases "t_AcceptedCommit t = ''''") (simp_all add: p')
    then show thesis using passes t True tr by blast
  qed
qed

lemma move_IntegrationValidation:
  assumes "applyIntegrationValidation e pl p = (None, p')"
  shows "if vc_Status pl = OutcomePass
    then board_move (task_board p) (vc_TaskID pl) StateDone (task_board p')
    else task_board p' = task_board p"
  using assms
proof (cases rule: IntegrationValidation_cases)
  case (fails t p1)
  then have "task_board p' = task_board p" by (auto intro: board_same_tasks record_tasks)
  with fails(3) show ?thesis by simp
next
  case (passes t p1 p2 c)
  have "board_move (task_board p1) (vc_TaskID pl) StateDone (task_board p2)"
    using passes(4) by (rule move_transition) simp
  moreover have "task_board p1 = task_board p"
    using passes(2) by (intro board_same_tasks record_tasks)
  moreover have "task_board p' = task_board p2"
    unfolding passes(5) by (intro board_same_tasks) simp
  ultimately show ?thesis using passes(3) by simp
qed

lemma move_ChangeAccepted:
  assumes "applyChangeAccepted e pl p = (None, p')"
  shows "board_move (task_board p) (ca_TaskID pl) StateAccepted (task_board p')"
proof -
  obtain p1 where tr: "transitionTask e (ca_TaskID pl) StateAccepted
      (\<lambda>t. Inr (t\<lparr>t_AcceptedCommit := ca_CandidateCommit pl\<rparr>)) p = (None, p1)"
    and "p_tasks p' = p_tasks p1"
    using assms unfolding applyChangeAccepted_def by (auto simp: outcome_ok)
  then have "task_board p' = task_board p1" by (intro board_same_tasks)
  with move_transition [OF tr] show ?thesis by auto
qed

lemma move_ChangeRejected:
  assumes "applyChangeRejected e pl p = (None, p')"
  shows "board_move (task_board p) (cr_TaskID pl) StateRunning (task_board p')"
proof -
  have "transitionTask e (cr_TaskID pl) StateRunning Inr p = (None, p')"
    using assms unfolding applyChangeRejected_def by (auto simp: outcome_ok)
  then show ?thesis by (rule move_transition) auto
qed

lemma move_EscalationRaised:
  assumes "applyEscalationRaised e pl p = (None, p')"
  shows "board_move (task_board p) (er_TaskID pl) StateBlocked (task_board p')"
proof -
  from assms obtain r where
    "transitionTask e (er_TaskID pl) StateBlocked (\<lambda>t. Inr (t\<lparr>t_Blocked := Some r\<rparr>)) p = (None, p')"
    by (auto simp: op_defs outcome_ok Let_def)
  then show ?thesis by (rule move_transition) auto
qed

lemma board_TaskCreated:
  assumes "applyTaskCreated e pl p = (None, p')"
  shows "task_board p (tc_TaskID pl) = None"
    and "task_board p' = (task_board p)(tc_TaskID pl \<mapsto> StateProposed)"
  using assms
  by (auto simp: applyTaskCreated_def outcome_ok Let_def task_board_def new_task_def fun_eq_iff)

text \<open>How a step of the board is established.\<close>

lemma board_moves:
  "creates pl = None \<Longrightarrow> moves pl = Some (tid, s) \<Longrightarrow> board_move b tid s b' \<Longrightarrow>
     board_step pl b = Some b'"
  by (auto simp: board_step_def board_move_def)

lemma board_still:
  "creates pl = None \<Longrightarrow> moves pl = None \<Longrightarrow> p_tasks p' = p_tasks p \<Longrightarrow>
     board_step pl (task_board p) = Some (task_board p')"
  using board_same_tasks [of p' p] by (simp add: board_step_def)

lemma board_ValidationCompleted:
  assumes "applyValidationCompleted e pl p = (None, p')"
  shows "board_step (PValidationCompleted pl) (task_board p) = Some (task_board p')"
proof (cases "vc_Scope pl")
  case ScopeAttempt
  then have "applyAttemptValidation e pl p = (None, p')"
    using assms by (simp add: applyValidationCompleted_def)
  with ScopeAttempt show ?thesis by (intro board_moves [OF _ _ move_AttemptValidation]) simp_all
next
  case ScopeIntegration
  then have "applyIntegrationValidation e pl p = (None, p')"
    using assms by (simp add: applyValidationCompleted_def)
  note m = move_IntegrationValidation [OF this]
  show ?thesis
  proof (cases "vc_Status pl = OutcomePass")
    case True
    with m ScopeIntegration show ?thesis by (intro board_moves) simp_all
  next
    case False
    with m have "task_board p' = task_board p" by simp
    with False ScopeIntegration show ?thesis by (simp add: board_step_def)
  qed
next
  case ScopeBaseline
  then have "applyBaselineValidation pl p = (None, p')"
    using assms by (simp add: applyValidationCompleted_def)
  with ScopeBaseline show ?thesis by (intro board_still facts_tasks facts_ops(8)) simp_all
qed (use assms in \<open>simp add: applyValidationCompleted_def\<close>)

lemmas move_ops = move_simple_ops move_CandidateProduced move_ChangeAccepted move_ChangeRejected
  move_EscalationRaised

lemma board_special:
  "applyTaskCreated e tc p = (None, p') \<Longrightarrow>
     board_step (PTaskCreated tc) (task_board p) = Some (task_board p')"
  "applyAttemptStarted e at p = (None, p') \<Longrightarrow>
     board_step (PAttemptStarted at) (task_board p) = Some (task_board p')"
  using board_TaskCreated [of e tc p p'] board_AttemptStarted [of e at p p']
  by (simp_all add: board_step_def)

lemma board_applyPayload:
  assumes "applyPayload e pl p = (None, p')"
  shows "board_step pl (task_board p) = Some (task_board p')"
  using assms
  by (cases pl; simp only: applyPayload.simps)
    (erule board_special board_ValidationCompleted |
     (rule board_moves, simp, simp, rule move_ops, assumption) |
     (rule board_still, simp, simp, rule tasks_untouched attempts_leave_tasks, assumption) |
     (rule board_still; simp))+

lemma board_Apply:
  assumes "Apply e p = (None, p')"
  shows "\<exists>pl. ev_Payload e = Some pl \<and> board_step pl (task_board p) = Some (task_board p')"
proof -
  from assms obtain pl p1 where "ev_Payload e = Some pl" "applyPayload e pl p = (None, p1)"
    "p_tasks p' = p_tasks p1"
    by (auto simp: Apply_ok)
  then show ?thesis using board_applyPayload board_same_tasks by metis
qed

section \<open>The history of a task\<close>

text \<open>The states a journal moves a task to, in order.\<close>

definition move_to :: "string \<Rightarrow> Event \<Rightarrow> State list" where
  "move_to tid e =
     (case ev_Payload e of
        None \<Rightarrow> []
      | Some pl \<Rightarrow> (case moves pl of
            None \<Rightarrow> []
          | Some (t, s) \<Rightarrow> (if creates pl = None \<and> t = tid then [s] else [])))"

definition visits :: "string \<Rightarrow> Event list \<Rightarrow> State list" where
  "visits tid es = concat (map (move_to tid) es)"

lemma visits_simps [simp]:
  "visits tid [] = []" "visits tid (es @ [e]) = visits tid es @ move_to tid e"
  by (simp_all add: visits_def)

lemma board_Apply_task:
  assumes "Apply e p = (None, p')"
  shows "case task_board p tid of
      None \<Rightarrow> move_to tid e = [] \<and> task_board p' tid \<in> {None, Some StateProposed}
    | Some s \<Rightarrow> lawful CheckTransition s (move_to tid e) \<and>
        task_board p' tid = Some (last (s # move_to tid e))"
proof -
  obtain pl where pl: "ev_Payload e = Some pl"
    and st: "board_step pl (task_board p) = Some (task_board p')"
    using board_Apply [OF assms] by blast
  show ?thesis
  proof (cases "creates pl")
    case (Some c)
    then have "move_to tid e = []" using pl by (simp add: move_to_def split: option.splits)
    moreover have "task_board p c = None" "task_board p' = (task_board p)(c \<mapsto> StateProposed)"
      using st Some by (auto simp: board_step_def split: if_splits)
    ultimately show ?thesis by (cases "tid = c") (auto split: option.split)
  next
    case None
    note nc = this
    show ?thesis
    proof (cases "moves pl")
      case None
      then have "move_to tid e = []" using pl by (simp add: move_to_def)
      moreover have "task_board p' = task_board p" using st nc None by (simp add: board_step_def)
      ultimately show ?thesis by (simp split: option.split)
    next
      case (Some m)
      obtain t s where m: "moves pl = Some (t, s)" using Some by (cases m) simp
      then obtain s0 where "task_board p t = Some s0" "CanTransition s0 s"
        "task_board p' = (task_board p)(t \<mapsto> s)"
        using st nc by (auto simp: board_step_def split: option.splits if_splits)
      then show ?thesis using pl nc m
        by (cases "tid = t") (auto simp: move_to_def CheckTransition_None split: option.split)
    qed
  qed
qed

text \<open>The state of a task is where its lawful history ends.\<close>

lemma task_history:
  assumes "Reduce es = Inr p"
  shows "case task_board p tid of
      None \<Rightarrow> visits tid es = []
    | Some s \<Rightarrow> lawful CheckTransition StateProposed (visits tid es) \<and>
        s = last (StateProposed # visits tid es)"
  using assms unfolding Reduce_run
proof (induction rule: run_induct)
  case empty
  then show ?case by (simp add: task_board_def New_Projection_def)
next
  case (snoc es p e p')
  from snoc.IH board_Apply_task [OF snoc.hyps(2), of tid] show ?case
    by (cases "task_board p tid"; cases "move_to tid e") (auto simp: lawful_append split: option.splits)
qed

section \<open>What is recorded stays recorded\<close>

definition keeps_task :: "Task \<Rightarrow> Task \<Rightarrow> bool" where
  "keeps_task t u \<longleftrightarrow>
     t_ID u = t_ID t \<and> t_ProjectID u = t_ProjectID t \<and> t_Alias u = t_Alias t \<and>
     t_Title u = t_Title t \<and> t_MilestoneID u = t_MilestoneID t \<and>
     t_CreatedSeq u = t_CreatedSeq t \<and> (t_State t = StateDone \<longrightarrow> u = t)"

definition keeps_attempt :: "Attempt \<Rightarrow> Attempt \<Rightarrow> bool" where
  "keeps_attempt a b \<longleftrightarrow>
     a_ID b = a_ID a \<and> a_ProjectID b = a_ProjectID a \<and> a_TaskID b = a_TaskID a \<and>
     a_Ordinal b = a_Ordinal a \<and> a_WorkPackageID b = a_WorkPackageID a \<and>
     a_WorkPackageVersion b = a_WorkPackageVersion a \<and>
     a_ProjectStateRevision b = a_ProjectStateRevision a \<and> a_BaseCommit b = a_BaseCommit a \<and>
     a_WorkerRole b = a_WorkerRole a \<and> a_WorkerProfile b = a_WorkerProfile a \<and>
     a_ModelIdentity b = a_ModelIdentity a \<and> a_WorktreeID b = a_WorktreeID a \<and>
     a_StartedAt b = a_StartedAt a \<and> a_CreatedSeq b = a_CreatedSeq a \<and>
     (a_Status a \<noteq> StatusRunning \<longrightarrow> b = a)"

definition kept :: "('v \<Rightarrow> 'v \<Rightarrow> bool) \<Rightarrow> ('k \<rightharpoonup> 'v) \<Rightarrow> ('k \<rightharpoonup> 'v) \<Rightarrow> bool" where
  "kept R m n \<longleftrightarrow> (\<forall>k v. m k = Some v \<longrightarrow> (\<exists>w. n k = Some w \<and> R v w))"

definition evolves :: "Projection \<Rightarrow> Projection \<Rightarrow> bool" where
  "evolves p q \<longleftrightarrow>
     kept keeps_task (p_tasks p) (p_tasks q) \<and> kept keeps_attempt (p_attempts p) (p_attempts q) \<and>
     kept (=) (p_validations p) (p_validations q) \<and> kept (=) (p_reviews p) (p_reviews q) \<and>
     kept (=) (p_aliases p) (p_aliases q) \<and> prefix (p_taskIDs p) (p_taskIDs q) \<and>
     (\<forall>tid. prefix (p_attemptsByTask p tid) (p_attemptsByTask q tid)) \<and>
     prefix (p_semanticChanges p) (p_semanticChanges q) \<and>
     (p_initialised p \<longrightarrow> p_initialised q \<and> p_ProjectID q = p_ProjectID p)"

lemma kept_refl: "(\<And>v. R v v) \<Longrightarrow> kept R m m"
  by (simp add: kept_def)

lemma kept_trans:
  assumes "kept R a b" "kept R b c" "\<And>x y z. R x y \<Longrightarrow> R y z \<Longrightarrow> R x z"
  shows "kept R a c"
  using assms unfolding kept_def by blast

lemma kept_update: "m k = Some v \<Longrightarrow> R v w \<Longrightarrow> (\<And>v. R v v) \<Longrightarrow> kept R m (m(k \<mapsto> w))"
  by (simp add: kept_def)

lemma kept_insert: "m k = None \<Longrightarrow> (\<And>v. R v v) \<Longrightarrow> kept R m (m(k \<mapsto> w))"
  by (auto simp: kept_def)

lemma keeps_refl [simp]: "keeps_task t t" "keeps_attempt a a"
  by (simp_all add: keeps_task_def keeps_attempt_def)

lemma keeps_task_trans: "keeps_task t u \<Longrightarrow> keeps_task u v \<Longrightarrow> keeps_task t v"
  by (auto simp: keeps_task_def)

lemma keeps_attempt_trans: "keeps_attempt a b \<Longrightarrow> keeps_attempt b c \<Longrightarrow> keeps_attempt a c"
  unfolding keeps_attempt_def by auto

lemma evolves_refl [simp]: "evolves p p"
  by (simp add: evolves_def kept_refl)

lemma kept_transs:
  "kept keeps_task a b \<Longrightarrow> kept keeps_task b c \<Longrightarrow> kept keeps_task a c"
  "kept keeps_attempt d e \<Longrightarrow> kept keeps_attempt e f \<Longrightarrow> kept keeps_attempt d f"
  "kept (=) g h \<Longrightarrow> kept (=) h i \<Longrightarrow> kept (=) g i"
  by (erule (1) kept_trans,
      (erule (1) keeps_task_trans | erule (1) keeps_attempt_trans | simp))+

lemma evolvesD:
  assumes "evolves p q"
  shows "kept keeps_task (p_tasks p) (p_tasks q)"
    "kept keeps_attempt (p_attempts p) (p_attempts q)"
    "kept (=) (p_validations p) (p_validations q)" "kept (=) (p_reviews p) (p_reviews q)"
    "kept (=) (p_aliases p) (p_aliases q)" "prefix (p_taskIDs p) (p_taskIDs q)"
    "prefix (p_attemptsByTask p tid) (p_attemptsByTask q tid)"
    "prefix (p_semanticChanges p) (p_semanticChanges q)"
    "p_initialised p \<Longrightarrow> p_initialised q \<and> p_ProjectID q = p_ProjectID p"
  using assms by (simp_all add: evolves_def)

lemma evolves_trans:
  assumes "evolves p q" "evolves q r"
  shows "evolves p r"
proof -
  note a = evolvesD [OF assms(1)] and b = evolvesD [OF assms(2)]
  have "kept keeps_task (p_tasks p) (p_tasks r)" using a(1) b(1) by (rule kept_transs)
  moreover have "kept keeps_attempt (p_attempts p) (p_attempts r)"
    using a(2) b(2) by (rule kept_transs)
  moreover have "kept (=) (p_validations p) (p_validations r)" using a(3) b(3) by (rule kept_transs)
  moreover have "kept (=) (p_reviews p) (p_reviews r)" using a(4) b(4) by (rule kept_transs)
  moreover have "kept (=) (p_aliases p) (p_aliases r)" using a(5) b(5) by (rule kept_transs)
  moreover have "prefix (p_taskIDs p) (p_taskIDs r)"
    using a(6) b(6) by (rule prefix_order.trans)
  moreover have "prefix (p_attemptsByTask p tid) (p_attemptsByTask r tid)" for tid
    using a(7) b(7) by (rule prefix_order.trans)
  moreover have "prefix (p_semanticChanges p) (p_semanticChanges r)"
    using a(8) b(8) by (rule prefix_order.trans)
  moreover have "p_initialised p \<longrightarrow> p_initialised r \<and> p_ProjectID r = p_ProjectID p"
    using a(9) b(9) by simp
  ultimately show ?thesis unfolding evolves_def by blast
qed

lemma evolves_facts: "facts_only p q \<Longrightarrow> evolves p q"
  by (simp add: facts_only_def same_work_def evolves_def kept_refl)

text \<open>Steps of the task half.\<close>

lemma evolves_put_task:
  "p_tasks p tid = Some t \<Longrightarrow> keeps_task t u \<Longrightarrow> evolves p (put_task u tid p)"
  by (simp add: evolves_def put_task_def kept_refl kept_update)

lemma evolves_put_attempt:
  "p_attempts p aid = Some a \<Longrightarrow> keeps_attempt a b \<Longrightarrow> evolves p (put_attempt b aid p)"
  by (simp add: evolves_def put_attempt_def kept_refl kept_update)

lemma evolves_transition:
  assumes "transitionTask e tid s f p = (None, p')"
    and "\<And>t u. f t = Inr u \<Longrightarrow> t_ID u = t_ID t \<and> t_ProjectID u = t_ProjectID t \<and>
      t_Alias u = t_Alias t \<and> t_Title u = t_Title t \<and> t_MilestoneID u = t_MilestoneID t \<and>
      t_CreatedSeq u = t_CreatedSeq t"
  shows "evolves p p'"
proof -
  from assms(1) obtain t u where t: "p_tasks p tid = Some t" and c: "CanTransition (t_State t) s"
    and u: "f (t\<lparr>t_State := s\<rparr>) = Inr u"
    and p': "p' = put_task (u\<lparr>t_UpdatedSeq := ev_Seq e\<rparr>) tid p"
    by (auto simp: transitionTask_ok)
  have "t_State t \<noteq> StateDone"
    using c by (auto simp: CanTransition_cases state_defs)
  then have "keeps_task t (u\<lparr>t_UpdatedSeq := ev_Seq e\<rparr>)"
    using assms(2) [OF u] by (simp add: keeps_task_def)
  with t show ?thesis unfolding p' by (rule evolves_put_task)
qed

lemma evolves_finish:
  assumes "finishAttempt e tid aid s f p = (None, p')"
    and "\<And>a. a_Status a = s \<Longrightarrow> keeps_attempt (a\<lparr>a_Status := StatusRunning\<rparr>) (f a)"
  shows "evolves p p'"
proof -
  from assms(1) obtain a where a: "p_attempts p aid = Some a" "a_Status a = StatusRunning"
    and p': "p' = put_attempt (f (a\<lparr>a_Status := s, a_FinishedAt := Some (ev_OccurredAt e),
               a_UpdatedSeq := ev_Seq e\<rparr>)) aid p"
    by (auto simp: finishAttempt_ok)
  have "keeps_attempt a (f (a\<lparr>a_Status := s, a_FinishedAt := Some (ev_OccurredAt e),
      a_UpdatedSeq := ev_Seq e\<rparr>))"
    using assms(2) [of "a\<lparr>a_Status := s, a_FinishedAt := Some (ev_OccurredAt e),
      a_UpdatedSeq := ev_Seq e\<rparr>"] a(2) by (simp add: keeps_attempt_def)
  with a(1) show ?thesis unfolding p' by (rule evolves_put_attempt)
qed

lemma evolves_record:
  "recordValidation v r p = (None, p') \<Longrightarrow> evolves p p'"
  "recordReview v r p = (None, p') \<Longrightarrow> evolves p p'"
  by (auto simp: recordValidation_ok recordReview_ok evolves_def kept_refl kept_insert)

text \<open>The operations on tasks, attempts, evidence and decisions.\<close>

lemma keeps_callback:
  "approve_mutation pl t = Inr u \<Longrightarrow>
     t_ID u = t_ID t \<and> t_ProjectID u = t_ProjectID t \<and> t_Alias u = t_Alias t \<and>
     t_Title u = t_Title t \<and> t_MilestoneID u = t_MilestoneID t \<and> t_CreatedSeq u = t_CreatedSeq t"
  by (auto simp: approve_mutation_def Let_def split: if_splits)

lemma evolves_simple_ops:
  "applyTaskScoutingStarted e ts p = (None, p') \<Longrightarrow> evolves p p'"
  "applyTaskDesignStarted e td p = (None, p') \<Longrightarrow> evolves p p'"
  "applyWorkPackageApproved e wa p = (None, p') \<Longrightarrow> evolves p p'"
  "applyTaskDelegated e dg p = (None, p') \<Longrightarrow> evolves p p'"
  "applyIntegrationStarted e ig p = (None, p') \<Longrightarrow> evolves p p'"
  "applyIntegrationValidationStarted e iv p = (None, p') \<Longrightarrow> evolves p p'"
  unfolding applyTaskScoutingStarted_def applyTaskDesignStarted_def applyWorkPackageApproved_def
    applyTaskDelegated_def applyIntegrationStarted_def applyIntegrationValidationStarted_def
  by (erule evolves_transition; auto dest: keeps_callback split: if_splits)+

lemma evolves_TaskCreated:
  assumes "applyTaskCreated e pl p = (None, p')"
  shows "evolves p p'"
  using assms
  by (auto simp: applyTaskCreated_def outcome_ok Let_def evolves_def kept_refl kept_insert
      new_task_def)

lemma evolves_AttemptStarted:
  assumes "applyAttemptStarted e pl p = (None, p')"
  shows "evolves p p'"
proof -
  from assms obtain t where t: "p_tasks p (as_TaskID pl) = Some t" "t_State t = StateRunning"
    and fresh: "p_attempts p (as_AttemptID pl) = None"
    and p': "p' = put_task (t\<lparr>t_CurrentAttemptID := a_ID (new_attempt e pl p),
               t_UpdatedSeq := ev_Seq e\<rparr>) (as_TaskID pl)
               (add_attempt (new_attempt e pl p) (as_TaskID pl) p)"
    unfolding applyAttemptStarted_def by (auto simp: outcome_ok Let_def)
  have "evolves p (add_attempt (new_attempt e pl p) (as_TaskID pl) p)"
    using fresh by (simp add: evolves_def add_attempt_def kept_refl kept_insert new_attempt_def)
  moreover have "evolves (add_attempt (new_attempt e pl p) (as_TaskID pl) p) p'"
    unfolding p' by (rule evolves_put_task) (use t in \<open>auto simp: keeps_task_def\<close>)
  ultimately show ?thesis by (rule evolves_trans)
qed

lemma evolves_CandidateProduced:
  assumes "applyCandidateProduced e pl p = (None, p')"
  shows "evolves p p'"
proof -
  obtain p1 where f: "finishAttempt e (cp_TaskID pl) (cp_AttemptID pl) StatusCandidateProduced
      (\<lambda>a. a\<lparr>a_CandidateCommit := cp_CandidateCommit pl,
             a_RepairIterations := cp_RepairIterations pl,
             a_Artifacts := a_Artifacts a @ cp_Artifacts pl\<rparr>) p = (None, p1)"
    and tr: "transitionTask e (cp_TaskID pl) StateValidating Inr p1 = (None, p')"
    using assms unfolding applyCandidateProduced_def by (auto simp: outcome_ok)
  have "evolves p p1" by (rule evolves_finish [OF f]) (simp add: keeps_attempt_def)
  moreover have "evolves p1 p'" by (rule evolves_transition [OF tr]) simp
  ultimately show ?thesis by (rule evolves_trans)
qed

lemma evolves_finish_ops:
  "applyAttemptBlocked e ab p = (None, p') \<Longrightarrow> evolves p p'"
  "applyAttemptFailed e af p = (None, p') \<Longrightarrow> evolves p p'"
  unfolding applyAttemptBlocked_def applyAttemptFailed_def Let_def
  by (erule evolves_finish; simp add: keeps_attempt_def)+

lemma evolves_AttemptValidation:
  assumes "applyAttemptValidation e pl p = (None, p')"
  shows "evolves p p'"
proof -
  obtain r p1 where r: "recordValidation (vc_ValidationID pl) r p = (None, p1)"
    and tr: "transitionTask e (vc_TaskID pl)
      (if vc_Status pl = OutcomePass then StateReviewing else StateRunning) Inr p1 = (None, p')"
    using assms unfolding applyAttemptValidation_def by (auto simp: outcome_ok)
  have "evolves p1 p'" by (rule evolves_transition [OF tr]) simp
  with evolves_record(1) [OF r] show ?thesis by (rule evolves_trans)
qed

lemma evolves_IntegrationValidation:
  assumes "applyIntegrationValidation e pl p = (None, p')"
  shows "evolves p p'"
  using assms
proof (cases rule: IntegrationValidation_cases)
  case (fails t p1)
  then show ?thesis by (simp add: evolves_record)
next
  case (passes t p1 p2 c)
  have "evolves p p1" using passes(2) by (rule evolves_record)
  moreover have "evolves p1 p2" by (rule evolves_transition [OF passes(4)]) simp
  moreover have "facts_only p2 p'" by (simp add: passes(5) facts_only_def same_work_def)
  ultimately show ?thesis by (blast intro: evolves_trans evolves_facts)
qed

lemma evolves_ValidationCompleted:
  "applyValidationCompleted e pl p = (None, p') \<Longrightarrow> evolves p p'"
  by (auto simp: applyValidationCompleted_def intro: evolves_AttemptValidation
      evolves_IntegrationValidation evolves_facts facts_ops split: ValidationScope.splits)

lemma evolves_ReviewCompleted:
  "applyReviewCompleted pl p = (None, p') \<Longrightarrow> evolves p p'"
  by (auto simp: applyReviewCompleted_def outcome_ok dest: evolves_record)

lemma evolves_ChangeAccepted:
  assumes "applyChangeAccepted e pl p = (None, p')"
  shows "evolves p p'"
proof -
  obtain p1 c where tr: "transitionTask e (ca_TaskID pl) StateAccepted
      (\<lambda>t. Inr (t\<lparr>t_AcceptedCommit := ca_CandidateCommit pl\<rparr>)) p = (None, p1)"
    and p': "p' = p1\<lparr>p_semanticChanges := p_semanticChanges p1 @ [c]\<rparr>"
    using assms unfolding applyChangeAccepted_def by (auto simp: outcome_ok)
  have "evolves p p1" by (rule evolves_transition [OF tr]) auto
  moreover have "evolves p1 p'" unfolding p' by (simp add: evolves_def kept_refl)
  ultimately show ?thesis by (rule evolves_trans)
qed

lemma evolves_decisions:
  "applyChangeRejected e cr p = (None, p') \<Longrightarrow> evolves p p'"
  "applyEscalationRaised e er p = (None, p') \<Longrightarrow> evolves p p'"
  by (auto simp: applyChangeRejected_def applyEscalationRaised_def outcome_ok Let_def
      dest!: evolves_transition)

lemmas evolves_ops = evolves_simple_ops evolves_TaskCreated evolves_AttemptStarted
  evolves_CandidateProduced evolves_finish_ops evolves_ValidationCompleted evolves_ReviewCompleted
  evolves_ChangeAccepted evolves_decisions

lemma evolves_ProjectInitialized:
  "\<not> p_initialised p \<Longrightarrow> applyProjectInitialized e pl p = (None, p') \<Longrightarrow> evolves p p'"
  by (auto simp: op_defs evolves_def kept_refl)

lemma evolves_applyPayload:
  assumes "applyPayload e pl p = (None, p')" and "Payload_Type pl \<noteq> ''ProjectInitialized''"
  shows "evolves p p'"
  using assms
  by (cases pl; simp only: applyPayload.simps)
    (erule evolves_ops facts_ops [THEN evolves_facts] facts_DecisionRecorded [THEN evolves_facts] |
     simp)+

lemma evolves_Apply:
  assumes "Apply e p = (None, p')"
  shows "evolves p p'"
proof -
  from assms obtain pl p1 where v: "Event_Validate e = None" and
    proj: "if p_initialised p
      then ev_ProjectID e = p_ProjectID p \<and> ev_EventType e \<noteq> ''ProjectInitialized''
      else ev_EventType e = ''ProjectInitialized''" and
    pl: "ev_Payload e = Some pl" "applyPayload e pl p = (None, p1)" and
    p': "p' = p1\<lparr>p_HighWatermark := ev_Seq e, p_LastOccurredAt := ev_OccurredAt e\<rparr>"
    by (auto simp: Apply_ok)
  have ty: "Payload_Type pl = ev_EventType e" using v pl(1) by (auto simp: Event_Validate_None)
  have "evolves p p1"
  proof (cases "p_initialised p")
    case True
    then show ?thesis using evolves_applyPayload pl(2) proj ty by simp
  next
    case False
    moreover obtain i where "pl = PProjectInitialized i"
      using False proj ty by (cases pl) simp_all
    ultimately show ?thesis using evolves_ProjectInitialized pl(2) by simp
  qed
  moreover have "facts_only p1 p'" unfolding p' by (simp add: facts_only_def same_work_def)
  ultimately show ?thesis by (blast intro: evolves_trans evolves_facts)
qed

lemma evolves_run: "run Apply p es = Inr q \<Longrightarrow> evolves p q"
proof (induction rule: run_induct)
  case (snoc es p1 e p2)
  then show ?case by (blast intro: evolves_trans evolves_Apply)
qed simp

end
