(* ===== verification/Provenance.thy ===== *)
theory Provenance
  imports History
begin

text \<open>
  Where the evidence a projection holds comes from: every attempt, every candidate and every
  recorded validation and review is the effect of an event of the journal. With the invariant this
  makes every accepted change explainable from the journal alone.
\<close>

definition journalled :: "Event list \<Rightarrow> Payload \<Rightarrow> bool" where
  "journalled es pl \<longleftrightarrow> (\<exists>e \<in> set es. ev_Payload e = Some pl)"

lemma journalled_snoc:
  "journalled es pl \<Longrightarrow> journalled (es @ [e]) pl"
  "ev_Payload e = Some pl \<Longrightarrow> journalled (es @ [e]) pl"
  by (auto simp: journalled_def)

definition attempt_traced :: "Event list \<Rightarrow> string \<Rightarrow> Attempt \<Rightarrow> bool" where
  "attempt_traced es aid a \<longleftrightarrow>
     (\<exists>st. journalled es (PAttemptStarted st) \<and> as_AttemptID st = aid \<and> as_TaskID st = a_TaskID a \<and>
        as_WorkPackageID st = a_WorkPackageID a \<and>
        as_WorkPackageVersion st = a_WorkPackageVersion a) \<and>
     (a_Status a = StatusCandidateProduced \<longrightarrow>
        (\<exists>cp. journalled es (PCandidateProduced cp) \<and> cp_AttemptID cp = aid \<and>
           cp_TaskID cp = a_TaskID a \<and> cp_CandidateCommit cp = a_CandidateCommit a))"

definition validation_traced :: "Event list \<Rightarrow> string \<Rightarrow> evidenceRef \<Rightarrow> bool" where
  "validation_traced es v r \<longleftrightarrow>
     (\<exists>vc. journalled es (PValidationCompleted vc) \<and> vc_ValidationID vc = v \<and>
        vc_TaskID vc = ev_taskID r \<and> vc_AttemptID vc = ev_attemptID r \<and> vc_Commit vc = ev_commit r \<and>
        (if ev_scope r = ''attempt'' then vc_Scope vc = ScopeAttempt
         else vc_Scope vc = ScopeIntegration \<and> vc_AttemptID vc = ''''))"

definition review_traced :: "Event list \<Rightarrow> Projection \<Rightarrow> string \<Rightarrow> evidenceRef \<Rightarrow> bool" where
  "review_traced es p v r \<longleftrightarrow>
     (\<exists>rc a. journalled es (PReviewCompleted rc) \<and> rc_ReviewID rc = v \<and>
        rc_TaskID rc = ev_taskID r \<and> rc_AttemptID rc = ev_attemptID r \<and>
        p_attempts p (ev_attemptID r) = Some a \<and> rc_WorkPackageID rc = a_WorkPackageID a)"

definition traced :: "Event list \<Rightarrow> Projection \<Rightarrow> bool" where
  "traced es p \<longleftrightarrow>
     (\<forall>aid a. p_attempts p aid = Some a \<longrightarrow> attempt_traced es aid a) \<and>
     (\<forall>v r. p_validations p v = Some r \<longrightarrow> validation_traced es v r) \<and>
     (\<forall>v r. p_reviews p v = Some r \<longrightarrow> review_traced es p v r)"

lemma attempt_traced_snoc: "attempt_traced es aid a \<Longrightarrow> attempt_traced (es @ [e]) aid a"
  unfolding attempt_traced_def by (blast intro: journalled_snoc)

lemma validation_traced_snoc: "validation_traced es v r \<Longrightarrow> validation_traced (es @ [e]) v r"
  unfolding validation_traced_def by (blast intro: journalled_snoc)

lemma review_traced_snoc:
  assumes "review_traced es p v r" "kept keeps_attempt (p_attempts p) (p_attempts q)"
  shows "review_traced (es @ [e]) q v r"
proof -
  from assms(1) obtain rc a where rc: "journalled es (PReviewCompleted rc)" "rc_ReviewID rc = v"
    "rc_TaskID rc = ev_taskID r" "rc_AttemptID rc = ev_attemptID r"
    "p_attempts p (ev_attemptID r) = Some a" "rc_WorkPackageID rc = a_WorkPackageID a"
    unfolding review_traced_def by blast
  from assms(2) rc(5) obtain b where "p_attempts q (ev_attemptID r) = Some b" "keeps_attempt a b"
    unfolding kept_def by blast
  with rc show ?thesis
    unfolding review_traced_def keeps_attempt_def
    by (intro exI [of _ rc] exI [of _ b]) (simp add: journalled_snoc)
qed

text \<open>It is enough to trace what an event adds.\<close>

lemma traced_step:
  assumes t: "traced es p" and ev: "evolves p q"
    and A: "\<And>aid a. p_attempts q aid = Some a \<Longrightarrow> p_attempts p aid \<noteq> Some a \<Longrightarrow>
      attempt_traced (es @ [e]) aid a"
    and V: "\<And>v r. p_validations q v = Some r \<Longrightarrow> p_validations p v \<noteq> Some r \<Longrightarrow>
      validation_traced (es @ [e]) v r"
    and R: "\<And>v r. p_reviews q v = Some r \<Longrightarrow> p_reviews p v \<noteq> Some r \<Longrightarrow>
      review_traced (es @ [e]) q v r"
  shows "traced (es @ [e]) q"
  unfolding traced_def
proof (intro conjI allI impI)
  show "attempt_traced (es @ [e]) aid a" if "p_attempts q aid = Some a" for aid a
    using A [OF that] t attempt_traced_snoc unfolding traced_def by blast
  show "validation_traced (es @ [e]) v r" if "p_validations q v = Some r" for v r
    using V [OF that] t validation_traced_snoc unfolding traced_def by blast
  show "review_traced (es @ [e]) q v r" if "p_reviews q v = Some r" for v r
    using R [OF that] t review_traced_snoc [OF _ evolvesD(2) [OF ev]] unfolding traced_def by blast
qed

section \<open>Operations that record no evidence\<close>

definition same_evidence :: "Projection \<Rightarrow> Projection \<Rightarrow> bool" where
  "same_evidence p q \<longleftrightarrow> p_attempts q = p_attempts p \<and> p_validations q = p_validations p \<and>
     p_reviews q = p_reviews p"

lemma traced_same: "traced es p \<Longrightarrow> evolves p q \<Longrightarrow> same_evidence p q \<Longrightarrow> traced (es @ [e]) q"
  by (rule traced_step) (auto simp: same_evidence_def)

lemma same_evidence_transition:
  "transitionTask e tid s f p = (None, p') \<Longrightarrow> same_evidence p p'"
  by (auto simp: transitionTask_ok same_evidence_def put_task_def)

lemma facts_same_evidence: "facts_only p q \<Longrightarrow> same_evidence p q"
  by (simp add: facts_only_def same_work_def same_evidence_def)

lemma task_ops_same_evidence:
  "applyTaskCreated e tc p = (None, p') \<Longrightarrow> same_evidence p p'"
  "applyTaskScoutingStarted e ts p = (None, p') \<Longrightarrow> same_evidence p p'"
  "applyTaskDesignStarted e td p = (None, p') \<Longrightarrow> same_evidence p p'"
  "applyWorkPackageApproved e wa p = (None, p') \<Longrightarrow> same_evidence p p'"
  "applyTaskDelegated e dg p = (None, p') \<Longrightarrow> same_evidence p p'"
  "applyIntegrationStarted e ig p = (None, p') \<Longrightarrow> same_evidence p p'"
  "applyIntegrationValidationStarted e iv p = (None, p') \<Longrightarrow> same_evidence p p'"
  "applyChangeAccepted e ca p = (None, p') \<Longrightarrow> same_evidence p p'"
  "applyChangeRejected e cr p = (None, p') \<Longrightarrow> same_evidence p p'"
  "applyEscalationRaised e er p = (None, p') \<Longrightarrow> same_evidence p p'"
  "applyProjectInitialized e pi p = (None, p') \<Longrightarrow> same_evidence p p'"
  by (auto simp: op_defs outcome_ok Let_def same_evidence_def transitionTask_ok put_task_def)

section \<open>Operations that do\<close>

lemma traced_AttemptStarted:
  assumes t: "traced es p" and e: "ev_Payload e = Some (PAttemptStarted pl)"
    and ok: "applyAttemptStarted e pl p = (None, p')"
  shows "traced (es @ [e]) p'"
proof (rule traced_step [OF t evolves_AttemptStarted [OF ok]])
  have j: "journalled (es @ [e]) (PAttemptStarted pl)" using e by (rule journalled_snoc)
  have p': "p_attempts p' = (p_attempts p)(as_AttemptID pl \<mapsto> new_attempt e pl p)"
    "p_validations p' = p_validations p" "p_reviews p' = p_reviews p"
    using ok by (auto simp: applyAttemptStarted_def outcome_ok Let_def put_task_def new_attempt_def)
  show "attempt_traced (es @ [e]) aid a"
    if "p_attempts p' aid = Some a" "p_attempts p aid \<noteq> Some a" for aid a
  proof -
    have "aid = as_AttemptID pl" "a = new_attempt e pl p"
      using that p'(1) by (auto split: if_splits)
    with j show ?thesis unfolding attempt_traced_def
      by (auto simp: new_attempt_def)
  qed
qed (use ok in \<open>auto simp: applyAttemptStarted_def outcome_ok Let_def put_task_def\<close>)

text \<open>A finished attempt was started; a candidate was produced by the event at hand.\<close>

lemma finishAttempt_entry:
  assumes "finishAttempt e tid aid s f p = (None, p')" "p_attempts p' k = Some b"
    "p_attempts p k \<noteq> Some b"
  shows "k = aid \<and> (\<exists>a. p_attempts p aid = Some a \<and> a_TaskID a = tid \<and>
    b = f (a\<lparr>a_Status := s, a_FinishedAt := Some (ev_OccurredAt e), a_UpdatedSeq := ev_Seq e\<rparr>))"
  using assms by (auto simp: finishAttempt_ok split: if_splits)

lemma attempt_traced_started:
  assumes "attempt_traced es aid a" "a_TaskID b = a_TaskID a" "a_WorkPackageID b = a_WorkPackageID a"
    "a_WorkPackageVersion b = a_WorkPackageVersion a"
    and "a_Status b = StatusCandidateProduced \<Longrightarrow>
      \<exists>cp. journalled (es @ [e]) (PCandidateProduced cp) \<and> cp_AttemptID cp = aid \<and>
        cp_TaskID cp = a_TaskID b \<and> cp_CandidateCommit cp = a_CandidateCommit b"
  shows "attempt_traced (es @ [e]) aid b"
proof -
  from assms(1) obtain st where "journalled es (PAttemptStarted st)" "as_AttemptID st = aid"
    "as_TaskID st = a_TaskID a" "as_WorkPackageID st = a_WorkPackageID a"
    "as_WorkPackageVersion st = a_WorkPackageVersion a"
    unfolding attempt_traced_def by blast
  with assms(2-) show ?thesis
    unfolding attempt_traced_def
    by (intro conjI exI [of _ st] impI) (simp_all add: journalled_snoc)
qed

lemma finish_same_evidence:
  "finishAttempt e tid aid s f p = (None, p') \<Longrightarrow>
     p_validations p' = p_validations p \<and> p_reviews p' = p_reviews p"
  by (auto simp: finishAttempt_ok)

lemma traced_finish:
  assumes t: "traced es p" and o: "outcome_only f" and s: "s \<noteq> StatusCandidateProduced"
    and ok: "finishAttempt e tid aid s f p = (None, p')" and ev: "evolves p p'"
  shows "traced (es @ [e]) p'"
proof (rule traced_step [OF t ev])
  show "attempt_traced (es @ [e]) k b"
    if "p_attempts p' k = Some b" "p_attempts p k \<noteq> Some b" for k b
  proof -
    from finishAttempt_entry [OF ok that] obtain a where k: "k = aid"
      and a: "p_attempts p aid = Some a"
      and b: "b = f (a\<lparr>a_Status := s, a_FinishedAt := Some (ev_OccurredAt e),
        a_UpdatedSeq := ev_Seq e\<rparr>)" by blast
    have "attempt_traced es aid a" using t a unfolding traced_def by blast
    then show ?thesis unfolding k
      by (rule attempt_traced_started) (use o s b in \<open>simp_all add: outcome_only_def\<close>)
  qed
qed (use finish_same_evidence [OF ok] in simp_all)

lemma traced_AttemptBlocked:
  assumes "traced es p" "applyAttemptBlocked e ab p = (None, p')"
  shows "traced (es @ [e]) p'"
  using evolves_finish_ops(1) [OF assms(2)] assms(2)
  unfolding applyAttemptBlocked_def Let_def
  by (intro traced_finish [OF assms(1)]) (simp_all add: outcome_only_def)

lemma traced_AttemptFailed:
  assumes "traced es p" "applyAttemptFailed e af p = (None, p')"
  shows "traced (es @ [e]) p'"
proof -
  have "(if af_Cancelled af then StatusCancelled else StatusFailed) \<noteq> StatusCandidateProduced"
    by simp
  then show ?thesis
    using evolves_finish_ops(2) [OF assms(2)] assms(2) unfolding applyAttemptFailed_def
    by (intro traced_finish [OF assms(1)]) (simp_all add: outcome_only_def)
qed

lemma traced_CandidateProduced:
  assumes t: "traced es p" and e: "ev_Payload e = Some (PCandidateProduced pl)"
    and ok: "applyCandidateProduced e pl p = (None, p')"
  shows "traced (es @ [e]) p'"
proof (rule traced_step [OF t evolves_CandidateProduced [OF ok]])
  obtain p1 where f: "finishAttempt e (cp_TaskID pl) (cp_AttemptID pl) StatusCandidateProduced
      (\<lambda>a. a\<lparr>a_CandidateCommit := cp_CandidateCommit pl,
             a_RepairIterations := cp_RepairIterations pl,
             a_Artifacts := a_Artifacts a @ cp_Artifacts pl\<rparr>) p = (None, p1)"
    and tr: "transitionTask e (cp_TaskID pl) StateValidating Inr p1 = (None, p')"
    using ok unfolding applyCandidateProduced_def by (auto simp: outcome_ok)
  have same: "p_attempts p' = p_attempts p1" "p_validations p' = p_validations p"
    "p_reviews p' = p_reviews p"
    using same_evidence_transition [OF tr] finish_same_evidence [OF f]
    by (simp_all add: same_evidence_def)
  show "attempt_traced (es @ [e]) k b"
    if "p_attempts p' k = Some b" "p_attempts p k \<noteq> Some b" for k b
  proof -
    from finishAttempt_entry [OF f that(1) [unfolded same] that(2)] obtain a
      where k: "k = cp_AttemptID pl" and a: "p_attempts p k = Some a" "a_TaskID a = cp_TaskID pl"
      and b: "a_TaskID b = a_TaskID a" "a_WorkPackageID b = a_WorkPackageID a"
        "a_WorkPackageVersion b = a_WorkPackageVersion a"
        "a_CandidateCommit b = cp_CandidateCommit pl" by auto
    have "attempt_traced es k a" using t a unfolding traced_def by blast
    then show ?thesis
      using b(1-3)
      by (rule attempt_traced_started)
        (use k a b journalled_snoc(2) [OF e] in \<open>auto intro!: exI [of _ pl]\<close>)
  qed
  show "validation_traced (es @ [e]) v r"
    if "p_validations p' v = Some r" "p_validations p v \<noteq> Some r" for v r
    using that same by simp
  show "review_traced (es @ [e]) p' v r"
    if "p_reviews p' v = Some r" "p_reviews p v \<noteq> Some r" for v r
    using that same by simp
qed

text \<open>A validation is recorded under its own id with the commit it judged.\<close>

lemma traced_recorded_validation:
  assumes t: "traced es p" and e: "ev_Payload e = Some (PValidationCompleted pl)"
    and r: "recordValidation (vc_ValidationID pl) ref p = (None, p1)"
    and q: "p_attempts q = p_attempts p1" "p_validations q = p_validations p1"
      "p_reviews q = p_reviews p1" and ev: "evolves p q"
    and ref: "ev_taskID ref = vc_TaskID pl" "ev_attemptID ref = vc_AttemptID pl"
      "ev_commit ref = vc_Commit pl"
      "if ev_scope ref = ''attempt'' then vc_Scope pl = ScopeAttempt
       else vc_Scope pl = ScopeIntegration \<and> vc_AttemptID pl = ''''"
  shows "traced (es @ [e]) q"
proof (rule traced_step [OF t ev])
  have p1: "p1 = p\<lparr>p_validations := (p_validations p)(vc_ValidationID pl \<mapsto> ref)\<rparr>"
    using r by (auto simp: recordValidation_ok)
  show "validation_traced (es @ [e]) v x"
    if "p_validations q v = Some x" "p_validations p v \<noteq> Some x" for v x
  proof -
    have "v = vc_ValidationID pl" "x = ref" using that by (auto simp: q p1 split: if_splits)
    then show ?thesis using ref journalled_snoc(2) [OF e]
      unfolding validation_traced_def by (intro exI [of _ pl]) auto
  qed
  show "attempt_traced (es @ [e]) k b"
    if "p_attempts q k = Some b" "p_attempts p k \<noteq> Some b" for k b
    using that by (simp add: q p1)
  show "review_traced (es @ [e]) q v x"
    if "p_reviews q v = Some x" "p_reviews p v \<noteq> Some x" for v x
    using that by (simp add: q p1)
qed

lemma traced_ValidationCompleted:
  assumes l: "live p" and t: "traced es p" and e: "ev_Payload e = Some (PValidationCompleted pl)"
    and va: "ValidationCompleted_Validate pl = None"
    and ok: "applyValidationCompleted e pl p = (None, p')"
  shows "traced (es @ [e]) p'"
proof (cases "vc_Scope pl")
  case ScopeAttempt
  then have ok': "applyAttemptValidation e pl p = (None, p')"
    using ok by (simp add: applyValidationCompleted_def)
  then obtain tk :: Task and a p1
    where tk: "requireTaskInState p (vc_TaskID pl) StateValidating = Inr tk"
    and a: "requireAttemptOf p (t_ID tk) (vc_AttemptID pl) = Inr a"
      "requireCandidateCommit a (vc_Commit pl) = None"
    and r: "recordValidation (vc_ValidationID pl) \<lparr>ev_scope = ''attempt'', ev_taskID = t_ID tk,
        ev_attemptID = a_ID a, ev_commit = a_CandidateCommit a\<rparr> p = (None, p1)"
    and tr: "transitionTask e (vc_TaskID pl)
      (if vc_Status pl = OutcomePass then StateReviewing else StateRunning) Inr p1 = (None, p')"
    unfolding applyAttemptValidation_def by (auto simp: outcome_ok)
  have ids: "t_ID tk = vc_TaskID pl" "a_ID a = vc_AttemptID pl" "a_CandidateCommit a = vc_Commit pl"
    using requireTaskInState_wf [OF l tk] requireAttemptOf_wf [OF l a(1)] a(2)
    by (auto simp: wf_attempt_def requireCandidateCommit_ok)
  show ?thesis
    by (rule traced_recorded_validation [OF t e r])
      (use same_evidence_transition [OF tr] evolves_AttemptValidation [OF ok'] ids ScopeAttempt in
        \<open>simp_all add: same_evidence_def\<close>)
next
  case ScopeIntegration
  then have ok': "applyIntegrationValidation e pl p = (None, p')" and na: "vc_AttemptID pl = ''''"
    using ok va by (simp_all add: applyValidationCompleted_def validate_defs)
  from ok' obtain tk p1 where tk: "requireTaskInState p (vc_TaskID pl) StateIntegrationValidating = Inr tk"
    and r: "recordValidation (vc_ValidationID pl) \<lparr>ev_scope = ''integration'', ev_taskID = t_ID tk,
         ev_attemptID = '''', ev_commit = vc_Commit pl\<rparr> p = (None, p1)"
    and same: "same_evidence p1 p'"
  proof (cases rule: IntegrationValidation_cases)
    case (fails t p1)
    then show thesis by (intro that) (simp_all add: same_evidence_def)
  next
    case (passes t p1 p2 c)
    have "same_evidence p1 p'"
      using same_evidence_transition [OF passes(4)] passes(5) by (simp add: same_evidence_def)
    with passes(1,2) show thesis by (intro that)
  qed
  show ?thesis
    by (rule traced_recorded_validation [OF t e r])
      (use same evolves_IntegrationValidation [OF ok'] requireTaskInState_wf [OF l tk]
        ScopeIntegration na in \<open>simp_all add: same_evidence_def\<close>)
next
  case ScopeBaseline
  then have "facts_only p p'"
    using ok by (simp add: applyValidationCompleted_def facts_ops)
  then show ?thesis by (intro traced_same [OF t] evolves_facts facts_same_evidence)
qed (use ok in \<open>simp add: applyValidationCompleted_def\<close>)

lemma traced_ReviewCompleted:
  assumes l: "live p" and t: "traced es p" and e: "ev_Payload e = Some (PReviewCompleted pl)"
    and ok: "applyReviewCompleted pl p = (None, p')"
  shows "traced (es @ [e]) p'"
proof (rule traced_step [OF t evolves_ReviewCompleted [OF ok]])
  obtain tk :: Task and a where tk: "requireTaskInState p (rc_TaskID pl) StateReviewing = Inr tk"
    and a: "requireAttemptOf p (t_ID tk) (rc_AttemptID pl) = Inr a"
    and wp: "rc_WorkPackageID pl = a_WorkPackageID a"
    and p': "p' = p\<lparr>p_reviews := (p_reviews p)(rc_ReviewID pl \<mapsto> \<lparr>ev_scope = ''attempt'',
        ev_taskID = t_ID tk, ev_attemptID = a_ID a, ev_commit = a_CandidateCommit a\<rparr>)\<rparr>"
    using ok unfolding applyReviewCompleted_def by (auto simp: outcome_ok recordReview_ok)
  have ids: "t_ID tk = rc_TaskID pl" "a_ID a = rc_AttemptID pl" "p_attempts p (rc_AttemptID pl) = Some a"
    using requireTaskInState_wf [OF l tk] requireAttemptOf_wf [OF l a]
    by (auto simp: wf_attempt_def)
  show "review_traced (es @ [e]) p' v x"
    if "p_reviews p' v = Some x" "p_reviews p v \<noteq> Some x" for v x
    using that journalled_snoc(2) [OF e] wp ids unfolding review_traced_def p'
    by (intro exI [of _ pl] exI [of _ a]) (auto split: if_splits)
  show "attempt_traced (es @ [e]) k b"
    if "p_attempts p' k = Some b" "p_attempts p k \<noteq> Some b" for k b
    using that by (simp add: p')
  show "validation_traced (es @ [e]) v x"
    if "p_validations p' v = Some x" "p_validations p v \<noteq> Some x" for v x
    using that by (simp add: p')
qed

section \<open>The whole journal\<close>

lemmas same_evidence_ops = task_ops_same_evidence facts_ops [THEN facts_same_evidence]
  facts_DecisionRecorded [THEN facts_same_evidence]

lemma applyPayload_same_evidence:
  assumes "applyPayload e pl p = (None, p')"
    and "\<And>x. pl \<noteq> PAttemptStarted x" "\<And>x. pl \<noteq> PCandidateProduced x" "\<And>x. pl \<noteq> PAttemptBlocked x"
      "\<And>x. pl \<noteq> PAttemptFailed x" "\<And>x. pl \<noteq> PValidationCompleted x"
      "\<And>x. pl \<noteq> PReviewCompleted x"
  shows "same_evidence p p'"
  using assms
  by (cases pl; simp only: applyPayload.simps)
    (erule same_evidence_ops | simp add: same_evidence_def)+

lemma traced_applyPayload:
  assumes l: "live p" and t: "traced es p" and ev: "evolves p p'"
    and e: "ev_Payload e = Some pl" and va: "Payload_Validate pl = None"
    and ok: "applyPayload e pl p = (None, p')"
  shows "traced (es @ [e]) p'"
proof (cases pl)
  case (PAttemptStarted x)
  then show ?thesis using traced_AttemptStarted [OF t] e ok by simp
next
  case (PCandidateProduced x)
  then show ?thesis using traced_CandidateProduced [OF t] e ok by simp
next
  case (PAttemptBlocked x)
  then show ?thesis using traced_AttemptBlocked [OF t] ok by simp
next
  case (PAttemptFailed x)
  then show ?thesis using traced_AttemptFailed [OF t] ok by simp
next
  case (PValidationCompleted x)
  then show ?thesis using traced_ValidationCompleted [OF l t] e ok va by simp
next
  case (PReviewCompleted x)
  then show ?thesis using traced_ReviewCompleted [OF l t] e ok by simp
qed (rule traced_same [OF t ev applyPayload_same_evidence [OF ok]]; simp)+

lemma traced_cong: "same_evidence p q \<Longrightarrow> traced es q = traced es p"
  by (simp add: same_evidence_def traced_def review_traced_def)

lemma traced_Apply:
  assumes i: "inv p" and t: "traced es p" and ok: "Apply e p = (None, p')"
  shows "traced (es @ [e]) p'"
proof (cases "p_initialised p")
  case True
  from ok obtain pl p1 where v: "Event_Validate e = None"
    and ty: "ev_EventType e \<noteq> ''ProjectInitialized''"
    and pl: "ev_Payload e = Some pl" "applyPayload e pl p = (None, p1)"
    and p': "p' = p1\<lparr>p_HighWatermark := ev_Seq e, p_LastOccurredAt := ev_OccurredAt e\<rparr>"
    using True by (auto simp: Apply_ok)
  have "live p" using i True by (simp add: live_iff)
  moreover have pv: "Payload_Validate pl = None" "Payload_Type pl = ev_EventType e"
    using v pl(1) by (auto simp: Event_Validate_None)
  moreover have "evolves p p1" using evolves_applyPayload pl(2) ty pv(2) by simp
  ultimately have "traced (es @ [e]) p1" using t pl by (intro traced_applyPayload)
  moreover have "same_evidence p1 p'" unfolding p' by (simp add: same_evidence_def)
  ultimately show ?thesis by (simp add: traced_cong)
next
  case False
  from Apply_inv [OF i ok] have "inv p'" by simp
  from False i have "p = New_Projection" by (simp add: inv_def inv_project_def)
  moreover obtain x p1 where "ev_Payload e = Some (PProjectInitialized x)"
    "applyProjectInitialized e x p = (None, p1)"
    "p' = p1\<lparr>p_HighWatermark := ev_Seq e, p_LastOccurredAt := ev_OccurredAt e\<rparr>"
  proof -
    from ok False obtain pl p1 where *: "Event_Validate e = None"
      "ev_EventType e = ''ProjectInitialized''" "ev_Payload e = Some pl"
      "applyPayload e pl p = (None, p1)"
      "p' = p1\<lparr>p_HighWatermark := ev_Seq e, p_LastOccurredAt := ev_OccurredAt e\<rparr>"
      by (auto simp: Apply_ok)
    then have "Payload_Type pl = ''ProjectInitialized''" by (auto simp: Event_Validate_None)
    then obtain x where "pl = PProjectInitialized x" by (cases pl) simp_all
    with * that show thesis by simp
  qed
  ultimately show ?thesis by (auto simp: op_defs traced_def New_Projection_def)
qed

lemma Reduce_traced: "Reduce es = Inr p \<Longrightarrow> traced es p"
  unfolding Reduce_run
proof (induction rule: run_induct)
  case empty
  then show ?case by (simp add: traced_def New_Projection_def)
next
  case (snoc es p e p')
  have "inv p" using snoc.hyps(1) by (intro Reduce_inv) (simp add: Reduce_run)
  then show ?case using snoc.IH snoc.hyps(2) by (rule traced_Apply)
qed

text \<open>The events behind an accepted task.\<close>

definition explained :: "Event list \<Rightarrow> Task \<Rightarrow> bool" where
  "explained es t \<longleftrightarrow>
     (\<exists>st cp vc rc.
        journalled es (PAttemptStarted st) \<and> journalled es (PCandidateProduced cp) \<and>
        journalled es (PValidationCompleted vc) \<and> journalled es (PReviewCompleted rc) \<and>
        as_TaskID st = t_ID t \<and> as_WorkPackageID st = t_WorkPackageID t \<and>
        as_WorkPackageVersion st = t_WorkPackageVersion t \<and>
        cp_TaskID cp = t_ID t \<and> cp_AttemptID cp = as_AttemptID st \<and>
        cp_CandidateCommit cp = t_AcceptedCommit t \<and>
        vc_TaskID vc = t_ID t \<and> vc_AttemptID vc = as_AttemptID st \<and> vc_Scope vc = ScopeAttempt \<and>
        vc_Commit vc = t_AcceptedCommit t \<and>
        rc_TaskID rc = t_ID t \<and> rc_AttemptID rc = as_AttemptID st \<and>
        rc_WorkPackageID rc = t_WorkPackageID t)"

lemma explained_accepted:
  assumes r: "Reduce es = Inr p" and t: "p_tasks p tid = Some t"
    and st: "t_State t \<in> set accepted_states"
  shows "explained es t"
proof -
  have i: "inv_accept p" "inv_attempts p" "inv_evidence p"
    using Reduce_inv [OF r] by (simp_all add: inv_def)
  have tr: "traced es p" using Reduce_traced [OF r] .
  from i(1) t st have "justified p t" unfolding inv_accept_def by blast
  then obtain a v vr w rr where a: "p_attempts p (a_ID a) = Some a" "a_TaskID a = t_ID t"
      "a_Status a = StatusCandidateProduced" "a_CandidateCommit a = t_AcceptedCommit t"
      "a_WorkPackageID a = t_WorkPackageID t" "a_WorkPackageVersion a = t_WorkPackageVersion t"
    and vr: "p_validations p v = Some vr" "ev_attemptID vr = a_ID a" "ev_commit vr = t_AcceptedCommit t"
    and rr: "p_reviews p w = Some rr" "ev_attemptID rr = a_ID a"
    unfolding justified_def by blast
  have "attempt_traced es (a_ID a) a" "validation_traced es v vr" "review_traced es p w rr"
    using tr a(1) vr(1) rr(1) unfolding traced_def by blast+
  then obtain s cp vc rc b where s: "journalled es (PAttemptStarted s)" "as_AttemptID s = a_ID a"
      "as_TaskID s = a_TaskID a" "as_WorkPackageID s = a_WorkPackageID a"
      "as_WorkPackageVersion s = a_WorkPackageVersion a"
    and cp: "journalled es (PCandidateProduced cp)" "cp_AttemptID cp = a_ID a"
      "cp_TaskID cp = a_TaskID a" "cp_CandidateCommit cp = a_CandidateCommit a"
    and vc: "journalled es (PValidationCompleted vc)" "vc_TaskID vc = ev_taskID vr"
      "vc_AttemptID vc = ev_attemptID vr" "vc_Commit vc = ev_commit vr"
      "if ev_scope vr = ''attempt'' then vc_Scope vc = ScopeAttempt
       else vc_Scope vc = ScopeIntegration \<and> vc_AttemptID vc = ''''"
    and rc: "journalled es (PReviewCompleted rc)" "rc_TaskID rc = ev_taskID rr"
      "rc_AttemptID rc = ev_attemptID rr" "p_attempts p (ev_attemptID rr) = Some b"
      "rc_WorkPackageID rc = a_WorkPackageID b"
    unfolding attempt_traced_def validation_traced_def review_traced_def using a(3) by blast
  have "wf_attempt p (a_ID a) a" using i(2) a(1) by (simp add: inv_attempts_def)
  then have "a_ID a \<noteq> ''''" by (auto simp: wf_attempt_def Attempt_Validate_def)
  then have sc: "ev_scope vr = ''attempt''" using vc(3,5) vr(2) by (auto split: if_splits)
  then have "wf_evidence p vr" using i(3) vr(1) unfolding inv_evidence_def by fastforce
  then have tv: "ev_taskID vr = t_ID t" using vr(2) a(1,2) by (auto simp: wf_evidence_def)
  have "wf_evidence p rr" using i(3) rr(1) unfolding inv_evidence_def by blast
  then have "ev_taskID rr = t_ID t" using rr(2) a(1,2) by (auto simp: wf_evidence_def)
  moreover have "b = a" using rc(4) rr(2) a(1) by simp
  ultimately show ?thesis
    unfolding explained_def using s cp vc rc a vr rr sc tv
    by (intro exI [of _ s] exI [of _ cp] exI [of _ vc] exI [of _ rc]) simp
qed

end
