(* ===== verification/Sample.thy ===== *)
theory Sample
  imports Reduction
begin

text \<open>
  Journals of one project with one task: the concrete inputs at which the properties of the reducer
  are applied. \<open>delivery\<close> takes the task from its creation to the integrated change, with
  a failed first attempt on the way.
\<close>

definition sample_event :: "int \<Rightarrow> Payload \<Rightarrow> Event" where
  "sample_event n pl =
     \<lparr>ev_Seq = n, ev_SchemaVersion = SchemaVersion1, ev_EventID = ''event'',
      ev_ProjectID = ''project'', ev_EventType = Payload_Type pl, ev_OccurredAt = 100 + n,
      ev_Actor = \<lparr>actor_Kind = ActorPrincipal, actor_ID = ''principal''\<rparr>,
      ev_Correlation = NoCorrelation, ev_Payload = Some pl, ev_PayloadDigest = ''digest''\<rparr>"

fun numbered :: "int \<Rightarrow> Payload list \<Rightarrow> Event list" where
  "numbered n [] = []"
| "numbered n (pl # pls) = sample_event n pl # numbered (n + 1) pls"

definition sample_init :: Payload where
  "sample_init = PProjectInitialized
     \<lparr>pi_Name = ''demo'', pi_AcceptedCommit = ''0000000'', pi_Branch = ''main'',
      pi_RepositoryPath = ''repo'', pi_VisionRef = '''', pi_CurrentOutcome = '''',
      pi_MilestoneID = ''m1'', pi_MilestoneTitle = ''first'', pi_ActiveInvariants = []\<rparr>"

definition sample_task :: Payload where
  "sample_task = PTaskCreated
     \<lparr>tc_TaskID = ''t1'', tc_Alias = ''T-1'', tc_Title = ''task'', tc_MilestoneID = '''',
      tc_ChangeClass = ChangeLocal, tc_DependsOn = []\<rparr>"

definition sample_design :: Payload where
  "sample_design = PTaskDesignStarted
     \<lparr>td_TaskID = ''t1'', td_Reason = ''why'', td_EvidencePacketRefs = []\<rparr>"

definition sample_approve :: Payload where
  "sample_approve = PWorkPackageApproved
     \<lparr>wa_TaskID = ''t1'', wa_WorkPackageID = ''wp1'', wa_WorkPackageVersion = 1,
      wa_RecordDigest = ''d'', wa_ProjectStateRevision = ''ps_000000001'',
      wa_BaseCommit = ''0000000'', wa_ChangeClass = ChangeLocal\<rparr>"

definition sample_delegate :: Payload where
  "sample_delegate = PTaskDelegated
     \<lparr>dg_TaskID = ''t1'', dg_WorkPackageID = ''wp1'', dg_WorkerRole = ''worker'',
      dg_WorkerProfile = '''', dg_MaxAttempts = 0\<rparr>"

definition sample_start :: "string \<Rightarrow> Payload" where
  "sample_start aid = PAttemptStarted
     \<lparr>as_TaskID = ''t1'', as_AttemptID = aid, as_WorkPackageID = ''wp1'',
      as_WorkPackageVersion = 1, as_ProjectStateRevision = ''ps_000000001'',
      as_BaseCommit = ''0000000'', as_WorkerRole = ''worker'', as_WorkerProfile = '''',
      as_ModelIdentity = '''', as_WorktreeID = ''''\<rparr>"

definition sample_fail :: "string \<Rightarrow> Payload" where
  "sample_fail aid = PAttemptFailed
     \<lparr>af_TaskID = ''t1'', af_AttemptID = aid, af_Summary = ''broken'', af_Cancelled = False,
      af_RepairIterations = 1, af_Artifacts = []\<rparr>"

definition sample_candidate :: "string \<Rightarrow> string \<Rightarrow> Payload" where
  "sample_candidate aid c = PCandidateProduced
     \<lparr>cp_TaskID = ''t1'', cp_AttemptID = aid, cp_CandidateCommit = c, cp_Summary = ''done'',
      cp_RepairIterations = 0, cp_Artifacts = []\<rparr>"

definition sample_validation ::
  "string \<Rightarrow> string \<Rightarrow> string \<Rightarrow> ValidationScope \<Rightarrow> ValidationOutcome \<Rightarrow> Payload" where
  "sample_validation aid v c scope status = PValidationCompleted
     \<lparr>vc_TaskID = ''t1'', vc_AttemptID = aid, vc_ValidationID = v, vc_Scope = scope,
      vc_Status = status, vc_Commit = c, vc_RecordDigest = ''d'', vc_FailedChecks = []\<rparr>"

definition sample_review :: "string \<Rightarrow> string \<Rightarrow> Payload" where
  "sample_review aid r = PReviewCompleted
     \<lparr>rc_TaskID = ''t1'', rc_AttemptID = aid, rc_ReviewID = r, rc_WorkPackageID = ''wp1'',
      rc_Dimension = DimensionCorrectness, rc_Verdict = VerdictPass, rc_RecordDigest = ''d'',
      rc_PrincipalEscalationRecommended = False\<rparr>"

definition sample_accept :: "string \<Rightarrow> string \<Rightarrow> string \<Rightarrow> string \<Rightarrow> Payload" where
  "sample_accept aid c v r = PChangeAccepted
     \<lparr>ca_TaskID = ''t1'', ca_AttemptID = aid, ca_WorkPackageID = ''wp1'',
      ca_CandidateCommit = c, ca_SemanticSummary = ''change'', ca_ValidationIDs = [v],
      ca_ReviewIDs = [r], ca_UnresolvedDisagreements = [], ca_DecidedBy = AuthorityPrincipal\<rparr>"

definition sample_integrate :: "string \<Rightarrow> Payload list" where
  "sample_integrate c =
     [PIntegrationStarted
        \<lparr>is_TaskID = ''t1'', is_IntegrationID = ''i1'', is_BaseCommit = ''0000000''\<rparr>,
      PIntegrationValidationStarted
        \<lparr>iv_TaskID = ''t1'', iv_IntegrationID = ''i1'', iv_IntegratedCommit = c\<rparr>,
      sample_validation '''' ''v9'' c ScopeIntegration OutcomePass]"

definition delegated :: "Payload list" where
  "delegated = [sample_init, sample_task, sample_design, sample_approve, sample_delegate]"

definition delivery :: "Event list" where
  "delivery = numbered 1 (delegated @
     [sample_start ''a1'', sample_fail ''a1'', sample_start ''a2'',
      sample_candidate ''a2'' ''ccccccc'',
      sample_validation ''a2'' ''v1'' ''ccccccc'' ScopeAttempt OutcomePass,
      sample_review ''a2'' ''r1'', sample_accept ''a2'' ''ccccccc'' ''v1'' ''r1'']
     @ sample_integrate ''fffffff'')"

text \<open>Evaluating a sample journal: the envelope of a sample event is valid, so what is left of Apply is
  the order, the project and the payload.\<close>

lemma sample_event_sel [simp]:
  "ev_Seq (sample_event n pl) = n" "ev_ProjectID (sample_event n pl) = ''project''"
  "ev_EventType (sample_event n pl) = Payload_Type pl" "ev_OccurredAt (sample_event n pl) = 100 + n"
  "ev_Payload (sample_event n pl) = Some pl"
  by (simp_all add: sample_event_def)

lemma sample_event_valid [simp]:
  "0 < n \<Longrightarrow> Event_Validate (sample_event n pl) = Payload_Validate pl"
  by (simp add: Event_Validate_def sample_event_def SchemaVersion_Validate_def Actor_Validate_def
      Timestamp_IsZero_def enum_defs first_err.simps(2) split: option.split)

definition sample_step :: "int \<Rightarrow> Payload \<Rightarrow> Projection \<Rightarrow> Projection outcome" where
  "sample_step n pl p =
     guard (Payload_Validate pl) p
     (if p_initialised p = (Payload_Type pl = ''ProjectInitialized'') \<or>
         (p_initialised p \<and> p_ProjectID p \<noteq> ''project'')
      then (Some (New CategoryIntegrity), p)
      else andThen (applyPayload (sample_event n pl) pl p)
        (\<lambda>q. (None, q\<lparr>p_HighWatermark := n, p_LastOccurredAt := 100 + n\<rparr>)))"

lemma Apply_sample:
  "0 < n \<Longrightarrow> p_HighWatermark p < n \<Longrightarrow> Apply (sample_event n pl) p = sample_step n pl p"
  by (cases "p_ProjectID p = ''project''"; cases "p_initialised p")
    (auto simp: Apply_def sample_step_def guard_def split: option.split)

lemmas sample_payloads = sample_init_def sample_task_def sample_design_def sample_approve_def
  sample_delegate_def sample_start_def sample_fail_def sample_candidate_def sample_validation_def
  sample_review_def sample_accept_def sample_integrate_def

lemmas sample_evals = sample_payloads validate_defs enum_defs op_defs sample_step_def
  transitionTask_def finishAttempt_def put_task_def put_attempt_def add_attempt_def new_task_def
  new_attempt_def approve_mutation_def recordValidation_def recordReview_def
  requireTaskInState_def requireAttemptOf_def requireCandidate_def requireCandidateCommit_def
  requireEvidenceFor_def evidence_check_def Task_of_def Attempt_of_def CheckTransition_def
  CheckAttemptTransition_def Task_Validate_def Attempt_Validate_def running_attempt_def
  AttemptStatus_Terminal_def proposed_version_def

lemma delivery_accepted:
  "case Reduce delivery of Inl _ \<Rightarrow> False | Inr p \<Rightarrow>
     map_option t_State (p_tasks p ''t1'') = Some StateDone \<and> p_AcceptedCommit p = ''fffffff''"
  by (simp add: delivery_def delegated_def Reduce_run run.simps(2) Apply_sample sample_evals
     New_Projection_def)

lemma delivery_failed_attempt:
  "case Reduce (take 7 delivery) of Inl _ \<Rightarrow> False | Inr p \<Rightarrow>
     map_option a_Status (p_attempts p ''a1'') = Some StatusFailed"
  by (simp add: delivery_def delegated_def Reduce_run run.simps(2) Apply_sample sample_evals
     New_Projection_def)

lemma delivery_attempts:
  "case Reduce delivery of Inl _ \<Rightarrow> False | Inr p \<Rightarrow> p_attemptsByTask p ''t1'' = [''a1'', ''a2'']"
  by (simp add: delivery_def delegated_def Reduce_run run.simps(2) Apply_sample sample_evals
     New_Projection_def)

text \<open>A first candidate that failed its validation, and a second one that brought the task under
  review.\<close>

lemma failed_validation_accepted:
  "case Reduce (numbered 1 (delegated @
       [sample_start ''a1'', sample_candidate ''a1'' ''badbad0'',
        sample_validation ''a1'' ''v1'' ''badbad0'' ScopeAttempt OutcomeFail,
        sample_start ''a2'', sample_candidate ''a2'' ''ccccccc'',
        sample_validation ''a2'' ''v2'' ''ccccccc'' ScopeAttempt OutcomePass,
        sample_review ''a1'' ''r1'', sample_accept ''a1'' ''badbad0'' ''v1'' ''r1''])) of
     Inl _ \<Rightarrow> False
   | Inr p \<Rightarrow> map_option (\<lambda>t. (t_State t, t_AcceptedCommit t)) (p_tasks p ''t1'') =
       Some (StateAccepted, ''badbad0'')"
  by (simp add: delegated_def Reduce_run run.simps(2) Apply_sample sample_evals
     New_Projection_def)

text \<open>A journal of the discovery loop: an ambiguity that a human has to resolve.\<close>

definition sample_discovery :: "Event list" where
  "sample_discovery = numbered 1
     [sample_init,
      PAmbiguityOpened
        \<lparr>ao_AmbiguityID = ''q1'', ao_AmbiguityLedgerID = ''l1'', ao_Question = ''which'',
         ao_ResolutionAuthority = ResolveByHuman, ao_ArchitecturalImpact = ImpactHigh,
         ao_CostOfWrongAssumption = ImpactHigh, ao_WhyItMatters = ''why''\<rparr>]"

lemma discovery_result:
  "case Reduce sample_discovery of Inl _ \<Rightarrow> False | Inr p \<Rightarrow>
     d_openAmbiguities (p_discovery p) =
       [(''q1'', \<lparr>oa_authority = ResolveByHuman, oa_architecturalImpact = ImpactHigh\<rparr>)] \<and>
     discovery_active (p_discovery p)"
  by (simp add: sample_discovery_def Reduce_run run.simps(2) Apply_sample sample_evals
     New_Projection_def on_discovery_def newDiscoveryState_def discovery_active_def)

text \<open>A delivery whose integration validation names its commit as c, after a baseline validation of the
  commit the project started from.\<close>

definition delivery_of :: "string \<Rightarrow> Event list" where
  "delivery_of c = numbered 1 (delegated @
     [PValidationCompleted
        \<lparr>vc_TaskID = '''', vc_AttemptID = '''', vc_ValidationID = ''b1'', vc_Scope = ScopeBaseline,
         vc_Status = OutcomePass, vc_Commit = ''0000000'', vc_RecordDigest = ''d'',
         vc_FailedChecks = []\<rparr>,
      sample_start ''a2'', sample_candidate ''a2'' ''ccccccc'',
      sample_validation ''a2'' ''v1'' ''ccccccc'' ScopeAttempt OutcomePass,
      sample_review ''a2'' ''r1'', sample_accept ''a2'' ''ccccccc'' ''v1'' ''r1'']
     @ sample_integrate c)"

lemma delivery_of_result:
  "c \<noteq> '''' \<Longrightarrow> case Reduce (delivery_of c) of Inl _ \<Rightarrow> False | Inr p \<Rightarrow>
     p_initialised p \<and> p_AcceptedCommit p = c \<and>
     p_Validation p = \<lparr>vs_Status = ValidationGreen, vs_AcceptedCommitVerified = True,
                       vs_LastFullValidationID = Some ''b1''\<rparr>"
  by (simp add: delivery_of_def delegated_def Reduce_run run.simps(2) Apply_sample sample_evals
     New_Projection_def baseline_status_def)

end
