(* ===== verification/Guarantees.thy ===== *)
theory Guarantees
  imports Provenance Sample
begin

text \<open>
  What an accepted journal guarantees: the properties of Apply and Reduce, each with its instance
  at a concrete journal.
\<close>

section \<open>The sample journal\<close>

lemma delivery_result:
  "\<exists>p t. Reduce delivery = Inr p \<and> p_tasks p ''t1'' = Some t \<and> t_State t = StateDone"
  using delivery_accepted by (auto split: sum.splits)

lemma delivery_prefix: "\<exists>p. Reduce (take n delivery) = Inr p"
proof -
  obtain q where q: "Reduce delivery = Inr q" using delivery_result by blast
  have "Reduce delivery = Reduce (take n delivery @ drop n delivery)" by simp
  then show ?thesis using q unfolding Reduce_run run_append by (auto split: sum.splits)
qed

section \<open>Acceptance\<close>

text \<open>C1: Every accepted change is explained by the journal. A task that is accepted, integrating,
  validating its integration or done has an attempt that was started against exactly the approved
  work package version, produced exactly the accepted commit, and was validated and reviewed at that
  commit, each of them by an event of the journal that names the task and the attempt.\<close>

theorem accepted_change_is_explained:
  assumes "Reduce es = Inr p" and "p_tasks p tid = Some t"
    and "t_State t \<in> {StateAccepted, StateIntegrating, StateIntegrationValidating, StateDone}"
  shows "explained es t"
  using explained_accepted [OF assms(1,2)] assms(3) by (simp add: accepted_states_def)

theorem accepted_change_is_explained_witness:
  "\<exists>p t. Reduce delivery = Inr p \<and> p_tasks p ''t1'' = Some t \<and> t_State t = StateDone \<and>
     explained delivery t"
proof -
  obtain p t where "Reduce delivery = Inr p" "p_tasks p ''t1'' = Some t" "t_State t = StateDone"
    using delivery_result by blast
  with accepted_change_is_explained [of delivery p "''t1''" t] show ?thesis by auto
qed

text \<open>Under the invariant the checks of cited evidence come down to its scope and its attempt.\<close>

lemma cited_validation_iff:
  assumes "live p" "wf_attempt p aid a" "p_attempts p aid = Some a" "t_ID t = a_TaskID a"
  shows "evidence_check (p_validations p) t a v = None \<longleftrightarrow>
    (\<exists>r. p_validations p v = Some r \<and> ev_scope r = ''attempt'' \<and> ev_attemptID r = aid)"
proof -
  have "ev_scope r \<noteq> ''''" "ev_scope r = ''attempt'' \<Longrightarrow> wf_evidence p r"
    if "p_validations p v = Some r" for r
    using live_parts(8) [OF assms(1)] that unfolding inv_evidence_def by fastforce+
  then show ?thesis
    using assms(2-4) by (auto simp: evidence_check_ok wf_attempt_def wf_evidence_def)
qed

lemma cited_review_iff:
  assumes "live p" "wf_attempt p aid a" "p_attempts p aid = Some a" "t_ID t = a_TaskID a"
  shows "evidence_check (p_reviews p) t a v = None \<longleftrightarrow>
    (\<exists>r. p_reviews p v = Some r \<and> ev_attemptID r = aid)"
proof -
  have "ev_scope r = ''attempt'' \<and> wf_evidence p r" if "p_reviews p v = Some r" for r
    using live_parts(8) [OF assms(1)] that unfolding inv_evidence_def by blast
  then show ?thesis
    using assms(2-4) by (auto simp: evidence_check_ok wf_attempt_def wf_evidence_def)
qed

lemma accept_transition:
  assumes "live p" "p_tasks p tid = Some t" "t_State t = StateReviewing"
  shows "\<exists>p'. transitionTask e tid StateAccepted (\<lambda>t. Inr (t\<lparr>t_AcceptedCommit := c\<rparr>)) p = (None, p')"
proof -
  have "Task_Validate t = None" using live_task [OF assms(1,2)] by (simp add: wf_task_def)
  then show ?thesis using assms(2,3) by (auto simp: transitionTask_ok Task_Validate_ok)
qed

text \<open>C6: An acceptance is applied exactly when the task is under review, the attempt is the task's
  and produced the claimed commit against the approved work package version, and every cited
  validation and review is recorded as evidence about that attempt.\<close>

theorem acceptance_exactly_when:
  assumes "Reduce es = Inr p" and "es \<noteq> []"
  shows "(\<exists>p'. applyChangeAccepted e pl p = (None, p')) \<longleftrightarrow>
    (\<exists>t a. p_tasks p (ca_TaskID pl) = Some t \<and> t_State t = StateReviewing \<and>
       p_attempts p (ca_AttemptID pl) = Some a \<and> a_TaskID a = ca_TaskID pl \<and>
       a_Status a = StatusCandidateProduced \<and> a_CandidateCommit a = ca_CandidateCommit pl \<and>
       ca_WorkPackageID pl = t_WorkPackageID t \<and> a_WorkPackageID a = t_WorkPackageID t \<and>
       a_WorkPackageVersion a = t_WorkPackageVersion t \<and>
       (\<forall>v \<in> set (ca_ValidationIDs pl). \<exists>r. p_validations p v = Some r \<and>
          ev_scope r = ''attempt'' \<and> ev_attemptID r = ca_AttemptID pl) \<and>
       (\<forall>v \<in> set (ca_ReviewIDs pl). \<exists>r. p_reviews p v = Some r \<and>
          ev_attemptID r = ca_AttemptID pl))"
    (is "_ \<longleftrightarrow> (\<exists>t a. ?C t a)")
proof
  have l: "live p" using assms by (rule Reduce_live)
  {
    assume "\<exists>p'. applyChangeAccepted e pl p = (None, p')"
    then obtain t a where t: "requireTaskInState p (ca_TaskID pl) StateReviewing = Inr t"
      and a: "requireAttemptOf p (t_ID t) (ca_AttemptID pl) = Inr a" "requireCandidate a = None"
        "requireCandidateCommit a (ca_CandidateCommit pl) = None"
      and wp: "ca_WorkPackageID pl = t_WorkPackageID t" "a_WorkPackageID a = t_WorkPackageID t"
        "a_WorkPackageVersion a = t_WorkPackageVersion t"
      and ev: "requireEvidenceFor (p_validations p) (ca_ValidationIDs pl) t a = None"
        "requireEvidenceFor (p_reviews p) (ca_ReviewIDs pl) t a = None"
      unfolding applyChangeAccepted_def by (auto simp: outcome_ok)
    have id: "t_ID t = ca_TaskID pl" using requireTaskInState_wf [OF l t] .
    have w: "wf_attempt p (ca_AttemptID pl) a" using requireAttemptOf_wf [OF l a(1)] by simp
    note lin = t [unfolded lineage_ok] a [unfolded lineage_ok]
    have "?C t a"
      using lin wp id ev
        cited_validation_iff [OF l w, of t] cited_review_iff [OF l w, of t]
      by (simp add: requireEvidenceFor_ok)
    then show "\<exists>t a. ?C t a" by blast
  }
  assume "\<exists>t a. ?C t a"
  then obtain t a where c: "?C t a" by blast
  then have t: "requireTaskInState p (ca_TaskID pl) StateReviewing = Inr t"
    by (simp add: requireTaskInState_ok)
  then have id: "t_ID t = ca_TaskID pl" by (rule requireTaskInState_wf [OF l])
  have w: "wf_attempt p (ca_AttemptID pl) a" using live_attempt [OF l] c by blast
  then have "ca_AttemptID pl \<noteq> ''''" "a_CandidateCommit a \<noteq> ''''"
    using c by (auto simp: wf_attempt_def Attempt_Validate_def)
  then have a: "requireAttemptOf p (t_ID t) (ca_AttemptID pl) = Inr a" "requireCandidate a = None"
    "requireCandidateCommit a (ca_CandidateCommit pl) = None"
    using c id by (auto simp: lineage_ok)
  have ev: "requireEvidenceFor (p_validations p) (ca_ValidationIDs pl) t a = None"
    "requireEvidenceFor (p_reviews p) (ca_ReviewIDs pl) t a = None"
    using c id cited_validation_iff [OF l w, of t] cited_review_iff [OF l w, of t]
    by (simp_all add: requireEvidenceFor_ok)
  obtain p1 where "transitionTask e (ca_TaskID pl) StateAccepted
      (\<lambda>t. Inr (t\<lparr>t_AcceptedCommit := ca_CandidateCommit pl\<rparr>)) p = (None, p1)"
    using accept_transition [OF l] c by blast
  then show "\<exists>p'. applyChangeAccepted e pl p = (None, p')"
    unfolding applyChangeAccepted_def using t a ev c by simp
qed

lemma take_delivery:
  "take 12 delivery = take 11 delivery @
     [sample_event 12 (sample_accept ''a2'' ''ccccccc'' ''v1'' ''r1'')]"
  by (simp add: delivery_def delegated_def)

theorem acceptance_exactly_when_witness:
  "\<exists>p t a. Reduce (take 11 delivery) = Inr p \<and> p_tasks p ''t1'' = Some t \<and>
     t_State t = StateReviewing \<and> p_attempts p ''a2'' = Some a \<and> a_CandidateCommit a = ''ccccccc''"
proof -
  let ?e = "sample_event 12 (sample_accept ''a2'' ''ccccccc'' ''v1'' ''r1'')"
  obtain q where "Reduce (take 11 delivery @ [?e]) = Inr q"
    using delivery_prefix [of 12] unfolding take_delivery by blast
  then obtain p where p: "Reduce (take 11 delivery) = Inr p" and ap: "Apply ?e p = (None, q)"
    by (auto simp: Reduce_run run_snoc)
  have "take 11 delivery \<noteq> []" by (simp add: delivery_def delegated_def)
  note iff = acceptance_exactly_when [OF p this]
  from ap show ?thesis
    using p iff [THEN iffD1] by (fastforce simp: Apply_ok sample_accept_def)
qed

section \<open>History\<close>

text \<open>C7: The state of a task is the end of its history in the journal, and that history is lawful:
  every move an accepted event makes is one the lifecycle permits.\<close>

theorem task_history_is_lawful:
  assumes "Reduce es = Inr p" and "p_tasks p tid = Some t"
  shows "lawful CheckTransition StateProposed (visits tid es) \<and>
    t_State t = last (StateProposed # visits tid es)"
  using task_history [OF assms(1), of tid] assms(2) by (simp add: task_board_def)

theorem task_history_is_lawful_witness:
  "lawful CheckTransition StateProposed (visits ''t1'' delivery) \<and>
     last (StateProposed # visits ''t1'' delivery) = StateDone"
  using delivery_result task_history_is_lawful [of delivery _ "''t1''"] by force

text \<open>C8: Reduce refines the abstract board: every applied event either leaves the board of task
  states alone, puts a new task on it as proposed, or makes the one permitted move its payload
  names.\<close>

theorem reducer_refines_board:
  assumes "Apply e p = (None, p')"
  shows "\<exists>pl. ev_Payload e = Some pl \<and> board_step pl (task_board p) = Some (task_board p')"
  using assms by (rule board_Apply)

lemma apply_init: "\<exists>p. Apply (sample_event 1 sample_init) New_Projection = (None, p)"
proof -
  have "take 1 delivery = [sample_event 1 sample_init]" by (simp add: delivery_def delegated_def)
  then show ?thesis using delivery_prefix [of 1] by (auto simp: Reduce_run run_Cons)
qed

theorem reducer_refines_board_witness:
  "\<exists>p. board_step sample_init (task_board New_Projection) = Some (task_board p)"
  using apply_init reducer_refines_board [of "sample_event 1 sample_init" New_Projection]
  by fastforce

text \<open>C4: A task is done only if the journal moved it through design, approval, delegation,
  validation, review, acceptance, integration and integration validation, in that order.\<close>

theorem done_task_was_delivered:
  assumes "Reduce es = Inr p" and "p_tasks p tid = Some t" and "t_State t = StateDone"
  shows "subseq [StateDesigning, StateReady, StateRunning, StateValidating, StateReviewing,
    StateAccepted, StateIntegrating, StateIntegrationValidating, StateDone] (visits tid es)"
proof -
  have h: "lawful CheckTransition StateProposed (visits tid es)"
    "last (StateProposed # visits tid es) = StateDone"
    using task_history [OF assms(1), of tid] assms(2,3) by (simp_all add: task_board_def)
  then have "visits tid es \<noteq> []" by auto
  with h show ?thesis
    using milestones_path [of "visits tid es"] by (simp add: milestones_def delivery_stages_def)
qed

theorem done_task_was_delivered_witness:
  "subseq [StateDesigning, StateReady, StateRunning, StateValidating, StateReviewing,
    StateAccepted, StateIntegrating, StateIntegrationValidating, StateDone] (visits ''t1'' delivery)"
  using delivery_result done_task_was_delivered by blast

text \<open>C5: What the journal has settled never changes: whatever is applied afterwards, a finished
  attempt keeps its whole record and a done task its own, recorded validations, reviews and aliases
  stay what they are, and the lists of attempts and of semantic changes only grow at the end.\<close>

theorem settled_facts_never_change:
  assumes "reduce_from p es = Inr q"
  shows "(\<forall>aid a. p_attempts p aid = Some a \<and> AttemptStatus_Terminal (a_Status a) \<longrightarrow>
       p_attempts q aid = Some a) \<and>
    (\<forall>tid t. p_tasks p tid = Some t \<and> t_State t = StateDone \<longrightarrow> p_tasks q tid = Some t) \<and>
    (\<forall>v r. p_validations p v = Some r \<longrightarrow> p_validations q v = Some r) \<and>
    (\<forall>v r. p_reviews p v = Some r \<longrightarrow> p_reviews q v = Some r) \<and>
    (\<forall>h tid. p_aliases p h = Some tid \<longrightarrow> p_aliases q h = Some tid) \<and>
    (\<forall>tid. prefix (p_attemptsByTask p tid) (p_attemptsByTask q tid)) \<and>
    prefix (p_semanticChanges p) (p_semanticChanges q)"
proof -
  note ev = evolvesD [OF evolves_run [of p es q]]
  have r: "run Apply p es = Inr q" using assms by (simp add: reduce_from_run)
  have att: "p_attempts q aid = Some a"
    if "p_attempts p aid = Some a" "AttemptStatus_Terminal (a_Status a)" for aid a
  proof -
    have "a_Status a \<noteq> StatusRunning" using that(2) by (auto simp: AttemptStatus_Terminal_def)
    with ev(2) [OF r] that(1) show ?thesis unfolding kept_def keeps_attempt_def by fastforce
  qed
  have tsk: "p_tasks q tid = Some t" if "p_tasks p tid = Some t" "t_State t = StateDone" for tid t
    using ev(1) [OF r] that unfolding kept_def keeps_task_def by fastforce
  show ?thesis
    using att tsk ev(3-8) [OF r] unfolding kept_def by simp
qed

theorem settled_facts_never_change_witness:
  "\<exists>p q a. Reduce (take 7 delivery) = Inr p \<and> p_attempts p ''a1'' = Some a \<and>
     a_Status a = StatusFailed \<and> reduce_from p (drop 7 delivery) = Inr q \<and>
     p_attempts q ''a1'' = Some a"
proof -
  obtain p a where p: "Reduce (take 7 delivery) = Inr p" "p_attempts p ''a1'' = Some a"
    "a_Status a = StatusFailed"
    using delivery_failed_attempt by (auto split: sum.splits)
  obtain q where "Reduce (take 7 delivery @ drop 7 delivery) = Inr q"
    using delivery_result by auto
  then have q: "reduce_from p (drop 7 delivery) = Inr q"
    using p(1) unfolding Reduce_run reduce_from_run run_append by simp
  have "AttemptStatus_Terminal (a_Status a)" using p(3) by (simp add: AttemptStatus_Terminal_def enum_defs)
  then show ?thesis using p q settled_facts_never_change [OF q] by blast
qed

section \<open>The journal and its projection\<close>

text \<open>C2: A refused event changes nothing: when Apply returns an error the projection is exactly
  what it was, whichever check refused and however far the operation had come.\<close>

theorem refused_event_changes_nothing:
  assumes "Reduce es = Inr p" and "Apply e p = (Some err, p')"
  shows "p' = p"
  using state_reducer.refused [OF Reduce_inv [OF assms(1)] assms(2)] .

theorem refused_event_changes_nothing_witness:
  "\<exists>p err. Reduce (take 12 delivery) = Inr p \<and>
     Apply (sample_event 3 (sample_candidate ''a1'' ''ddddddd'')) p = (Some err, p)"
proof -
  let ?e = "sample_event 3 (sample_candidate ''a1'' ''ddddddd'')"
  obtain p where p: "Reduce (take 12 delivery) = Inr p" using delivery_prefix by blast
  have "p_HighWatermark p = 12"
    using state_reducer.run_mark [of New_Projection "take 12 delivery" p] p
    by (simp add: Reduce_run delivery_def delegated_def)
  moreover obtain r q where r: "Apply ?e p = (r, q)" by (cases "Apply ?e p")
  ultimately obtain err where "r = Some err" by (cases r) (auto simp: Apply_ok)
  with r refused_event_changes_nothing [OF p, of ?e err q] p show ?thesis by auto
qed


text \<open>A projection can be resumed: reducing a journal is reducing its prefix and going on from
  the resulting projection, and an error in the prefix is the error of the whole.\<close>

theorem reduction_resumes:
  "Reduce (xs @ ys) =
     (case Reduce xs of Inl err \<Rightarrow> Inl err | Inr p \<Rightarrow> reduce_from p ys)"
  unfolding Reduce_run reduce_from_run by (rule run_append)

lemma journal_events:
  assumes "run Apply New_Projection es = Inr p"
  shows "(\<forall>x \<in> set es. Event_Validate x = None \<and> ev_ProjectID x = p_ProjectID p) \<and>
    (\<forall>i < length es. (ev_EventType (es ! i) = ''ProjectInitialized'') = (i = 0)) \<and>
    (p_initialised p = (es \<noteq> []))"
  using assms
proof (induction rule: run_induct)
  case empty
  then show ?case by (simp add: New_Projection_def)
next
  case (snoc es p e p')
  have i: "inv p" using snoc.hyps(1) by (intro Reduce_inv) (simp add: Reduce_run)
  note ap = snoc.hyps(2)
  have v: "Event_Validate e = None"
    "if p_initialised p then ev_ProjectID e = p_ProjectID p \<and> ev_EventType e \<noteq> ''ProjectInitialized''
     else ev_EventType e = ''ProjectInitialized''"
    using ap by (auto simp: Apply_ok)
  have "p_initialised p'" using Apply_inv [OF i ap] by simp
  moreover have "ev_ProjectID e = p_ProjectID p'"
  proof (cases "p_initialised p")
    case True
    then show ?thesis using v(2) evolvesD(9) [OF evolves_Apply [OF ap]] by simp
  next
    case False
    then obtain pl where pl: "ev_Payload e = Some pl" "Payload_Type pl = ''ProjectInitialized''"
      using v by (auto simp: Event_Validate_None)
    then obtain x where "pl = PProjectInitialized x" by (cases pl) simp_all
    then show ?thesis using ap pl(1) by (auto simp: Apply_ok op_defs)
  qed
  moreover have "es \<noteq> [] \<Longrightarrow> p_ProjectID p' = p_ProjectID p"
    using snoc.IH evolvesD(9) [OF evolves_Apply [OF ap]] by simp
  ultimately show ?case
    using snoc.IH v by (cases "es = []") (auto simp: nth_append less_Suc_eq)
qed

text \<open>C10: The shape of a journal that reduces: sequence numbers are positive and strictly increasing,
  the first event and no other initialises the project, every event is valid and of the project of
  the projection, and the high-watermark is the sequence number of the last event.\<close>

theorem journal_shape:
  assumes "Reduce es = Inr p"
  shows "sorted_wrt (<) (0 # map ev_Seq es) \<and> p_HighWatermark p = last (0 # map ev_Seq es) \<and>
    (\<forall>i < length es. (ev_EventType (es ! i) = ''ProjectInitialized'') = (i = 0)) \<and>
    (\<forall>e \<in> set es. Event_Validate e = None \<and> ev_ProjectID e = p_ProjectID p)"
proof -
  have r: "run Apply New_Projection es = Inr p" using assms by (simp add: Reduce_run)
  have m: "p_HighWatermark New_Projection = 0" by (simp add: New_Projection_def)
  show ?thesis
    using journal_events [OF r] state_reducer.run_increasing [OF r] state_reducer.run_mark [OF r]
    unfolding m by blast
qed

theorem journal_shape_witness:
  "\<exists>p. Reduce delivery = Inr p \<and> p_HighWatermark p = 15 \<and> sorted_wrt (<) (0 # map ev_Seq delivery)"
proof -
  obtain p where p: "Reduce delivery = Inr p" using delivery_result by blast
  have "last (0 # map ev_Seq delivery) = 15"
    by (simp add: delivery_def delegated_def sample_integrate_def)
  with journal_shape [OF p] p show ?thesis by auto
qed

section \<open>Well-formedness\<close>

text \<open>C3: Every reduced projection is well-formed: its registries, aliases, tasks, attempts and
  evidence agree with each other, and every record in it passes its own validation.\<close>

theorem reduction_well_formed:
  assumes "Reduce es = Inr p"
  shows "inv p"
  using assms by (rule Reduce_inv)

theorem reduction_well_formed_witness: "\<exists>p. Reduce delivery = Inr p \<and> inv p"
  using delivery_result reduction_well_formed by blast

text \<open>C11: The attempts of a task are numbered from one in the order they started; all but the last
  are finished, so at most one runs; and the task's current attempt is the last.\<close>

theorem attempts_in_order:
  assumes "Reduce es = Inr p" and "p_tasks p tid = Some t" and "i < length (p_attemptsByTask p tid)"
  shows "\<exists>a. p_attempts p (p_attemptsByTask p tid ! i) = Some a \<and> a_TaskID a = tid \<and>
    a_Ordinal a = int i + 1 \<and> distinct (p_attemptsByTask p tid) \<and>
    t_CurrentAttemptID t = last (p_attemptsByTask p tid) \<and>
    (a_Status a = StatusRunning \<longrightarrow> a_ID a = t_CurrentAttemptID t)"
proof -
  have i: "inv_tasks p" "inv_attempts p" using Reduce_inv [OF assms(1)] by (simp_all add: inv_def)
  have cur: "t_CurrentAttemptID t = last (p_attemptsByTask p tid)"
    using i(1) assms(2,3) unfolding inv_tasks_def wf_task_def by fastforce
  have w: "wf_order p tid" using i(2) by (simp add: inv_attempts_def)
  then obtain a where a: "p_attempts p (p_attemptsByTask p tid ! i) = Some a" "a_TaskID a = tid"
    "a_Ordinal a = int i + 1"
    "Suc i < length (p_attemptsByTask p tid) \<longrightarrow> a_Status a \<noteq> StatusRunning"
    using assms(3) unfolding wf_order_def by blast
  have "a_ID a = p_attemptsByTask p tid ! i"
    using i(2) a(1) by (simp add: inv_attempts_def wf_attempt_def)
  moreover have "p_attemptsByTask p tid ! i = last (p_attemptsByTask p tid)"
    if "a_Status a = StatusRunning"
    using a(4) that assms(3) by (metis Suc_lessI diff_Suc_1 last_conv_nth length_0_conv not_less0)
  ultimately show ?thesis using a cur w by (auto simp: wf_order_def)
qed

theorem attempts_in_order_witness:
  "\<exists>p t a. Reduce delivery = Inr p \<and> p_tasks p ''t1'' = Some t \<and> p_attempts p ''a1'' = Some a \<and>
     a_Ordinal a = 1 \<and> t_CurrentAttemptID t = ''a2''"
proof -
  obtain p t where p: "Reduce delivery = Inr p" "p_tasks p ''t1'' = Some t"
    using delivery_result by blast
  have l: "p_attemptsByTask p ''t1'' = [''a1'', ''a2'']" using delivery_attempts p(1) by simp
  then have "0 < length (p_attemptsByTask p ''t1'')" by simp
  from attempts_in_order [OF p this] l p show ?thesis by auto
qed


section \<open>Discovery\<close>

text \<open>C12: The counts ProjectState reports about discovery are exact: open material ambiguities,
  ambiguities awaiting a human with their ids, confirmed and proposed requirements, and active
  product decisions, each the number of such entries the journal left in the working set.\<close>

theorem discovery_counts_are_exact:
  assumes "Reduce es = Inr p" and "render_discovery (p_discovery p) = Some s"
  shows "ds_OpenMaterialAmbiguities s =
       int (card {a. \<exists>e. map_of (d_openAmbiguities (p_discovery p)) a = Some e \<and> material e}) \<and>
    ds_AwaitingHumanAmbiguities s =
       int (card {a. \<exists>e. map_of (d_openAmbiguities (p_discovery p)) a = Some e \<and> awaitingHuman e}) \<and>
    set (ds_CurrentQuestionRefs s) =
       {a. \<exists>e. map_of (d_openAmbiguities (p_discovery p)) a = Some e \<and> awaitingHuman e} \<and>
    ds_ConfirmedRequirements s =
       int (card {r. map_of (d_requirementStatus (p_discovery p)) r = Some RequirementConfirmed}) \<and>
    ds_ProposedRequirements s =
       int (card {r. map_of (d_requirementStatus (p_discovery p)) r = Some RequirementProposed}) \<and>
    ds_ActiveProductDecisions s =
       int (card {r. map_of (d_productDecisionStatus (p_discovery p)) r = Some ProductDecisionConfirmed})"
proof -
  have "inv_discovery (p_discovery p)" using Reduce_inv [OF assms(1)] by (simp add: inv_def)
  note c = discovery_counts [OF this assms(2)]
  show ?thesis by (intro conjI c)
qed

theorem discovery_counts_are_exact_witness:
  "\<exists>p s. Reduce sample_discovery = Inr p \<and> render_discovery (p_discovery p) = Some s \<and>
     ds_AwaitingHumanAmbiguities s = 1 \<and> ds_ConfirmedRequirements s =
       int (card {r. map_of (d_requirementStatus (p_discovery p)) r = Some RequirementConfirmed})"
proof -
  obtain p where p: "Reduce sample_discovery = Inr p" "discovery_active (p_discovery p)"
    "d_openAmbiguities (p_discovery p) =
       [(''q1'', \<lparr>oa_authority = ResolveByHuman, oa_architecturalImpact = ImpactHigh\<rparr>)]"
    using discovery_result by (auto split: sum.splits)
  then obtain s where s: "render_discovery (p_discovery p) = Some s"
    by (cases "render_discovery (p_discovery p)") (auto simp: render_discovery_def split: prod.splits)
  have "{a. \<exists>e. map_of (d_openAmbiguities (p_discovery p)) a = Some e \<and> awaitingHuman e} = {''q1''}"
    unfolding p(3) by (auto simp: awaitingHuman_def)
  with discovery_counts_are_exact [OF p(1) s] p(1) s show ?thesis by simp
qed

end
