(* ===== verification/Revision.thy ===== *)
theory Revision
  imports Errs
begin

text \<open>
  State revisions: StateRevision of internal/state/projection.go, and FormatStateRevision and
  ParseStateRevision with the digest and commit checks of internal/principal/contract.go. A
  high-watermark is an int64; the model uses an integer and writes the range of int64 where the
  parser meets it.
\<close>

section \<open>Formatting and parsing\<close>

text \<open>The verb \<open>%09d\<close> pads to nine characters, the sign of a negative number included.\<close>

definition format_09d :: "int \<Rightarrow> string" where
  "format_09d n = (if n < 0 then CHR ''-'' # pad_decimal 8 (nat (- n)) else pad_decimal 9 (nat n))"

text \<open>strconv.FormatInt in base 10.\<close>

definition FormatInt :: "int \<Rightarrow> string" where
  "FormatInt n = (if n < 0 then CHR ''-'' # decimal (nat (- n)) else decimal (nat n))"

definition StateRevision :: "int \<Rightarrow> string" where
  "StateRevision highWatermark = ''ps_'' @ format_09d highWatermark"

definition FormatStateRevision :: "int \<Rightarrow> string" where
  "FormatStateRevision highWatermark = ''ps_'' @ format_09d highWatermark"

definition EmptyStateRevision :: string where
  "EmptyStateRevision = ''ps_000000000''"

definition CutPrefix :: "string \<Rightarrow> string \<Rightarrow> string option" where
  "CutPrefix s prefix =
     (if take (length prefix) s = prefix then Some (drop (length prefix) s) else None)"

text \<open>strconv.ParseInt in base 10 with 64 bits, on a non-empty string of digits.\<close>

definition ParseInt64 :: "string \<Rightarrow> int option" where
  "ParseInt64 digits =
     (if int (parse_decimal digits) < 2 ^ 63 then Some (int (parse_decimal digits)) else None)"

definition ParseStateRevision :: "string \<Rightarrow> go_error + int" where
  "ParseStateRevision value =
     (case CutPrefix value ''ps_'' of
        None \<Rightarrow> Inl (New CategoryInvalidArgument)
      | Some digits \<Rightarrow>
          (if length digits < 9 then Inl (New CategoryInvalidArgument)
           else if \<not> list_all is_digit digits then Inl (New CategoryInvalidArgument)
           else
             (case ParseInt64 digits of
                None \<Rightarrow> Inl (New CategoryInvalidArgument)
              | Some n \<Rightarrow>
                  (if FormatStateRevision n \<noteq> value then Inl (New CategoryInvalidArgument)
                   else Inr n))))"

section \<open>Digests and commits\<close>

definition isLowerHex :: "string \<Rightarrow> bool" where
  "isLowerHex s \<longleftrightarrow>
     list_all (\<lambda>c. \<not> (((of_char c :: nat) < 48 \<or> 57 < (of_char c :: nat)) \<and>
                      ((of_char c :: nat) < 97 \<or> 102 < (of_char c :: nat)))) s"

definition ValidateDigest :: "string \<Rightarrow> go_error option" where
  "ValidateDigest value =
     (case CutPrefix value ''sha256:'' of
        None \<Rightarrow> Some (New CategoryInvalidArgument)
      | Some hexPart \<Rightarrow>
          check (length hexPart \<noteq> 64 \<or> \<not> isLowerHex hexPart) CategoryInvalidArgument)"

definition ValidateCommit :: "string \<Rightarrow> go_error option" where
  "ValidateCommit value =
     check (length value < 7 \<or> 64 < length value \<or> \<not> isLowerHex value) CategoryInvalidArgument"

section \<open>Round trip\<close>

lemma CutPrefix_append [simp]: "CutPrefix (prefix @ s) prefix = Some s"
  by (simp add: CutPrefix_def)

lemma CutPrefix_Some: "CutPrefix s prefix = Some r \<longleftrightarrow> s = prefix @ r"
  by (auto simp: CutPrefix_def) (metis append_take_drop_id)

lemma Format_State: "FormatStateRevision n = StateRevision n"
  by (simp add: FormatStateRevision_def StateRevision_def)

lemma pad_decimal_inject: "pad_decimal w m = pad_decimal w n \<longleftrightarrow> m = n"
  by (metis parse_pad_decimal)

lemma ParseInt64_pad: "0 \<le> n \<Longrightarrow> n < 2 ^ 63 \<Longrightarrow> ParseInt64 (pad_decimal w (nat n)) = Some n"
  by (simp add: ParseInt64_def)

lemma StateRevision_inject: "StateRevision m = StateRevision n \<Longrightarrow> 0 \<le> m \<Longrightarrow> 0 \<le> n \<Longrightarrow> m = n"
  by (simp add: StateRevision_def format_09d_def pad_decimal_inject)

lemma EmptyStateRevision_zero: "EmptyStateRevision = StateRevision 0"
  unfolding EmptyStateRevision_def StateRevision_def format_09d_def pad_decimal_def
  by (simp add: decimal.simps digit_char_0 numeral_eq_Suc)

text \<open>C19: ParseStateRevision accepts exactly the revisions StateRevision generates for the
  high-watermarks an int64 can hold, and returns the high-watermark; every other spelling, surplus
  zeros and signs included, is refused. So distinct high-watermarks have distinct revisions.\<close>

theorem ParseStateRevision_exact:
  "ParseStateRevision s = Inr n \<longleftrightarrow> 0 \<le> n \<and> n < 2 ^ 63 \<and> s = StateRevision n"
proof
  assume p: "ParseStateRevision s = Inr n"
  then obtain d where "CutPrefix s ''ps_'' = Some d" "ParseInt64 d = Some n"
    "FormatStateRevision n = s"
    by (auto simp: ParseStateRevision_def split: option.splits if_splits)
  then show "0 \<le> n \<and> n < 2 ^ 63 \<and> s = StateRevision n"
    by (auto simp: ParseInt64_def Format_State split: if_splits)
next
  assume n: "0 \<le> n \<and> n < 2 ^ 63 \<and> s = StateRevision n"
  then have s: "s = ''ps_'' @ pad_decimal 9 (nat n)"
    by (simp add: StateRevision_def format_09d_def)
  have "\<not> length (pad_decimal 9 (nat n)) < 9" using length_pad_decimal [of 9 "nat n"] by simp
  moreover have "list_all is_digit (pad_decimal 9 (nat n))" by (rule pad_decimal_digits)
  moreover have "FormatStateRevision n = s" using n by (simp add: Format_State)
  ultimately show "ParseStateRevision s = Inr n"
    using n unfolding ParseStateRevision_def s CutPrefix_append by (simp add: ParseInt64_pad)
qed

end
