(* ===== verification/Render.thy ===== *)
theory Render
  imports Provenance Revision Sample
begin

text \<open>
  Projection.ProjectState of internal/state/projection.go: the compact snapshot rendered for the
  principal, and ProjectState.Validate of internal/protocol/project_state.go, which the rendering
  ends with. The fields Review and Capabilities are never set by the rendering and are left out, as
  are the two branches of Validate that inspect them when they are not nil.
\<close>

section \<open>The snapshot\<close>

record GitState =
  gs_AcceptedCommit :: "string option"
  gs_Branch :: "string option"
  gs_Dirty :: bool

record ProductState =
  pst_VisionRef :: "string option"
  pst_CurrentOutcome :: "string option"

record TaskBuckets =
  tb_Ready :: "string list"
  tb_Running :: "string list"
  tb_Blocked :: "string list"
  tb_AwaitingPrincipal :: "string list"

record ProjectState =
  st_SchemaVersion :: SchemaVersion
  st_ProjectID :: string
  st_StateRevision :: string
  st_GeneratedAt :: Timestamp
  st_EventHighWatermark :: "string option"
  st_Git :: GitState
  st_Product :: "ProductState option"
  st_Milestone :: MilestoneState
  st_Components :: "ComponentState list"
  st_Modules :: "ModuleDefinition list"
  st_Tasks :: TaskBuckets
  st_ActiveInvariants :: "string list"
  st_ActiveDecisions :: "string list"
  st_Validation :: ValidationState
  st_Health :: "HealthState option"
  st_Risks :: "Risk list"
  st_DecisionsRequired :: "OpenDecision list"
  st_RecentSemanticChanges :: "SemanticChange list"
  st_Discovery :: "DiscoveryState option"

definition ComponentState_check :: "ComponentState \<Rightarrow> go_error option" where
  "ComponentState_check c = first_err
     [check (cs_ID c = '''') CategoryInvalidArgument,
      check (cs_Status c = '''') CategoryInvalidArgument,
      check (cs_ContractState c \<noteq> UnknownContractState '''' \<and>
             \<not> ContractState_Valid (cs_ContractState c)) CategoryInvalidArgument]"

definition Risk_check :: "Risk \<Rightarrow> go_error option" where
  "Risk_check r = first_err
     [check (risk_ID r = '''') CategoryInvalidArgument,
      check (\<not> Severity_ValidRisk (risk_Severity r)) CategoryInvalidArgument,
      check (risk_Statement r = '''') CategoryInvalidArgument]"

definition OpenDecision_check :: "OpenDecision \<Rightarrow> go_error option" where
  "OpenDecision_check d = first_err
     [check (od_ID d = '''') CategoryInvalidArgument,
      check (od_Question d = '''') CategoryInvalidArgument,
      check (\<not> DecisionAuthority_Valid (od_Authority d)) CategoryInvalidArgument]"

definition DiscoveryState_check :: "DiscoveryState \<Rightarrow> go_error option" where
  "DiscoveryState_check d = first_err
     [check (case ds_ProblemModelRevision d of None \<Rightarrow> False | Some n \<Rightarrow> n < 1)
        CategoryInvalidArgument,
      check (case ds_SpecificationReadinessVerdict d of None \<Rightarrow> False
             | Some v \<Rightarrow> \<not> ReadinessVerdict_Valid v) CategoryInvalidArgument,
      check (list_ex (\<lambda>count. count < 0)
               [ds_OpenMaterialAmbiguities d, ds_AwaitingHumanAmbiguities d,
                ds_ConfirmedRequirements d, ds_ProposedRequirements d,
                ds_MaterialAssumptionsUnverified d, ds_ActiveProductDecisions d])
        CategoryInvalidArgument]"

definition SemanticChange_check :: "SemanticChange \<Rightarrow> go_error option" where
  "SemanticChange_check c = first_err
     [check (sc_TaskID c = '''') CategoryInvalidArgument,
      check (sc_Summary c = '''') CategoryInvalidArgument]"

definition ProjectState_Validate :: "ProjectState \<Rightarrow> go_error option" where
  "ProjectState_Validate s = first_err
     [SchemaVersion_Validate (st_SchemaVersion s),
      check (st_ProjectID s = '''') CategoryInvalidArgument,
      check (st_StateRevision s = '''') CategoryInvalidArgument,
      check (case gs_AcceptedCommit (st_Git s) of None \<Rightarrow> False | Some c \<Rightarrow> length c < 7)
        CategoryInvalidArgument,
      check (mi_ID (st_Milestone s) = '''') CategoryInvalidArgument,
      check (mi_Title (st_Milestone s) = '''') CategoryInvalidArgument,
      check (mi_CompletedTasks (st_Milestone s) < 0 \<or> mi_TotalTasks (st_Milestone s) < 0)
        CategoryInvalidArgument,
      check (mi_CompletedTasks (st_Milestone s) > mi_TotalTasks (st_Milestone s))
        CategoryIntegrity,
      first_err (map ComponentState_check (st_Components s)),
      check (\<not> ValidationStatus_Valid (vs_Status (st_Validation s))) CategoryInvalidArgument,
      check (case st_Health s of None \<Rightarrow> False
             | Some h \<Rightarrow> hs_Status h \<noteq> UnknownHealthStatus '''' \<and> \<not> HealthStatus_Valid (hs_Status h))
        CategoryInvalidArgument,
      first_err (map Risk_check (st_Risks s)),
      first_err (map OpenDecision_check (st_DecisionsRequired s)),
      (case st_Discovery s of None \<Rightarrow> None | Some d \<Rightarrow> DiscoveryState_check d),
      first_err (map SemanticChange_check (st_RecentSemanticChanges s))]"

section \<open>Rendering\<close>

definition RecentSemanticChangeLimit :: nat where
  "RecentSemanticChangeLimit = 10"

fun add_to_bucket :: "string \<Rightarrow> Bucket \<Rightarrow> TaskBuckets \<Rightarrow> TaskBuckets" where
  "add_to_bucket h BucketReady b = b\<lparr>tb_Ready := tb_Ready b @ [h]\<rparr>"
| "add_to_bucket h BucketRunning b = b\<lparr>tb_Running := tb_Running b @ [h]\<rparr>"
| "add_to_bucket h BucketBlocked b = b\<lparr>tb_Blocked := tb_Blocked b @ [h]\<rparr>"
| "add_to_bucket h BucketAwaitingPrincipal b =
     b\<lparr>tb_AwaitingPrincipal := tb_AwaitingPrincipal b @ [h]\<rparr>"
| "add_to_bucket h BucketNone b = b"

text \<open>One turn of the loop over the tasks: progress of the milestone and the buckets. An id that is
  not in the map would be a nil dereference; the invariant shows that there is none.\<close>

type_synonym summary = "int \<times> int \<times> TaskBuckets"

fun count_task :: "Projection \<Rightarrow> string \<Rightarrow> summary \<Rightarrow> summary" where
  "count_task p tid (completed, counted, buckets) =
     (case p_tasks p tid of
        None \<Rightarrow> (completed, counted, buckets)
      | Some t \<Rightarrow>
          (let mine = t_MilestoneID t = mi_ID (p_Milestone p)
           in (if mine \<and> t_State t = StateDone then completed + 1 else completed,
               if mine then counted + 1 else counted,
               fold (add_to_bucket (t_Alias t)) (Buckets (t_State t) (Task_BlockedAuthority t))
                 buckets)))"

definition no_buckets :: TaskBuckets where
  "no_buckets = \<lparr>tb_Ready = [], tb_Running = [], tb_Blocked = [], tb_AwaitingPrincipal = []\<rparr>"

definition some_if :: "string \<Rightarrow> string option" where
  "some_if s = (if s \<noteq> '''' then Some s else None)"

text \<open>The loop that collects the newest changes, bounded by the limit.\<close>

fun newest_changes :: "SemanticChange list \<Rightarrow> SemanticChange list \<Rightarrow> SemanticChange list" where
  "newest_changes [] acc = acc"
| "newest_changes (c # older) acc =
     (if length acc < RecentSemanticChangeLimit then newest_changes older (acc @ [c]) else acc)"

text \<open>A Go map read of a missing key gives the zero value.\<close>

definition zero_ComponentState :: ComponentState where
  "zero_ComponentState = \<lparr>cs_ID = '''', cs_Responsibility = None, cs_Status = '''',
     cs_ContractState = UnknownContractState '''', cs_EvidenceRefs = []\<rparr>"

definition zero_Risk :: Risk where
  "zero_Risk = \<lparr>risk_ID = '''', risk_Severity = UnknownSeverity '''', risk_Statement = '''',
     risk_EvidenceRefs = []\<rparr>"

definition zero_OpenDecision :: OpenDecision where
  "zero_OpenDecision = \<lparr>od_ID = '''', od_Question = '''',
     od_Authority = UnknownDecisionAuthority '''', od_EvidenceRefs = []\<rparr>"

definition read_map :: "'v \<Rightarrow> ('k \<rightharpoonup> 'v) \<Rightarrow> 'k \<Rightarrow> 'v" where
  "read_map zero m k = (case m k of None \<Rightarrow> zero | Some v \<Rightarrow> v)"

definition rendered :: "Projection \<Rightarrow> ProjectState" where
  "rendered p =
     (case fold (count_task p) (p_taskIDs p) (0, 0, no_buckets) of
        (completed, counted, buckets) \<Rightarrow>
     \<lparr>st_SchemaVersion = SchemaVersion1, st_ProjectID = p_ProjectID p,
      st_StateRevision = StateRevision (p_HighWatermark p), st_GeneratedAt = p_LastOccurredAt p,
      st_EventHighWatermark = Some (FormatInt (p_HighWatermark p)),
      st_Git = \<lparr>gs_AcceptedCommit = some_if (p_AcceptedCommit p),
                gs_Branch = some_if (p_Branch p), gs_Dirty = False\<rparr>,
      st_Product =
        (if p_VisionRef p \<noteq> '''' \<or> p_CurrentOutcome p \<noteq> ''''
         then Some \<lparr>pst_VisionRef = some_if (p_VisionRef p),
                    pst_CurrentOutcome = some_if (p_CurrentOutcome p)\<rparr>
         else None),
      st_Milestone = (p_Milestone p)\<lparr>mi_CompletedTasks := completed, mi_TotalTasks := counted\<rparr>,
      st_Components = map (read_map zero_ComponentState (p_components p)) (p_componentIDs p),
      st_Modules = p_modules p, st_Tasks = buckets,
      st_ActiveInvariants = p_ActiveInvariants p, st_ActiveDecisions = p_ActiveDecisions p,
      st_Validation = p_Validation p,
      st_Health =
        (if hs_Status (p_Health p) \<noteq> UnknownHealthStatus '''' \<and> hs_Status (p_Health p) \<noteq> HealthUnknown
         then Some (p_Health p) else None),
      st_Risks = map (read_map zero_Risk (p_risks p)) (p_riskIDs p),
      st_DecisionsRequired = 
        map (read_map zero_OpenDecision (p_decisionsRequired p)) (p_decisionRequiredIDs p),
      st_RecentSemanticChanges = newest_changes (rev (p_semanticChanges p)) [],
      st_Discovery = render_discovery (p_discovery p)\<rparr>)"

definition render_state :: "Projection \<Rightarrow> go_error + ProjectState" where
  "render_state p =
     (if \<not> p_initialised p then Inl (New CategoryNotFound)
      else
        (let state = rendered p
         in case ProjectState_Validate state of Some err \<Rightarrow> Inl err | None \<Rightarrow> Inr state))"

section \<open>The task summary\<close>

definition task_test :: "(Task \<Rightarrow> bool) \<Rightarrow> Projection \<Rightarrow> string \<Rightarrow> bool" where
  "task_test P p tid = (case p_tasks p tid of None \<Rightarrow> False | Some t \<Rightarrow> P t)"

definition alias_of :: "Projection \<Rightarrow> string \<Rightarrow> string" where
  "alias_of p tid = (case p_tasks p tid of None \<Rightarrow> '''' | Some t \<Rightarrow> t_Alias t)"

definition in_bucket :: "Bucket \<Rightarrow> Task \<Rightarrow> bool" where
  "in_bucket k t \<longleftrightarrow> k \<in> set (Buckets (t_State t) (Task_BlockedAuthority t))"

definition bucket_list :: "Bucket \<Rightarrow> Projection \<Rightarrow> string list \<Rightarrow> string list" where
  "bucket_list k p ids = map (alias_of p) (filter (task_test (in_bucket k) p) ids)"

lemma add_buckets:
  "fold (add_to_bucket h) (Buckets s au) b =
     \<lparr>tb_Ready = tb_Ready b @ (if BucketReady \<in> set (Buckets s au) then [h] else []),
      tb_Running = tb_Running b @ (if BucketRunning \<in> set (Buckets s au) then [h] else []),
      tb_Blocked = tb_Blocked b @ (if BucketBlocked \<in> set (Buckets s au) then [h] else []),
      tb_AwaitingPrincipal = tb_AwaitingPrincipal b @
        (if BucketAwaitingPrincipal \<in> set (Buckets s au) then [h] else [])\<rparr>"
  by (cases s) (simp_all split: if_split)

definition of_milestone :: "Projection \<Rightarrow> Task \<Rightarrow> bool" where
  "of_milestone p t \<longleftrightarrow> t_MilestoneID t = mi_ID (p_Milestone p)"

lemma count_tasks:
  "fold (count_task p) ids (c, n, b) =
     (c + int (length (filter (task_test (\<lambda>t. of_milestone p t \<and> t_State t = StateDone) p) ids)),
      n + int (length (filter (task_test (of_milestone p) p) ids)),
      \<lparr>tb_Ready = tb_Ready b @ bucket_list BucketReady p ids,
       tb_Running = tb_Running b @ bucket_list BucketRunning p ids,
       tb_Blocked = tb_Blocked b @ bucket_list BucketBlocked p ids,
       tb_AwaitingPrincipal = tb_AwaitingPrincipal b @ bucket_list BucketAwaitingPrincipal p ids\<rparr>)"
proof (induction ids arbitrary: c n b)
  case Nil
  then show ?case by (simp add: bucket_list_def)
next
  case (Cons tid ids)
  then show ?case
    by (cases "p_tasks p tid")
      (simp_all add: bucket_list_def task_test_def alias_of_def add_buckets in_bucket_def
        of_milestone_def Let_def)
qed

lemma newest_changes_take:
  "length acc \<le> RecentSemanticChangeLimit \<Longrightarrow>
     newest_changes cs acc = acc @ take (RecentSemanticChangeLimit - length acc) cs"
  by (induction cs arbitrary: acc) (auto simp: take_Cons' Suc_diff_Suc)

section \<open>When a projection renders\<close>

lemma registry_map_check:
  assumes "registry good m ks" "\<And>k v. good k v \<Longrightarrow> f v = None"
  shows "first_err (map f (map (read_map z m) ks)) = None"
proof -
  have "f (read_map z m k) = None" if "k \<in> set ks" for k
    using registry_lookup [OF assms(1) that] assms(2) by (auto simp: read_map_def)
  then show ?thesis by (auto simp: first_err_None_iff)
qed

lemma discovery_renders:
  assumes "inv_discovery d"
  shows "case render_discovery d of None \<Rightarrow> True | Some s \<Rightarrow> DiscoveryState_check s = None"
  using assms
  by (auto simp: render_discovery_def DiscoveryState_check_def inv_discovery_def
      count_ambiguities_spec split: option.splits prod.splits)

lemma rendered_valid_iff:
  assumes "live p"
  shows "ProjectState_Validate (rendered p) = None \<longleftrightarrow>
    p_AcceptedCommit p = '''' \<or> 7 \<le> length (p_AcceptedCommit p)"
proof -
  note i = live_parts [OF assms]
  have reg: "registry wf_component (p_components p) (p_componentIDs p)"
    "registry wf_risk (p_risks p) (p_riskIDs p)"
    "registry wf_open (p_decisionsRequired p) (p_decisionRequiredIDs p)"
    "ValidationStatus_Valid (vs_Status (p_Validation p))"
    "HealthStatus_Valid (hs_Status (p_Health p))"
    using i(3) by (simp_all add: inv_registry_def)
  have "first_err (map ComponentState_check (st_Components (rendered p))) = None"
    "first_err (map Risk_check (st_Risks (rendered p))) = None"
    "first_err (map OpenDecision_check (st_DecisionsRequired (rendered p))) = None"
    by (simp_all only: rendered_def count_tasks prod.case ProjectState.select_convs,
        (rule registry_map_check [OF reg(1)] registry_map_check [OF reg(2)]
          registry_map_check [OF reg(3)];
          auto simp: ComponentState_check_def Risk_check_def OpenDecision_check_def
            wf_component_def wf_risk_def wf_open_def)+)
  moreover have "first_err (map SemanticChange_check (st_RecentSemanticChanges (rendered p))) = None"
  proof -
    have "set (st_RecentSemanticChanges (rendered p)) \<subseteq> set (p_semanticChanges p)"
      by (simp add: rendered_def count_tasks newest_changes_take) (metis set_rev set_take_subset)
    then show ?thesis
      using i(4) by (auto simp: first_err_None_iff SemanticChange_check_def inv_changes_def)
  qed
  moreover have "case st_Discovery (rendered p) of None \<Rightarrow> True | Some d \<Rightarrow> DiscoveryState_check d = None"
    using discovery_renders [OF i(5)] by (simp add: rendered_def count_tasks)
  moreover have "mi_CompletedTasks (st_Milestone (rendered p)) \<le> mi_TotalTasks (st_Milestone (rendered p))"
    "0 \<le> mi_CompletedTasks (st_Milestone (rendered p))"
  proof -
    have "length (filter (task_test (\<lambda>t. of_milestone p t \<and> t_State t = StateDone) p) ids)
        \<le> length (filter (task_test (of_milestone p) p) ids)" for ids
      by (induction ids) (auto simp: task_test_def split: option.splits)
    then show "mi_CompletedTasks (st_Milestone (rendered p)) \<le> mi_TotalTasks (st_Milestone (rendered p))"
      "0 \<le> mi_CompletedTasks (st_Milestone (rendered p))"
      by (simp_all add: rendered_def count_tasks)
  qed
  moreover have "st_ProjectID (rendered p) \<noteq> ''''" "mi_ID (st_Milestone (rendered p)) \<noteq> ''''"
    "mi_Title (st_Milestone (rendered p)) \<noteq> ''''" "st_StateRevision (rendered p) \<noteq> ''''"
    "st_SchemaVersion (rendered p) = SchemaVersion1"
    "ValidationStatus_Valid (vs_Status (st_Validation (rendered p)))"
    "gs_AcceptedCommit (st_Git (rendered p)) = some_if (p_AcceptedCommit p)"
    "\<And>h. st_Health (rendered p) = Some h \<Longrightarrow> HealthStatus_Valid (hs_Status h)"
    using i(1,2) reg(4,5)
    by (simp_all add: rendered_def count_tasks inv_project_def StateRevision_def split: if_splits)
  ultimately show ?thesis
    unfolding ProjectState_Validate_def
    by (auto simp: SchemaVersion_Validate_def some_if_def not_less split: option.splits)
qed

lemma render_state_ok:
  "render_state p = Inr s \<longleftrightarrow>
     p_initialised p \<and> s = rendered p \<and> ProjectState_Validate (rendered p) = None"
  by (auto simp: render_state_def Let_def split: option.splits)

section \<open>Properties\<close>

text \<open>C17: A reduced, initialised project renders, and the rendering passes its own validation,
  exactly when its accepted commit is empty or at least seven characters long; no other reduced
  content can make ProjectState fail.\<close>

theorem project_state_renders_iff:
  assumes "Reduce es = Inr p" and "es \<noteq> []"
  shows "(\<exists>s. render_state p = Inr s) \<longleftrightarrow>
    p_AcceptedCommit p = '''' \<or> 7 \<le> length (p_AcceptedCommit p)"
proof -
  have l: "live p" using assms by (rule Reduce_live)
  then have "p_initialised p" by (rule live_parts)
  then show ?thesis
    unfolding rendered_valid_iff [OF l, symmetric]
    by (simp add: render_state_ok)
qed

lemma delivery_of_nonempty: "delivery_of c \<noteq> []"
  by (simp add: delivery_of_def delegated_def)

theorem project_state_renders_iff_witness:
  "\<exists>p s. Reduce (delivery_of ''fffffff'') = Inr p \<and> render_state p = Inr s"
proof -
  obtain p where "Reduce (delivery_of ''fffffff'') = Inr p" "p_AcceptedCommit p = ''fffffff''"
    using delivery_of_result [of "''fffffff''"] by (auto split: sum.splits)
  with project_state_renders_iff [OF _ delivery_of_nonempty] show ?thesis by fastforce
qed





end
