(* ===== verification/Documents.thy ===== *)
theory Documents
  imports Enums
begin

text \<open>
  The durable delivery documents of internal/protocol with their Validate methods: engineering work
  packages, validation results, review results, review invocation intents, decision records, lesson
  candidates and evidence packets. A loop of a Validate method that keeps a set of the identifiers
  it has seen is a recursion with that set as a list. Where a method ranges over a Go map of
  required fields the order is not determined, and every field fails with the same category, so the
  fields are one check.
\<close>

section \<open>Enumerations of the documents\<close>

datatype GuidanceStrength =
    GuidanceMust | GuidanceShould | GuidanceSuggested | GuidanceLocalDiscretion
  | UnknownGuidanceStrength string

definition GuidanceStrength_Valid :: "GuidanceStrength \<Rightarrow> bool" where
  [enum_defs]: "GuidanceStrength_Valid x \<longleftrightarrow> x \<in> set
     [GuidanceMust, GuidanceShould, GuidanceSuggested, GuidanceLocalDiscretion]"

datatype AssumptionStatus =
    AssumptionVerified | AssumptionAcceptedRisk | AssumptionUnverified
  | UnknownAssumptionStatus string

definition AssumptionStatus_Valid :: "AssumptionStatus \<Rightarrow> bool" where
  [enum_defs]: "AssumptionStatus_Valid x \<longleftrightarrow> x \<in> set
     [AssumptionVerified, AssumptionAcceptedRisk, AssumptionUnverified]"

datatype CheckStatus =
    CheckPass | CheckFail | CheckError | CheckCancelled | CheckSkipped
  | UnknownCheckStatus string

definition CheckStatus_Valid :: "CheckStatus \<Rightarrow> bool" where
  [enum_defs]: "CheckStatus_Valid x \<longleftrightarrow> x \<in> set
     [CheckPass, CheckFail, CheckError, CheckCancelled, CheckSkipped]"

datatype ComplianceStatus =
    ComplianceSatisfied | ComplianceViolated | ComplianceNotApplicable
  | ComplianceUnableToVerify
  | UnknownComplianceStatus string

definition ComplianceStatus_Valid :: "ComplianceStatus \<Rightarrow> bool" where
  [enum_defs]: "ComplianceStatus_Valid x \<longleftrightarrow> x \<in> set
     [ComplianceSatisfied, ComplianceViolated, ComplianceNotApplicable, ComplianceUnableToVerify]"

datatype LessonType =
    LessonTypeProjectInvariant | LessonTypeEngineeringSkill | LessonTypeRouting
  | LessonTypePrompt | LessonTypeTestHeuristic | LessonTypeReviewRule
  | LessonTypeEscalationRule | LessonTypeTaskDecomposition | LessonTypeArchitecture
  | LessonTypeOther
  | UnknownLessonType string

definition LessonType_Valid :: "LessonType \<Rightarrow> bool" where
  [enum_defs]: "LessonType_Valid x \<longleftrightarrow> x \<in> set
     [LessonTypeProjectInvariant, LessonTypeEngineeringSkill, LessonTypeRouting,
      LessonTypePrompt, LessonTypeTestHeuristic, LessonTypeReviewRule,
      LessonTypeEscalationRule, LessonTypeTaskDecomposition, LessonTypeArchitecture,
      LessonTypeOther]"

datatype LessonStatus =
    LessonProposed | LessonEvidenceGathering | LessonEvaluationReady | LessonEvaluating
  | LessonNeedsRevision | LessonApproved | LessonPromoted | LessonMonitoring | LessonStable
  | LessonRejected | LessonRolledBack
  | UnknownLessonStatus string

definition LessonStatus_Valid :: "LessonStatus \<Rightarrow> bool" where
  [enum_defs]: "LessonStatus_Valid x \<longleftrightarrow> x \<in> set
     [LessonProposed, LessonEvidenceGathering, LessonEvaluationReady, LessonEvaluating,
      LessonNeedsRevision, LessonApproved, LessonPromoted, LessonMonitoring, LessonStable,
      LessonRejected, LessonRolledBack]"

datatype PromotionAuthority =
    PromotionPolicy | PromotionPrincipal | PromotionHuman
  | UnknownPromotionAuthority string

definition PromotionAuthority_Valid :: "PromotionAuthority \<Rightarrow> bool" where
  [enum_defs]: "PromotionAuthority_Valid x \<longleftrightarrow> x \<in> set
     [PromotionPolicy, PromotionPrincipal, PromotionHuman]"

datatype ClaimKind =
    ClaimDeterministicFact | ClaimRepositoryObservation | ClaimExternalFact
  | ClaimInterpretation | ClaimAssumption | ClaimRecommendation
  | UnknownClaimKind string

definition ClaimKind_Valid :: "ClaimKind \<Rightarrow> bool" where
  [enum_defs]: "ClaimKind_Valid x \<longleftrightarrow> x \<in> set
     [ClaimDeterministicFact, ClaimRepositoryObservation, ClaimExternalFact,
      ClaimInterpretation, ClaimAssumption, ClaimRecommendation]"

definition RequiresEvidence :: "ClaimKind \<Rightarrow> bool" where
  "RequiresEvidence k \<longleftrightarrow>
     k \<in> set [ClaimDeterministicFact, ClaimRepositoryObservation, ClaimExternalFact]"

section \<open>Helpers of the Validate methods\<close>

definition requireNonEmpty :: "string \<Rightarrow> go_error option" where
  [validate_defs]: "requireNonEmpty value = check (value = '''') CategoryInvalidArgument"

definition requireMinItems :: "nat \<Rightarrow> nat \<Rightarrow> go_error option" where
  [validate_defs]: "requireMinItems n least = check (n < least) CategoryInvalidArgument"

definition requireNonEmptyTrimmed :: "string \<Rightarrow> go_error option" where
  [validate_defs]: "requireNonEmptyTrimmed value = check (TrimSpace value = '''') CategoryInvalidArgument"

definition enum_check :: "bool \<Rightarrow> go_error option" where
  [validate_defs]: "enum_check ok = check (\<not> ok) CategoryInvalidArgument"

definition required :: "string list \<Rightarrow> go_error option" where
  [validate_defs]: "required vs = check ('''' \<in> set vs) CategoryInvalidArgument"

definition is_lower_hex_digit :: "char \<Rightarrow> bool" where
  "is_lower_hex_digit c \<longleftrightarrow> is_digit c \<or> (97 \<le> (of_char c :: nat) \<and> (of_char c :: nat) \<le> 102)"

definition validateSHA256Digest :: "string \<Rightarrow> go_error option" where
  "validateSHA256Digest digest =
     check (\<not> (HasPrefix digest ''sha256:'' \<and> length digest = 71 \<and>
               list_all is_lower_hex_digit (drop 7 digest))) CategoryInvalidArgument"

section \<open>Engineering work packages\<close>

record Assumption =
  asm_ID :: string
  asm_Statement :: string
  asm_Status :: AssumptionStatus
  asm_Material :: bool
  asm_EvidenceRefs :: "string list"

record Guidance =
  gd_ID :: string
  gd_Strength :: GuidanceStrength
  gd_Statement :: string
  gd_SourceRefs :: "string list"

record WorkScope =
  sco_InScope :: "string list"
  sco_OutOfScope :: "string list"
  sco_ExpectedComponents :: "string list"
  sco_ProhibitedComponents :: "string list"

record EngineeringWorkPackage =
  ewp_SchemaVersion :: SchemaVersion
  ewp_WorkPackageID :: string
  ewp_TaskID :: string
  ewp_Version :: int
  ewp_ProjectID :: string
  ewp_ProjectStateRevision :: string
  ewp_BaseCommit :: string
  ewp_ChangeClass :: ChangeClass
  ewp_Objective :: string
  ewp_Rationale :: string
  ewp_ArchitecturalIntent :: string
  ewp_Assumptions :: "Assumption list"
  ewp_DecisionRefs :: "string list"
  ewp_InvariantRefs :: "string list"
  ewp_EvidenceRefs :: "string list"
  ewp_Scope :: WorkScope
  ewp_ImplementationStrategy :: "string option"
  ewp_Interfaces :: "string list"
  ewp_Pseudocode :: "string list"
  ewp_CodeSnippets :: "string list"
  ewp_RepositoryAnchors :: "string list"
  ewp_EdgeCases :: "string list"
  ewp_FailureModes :: "string list"
  ewp_Guidance :: "Guidance list"
  ewp_AcceptanceCriteria :: "string list"
  ewp_ValidationRequirements :: "string list"
  ewp_EscalationConditions :: "string list"
  ewp_ObservabilityRequirements :: "string list"
  ewp_Migration :: "string option"
  ewp_Rollback :: "string option"

definition Assumption_check :: "Assumption \<Rightarrow> go_error option" where
  [validate_defs]: "Assumption_check a = first_err
     [requireNonEmpty (asm_ID a),
      requireNonEmpty (asm_Statement a),
      enum_check (AssumptionStatus_Valid (asm_Status a))]"

fun guidance_checks :: "string list \<Rightarrow> Guidance list \<Rightarrow> go_error option" where
  "guidance_checks seen [] = None"
| "guidance_checks seen (g # rest) = first_err
     [requireNonEmpty (gd_ID g),
      enum_check (gd_ID g \<notin> set seen),
      enum_check (GuidanceStrength_Valid (gd_Strength g)),
      requireNonEmpty (gd_Statement g),
      guidance_checks (gd_ID g # seen) rest]"

definition EngineeringWorkPackage_Validate :: "EngineeringWorkPackage \<Rightarrow> go_error option" where
  "EngineeringWorkPackage_Validate w = first_err
     [SchemaVersion_Validate (ewp_SchemaVersion w),
      required [ewp_WorkPackageID w, ewp_TaskID w, ewp_ProjectID w, ewp_ProjectStateRevision w,
                ewp_Objective w, ewp_Rationale w, ewp_ArchitecturalIntent w],
      enum_check (ewp_Version w \<ge> 1),
      requireMinItems (length (ewp_BaseCommit w)) 7,
      enum_check (ChangeClass_Valid (ewp_ChangeClass w)),
      first_err (map Assumption_check (ewp_Assumptions w)),
      requireMinItems (length (ewp_Guidance w)) 1,
      guidance_checks [] (ewp_Guidance w),
      requireMinItems (length (ewp_AcceptanceCriteria w)) 1,
      requireMinItems (length (ewp_ValidationRequirements w)) 1,
      requireMinItems (length (ewp_EscalationConditions w)) 1]"

section \<open>Validation results\<close>

record CheckResult =
  ck_ID :: string
  ck_Kind :: string
  ck_Command :: "string list"
  ck_ToolVersion :: "string option"
  ck_WorkingDirectory :: "string option"
  ck_Status :: CheckStatus
  ck_ExitCode :: "int option"
  ck_StartedAt :: Timestamp
  ck_FinishedAt :: Timestamp
  ck_Summary :: "string option"
  ck_StdoutArtifact :: "string option"
  ck_StderrArtifact :: "string option"
  ck_OutputTruncated :: bool

record ValidationSubject =
  vsub_Kind :: ValidationScope
  vsub_TaskID :: string
  vsub_AttemptID :: string

record ValidationResult =
  vres_SchemaVersion :: SchemaVersion
  vres_ValidationID :: string
  vres_ProjectID :: string
  vres_Subject :: ValidationSubject
  vres_Commit :: string
  vres_Status :: ValidationOutcome
  vres_Checks :: "CheckResult list"

definition ValidationSubject_Validate :: "ValidationSubject \<Rightarrow> go_error option" where
  "ValidationSubject_Validate s =
     (case vsub_Kind s of
        ScopeAttempt \<Rightarrow>
          check (vsub_TaskID s = '''' \<or> vsub_AttemptID s = '''') CategoryInvalidArgument
      | ScopeIntegration \<Rightarrow> first_err
          [check (vsub_TaskID s = '''') CategoryInvalidArgument,
           check (vsub_AttemptID s \<noteq> '''') CategoryInvalidArgument]
      | ScopeBaseline \<Rightarrow>
          check (vsub_TaskID s \<noteq> '''' \<or> vsub_AttemptID s \<noteq> '''') CategoryInvalidArgument
      | UnknownValidationScope _ \<Rightarrow> Some (New CategoryInvalidArgument))"

definition CheckResult_check :: "CheckResult \<Rightarrow> go_error option" where
  "CheckResult_check c = first_err
     [requireNonEmpty (ck_ID c),
      requireNonEmpty (ck_Kind c),
      enum_check (CheckStatus_Valid (ck_Status c)),
      check (ck_FinishedAt c < ck_StartedAt c) CategoryIntegrity]"

definition ValidationResult_Validate :: "ValidationResult \<Rightarrow> go_error option" where
  "ValidationResult_Validate v = first_err
     [SchemaVersion_Validate (vres_SchemaVersion v),
      required [vres_ValidationID v, vres_ProjectID v, vres_Commit v],
      ValidationSubject_Validate (vres_Subject v),
      enum_check (ValidationOutcome_Valid (vres_Status v)),
      first_err (map CheckResult_check (vres_Checks v)),
      check (vres_Status v = OutcomePass \<and>
             \<not> list_ex (\<lambda>c. ck_Status c = CheckPass) (vres_Checks v)) CategoryIntegrity,
      check (vres_Status v = OutcomePass \<and>
             list_ex (\<lambda>c. ck_Status c = CheckFail \<or> ck_Status c = CheckError) (vres_Checks v))
        CategoryIntegrity]"

section \<open>Review results and intents\<close>

record Finding =
  fd_Severity :: Severity
  fd_Statement :: string
  fd_EvidenceRefs :: "string list"
  fd_RepairRequested :: bool

record GuidanceCompliance =
  gc_GuidanceID :: string
  gc_Status :: ComplianceStatus
  gc_Note :: "string option"

record ReviewResult =
  rres_SchemaVersion :: SchemaVersion
  rres_ReviewID :: string
  rres_ProjectID :: string
  rres_AttemptID :: string
  rres_WorkPackageID :: string
  rres_Dimension :: ReviewDimension
  rres_ReviewerProfile :: "string option"
  rres_ModelIdentity :: "string option"
  rres_Verdict :: ReviewVerdict
  rres_Findings :: "Finding list"
  rres_MustCompliance :: "GuidanceCompliance list"
  rres_Deviations :: "string list"
  rres_Uncertainties :: "string list"
  rres_PrincipalEscalationRecommended :: bool

record ActorBasis =
  bas_EndpointID :: string
  bas_ModelID :: string
  bas_ModelRevision :: string
  bas_Provider :: string
  bas_ModelFamily :: string
  bas_AccountRef :: string

record ReviewInvocationIntent =
  intent_SchemaVersion :: SchemaVersion
  intent_ReviewID :: string
  intent_ProjectID :: string
  intent_TaskID :: string
  intent_AttemptID :: string
  intent_WorkPackageID :: string
  intent_Dimension :: ReviewDimension
  intent_InvocationID :: string
  intent_CandidateCommit :: string
  intent_InvocationNumber :: int
  intent_ReviewerBasis :: ActorBasis
  intent_IndependenceBasis :: string
  intent_EndpointBindingDigest :: string
  intent_StartedAt :: Timestamp

definition Finding_check :: "Finding \<Rightarrow> go_error option" where
  [validate_defs]: "Finding_check f = first_err
     [enum_check (Severity_ValidFinding (fd_Severity f)), requireNonEmpty (fd_Statement f)]"

definition GuidanceCompliance_check :: "GuidanceCompliance \<Rightarrow> go_error option" where
  [validate_defs]: "GuidanceCompliance_check c = first_err
     [requireNonEmpty (gc_GuidanceID c), enum_check (ComplianceStatus_Valid (gc_Status c))]"

definition ReviewResult_Validate :: "ReviewResult \<Rightarrow> go_error option" where
  "ReviewResult_Validate r = first_err
     [SchemaVersion_Validate (rres_SchemaVersion r),
      required [rres_ReviewID r, rres_ProjectID r, rres_AttemptID r, rres_WorkPackageID r],
      enum_check (ReviewDimension_Valid (rres_Dimension r)),
      enum_check (ReviewVerdict_Valid (rres_Verdict r)),
      first_err (map Finding_check (rres_Findings r)),
      first_err (map GuidanceCompliance_check (rres_MustCompliance r))]"

definition intent_RecordID :: "ReviewInvocationIntent \<Rightarrow> string" where
  "intent_RecordID i =
     ''intent:'' @ intent_AttemptID i @ '':'' @ ReviewDimension_string (intent_Dimension i)"

definition ReviewInvocationIntent_Validate :: "ReviewInvocationIntent \<Rightarrow> go_error option" where
  "ReviewInvocationIntent_Validate i = first_err
     [SchemaVersion_Validate (intent_SchemaVersion i),
      requireNonEmptyTrimmed (intent_ReviewID i),
      requireNonEmptyTrimmed (intent_ProjectID i),
      requireNonEmptyTrimmed (intent_TaskID i),
      requireNonEmptyTrimmed (intent_AttemptID i),
      check (CHR '':'' \<in> set (intent_AttemptID i)) CategoryInvalidArgument,
      requireNonEmptyTrimmed (intent_WorkPackageID i),
      check (CHR '':'' \<in> set (ReviewDimension_string (intent_Dimension i))) CategoryInvalidArgument,
      enum_check (ReviewDimension_Valid (intent_Dimension i)),
      requireNonEmptyTrimmed (intent_InvocationID i),
      requireNonEmptyTrimmed (intent_CandidateCommit i),
      check (intent_InvocationNumber i \<noteq> 1) CategoryInvalidArgument,
      requireNonEmptyTrimmed (intent_IndependenceBasis i),
      enum_check (intent_IndependenceBasis i = ''endpoint_model'' \<or>
                  intent_IndependenceBasis i = ''model_family_account''),
      validateSHA256Digest (intent_EndpointBindingDigest i),
      check (Timestamp_IsZero (intent_StartedAt i)) CategoryInvalidArgument,
      check (intent_RecordID i \<noteq> ''intent:'' @ intent_AttemptID i @ '':'' @
               ReviewDimension_string (intent_Dimension i)) CategoryInvalidArgument]"

section \<open>Decision records, lesson candidates, evidence packets\<close>

record Alternative =
  alt_ID :: string
  alt_Summary :: string
  alt_Benefits :: "string list"
  alt_Risks :: "string list"
  alt_Invalidators :: "string list"

record DecisionRecord =
  drec_SchemaVersion :: SchemaVersion
  drec_DecisionID :: string
  drec_ProjectID :: string
  drec_Question :: string
  drec_Alternatives :: "Alternative list"
  drec_Selected :: string
  drec_Criteria :: "string list"
  drec_Rationale :: string
  drec_EvidenceRefs :: "string list"
  drec_Dissent :: "string list"
  drec_UnresolvedUncertainty :: "string list"
  drec_Consequences :: "string list"
  drec_InvariantChanges :: "string list"
  drec_Supersedes :: "string option"
  drec_ADRRef :: "string option"

record LessonCandidate =
  less_SchemaVersion :: SchemaVersion
  less_LessonCandidateID :: string
  less_Scope :: LessonScope
  less_Type :: LessonType
  less_Observation :: string
  less_TrajectoryRefs :: "string list"
  less_ProposedChange :: string
  less_ExpectedBenefit :: "string option"
  less_PossibleCounterexamples :: "string list"
  less_ConflictRefs :: "string list"
  less_EvaluationPlan :: string
  less_PromotionAuthority :: PromotionAuthority
  less_RollbackPlan :: "string option"
  less_Status :: LessonStatus

record EvidenceRef =
  eref_ID :: string
  eref_Type :: EvidenceRefKind
  eref_Locator :: string
  eref_Digest :: "string option"
  eref_Excerpt :: "string option"

record Claim =
  clm_ID :: string
  clm_Kind :: ClaimKind
  clm_Statement :: string
  clm_EvidenceRefs :: "string list"

record Disagreement =
  dis_Statement :: string
  dis_Positions :: "string list"

record EvidencePacket =
  evp_SchemaVersion :: SchemaVersion
  evp_EvidencePacketID :: string
  evp_ProjectID :: string
  evp_BaseCommit :: string
  evp_Question :: string
  evp_Conclusion :: "string option"
  evp_Claims :: "Claim list"
  evp_Counterevidence :: "string list"
  evp_Disagreements :: "Disagreement list"
  evp_Uncertainties :: "string list"
  evp_Recommendations :: "string list"
  evp_RawEvidenceRefs :: "EvidenceRef list"

fun alternative_checks :: "string list \<Rightarrow> Alternative list \<Rightarrow> go_error option" where
  "alternative_checks seen [] = None"
| "alternative_checks seen (a # rest) = first_err
     [requireNonEmpty (alt_ID a),
      requireNonEmpty (alt_Summary a),
      enum_check (alt_ID a \<notin> set seen),
      alternative_checks (alt_ID a # seen) rest]"

definition DecisionRecord_Validate :: "DecisionRecord \<Rightarrow> go_error option" where
  "DecisionRecord_Validate d = first_err
     [SchemaVersion_Validate (drec_SchemaVersion d),
      required [drec_DecisionID d, drec_ProjectID d, drec_Question d, drec_Selected d,
                drec_Rationale d],
      requireMinItems (length (drec_Alternatives d)) 1,
      alternative_checks [] (drec_Alternatives d),
      enum_check (list_ex (\<lambda>a. alt_ID a = drec_Selected d) (drec_Alternatives d))]"

definition LessonCandidate_Validate :: "LessonCandidate \<Rightarrow> go_error option" where
  "LessonCandidate_Validate l = first_err
     [SchemaVersion_Validate (less_SchemaVersion l),
      required [less_LessonCandidateID l, less_Observation l, less_ProposedChange l,
                less_EvaluationPlan l],
      enum_check (LessonScope_Valid (less_Scope l)),
      enum_check (LessonType_Valid (less_Type l)),
      enum_check (LessonStatus_Valid (less_Status l)),
      enum_check (less_PromotionAuthority l = UnknownPromotionAuthority '''' \<or>
                  PromotionAuthority_Valid (less_PromotionAuthority l)),
      requireMinItems (length (less_TrajectoryRefs l)) 1]"

definition EvidenceRef_Validate :: "EvidenceRef \<Rightarrow> go_error option" where
  [validate_defs]: "EvidenceRef_Validate r = first_err
     [check (eref_ID r = '''') CategoryInvalidArgument,
      check (\<not> EvidenceRefKind_Valid (eref_Type r)) CategoryInvalidArgument,
      check (eref_Locator r = '''') CategoryInvalidArgument]"

definition Claim_check :: "string list \<Rightarrow> Claim \<Rightarrow> go_error option" where
  [validate_defs]: "Claim_check refIDs c = first_err
     [requireNonEmpty (clm_ID c),
      enum_check (ClaimKind_Valid (clm_Kind c)),
      requireNonEmpty (clm_Statement c),
      enum_check (\<not> (RequiresEvidence (clm_Kind c) \<and> length (clm_EvidenceRefs c) = 0)),
      first_err (map (\<lambda>ref. enum_check (ref \<in> set refIDs)) (clm_EvidenceRefs c))]"

definition Disagreement_check :: "Disagreement \<Rightarrow> go_error option" where
  [validate_defs]: "Disagreement_check d = first_err
     [requireNonEmpty (dis_Statement d), requireMinItems (length (dis_Positions d)) 2]"

definition EvidencePacket_Validate :: "EvidencePacket \<Rightarrow> go_error option" where
  "EvidencePacket_Validate p = first_err
     [SchemaVersion_Validate (evp_SchemaVersion p),
      required [evp_EvidencePacketID p, evp_ProjectID p, evp_BaseCommit p, evp_Question p],
      first_err (map EvidenceRef_Validate (evp_RawEvidenceRefs p)),
      first_err (map (Claim_check (map eref_ID (evp_RawEvidenceRefs p))) (evp_Claims p)),
      first_err (map Disagreement_check (evp_Disagreements p))]"

section \<open>What a valid document guarantees\<close>

lemma guidance_checks_None:
  "guidance_checks seen gs = None \<longleftrightarrow>
     distinct (map gd_ID gs) \<and> set (map gd_ID gs) \<inter> set seen = {} \<and>
     (\<forall>g \<in> set gs. gd_ID g \<noteq> '''' \<and> gd_Statement g \<noteq> '''' \<and> GuidanceStrength_Valid (gd_Strength g))"
  by (induction gs arbitrary: seen) (auto simp: requireNonEmpty_def enum_check_def)

lemma alternative_checks_None:
  "alternative_checks seen as = None \<longleftrightarrow>
     distinct (map alt_ID as) \<and> set (map alt_ID as) \<inter> set seen = {} \<and>
     (\<forall>a \<in> set as. alt_ID a \<noteq> '''' \<and> alt_Summary a \<noteq> '''')"
  by (induction as arbitrary: seen) (auto simp: requireNonEmpty_def enum_check_def)

end
