(* ===== verification/Specifications.thy ===== *)
theory Specifications
  imports Documents
begin

text \<open>
  The durable discovery documents of internal/protocol with their Validate methods: problem models,
  ambiguity ledgers, product decisions, requirements, discovery experiments, specification readiness
  and specification reviews.
\<close>

section \<open>Enumerations of the documents\<close>

datatype AmbiguityStatus =
    AmbiguityOpen | AmbiguityInvestigating | AmbiguityAwaitingHuman | AmbiguityResearching
  | AmbiguityExperimenting | AmbiguityConsulting | AmbiguityResolved
  | AmbiguityExplicitlyDeferred | AmbiguityReopened
  | UnknownAmbiguityStatus string

definition AmbiguityStatus_Valid :: "AmbiguityStatus \<Rightarrow> bool" where
  [enum_defs]: "AmbiguityStatus_Valid x \<longleftrightarrow> x \<in> set
     [AmbiguityOpen, AmbiguityInvestigating, AmbiguityAwaitingHuman, AmbiguityResearching,
      AmbiguityExperimenting, AmbiguityConsulting, AmbiguityResolved,
      AmbiguityExplicitlyDeferred, AmbiguityReopened]"

datatype CheckStatusValue =
    ReadinessComplete | ReadinessIncomplete | ReadinessNotApplicable | ReadinessAcceptedRisk
  | UnknownCheckStatusValue string

definition CheckStatusValue_Valid :: "CheckStatusValue \<Rightarrow> bool" where
  [enum_defs]: "CheckStatusValue_Valid x \<longleftrightarrow> x \<in> set
     [ReadinessComplete, ReadinessIncomplete, ReadinessNotApplicable, ReadinessAcceptedRisk]"

datatype SpecificationReviewDimension =
    SpecCompleteness | SpecAmbiguity | SpecContradiction | SpecArchitectureContamination
  | SpecSecurityPrivacy | SpecFailureModes | SpecOperations | SpecUXMentalModel
  | UnknownSpecificationReviewDimension string

definition SpecificationReviewDimension_Valid :: "SpecificationReviewDimension \<Rightarrow> bool" where
  [enum_defs]: "SpecificationReviewDimension_Valid x \<longleftrightarrow> x \<in> set
     [SpecCompleteness, SpecAmbiguity, SpecContradiction, SpecArchitectureContamination,
      SpecSecurityPrivacy, SpecFailureModes, SpecOperations, SpecUXMentalModel]"

definition ImpactLevel_ValidIrreversibility :: "ImpactLevel \<Rightarrow> bool" where
  [enum_defs]: "ImpactLevel_ValidIrreversibility x \<longleftrightarrow> x \<in> set [ImpactLow, ImpactMedium, ImpactHigh]"

section \<open>Problem models and ambiguity ledgers\<close>

record ProblemActor =
  pa_ID :: string
  pa_Description :: string
  pa_Needs :: "string list"

record Workflow =
  wf_ID :: string
  wf_Description :: string
  wf_ActorRefs :: "string list"

record ProblemScope =
  ps_InScope :: "string list"
  ps_OutOfScope :: "string list"
  ps_FuturePossible :: "string list"

record Constraint =
  cst_ID :: string
  cst_Category :: string
  cst_Statement :: string
  cst_SourceType :: SourceType
  cst_SourceRef :: "string option"

record ProblemModel =
  pmod_SchemaVersion :: SchemaVersion
  pmod_ProblemModelID :: string
  pmod_ProjectID :: string
  pmod_Revision :: int
  pmod_ProblemStatement :: string
  pmod_DesiredOutcomes :: "string list"
  pmod_Actors :: "ProblemActor list"
  pmod_PrimaryWorkflows :: "Workflow list"
  pmod_Scope :: ProblemScope
  pmod_SuccessCriteria :: "string list"
  pmod_FailureCriteria :: "string list"
  pmod_Constraints :: "Constraint list"
  pmod_ProductDecisionRefs :: "string list"
  pmod_RequirementRefs :: "string list"
  pmod_Assumptions :: "Assumption list"
  pmod_Unknowns :: "string list"
  pmod_RiskRefs :: "string list"
  pmod_AmbiguityLedgerID :: "string option"
  pmod_HumanReflectionRevision :: "int option"

record AmbiguityEntry =
  amb_ID :: string
  amb_Question :: string
  amb_Origin :: string
  amb_Category :: string
  amb_ResolutionAuthority :: ResolutionAuthority
  amb_ArchitecturalImpact :: ImpactLevel
  amb_SecurityPrivacyImpact :: ImpactLevel
  amb_Irreversibility :: ImpactLevel
  amb_CostOfWrongAssumption :: ImpactLevel
  amb_WhyItMatters :: string
  amb_PossibleInterpretations :: "string list"
  amb_Status :: AmbiguityStatus
  amb_Resolution :: "string option"
  amb_SafeDeferralBoundary :: "string option"
  amb_EvidenceRefs :: "string list"
  amb_ProductDecisionRef :: "string option"
  amb_RequirementRefs :: "string list"

record AmbiguityLedger =
  aled_SchemaVersion :: SchemaVersion
  aled_AmbiguityLedgerID :: string
  aled_ProjectID :: string
  aled_Revision :: int
  aled_Entries :: "AmbiguityEntry list"

definition ProblemActor_check :: "ProblemActor \<Rightarrow> go_error option" where
  [validate_defs]: "ProblemActor_check a = first_err
     [requireNonEmpty (pa_ID a), requireNonEmpty (pa_Description a)]"

definition Workflow_check :: "Workflow \<Rightarrow> go_error option" where
  [validate_defs]: "Workflow_check w = first_err
     [requireNonEmpty (wf_ID w), requireNonEmpty (wf_Description w)]"

definition Constraint_check :: "Constraint \<Rightarrow> go_error option" where
  [validate_defs]: "Constraint_check c = first_err
     [requireNonEmpty (cst_ID c), requireNonEmpty (cst_Category c),
      requireNonEmpty (cst_Statement c),
      enum_check (SourceType_ValidConstraintSource (cst_SourceType c))]"

definition ProblemModel_Validate :: "ProblemModel \<Rightarrow> go_error option" where
  "ProblemModel_Validate m = first_err
     [SchemaVersion_Validate (pmod_SchemaVersion m),
      required [pmod_ProblemModelID m, pmod_ProjectID m, pmod_ProblemStatement m],
      enum_check (pmod_Revision m \<ge> 1),
      requireMinItems (length (pmod_DesiredOutcomes m)) 1,
      first_err (map ProblemActor_check (pmod_Actors m)),
      first_err (map Workflow_check (pmod_PrimaryWorkflows m)),
      first_err (map Constraint_check (pmod_Constraints m)),
      first_err (map Assumption_check (pmod_Assumptions m)),
      (case pmod_HumanReflectionRevision m of None \<Rightarrow> None
       | Some r \<Rightarrow> check (r < 1 \<or> r > pmod_Revision m) CategoryIntegrity)]"

definition missing_text :: "string option \<Rightarrow> bool" where
  "missing_text s \<longleftrightarrow> (case s of None \<Rightarrow> True | Some x \<Rightarrow> x = '''')"

fun entry_checks :: "string list \<Rightarrow> AmbiguityEntry list \<Rightarrow> go_error option" where
  "entry_checks seen [] = None"
| "entry_checks seen (e # rest) = first_err
     [required [amb_ID e, amb_Question e, amb_Origin e, amb_Category e, amb_WhyItMatters e],
      enum_check (amb_ID e \<notin> set seen),
      enum_check (ResolutionAuthority_Valid (amb_ResolutionAuthority e)),
      enum_check (ImpactLevel_Valid (amb_ArchitecturalImpact e)),
      enum_check (amb_SecurityPrivacyImpact e = UnknownImpactLevel '''' \<or>
                  ImpactLevel_ValidSecurityImpact (amb_SecurityPrivacyImpact e)),
      enum_check (amb_Irreversibility e = UnknownImpactLevel '''' \<or>
                  ImpactLevel_ValidIrreversibility (amb_Irreversibility e)),
      enum_check (ImpactLevel_Valid (amb_CostOfWrongAssumption e)),
      enum_check (AmbiguityStatus_Valid (amb_Status e)),
      enum_check (\<not> (amb_Status e = AmbiguityResolved \<and> missing_text (amb_Resolution e))),
      enum_check (\<not> (amb_Status e = AmbiguityExplicitlyDeferred \<and>
                     missing_text (amb_SafeDeferralBoundary e))),
      entry_checks (amb_ID e # seen) rest]"

definition AmbiguityLedger_Validate :: "AmbiguityLedger \<Rightarrow> go_error option" where
  "AmbiguityLedger_Validate l = first_err
     [SchemaVersion_Validate (aled_SchemaVersion l),
      requireNonEmpty (aled_AmbiguityLedgerID l),
      requireNonEmpty (aled_ProjectID l),
      enum_check (aled_Revision l \<ge> 1),
      entry_checks [] (aled_Entries l)]"

section \<open>Product decisions and requirements\<close>

record ProductDecision =
  pdec_SchemaVersion :: SchemaVersion
  pdec_DecisionID :: string
  pdec_ProjectID :: string
  pdec_Question :: string
  pdec_Answer :: string
  pdec_Authority :: string
  pdec_AuthorityActor :: "string option"
  pdec_Status :: ProductDecisionStatus
  pdec_SourceRef :: "string option"
  pdec_Consequences :: "string list"
  pdec_Supersedes :: "string option"
  pdec_RecordedAt :: "string option"

record RequirementSource =
  rsrc_Type :: SourceType
  rsrc_Ref :: "string option"

record Requirement =
  req_SchemaVersion :: SchemaVersion
  req_RequirementID :: string
  req_ProjectID :: string
  req_Kind :: RequirementKind
  req_Statement :: string
  req_Strength :: RequirementStrength
  req_Status :: RequirementStatus
  req_Source :: RequirementSource
  req_NeedsHumanConfirmation :: bool
  req_EvidenceRefs :: "string list"
  req_Rationale :: "string option"
  req_AcceptanceHint :: "string option"
  req_Supersedes :: "string option"

definition ProductDecision_Validate :: "ProductDecision \<Rightarrow> go_error option" where
  "ProductDecision_Validate d = first_err
     [SchemaVersion_Validate (pdec_SchemaVersion d),
      required [pdec_DecisionID d, pdec_ProjectID d, pdec_Question d, pdec_Answer d],
      enum_check (pdec_Authority d = ''human''),
      enum_check (ProductDecisionStatus_Valid (pdec_Status d))]"

definition Requirement_Validate :: "Requirement \<Rightarrow> go_error option" where
  "Requirement_Validate r = first_err
     [SchemaVersion_Validate (req_SchemaVersion r),
      required [req_RequirementID r, req_ProjectID r, req_Statement r],
      enum_check (RequirementKind_Valid (req_Kind r)),
      enum_check (RequirementStrength_Valid (req_Strength r)),
      enum_check (RequirementStatus_Valid (req_Status r)),
      enum_check (SourceType_ValidRequirementSource (rsrc_Type (req_Source r))),
      (if req_Status r = RequirementConfirmed then first_err
         [enum_check (rsrc_Type (req_Source r) \<in> {SourceProductDecision, SourceHumanStatement}),
          check (missing_text (rsrc_Ref (req_Source r))) CategoryInvalidArgument]
       else None)]"

section \<open>Experiments, readiness and specification reviews\<close>

record DiscoveryExperiment =
  dexp_SchemaVersion :: SchemaVersion
  dexp_ExperimentID :: string
  dexp_ProjectID :: string
  dexp_Question :: string
  dexp_Hypothesis :: string
  dexp_Method :: string
  dexp_Environment :: string
  dexp_AcceptanceThresholds :: "string list"
  dexp_Status :: ExperimentStatus
  dexp_ResultSummary :: "string option"
  dexp_EvidenceRefs :: "string list"
  dexp_Limitations :: "string list"
  dexp_RequirementRefs :: "string list"

record ReadinessCheck =
  rchk_Status :: CheckStatusValue
  rchk_Notes :: "string option"
  rchk_EvidenceRefs :: "string list"

record ReadinessChecks =
  rcks_ProblemOutcome :: ReadinessCheck
  rcks_PrimaryWorkflows :: ReadinessCheck
  rcks_ScopeBoundaries :: ReadinessCheck
  rcks_ArchitectureSensitiveQuestions :: ReadinessCheck
  rcks_SecurityPrivacy :: ReadinessCheck
  rcks_MaterialExternalFacts :: ReadinessCheck
  rcks_FeasibilityAssumptions :: ReadinessCheck
  rcks_Contradictions :: ReadinessCheck
  rcks_IndependentReviews :: ReadinessCheck
  rcks_HumanReflection :: ReadinessCheck

record RemainingUnknown =
  unk_Statement :: string
  unk_ArchitectureSafeToDefer :: bool
  unk_Boundary :: "string option"

record SpecificationReadiness =
  srdy_SchemaVersion :: SchemaVersion
  srdy_ReadinessID :: string
  srdy_ProjectID :: string
  srdy_ProblemModelID :: string
  srdy_ProblemModelRevision :: int
  srdy_Checks :: ReadinessChecks
  srdy_RemainingUnknowns :: "RemainingUnknown list"
  srdy_ReviewRefs :: "string list"
  srdy_Verdict :: ReadinessVerdict
  srdy_Rationale :: "string option"

record SpecificationFinding =
  sfd_Severity :: Severity
  sfd_Statement :: string
  sfd_WhyItMatters :: string
  sfd_AffectedRefs :: "string list"
  sfd_ResolutionAuthority :: ResolutionAuthority
  sfd_RecommendedQuestion :: string
  sfd_EvidenceRefs :: "string list"
  sfd_BlocksReadiness :: bool

record SpecificationReviewResult =
  srev_SchemaVersion :: SchemaVersion
  srev_ReviewID :: string
  srev_ProjectID :: string
  srev_ProblemModelID :: string
  srev_ProblemModelRevision :: int
  srev_Dimension :: SpecificationReviewDimension
  srev_ReviewerProfile :: string
  srev_ModelIdentity :: "string option"
  srev_Verdict :: ReviewVerdict
  srev_Findings :: "SpecificationFinding list"
  srev_MaterialGapRefs :: "string list"
  srev_Summary :: string

definition DiscoveryExperiment_Validate :: "DiscoveryExperiment \<Rightarrow> go_error option" where
  "DiscoveryExperiment_Validate e = first_err
     [SchemaVersion_Validate (dexp_SchemaVersion e),
      required [dexp_ExperimentID e, dexp_ProjectID e, dexp_Question e, dexp_Hypothesis e,
                dexp_Method e, dexp_Environment e],
      enum_check (ExperimentStatus_Valid (dexp_Status e)),
      enum_check (\<not> (dexp_Status e = ExperimentCompleted \<and> missing_text (dexp_ResultSummary e)))]"

definition ReadinessChecks_All :: "ReadinessChecks \<Rightarrow> ReadinessCheck list" where
  "ReadinessChecks_All c =
     [rcks_ProblemOutcome c, rcks_PrimaryWorkflows c, rcks_ScopeBoundaries c,
      rcks_ArchitectureSensitiveQuestions c, rcks_SecurityPrivacy c, rcks_MaterialExternalFacts c,
      rcks_FeasibilityAssumptions c, rcks_Contradictions c, rcks_IndependentReviews c,
      rcks_HumanReflection c]"

definition RemainingUnknown_check :: "ReadinessVerdict \<Rightarrow> RemainingUnknown \<Rightarrow> go_error option" where
  [validate_defs]: "RemainingUnknown_check verdict u = first_err
     [requireNonEmpty (unk_Statement u),
      enum_check (\<not> (\<not> unk_ArchitectureSafeToDefer u \<and> verdict \<noteq> NotReady)),
      check (unk_ArchitectureSafeToDefer u \<and> missing_text (unk_Boundary u))
        CategoryInvalidArgument]"

definition SpecificationReadiness_Validate :: "SpecificationReadiness \<Rightarrow> go_error option" where
  "SpecificationReadiness_Validate r =
     (let statuses = map rchk_Status (ReadinessChecks_All (srdy_Checks r))
      in first_err
     [SchemaVersion_Validate (srdy_SchemaVersion r),
      required [srdy_ReadinessID r, srdy_ProjectID r, srdy_ProblemModelID r],
      enum_check (srdy_ProblemModelRevision r \<ge> 1),
      enum_check (ReadinessVerdict_Valid (srdy_Verdict r)),
      first_err (map (RemainingUnknown_check (srdy_Verdict r)) (srdy_RemainingUnknowns r)),
      first_err (map (\<lambda>s. enum_check (CheckStatusValue_Valid s)) statuses),
      enum_check (\<not> (srdy_Verdict r \<noteq> NotReady \<and> ReadinessIncomplete \<in> set statuses)),
      enum_check (\<not> (srdy_Verdict r = ReadyForArchitecture \<and>
                     ReadinessAcceptedRisk \<in> set statuses))])"

definition SpecificationFinding_check :: "SpecificationFinding \<Rightarrow> go_error option" where
  [validate_defs]: "SpecificationFinding_check f = first_err
     [requireNonEmpty (sfd_Statement f), requireNonEmpty (sfd_WhyItMatters f),
      enum_check (Severity_ValidFinding (sfd_Severity f)),
      enum_check (ResolutionAuthority_Valid (sfd_ResolutionAuthority f))]"

definition SpecificationReviewResult_Validate :: "SpecificationReviewResult \<Rightarrow> go_error option" where
  "SpecificationReviewResult_Validate r = first_err
     [SchemaVersion_Validate (srev_SchemaVersion r),
      required [srev_ReviewID r, srev_ProjectID r, srev_ProblemModelID r, srev_ReviewerProfile r,
                srev_Summary r],
      enum_check (srev_ProblemModelRevision r \<ge> 1),
      enum_check (SpecificationReviewDimension_Valid (srev_Dimension r)),
      enum_check (ReviewVerdict_Valid (srev_Verdict r)),
      first_err (map SpecificationFinding_check (srev_Findings r)),
      check (list_ex sfd_BlocksReadiness (srev_Findings r) \<and> srev_Verdict r = VerdictPass)
        CategoryIntegrity]"

section \<open>What a valid document guarantees\<close>

lemma entry_checks_distinct:
  "entry_checks seen es = None \<Longrightarrow> distinct (map amb_ID es) \<and> set (map amb_ID es) \<inter> set seen = {}"
proof (induction es arbitrary: seen)
  case (Cons e es)
  from Cons.prems have "amb_ID e \<notin> set seen" "entry_checks (amb_ID e # seen) es = None"
    by (simp_all add: enum_check_def)
  with Cons.IH [of "amb_ID e # seen"] show ?case by auto
qed simp

lemma readiness_verdict_sound:
  assumes "SpecificationReadiness_Validate r = None" "srdy_Verdict r \<noteq> NotReady"
  shows "ReadinessIncomplete \<notin> set (map rchk_Status (ReadinessChecks_All (srdy_Checks r))) \<and>
    (\<forall>u \<in> set (srdy_RemainingUnknowns r).
       unk_ArchitectureSafeToDefer u \<and> \<not> missing_text (unk_Boundary u))"
  using assms
  by (auto simp: SpecificationReadiness_Validate_def first_err_None_iff RemainingUnknown_check_def
      enum_check_def Let_def)

end
