(* ===== verification/References.thy ===== *)
theory References
  imports Events Specifications "HOL-Library.Multiset"
begin

text \<open>
  Durable records and the claims events make about them: protocol.Record and protocol.Unmarshal of
  internal/protocol/protocol.go, and internal/events/records.go.

  encoding/json, crypto/sha256 and the JSON schema validator are parameters, gathered in the record
  \<open>codec\<close>: a decoder per document type (json.Decoder with DisallowUnknownFields and no trailing
  content; None is a decoding error), the canonical encoders, the hash and the schema check. What
  the development needs to know of them is a hypothesis of the theorem that needs it.
\<close>

section \<open>Records\<close>

text \<open>The interface protocol.Record over the documents modelled here; any other kind of record is
  known by what the methods of the interface return.\<close>

record opaque_record =
  or_Kind :: string
  or_ID :: string
  or_SchemaVer :: SchemaVersion
  or_Project :: "string option"
  or_Validate :: "go_error option"
  or_Content :: string

datatype Record =
    RWorkPackage EngineeringWorkPackage
  | RValidationResult ValidationResult
  | RReviewResult ReviewResult
  | RReviewIntent ReviewInvocationIntent
  | RDecision DecisionRecord
  | RLesson LessonCandidate
  | REvidencePacket EvidencePacket
  | RProblemModel ProblemModel
  | RLedger AmbiguityLedger
  | RProductDecision ProductDecision
  | RRequirement Requirement
  | RExperiment DiscoveryExperiment
  | RReadiness SpecificationReadiness
  | RSpecReview SpecificationReviewResult
  | ROther opaque_record

primrec RecordKind :: "Record \<Rightarrow> string" where
  "RecordKind (RWorkPackage w) = ''EngineeringWorkPackage''"
| "RecordKind (RValidationResult v) = ''ValidationResult''"
| "RecordKind (RReviewResult r) = ''ReviewResult''"
| "RecordKind (RReviewIntent i) = ''ReviewInvocationIntent''"
| "RecordKind (RDecision d) = ''DecisionRecord''"
| "RecordKind (RLesson l) = ''LessonCandidate''"
| "RecordKind (REvidencePacket p) = ''EvidencePacket''"
| "RecordKind (RProblemModel m) = ''ProblemModel''"
| "RecordKind (RLedger l) = ''AmbiguityLedger''"
| "RecordKind (RProductDecision d) = ''ProductDecision''"
| "RecordKind (RRequirement r) = ''Requirement''"
| "RecordKind (RExperiment e) = ''DiscoveryExperiment''"
| "RecordKind (RReadiness r) = ''SpecificationReadiness''"
| "RecordKind (RSpecReview r) = ''SpecificationReviewResult''"
| "RecordKind (ROther r) = or_Kind r"

primrec RecordID :: "Record \<Rightarrow> string" where
  "RecordID (RWorkPackage w) = ewp_WorkPackageID w"
| "RecordID (RValidationResult v) = vres_ValidationID v"
| "RecordID (RReviewResult r) = rres_ReviewID r"
| "RecordID (RReviewIntent i) = intent_RecordID i"
| "RecordID (RDecision d) = drec_DecisionID d"
| "RecordID (RLesson l) = less_LessonCandidateID l"
| "RecordID (REvidencePacket p) = evp_EvidencePacketID p"
| "RecordID (RProblemModel m) = pmod_ProblemModelID m"
| "RecordID (RLedger l) = aled_AmbiguityLedgerID l"
| "RecordID (RProductDecision d) = pdec_DecisionID d"
| "RecordID (RRequirement r) = req_RequirementID r"
| "RecordID (RExperiment e) = dexp_ExperimentID e"
| "RecordID (RReadiness r) = srdy_ReadinessID r"
| "RecordID (RSpecReview r) = srev_ReviewID r"
| "RecordID (ROther r) = or_ID r"

primrec SchemaVer :: "Record \<Rightarrow> SchemaVersion" where
  "SchemaVer (RWorkPackage w) = ewp_SchemaVersion w"
| "SchemaVer (RValidationResult v) = vres_SchemaVersion v"
| "SchemaVer (RReviewResult r) = rres_SchemaVersion r"
| "SchemaVer (RReviewIntent i) = intent_SchemaVersion i"
| "SchemaVer (RDecision d) = drec_SchemaVersion d"
| "SchemaVer (RLesson l) = less_SchemaVersion l"
| "SchemaVer (REvidencePacket p) = evp_SchemaVersion p"
| "SchemaVer (RProblemModel m) = pmod_SchemaVersion m"
| "SchemaVer (RLedger l) = aled_SchemaVersion l"
| "SchemaVer (RProductDecision d) = pdec_SchemaVersion d"
| "SchemaVer (RRequirement r) = req_SchemaVersion r"
| "SchemaVer (RExperiment e) = dexp_SchemaVersion e"
| "SchemaVer (RReadiness r) = srdy_SchemaVersion r"
| "SchemaVer (RSpecReview r) = srev_SchemaVersion r"
| "SchemaVer (ROther r) = or_SchemaVer r"

text \<open>ProjectOf of the records that implement protocol.ProjectScoped; None for the others.\<close>

primrec ProjectOf :: "Record \<Rightarrow> string option" where
  "ProjectOf (RWorkPackage w) = Some (ewp_ProjectID w)"
| "ProjectOf (RValidationResult v) = Some (vres_ProjectID v)"
| "ProjectOf (RReviewResult r) = Some (rres_ProjectID r)"
| "ProjectOf (RReviewIntent i) = Some (intent_ProjectID i)"
| "ProjectOf (RDecision d) = Some (drec_ProjectID d)"
| "ProjectOf (RLesson l) = None"
| "ProjectOf (REvidencePacket p) = Some (evp_ProjectID p)"
| "ProjectOf (RProblemModel m) = Some (pmod_ProjectID m)"
| "ProjectOf (RLedger l) = Some (aled_ProjectID l)"
| "ProjectOf (RProductDecision d) = Some (pdec_ProjectID d)"
| "ProjectOf (RRequirement r) = Some (req_ProjectID r)"
| "ProjectOf (RExperiment e) = Some (dexp_ProjectID e)"
| "ProjectOf (RReadiness r) = Some (srdy_ProjectID r)"
| "ProjectOf (RSpecReview r) = Some (srev_ProjectID r)"
| "ProjectOf (ROther r) = or_Project r"

primrec Record_Validate :: "Record \<Rightarrow> go_error option" where
  "Record_Validate (RWorkPackage w) = EngineeringWorkPackage_Validate w"
| "Record_Validate (RValidationResult v) = ValidationResult_Validate v"
| "Record_Validate (RReviewResult r) = ReviewResult_Validate r"
| "Record_Validate (RReviewIntent i) = ReviewInvocationIntent_Validate i"
| "Record_Validate (RDecision d) = DecisionRecord_Validate d"
| "Record_Validate (RLesson l) = LessonCandidate_Validate l"
| "Record_Validate (REvidencePacket p) = EvidencePacket_Validate p"
| "Record_Validate (RProblemModel m) = ProblemModel_Validate m"
| "Record_Validate (RLedger l) = AmbiguityLedger_Validate l"
| "Record_Validate (RProductDecision d) = ProductDecision_Validate d"
| "Record_Validate (RRequirement r) = Requirement_Validate r"
| "Record_Validate (RExperiment e) = DiscoveryExperiment_Validate e"
| "Record_Validate (RReadiness r) = SpecificationReadiness_Validate r"
| "Record_Validate (RSpecReview r) = SpecificationReviewResult_Validate r"
| "Record_Validate (ROther r) = or_Validate r"

section \<open>The codec\<close>

record codec =
  enc_Record :: "Record \<Rightarrow> string option"
  dec_WorkPackage :: "string \<Rightarrow> EngineeringWorkPackage option"
  dec_ValidationResult :: "string \<Rightarrow> ValidationResult option"
  dec_ReviewResult :: "string \<Rightarrow> ReviewResult option"
  dec_ReviewIntent :: "string \<Rightarrow> ReviewInvocationIntent option"
  dec_Decision :: "string \<Rightarrow> DecisionRecord option"
  dec_Lesson :: "string \<Rightarrow> LessonCandidate option"
  dec_ProblemModel :: "string \<Rightarrow> ProblemModel option"
  dec_ProductDecision :: "string \<Rightarrow> ProductDecision option"
  dec_Requirement :: "string \<Rightarrow> Requirement option"
  dec_Experiment :: "string \<Rightarrow> DiscoveryExperiment option"
  dec_Readiness :: "string \<Rightarrow> SpecificationReadiness option"
  dec_SpecReview :: "string \<Rightarrow> SpecificationReviewResult option"
  enc_Payload :: "Payload \<Rightarrow> string option"
  dec_Payload :: "string \<Rightarrow> string \<Rightarrow> Payload option"
  enc_Correlation :: "Correlation \<Rightarrow> string option"
  dec_Correlation :: "string \<Rightarrow> Correlation option"
  sha256_hex :: "string \<Rightarrow> string"
  schema_check :: "(string \<Rightarrow> string \<Rightarrow> go_error option) option"

definition DigestBytes :: "('a codec_scheme) \<Rightarrow> string \<Rightarrow> string" where
  "DigestBytes c canonical = ''sha256:'' @ sha256_hex c canonical"

definition VerifyDigest :: "('a codec_scheme) \<Rightarrow> string \<Rightarrow> string \<Rightarrow> go_error option" where
  "VerifyDigest c expected canonical = first_err
     [check (expected = '''') CategoryIntegrity,
      check (DigestBytes c canonical \<noteq> expected) CategoryIntegrity]"

text \<open>An error of encoding/json, wrapped.\<close>

definition json_error :: "Category \<Rightarrow> go_error" where
  "json_error c = Err c (Some (Foreign ''json'' None))"

definition Unmarshal ::
  "(string \<Rightarrow> 'd option) \<Rightarrow> ('d \<Rightarrow> SchemaVersion) \<Rightarrow> ('d \<Rightarrow> go_error option) \<Rightarrow> string
     \<Rightarrow> go_error + 'd" where
  "Unmarshal decode version validate document =
     (case decode document of
        None \<Rightarrow> Inl (json_error CategoryInvalidArgument)
      | Some out \<Rightarrow>
          (case SchemaVersion_Validate (version out) of
             Some e \<Rightarrow> Inl e
           | None \<Rightarrow> (case validate out of Some e \<Rightarrow> Inl e | None \<Rightarrow> Inr out)))"

lemma Unmarshal_ok:
  "Unmarshal decode version validate document = Inr out \<longleftrightarrow>
     decode document = Some out \<and> SchemaVersion_Validate (version out) = None \<and> validate out = None"
  by (auto simp: Unmarshal_def split: option.splits)

section \<open>What an event claims\<close>

record RecordRef =
  ref_Kind :: string
  ref_ID :: string
  ref_Version :: int
  ref_Digest :: string

definition Claimed :: "RecordRef \<Rightarrow> bool" where
  "Claimed r \<longleftrightarrow> ref_Digest r \<noteq> []"

text \<open>None for the payloads that do not implement RecordReferencing.\<close>

definition WorkPackageProposed_ReferencedRecord :: "WorkPackageProposed \<Rightarrow> RecordRef" where
  "WorkPackageProposed_ReferencedRecord p =
     \<lparr>ref_Kind = ''EngineeringWorkPackage'', ref_ID = wp_WorkPackageID p, ref_Version = wp_Version p,
       ref_Digest = wp_RecordDigest p\<rparr>"

definition WorkPackageApproved_ReferencedRecord :: "WorkPackageApproved \<Rightarrow> RecordRef" where
  "WorkPackageApproved_ReferencedRecord p =
     \<lparr>ref_Kind = ''EngineeringWorkPackage'', ref_ID = wa_WorkPackageID p,
       ref_Version = wa_WorkPackageVersion p, ref_Digest = wa_RecordDigest p\<rparr>"

definition ValidationCompleted_ReferencedRecord :: "ValidationCompleted \<Rightarrow> RecordRef" where
  "ValidationCompleted_ReferencedRecord p =
     \<lparr>ref_Kind = ''ValidationResult'', ref_ID = vc_ValidationID p, ref_Version = 0,
       ref_Digest = vc_RecordDigest p\<rparr>"

definition ReviewInvocationStarted_ReferencedRecord :: "ReviewInvocationStarted \<Rightarrow> RecordRef" where
  "ReviewInvocationStarted_ReferencedRecord p =
     \<lparr>ref_Kind = ''ReviewInvocationIntent'',
       ref_ID = (if ri_AttemptID p \<noteq> [] \<and> ri_Dimension p \<noteq> UnknownReviewDimension []
                 then ''intent:'' @ ri_AttemptID p @ '':'' @ ReviewDimension_string (ri_Dimension p)
                 else []),
       ref_Version = 0, ref_Digest = ri_RecordDigest p\<rparr>"

definition ReviewCompleted_ReferencedRecord :: "ReviewCompleted \<Rightarrow> RecordRef" where
  "ReviewCompleted_ReferencedRecord p =
     \<lparr>ref_Kind = ''ReviewResult'', ref_ID = rc_ReviewID p, ref_Version = 0,
       ref_Digest = rc_RecordDigest p\<rparr>"

definition DecisionRecorded_ReferencedRecord :: "DecisionRecorded \<Rightarrow> RecordRef" where
  "DecisionRecorded_ReferencedRecord p =
     \<lparr>ref_Kind = ''DecisionRecord'', ref_ID = dc_DecisionID p, ref_Version = 0,
       ref_Digest = dc_RecordDigest p\<rparr>"

definition ProblemModelRevised_ReferencedRecord :: "ProblemModelRevised \<Rightarrow> RecordRef" where
  "ProblemModelRevised_ReferencedRecord p =
     \<lparr>ref_Kind = ''ProblemModel'', ref_ID = pm_ProblemModelID p, ref_Version = pm_Revision p,
       ref_Digest = pm_RecordDigest p\<rparr>"

definition ProductDecisionRecorded_ReferencedRecord :: "ProductDecisionRecorded \<Rightarrow> RecordRef" where
  "ProductDecisionRecorded_ReferencedRecord p =
     \<lparr>ref_Kind = ''ProductDecision'', ref_ID = pd_ProductDecisionID p, ref_Version = 0,
       ref_Digest = pd_RecordDigest p\<rparr>"

definition DiscoveryExperimentStarted_ReferencedRecord :: "DiscoveryExperimentStarted \<Rightarrow> RecordRef" where
  "DiscoveryExperimentStarted_ReferencedRecord p =
     \<lparr>ref_Kind = ''DiscoveryExperiment'', ref_ID = es_ExperimentID p, ref_Version = 0,
       ref_Digest = es_RecordDigest p\<rparr>"

definition DiscoveryExperimentCompleted_ReferencedRecord :: "DiscoveryExperimentCompleted \<Rightarrow> RecordRef" where
  "DiscoveryExperimentCompleted_ReferencedRecord p =
     \<lparr>ref_Kind = ''DiscoveryExperiment'', ref_ID = ec_ExperimentID p, ref_Version = 0,
       ref_Digest = ec_RecordDigest p\<rparr>"

definition SpecificationReadinessRecorded_ReferencedRecord :: "SpecificationReadinessRecorded \<Rightarrow> RecordRef" where
  "SpecificationReadinessRecorded_ReferencedRecord p =
     \<lparr>ref_Kind = ''SpecificationReadiness'', ref_ID = sr_ReadinessID p, ref_Version = 0,
       ref_Digest = sr_RecordDigest p\<rparr>"

definition LessonCandidateCreated_ReferencedRecord :: "LessonCandidateCreated \<Rightarrow> RecordRef" where
  "LessonCandidateCreated_ReferencedRecord p =
     \<lparr>ref_Kind = ''LessonCandidate'', ref_ID = lc_LessonCandidateID p, ref_Version = 0,
       ref_Digest = lc_RecordDigest p\<rparr>"

definition RequirementRecorded_ReferencedRecord :: "RequirementRecorded \<Rightarrow> RecordRef" where
  "RequirementRecorded_ReferencedRecord p =
     \<lparr>ref_Kind = ''Requirement'', ref_ID = rq_RequirementID p, ref_Version = 0,
       ref_Digest = rq_RecordDigest p\<rparr>"

definition SpecificationReviewCompleted_ReferencedRecord :: "SpecificationReviewCompleted \<Rightarrow> RecordRef" where
  "SpecificationReviewCompleted_ReferencedRecord p =
     \<lparr>ref_Kind = ''SpecificationReviewResult'', ref_ID = sv_ReviewID p, ref_Version = 0,
       ref_Digest = sv_RecordDigest p\<rparr>"

fun ReferencedRecord :: "Payload \<Rightarrow> RecordRef option" where
  "ReferencedRecord (PWorkPackageProposed p) = Some (WorkPackageProposed_ReferencedRecord p)"
| "ReferencedRecord (PWorkPackageApproved p) = Some (WorkPackageApproved_ReferencedRecord p)"
| "ReferencedRecord (PValidationCompleted p) = Some (ValidationCompleted_ReferencedRecord p)"
| "ReferencedRecord (PReviewInvocationStarted p) = Some (ReviewInvocationStarted_ReferencedRecord p)"
| "ReferencedRecord (PReviewCompleted p) = Some (ReviewCompleted_ReferencedRecord p)"
| "ReferencedRecord (PDecisionRecorded p) = Some (DecisionRecorded_ReferencedRecord p)"
| "ReferencedRecord (PProblemModelRevised p) = Some (ProblemModelRevised_ReferencedRecord p)"
| "ReferencedRecord (PProductDecisionRecorded p) = Some (ProductDecisionRecorded_ReferencedRecord p)"
| "ReferencedRecord (PDiscoveryExperimentStarted p) = Some (DiscoveryExperimentStarted_ReferencedRecord p)"
| "ReferencedRecord (PDiscoveryExperimentCompleted p) = Some (DiscoveryExperimentCompleted_ReferencedRecord p)"
| "ReferencedRecord (PSpecificationReadinessRecorded p) = Some (SpecificationReadinessRecorded_ReferencedRecord p)"
| "ReferencedRecord (PLessonCandidateCreated p) = Some (LessonCandidateCreated_ReferencedRecord p)"
| "ReferencedRecord (PRequirementRecorded p) = Some (RequirementRecorded_ReferencedRecord p)"
| "ReferencedRecord (PSpecificationReviewCompleted p) = Some (SpecificationReviewCompleted_ReferencedRecord p)"
| "ReferencedRecord p = None"

lemmas referenced_record_defs [simp] =
  WorkPackageProposed_ReferencedRecord_def
  WorkPackageApproved_ReferencedRecord_def
  ValidationCompleted_ReferencedRecord_def
  ReviewInvocationStarted_ReferencedRecord_def
  ReviewCompleted_ReferencedRecord_def
  DecisionRecorded_ReferencedRecord_def
  ProblemModelRevised_ReferencedRecord_def
  ProductDecisionRecorded_ReferencedRecord_def
  DiscoveryExperimentStarted_ReferencedRecord_def
  DiscoveryExperimentCompleted_ReferencedRecord_def
  SpecificationReadinessRecorded_ReferencedRecord_def
  LessonCandidateCreated_ReferencedRecord_def
  RequirementRecorded_ReferencedRecord_def
  SpecificationReviewCompleted_ReferencedRecord_def

section \<open>Comparing the claims with the document\<close>

definition mismatch :: "bool \<Rightarrow> go_error option" where
  "mismatch differs = check differs CategoryIntegrity"

definition sameOptional :: "string \<Rightarrow> string option \<Rightarrow> bool" where
  "sameOptional claimed stored \<longleftrightarrow> claimed = [] \<or> stored = Some claimed"

text \<open>sameStrings counts the first list in a map and takes the second off it; a missing key reads as
  zero.\<close>

fun take_off :: "(string \<Rightarrow> int) \<Rightarrow> string list \<Rightarrow> bool" where
  "take_off seen [] = True"
| "take_off seen (v # vs) =
     (let left = seen v - 1 in if left < 0 then False else take_off (seen(v := left)) vs)"

definition sameStrings :: "string list \<Rightarrow> string list \<Rightarrow> bool" where
  "sameStrings a b \<longleftrightarrow>
     (if length a \<noteq> length b then False
      else take_off (fold (\<lambda>v seen. seen(v := seen v + 1)) a (\<lambda>_. 0)) b)"

definition with_document :: "go_error + 'd \<Rightarrow> ('d \<Rightarrow> go_error option list) \<Rightarrow> go_error option" where
  "with_document d claims = (case d of Inl e \<Rightarrow> Some e | Inr x \<Rightarrow> first_err (claims x))"

definition load_WorkPackage :: "('a codec_scheme) \<Rightarrow> string \<Rightarrow> go_error + EngineeringWorkPackage" where
  "load_WorkPackage c = Unmarshal (dec_WorkPackage c) ewp_SchemaVersion EngineeringWorkPackage_Validate"

definition load_ValidationResult :: "('a codec_scheme) \<Rightarrow> string \<Rightarrow> go_error + ValidationResult" where
  "load_ValidationResult c =
     Unmarshal (dec_ValidationResult c) vres_SchemaVersion ValidationResult_Validate"

definition load_ReviewResult :: "('a codec_scheme) \<Rightarrow> string \<Rightarrow> go_error + ReviewResult" where
  "load_ReviewResult c = Unmarshal (dec_ReviewResult c) rres_SchemaVersion ReviewResult_Validate"

definition load_ProductDecision :: "('a codec_scheme) \<Rightarrow> string \<Rightarrow> go_error + ProductDecision" where
  "load_ProductDecision c =
     Unmarshal (dec_ProductDecision c) pdec_SchemaVersion ProductDecision_Validate"

definition WorkPackageProposed_CheckReferencedRecord ::
  "('a codec_scheme) \<Rightarrow> WorkPackageProposed \<Rightarrow> string \<Rightarrow> go_error option" where
  "WorkPackageProposed_CheckReferencedRecord c p doc =
     with_document (load_WorkPackage c doc) (\<lambda>w.
       [mismatch (ewp_WorkPackageID w \<noteq> wp_WorkPackageID p),
        mismatch (ewp_Version w \<noteq> wp_Version p),
        mismatch (ewp_TaskID w \<noteq> wp_TaskID p),
        mismatch (ewp_ProjectStateRevision w \<noteq> wp_ProjectStateRevision p),
        mismatch (ewp_BaseCommit w \<noteq> wp_BaseCommit p)])"

definition WorkPackageApproved_CheckReferencedRecord ::
  "('a codec_scheme) \<Rightarrow> WorkPackageApproved \<Rightarrow> string \<Rightarrow> go_error option" where
  "WorkPackageApproved_CheckReferencedRecord c p doc =
     with_document (load_WorkPackage c doc) (\<lambda>w.
       [mismatch (ewp_WorkPackageID w \<noteq> wa_WorkPackageID p),
        mismatch (ewp_Version w \<noteq> wa_WorkPackageVersion p),
        mismatch (ewp_TaskID w \<noteq> wa_TaskID p),
        mismatch (wa_ChangeClass p \<noteq> UnknownChangeClass [] \<and> ewp_ChangeClass w \<noteq> wa_ChangeClass p),
        mismatch (ewp_ProjectStateRevision w \<noteq> wa_ProjectStateRevision p),
        mismatch (ewp_BaseCommit w \<noteq> wa_BaseCommit p)])"

definition ValidationCompleted_CheckReferencedRecord ::
  "('a codec_scheme) \<Rightarrow> ValidationCompleted \<Rightarrow> string \<Rightarrow> go_error option" where
  "ValidationCompleted_CheckReferencedRecord c p doc =
     with_document (load_ValidationResult c doc) (\<lambda>v.
       [mismatch (vres_ValidationID v \<noteq> vc_ValidationID p),
        mismatch (vsub_Kind (vres_Subject v) \<noteq> vc_Scope p),
        mismatch (vres_Status v \<noteq> vc_Status p),
        mismatch (vres_Commit v \<noteq> vc_Commit p),
        mismatch (vsub_TaskID (vres_Subject v) \<noteq> vc_TaskID p),
        mismatch (vsub_AttemptID (vres_Subject v) \<noteq> vc_AttemptID p)])"

definition ReviewInvocationStarted_CheckReferencedRecord ::
  "('a codec_scheme) \<Rightarrow> ReviewInvocationStarted \<Rightarrow> string \<Rightarrow> go_error option" where
  "ReviewInvocationStarted_CheckReferencedRecord c p doc =
     with_document
       (Unmarshal (dec_ReviewIntent c) intent_SchemaVersion ReviewInvocationIntent_Validate doc) (\<lambda>i.
       [mismatch (intent_TaskID i \<noteq> ri_TaskID p),
        mismatch (intent_AttemptID i \<noteq> ri_AttemptID p),
        mismatch (intent_WorkPackageID i \<noteq> ri_WorkPackageID p),
        mismatch (intent_ReviewID i \<noteq> ri_ReviewID p),
        mismatch (intent_InvocationID i \<noteq> ri_InvocationID p),
        mismatch (intent_Dimension i \<noteq> ri_Dimension p),
        mismatch (intent_CandidateCommit i \<noteq> ri_CandidateCommit p)])"

definition ReviewCompleted_CheckReferencedRecord ::
  "('a codec_scheme) \<Rightarrow> ReviewCompleted \<Rightarrow> string \<Rightarrow> go_error option" where
  "ReviewCompleted_CheckReferencedRecord c p doc =
     with_document (load_ReviewResult c doc) (\<lambda>r.
       [mismatch (rres_ReviewID r \<noteq> rc_ReviewID p),
        mismatch (rres_AttemptID r \<noteq> rc_AttemptID p),
        mismatch (rres_WorkPackageID r \<noteq> rc_WorkPackageID p),
        mismatch (rres_Dimension r \<noteq> rc_Dimension p),
        mismatch (rres_Verdict r \<noteq> rc_Verdict p),
        mismatch (rres_PrincipalEscalationRecommended r \<noteq> rc_PrincipalEscalationRecommended p)])"

definition DecisionRecorded_CheckReferencedRecord ::
  "('a codec_scheme) \<Rightarrow> DecisionRecorded \<Rightarrow> string \<Rightarrow> go_error option" where
  "DecisionRecorded_CheckReferencedRecord c p doc =
     with_document (Unmarshal (dec_Decision c) drec_SchemaVersion DecisionRecord_Validate doc) (\<lambda>d.
       [mismatch (drec_DecisionID d \<noteq> dc_DecisionID p)])"

definition ProblemModelRevised_CheckReferencedRecord ::
  "('a codec_scheme) \<Rightarrow> ProblemModelRevised \<Rightarrow> string \<Rightarrow> go_error option" where
  "ProblemModelRevised_CheckReferencedRecord c p doc =
     with_document (Unmarshal (dec_ProblemModel c) pmod_SchemaVersion ProblemModel_Validate doc) (\<lambda>m.
       [mismatch (pmod_ProblemModelID m \<noteq> pm_ProblemModelID p),
        mismatch (pmod_Revision m \<noteq> pm_Revision p)])"

definition ProductDecisionRecorded_CheckReferencedRecord ::
  "('a codec_scheme) \<Rightarrow> ProductDecisionRecorded \<Rightarrow> string \<Rightarrow> go_error option" where
  "ProductDecisionRecorded_CheckReferencedRecord c p doc =
     with_document (load_ProductDecision c doc) (\<lambda>d.
       [mismatch (pdec_DecisionID d \<noteq> pd_ProductDecisionID p),
        mismatch (pdec_Status d \<noteq> pd_Status p),
        mismatch (pdec_Question d \<noteq> pd_Question p),
        mismatch (pdec_Answer d \<noteq> pd_Answer p),
        mismatch (\<not> sameOptional (pd_AuthorityActor p) (pdec_AuthorityActor d)),
        mismatch (\<not> sameOptional (pd_Supersedes p) (pdec_Supersedes d))])"

definition DiscoveryExperimentStarted_CheckReferencedRecord ::
  "('a codec_scheme) \<Rightarrow> DiscoveryExperimentStarted \<Rightarrow> string \<Rightarrow> go_error option" where
  "DiscoveryExperimentStarted_CheckReferencedRecord c p doc =
     with_document (Unmarshal (dec_Experiment c) dexp_SchemaVersion DiscoveryExperiment_Validate doc)
       (\<lambda>e.
       [mismatch (dexp_ExperimentID e \<noteq> es_ExperimentID p),
        mismatch (dexp_Question e \<noteq> es_Question p),
        mismatch (dexp_Hypothesis e \<noteq> es_Hypothesis p)])"

definition DiscoveryExperimentCompleted_CheckReferencedRecord ::
  "('a codec_scheme) \<Rightarrow> DiscoveryExperimentCompleted \<Rightarrow> string \<Rightarrow> go_error option" where
  "DiscoveryExperimentCompleted_CheckReferencedRecord c p doc =
     with_document (Unmarshal (dec_Experiment c) dexp_SchemaVersion DiscoveryExperiment_Validate doc)
       (\<lambda>e.
       [mismatch (dexp_ExperimentID e \<noteq> ec_ExperimentID p),
        mismatch (dexp_Status e \<noteq> ec_Status p),
        mismatch (\<not> sameOptional (ec_ResultSummary p) (dexp_ResultSummary e))])"

definition SpecificationReadinessRecorded_CheckReferencedRecord ::
  "('a codec_scheme) \<Rightarrow> SpecificationReadinessRecorded \<Rightarrow> string \<Rightarrow> go_error option" where
  "SpecificationReadinessRecorded_CheckReferencedRecord c p doc =
     with_document
       (Unmarshal (dec_Readiness c) srdy_SchemaVersion SpecificationReadiness_Validate doc) (\<lambda>r.
       [mismatch (srdy_ReadinessID r \<noteq> sr_ReadinessID p),
        mismatch (srdy_ProblemModelID r \<noteq> sr_ProblemModelID p),
        mismatch (srdy_ProblemModelRevision r \<noteq> sr_ProblemModelRevision p),
        mismatch (srdy_Verdict r \<noteq> sr_Verdict p)])"

definition LessonCandidateCreated_CheckReferencedRecord ::
  "('a codec_scheme) \<Rightarrow> LessonCandidateCreated \<Rightarrow> string \<Rightarrow> go_error option" where
  "LessonCandidateCreated_CheckReferencedRecord c p doc =
     with_document (Unmarshal (dec_Lesson c) less_SchemaVersion LessonCandidate_Validate doc) (\<lambda>l.
       [mismatch (less_LessonCandidateID l \<noteq> lc_LessonCandidateID p),
        mismatch (less_Scope l \<noteq> lc_Scope p)])"

definition RequirementRecorded_CheckReferencedRecord ::
  "('a codec_scheme) \<Rightarrow> RequirementRecorded \<Rightarrow> string \<Rightarrow> go_error option" where
  "RequirementRecorded_CheckReferencedRecord c p doc =
     with_document (Unmarshal (dec_Requirement c) req_SchemaVersion Requirement_Validate doc) (\<lambda>r.
       [mismatch (req_RequirementID r \<noteq> rq_RequirementID p),
        mismatch (req_Status r \<noteq> rq_Status p)])"

definition SpecificationReviewCompleted_CheckReferencedRecord ::
  "('a codec_scheme) \<Rightarrow> SpecificationReviewCompleted \<Rightarrow> string \<Rightarrow> go_error option" where
  "SpecificationReviewCompleted_CheckReferencedRecord c p doc =
     with_document
       (Unmarshal (dec_SpecReview c) srev_SchemaVersion SpecificationReviewResult_Validate doc) (\<lambda>r.
       [mismatch (srev_ReviewID r \<noteq> sv_ReviewID p),
        mismatch (srev_ReviewerProfile r \<noteq> sv_ReviewerProfile p),
        mismatch (srev_Summary r \<noteq> sv_Summary p),
        mismatch (\<not> sameStrings (sv_MaterialGapsFound p) (srev_MaterialGapRefs r))])"

fun CheckReferencedRecord :: "('a codec_scheme) \<Rightarrow> Payload \<Rightarrow> string \<Rightarrow> go_error option" where
  "CheckReferencedRecord c (PWorkPackageProposed p) doc = WorkPackageProposed_CheckReferencedRecord c p doc"
| "CheckReferencedRecord c (PWorkPackageApproved p) doc = WorkPackageApproved_CheckReferencedRecord c p doc"
| "CheckReferencedRecord c (PValidationCompleted p) doc = ValidationCompleted_CheckReferencedRecord c p doc"
| "CheckReferencedRecord c (PReviewInvocationStarted p) doc = ReviewInvocationStarted_CheckReferencedRecord c p doc"
| "CheckReferencedRecord c (PReviewCompleted p) doc = ReviewCompleted_CheckReferencedRecord c p doc"
| "CheckReferencedRecord c (PDecisionRecorded p) doc = DecisionRecorded_CheckReferencedRecord c p doc"
| "CheckReferencedRecord c (PProblemModelRevised p) doc = ProblemModelRevised_CheckReferencedRecord c p doc"
| "CheckReferencedRecord c (PProductDecisionRecorded p) doc = ProductDecisionRecorded_CheckReferencedRecord c p doc"
| "CheckReferencedRecord c (PDiscoveryExperimentStarted p) doc = DiscoveryExperimentStarted_CheckReferencedRecord c p doc"
| "CheckReferencedRecord c (PDiscoveryExperimentCompleted p) doc = DiscoveryExperimentCompleted_CheckReferencedRecord c p doc"
| "CheckReferencedRecord c (PSpecificationReadinessRecorded p) doc = SpecificationReadinessRecorded_CheckReferencedRecord c p doc"
| "CheckReferencedRecord c (PLessonCandidateCreated p) doc = LessonCandidateCreated_CheckReferencedRecord c p doc"
| "CheckReferencedRecord c (PRequirementRecorded p) doc = RequirementRecorded_CheckReferencedRecord c p doc"
| "CheckReferencedRecord c (PSpecificationReviewCompleted p) doc = SpecificationReviewCompleted_CheckReferencedRecord c p doc"
| "CheckReferencedRecord c p doc = None"

lemmas check_referenced_record_defs [simp] =
  WorkPackageProposed_CheckReferencedRecord_def
  WorkPackageApproved_CheckReferencedRecord_def
  ValidationCompleted_CheckReferencedRecord_def
  ReviewInvocationStarted_CheckReferencedRecord_def
  ReviewCompleted_CheckReferencedRecord_def
  DecisionRecorded_CheckReferencedRecord_def
  ProblemModelRevised_CheckReferencedRecord_def
  ProductDecisionRecorded_CheckReferencedRecord_def
  DiscoveryExperimentStarted_CheckReferencedRecord_def
  DiscoveryExperimentCompleted_CheckReferencedRecord_def
  SpecificationReadinessRecorded_CheckReferencedRecord_def
  LessonCandidateCreated_CheckReferencedRecord_def
  RequirementRecorded_CheckReferencedRecord_def
  SpecificationReviewCompleted_CheckReferencedRecord_def

section \<open>What a checked reference guarantees\<close>

lemma take_off_spec:
  "(\<And>v. 0 \<le> seen v) \<Longrightarrow> take_off seen b \<longleftrightarrow> (\<forall>v. int (count (mset b) v) \<le> seen v)"
proof (induction b arbitrary: seen)
  case (Cons v b)
  show ?case
  proof (cases "seen v - 1 < 0")
    case True
    then show ?thesis using Cons.prems [of v] by (auto simp: Let_def intro!: exI [of _ v])
  next
    case False
    then have "take_off (seen(v := seen v - 1)) b \<longleftrightarrow>
        (\<forall>w. int (count (mset b) w) \<le> (seen(v := seen v - 1)) w)"
      using Cons.prems by (intro Cons.IH) auto
    also have "\<dots> \<longleftrightarrow> (\<forall>w. int (count (mset (v # b)) w) \<le> seen w)"
      by (auto simp: algebra_simps split: if_splits)
    finally show ?thesis using False by (simp add: Let_def)
  qed
qed simp

lemma counted: "fold (\<lambda>v seen. seen(v := seen v + 1)) a f v = f v + int (count (mset a) v)"
  by (induction a arbitrary: f) simp_all

lemma mismatch_None [simp]: "mismatch b = None \<longleftrightarrow> \<not> b"
  by (simp add: mismatch_def)

lemma with_document_None:
  "with_document d claims = None \<longleftrightarrow> (\<exists>x. d = Inr x \<and> first_err (claims x) = None)"
  by (simp add: with_document_def split: sum.splits)

text \<open>A pass cannot rest on nothing: some check of the document passed and none failed.\<close>

lemma passing_result:
  assumes "ValidationResult_Validate v = None" "vres_Status v = OutcomePass"
  shows "(\<exists>k \<in> set (vres_Checks v). ck_Status k = CheckPass) \<and>
    \<not> (\<exists>k \<in> set (vres_Checks v). ck_Status k \<in> {CheckFail, CheckError})"
  using assms by (auto simp: ValidationResult_Validate_def list_ex_iff)

text \<open>C28: The comparison of reference lists that an event and its record must agree on treats them as
  multisets: it holds exactly when the lists are permutations of each other.\<close>

theorem sameStrings_iff: "sameStrings a b \<longleftrightarrow> mset a = mset b"
proof -
  have "sameStrings a b \<longleftrightarrow> length a = length b \<and> mset b \<subseteq># mset a"
    by (simp add: sameStrings_def take_off_spec counted subseteq_mset_def)
  also have "\<dots> \<longleftrightarrow> mset a = mset b"
    by (metis mset_subset_size order_less_irrefl size_mset subset_mset.dual_order.refl
        subset_mset.le_imp_less_or_eq)
  finally show ?thesis .
qed

end
