(* ===== verification/Store.thy ===== *)
theory Store
  imports Render References
begin

text \<open>
  The control-plane store of internal/storage inside one transaction: the event journal
  (journal.go), the immutable records (records.go) and the derived projections (projection.go),
  over the tables of migrations/0001_control_plane.sql.

  A table is the list of its rows. The journal and the records keep the stored bytes and their
  digests, because every read verifies them; the projection tables of tasks and attempts keep the
  typed value whose columns they store. A transaction is a function from the database to an error or
  a result with the changed database; what a failed statement left behind does not matter, since the
  caller rolls back. Failures of the file system and lock contention are outside the model: a
  statement fails only through a constraint of its table.
\<close>

section \<open>Tables\<close>

record EventRow =
  row_Seq :: int
  row_EventID :: string
  row_ProjectID :: string
  row_EventType :: string
  row_SchemaVersion :: SchemaVersion
  row_OccurredAt :: Timestamp
  row_Actor :: Actor
  row_TaskID :: "string option"
  row_AttemptID :: "string option"
  row_WorkPackageID :: "string option"
  row_Correlation :: string
  row_Payload :: string
  row_PayloadDigest :: string

record StoredRecord =
  rcd_ProjectID :: string
  rcd_Kind :: string
  rcd_ID :: string
  rcd_Version :: int
  rcd_SchemaVersion :: SchemaVersion
  rcd_Document :: string
  rcd_Digest :: string
  rcd_CreatedAt :: Timestamp

record ProjectSummary =
  sum_ProjectID :: string
  sum_Name :: string
  sum_HighWatermark :: int
  sum_StateRevision :: string
  sum_GeneratedAt :: Timestamp
  sum_ProjectStateJSON :: string
  sum_ProjectStateDigest :: string

record database =
  db_Events :: "EventRow list"
  db_NextSeq :: int
  db_Records :: "StoredRecord list"
  db_Projects :: "ProjectSummary list"
  db_Tasks :: "Task list"
  db_Attempts :: "Attempt list"

definition empty_database :: database where
  "empty_database = \<lparr>db_Events = [], db_NextSeq = 1, db_Records = [], db_Projects = [],
     db_Tasks = [], db_Attempts = []\<rparr>"

text \<open>The codec extended with the documents only the store writes and reads.\<close>

record store_codec = codec +
  enc_ProjectState :: "ProjectState \<Rightarrow> string option"
  dec_ProjectState :: "string \<Rightarrow> ProjectState option"

definition encoded :: "string option \<Rightarrow> string result" where
  "encoded x = (case x of None \<Rightarrow> Inl (json_error CategoryInternal) | Some s \<Rightarrow> Inr s)"

lemma encoded_ok [simp]: "encoded x = Inr s \<longleftrightarrow> x = Some s"
  by (simp add: encoded_def split: option.splits)

section \<open>Records\<close>

definition is_record :: "string \<Rightarrow> string \<Rightarrow> string \<Rightarrow> StoredRecord \<Rightarrow> bool" where
  "is_record projectID kind i r \<longleftrightarrow> rcd_ProjectID r = projectID \<and> rcd_Kind r = kind \<and> rcd_ID r = i"

definition read_record ::
  "('a codec_scheme) \<Rightarrow> string \<Rightarrow> string \<Rightarrow> string \<Rightarrow> int \<Rightarrow> database \<Rightarrow> StoredRecord result" where
  "read_record c projectID kind i version db =
     require (check (projectID = []) CategoryInvalidArgument)
       (case find (\<lambda>r. is_record projectID kind i r \<and> rcd_Version r = version) (db_Records db) of
          None \<Rightarrow> Inl (New CategoryNotFound)
        | Some r \<Rightarrow> require (VerifyDigest c (rcd_Digest r) (rcd_Document r)) (Inr r))"

text \<open>COALESCE(MAX(record_version), 0).\<close>

definition LatestRecordVersion ::
  "string \<Rightarrow> string \<Rightarrow> string \<Rightarrow> database \<Rightarrow> int result" where
  "LatestRecordVersion projectID kind i db =
     require (check (projectID = []) CategoryInvalidArgument)
       (Inr (case map rcd_Version (filter (is_record projectID kind i) (db_Records db)) of
               [] \<Rightarrow> 0
             | v # vs \<Rightarrow> fold max vs v))"

definition LatestRecord ::
  "('a codec_scheme) \<Rightarrow> string \<Rightarrow> string \<Rightarrow> string \<Rightarrow> database \<Rightarrow> StoredRecord option result" where
  "LatestRecord c projectID kind i db =
     bind_result (LatestRecordVersion projectID kind i db) (\<lambda>version.
       if version = 0 then Inr None
       else bind_result (read_record c projectID kind i version db) (\<lambda>r. Inr (Some r)))"

definition RecordExists ::
  "('a codec_scheme) \<Rightarrow> string \<Rightarrow> string \<Rightarrow> string \<Rightarrow> database \<Rightarrow> bool result" where
  "RecordExists c projectID kind i db =
     bind_result (LatestRecord c projectID kind i db) (\<lambda>stored. Inr (stored \<noteq> None))"

definition schema_refuses :: "('a codec_scheme) \<Rightarrow> string \<Rightarrow> string \<Rightarrow> go_error option" where
  "schema_refuses c kind canonical =
     (case schema_check c of
        None \<Rightarrow> None
      | Some validate \<Rightarrow> Wrap CategoryInvalidArgument (validate kind canonical))"

definition PutRecord ::
  "('a codec_scheme) \<Rightarrow> Timestamp \<Rightarrow> string \<Rightarrow> int \<Rightarrow> Record \<Rightarrow> database
     \<Rightarrow> (string \<times> database) result" where
  "PutRecord c now projectID version r db =
     require (check (projectID = []) CategoryInvalidArgument)
     (require (check (version < 1) CategoryInvalidArgument)
     (require (check (case ProjectOf r of None \<Rightarrow> False | Some declared \<Rightarrow> declared \<noteq> projectID)
                CategoryInvalidArgument)
     (require (Record_Validate r)
     (bind_result (encoded (enc_Record c r)) (\<lambda>canonical.
      require (schema_refuses c (RecordKind r) canonical)
      (let digest = DigestBytes c canonical
       in case read_record c projectID (RecordKind r) (RecordID r) version db of
            Inr existing \<Rightarrow>
              require (check (rcd_Digest existing \<noteq> digest) CategoryConflict) (Inr (digest, db))
          | Inl e \<Rightarrow>
              if CategoryOf (Some e) \<noteq> Some CategoryNotFound then Inl e
              else Inr (digest, db\<lparr>db_Records := db_Records db @
                [\<lparr>rcd_ProjectID = projectID, rcd_Kind = RecordKind r, rcd_ID = RecordID r,
                  rcd_Version = version, rcd_SchemaVersion = SchemaVer r,
                  rcd_Document = canonical, rcd_Digest = digest, rcd_CreatedAt = now\<rparr>]\<rparr>)))))))"

section \<open>The journal\<close>

definition nullable :: "string \<Rightarrow> string option" where
  "nullable s = (if s = [] then None else Some s)"

definition event_row :: "Event \<Rightarrow> int \<Rightarrow> string \<Rightarrow> string \<Rightarrow> string \<Rightarrow> EventRow" where
  "event_row e seq correlation payload digest =
     \<lparr>row_Seq = seq, row_EventID = ev_EventID e, row_ProjectID = ev_ProjectID e,
      row_EventType = ev_EventType e, row_SchemaVersion = ev_SchemaVersion e,
      row_OccurredAt = ev_OccurredAt e, row_Actor = ev_Actor e,
      row_TaskID = nullable (co_TaskID (ev_Correlation e)),
      row_AttemptID = nullable (co_AttemptID (ev_Correlation e)),
      row_WorkPackageID = nullable (co_WorkPackageID (ev_Correlation e)),
      row_Correlation = correlation, row_Payload = payload, row_PayloadDigest = digest\<rparr>"

text \<open>A nil payload never reaches the encoder: Validate refuses it.\<close>

definition AppendEvent ::
  "('a codec_scheme) \<Rightarrow> Event \<Rightarrow> database \<Rightarrow> (Event \<times> database) result" where
  "AppendEvent c e db =
     require (Event_Validate e)
     (bind_result (encoded (case ev_Payload e of None \<Rightarrow> None | Some p \<Rightarrow> enc_Payload c p)) (\<lambda>payload.
      let digest = DigestBytes c payload
      in bind_result (encoded (enc_Correlation c (ev_Correlation e))) (\<lambda>correlation.
         if ev_EventID e \<in> set (map row_EventID (db_Events db))
         then Inl (Err CategoryConflict (Some (Foreign ''sqlite constraint'' None)))
         else
           (let seq = db_NextSeq db
            in Inr (e\<lparr>ev_Seq := seq, ev_PayloadDigest := digest\<rparr>,
                    db\<lparr>db_Events := db_Events db @ [event_row e seq correlation payload digest],
                       db_NextSeq := seq + 1\<rparr>)))))"

record EventQuery =
  eq_ProjectID :: string
  eq_AfterSeq :: int
  eq_UpToSeq :: int
  eq_Types :: "string list"
  eq_TaskID :: string
  eq_Limit :: int
  eq_Newest :: bool

definition whole_journal :: "string \<Rightarrow> EventQuery" where
  "whole_journal projectID =
     \<lparr>eq_ProjectID = projectID, eq_AfterSeq = 0, eq_UpToSeq = 0, eq_Types = [], eq_TaskID = [],
      eq_Limit = 0, eq_Newest = False\<rparr>"

definition DecodePayload :: "('a codec_scheme) \<Rightarrow> string \<Rightarrow> string \<Rightarrow> Payload result" where
  "DecodePayload c ty raw =
     (if \<not> Registered ty then Inl (New CategorySchemaVersionUnsupported)
      else if raw = [] then Inl (New CategoryInvalidArgument)
      else
        (case dec_Payload c ty raw of
           None \<Rightarrow> Inl (json_error CategoryInvalidArgument)
         | Some p \<Rightarrow> Inr p))"

definition scanEvent :: "('a codec_scheme) \<Rightarrow> EventRow \<Rightarrow> Event result" where
  "scanEvent c row =
     (case dec_Correlation c (row_Correlation row) of
        None \<Rightarrow> Inl (json_error CategoryIntegrity)
      | Some correlation \<Rightarrow>
          require (VerifyDigest c (row_PayloadDigest row) (row_Payload row))
          (bind_result (DecodePayload c (row_EventType row) (row_Payload row)) (\<lambda>decoded.
           let e = \<lparr>ev_Seq = row_Seq row, ev_SchemaVersion = row_SchemaVersion row,
                    ev_EventID = row_EventID row, ev_ProjectID = row_ProjectID row,
                    ev_EventType = row_EventType row, ev_OccurredAt = row_OccurredAt row,
                    ev_Actor = row_Actor row, ev_Correlation = correlation,
                    ev_Payload = Some decoded, ev_PayloadDigest = row_PayloadDigest row\<rparr>
           in require (Event_Validate e) (Inr e))))"

fun scan_all :: "('r \<Rightarrow> 'a result) \<Rightarrow> 'r list \<Rightarrow> 'a list result" where
  "scan_all scan [] = Inr []"
| "scan_all scan (r # rs) =
     bind_result (scan r) (\<lambda>x. bind_result (scan_all scan rs) (\<lambda>xs. Inr (x # xs)))"

text \<open>The WHERE clause, ORDER BY seq and LIMIT of the query. Rows are kept in the order of their
  sequence numbers.\<close>

definition matches_query :: "EventQuery \<Rightarrow> EventRow \<Rightarrow> bool" where
  "matches_query q row \<longleftrightarrow>
     row_ProjectID row = eq_ProjectID q \<and>
     (eq_AfterSeq q > 0 \<longrightarrow> row_Seq row > eq_AfterSeq q) \<and>
     (eq_UpToSeq q > 0 \<longrightarrow> row_Seq row \<le> eq_UpToSeq q) \<and>
     (eq_TaskID q \<noteq> [] \<longrightarrow> row_TaskID row = Some (eq_TaskID q)) \<and>
     (eq_Types q \<noteq> [] \<longrightarrow> row_EventType row \<in> set (eq_Types q))"

definition query_rows :: "EventQuery \<Rightarrow> database \<Rightarrow> EventRow list" where
  "query_rows q db =
     (let hits = filter (matches_query q) (db_Events db);
          ordered = (if eq_Newest q then rev hits else hits)
      in if eq_Limit q > 0 then take (nat (eq_Limit q)) ordered else ordered)"

definition ReadEvents :: "('a codec_scheme) \<Rightarrow> EventQuery \<Rightarrow> database \<Rightarrow> Event list result" where
  "ReadEvents c q db =
     require (check (eq_ProjectID q = []) CategoryInvalidArgument)
       (scan_all (scanEvent c) (query_rows q db))"

definition HighWatermark :: "string \<Rightarrow> database \<Rightarrow> int" where
  "HighWatermark projectID db =
     (case map row_Seq (filter (\<lambda>r. row_ProjectID r = projectID) (db_Events db)) of
        [] \<Rightarrow> 0
      | v # vs \<Rightarrow> fold max vs v)"

definition ProjectIDs :: "database \<Rightarrow> string list" where
  "ProjectIDs db = sort (remdups (map row_ProjectID (db_Events db)))"

section \<open>Projections\<close>

text \<open>INSERT ... ON CONFLICT (project_id) DO UPDATE.\<close>

fun upsert_project :: "ProjectSummary \<Rightarrow> ProjectSummary list \<Rightarrow> ProjectSummary list" where
  "upsert_project s [] = [s]"
| "upsert_project s (r # rs) =
     (if sum_ProjectID r = sum_ProjectID s then s # rs else r # upsert_project s rs)"

definition insert_task :: "Task \<Rightarrow> database \<Rightarrow> database result" where
  "insert_task t db =
     (if t_ID t \<in> set (map t_ID (db_Tasks db)) \<or>
         (t_ProjectID t, t_Alias t) \<in> set (map (\<lambda>x. (t_ProjectID x, t_Alias x)) (db_Tasks db)) \<or>
         t_ProjectID t \<notin> set (map sum_ProjectID (db_Projects db))
      then Inl (Err CategoryInternal (Some (Foreign ''sqlite constraint'' None)))
      else Inr (db\<lparr>db_Tasks := db_Tasks db @ [t]\<rparr>))"

definition insert_attempt :: "Attempt \<Rightarrow> database \<Rightarrow> database result" where
  "insert_attempt a db =
     (if a_ID a \<in> set (map a_ID (db_Attempts db)) \<or>
         (a_TaskID a, a_Ordinal a) \<in> set (map (\<lambda>x. (a_TaskID x, a_Ordinal x)) (db_Attempts db)) \<or>
         a_TaskID a \<notin> set (map t_ID (db_Tasks db))
      then Inl (Err CategoryInternal (Some (Foreign ''sqlite constraint'' None)))
      else Inr (db\<lparr>db_Attempts := db_Attempts db @ [a]\<rparr>))"

text \<open>A nil pointer in the slice of tasks or attempts would panic; the model reports an internal
  error there, and the invariant of the projection shows that there is none.\<close>

fun insert_all :: "('x \<Rightarrow> database \<Rightarrow> database result) \<Rightarrow> 'x option list \<Rightarrow> database \<Rightarrow> database result" where
  "insert_all ins [] db = Inr db"
| "insert_all ins (None # xs) db = Inl (New CategoryInternal)"
| "insert_all ins (Some x # xs) db =
     bind_result (ins x db) (\<lambda>db'. insert_all ins xs db')"

definition insert_task_tree :: "Projection \<Rightarrow> Task \<Rightarrow> database \<Rightarrow> database result" where
  "insert_task_tree p t db =
     bind_result (insert_task t db) (insert_all insert_attempt (AttemptsForTask p (t_ID t)))"

text \<open>Deleting a task deletes its attempts too (ON DELETE CASCADE).\<close>

definition clear_projection :: "string \<Rightarrow> database \<Rightarrow> database" where
  "clear_projection projectID db =
     (let gone = map t_ID (filter (\<lambda>t. t_ProjectID t = projectID) (db_Tasks db))
      in db\<lparr>db_Attempts := filter (\<lambda>a. a_ProjectID a \<noteq> projectID \<and> a_TaskID a \<notin> set gone)
                (db_Attempts db),
            db_Tasks := filter (\<lambda>t. t_ProjectID t \<noteq> projectID) (db_Tasks db)\<rparr>)"

definition project_summary :: "Projection \<Rightarrow> ProjectState \<Rightarrow> string \<Rightarrow> string \<Rightarrow> ProjectSummary" where
  "project_summary p state document digest =
     \<lparr>sum_ProjectID = p_ProjectID p, sum_Name = p_Name p, sum_HighWatermark = p_HighWatermark p,
      sum_StateRevision = st_StateRevision state, sum_GeneratedAt = st_GeneratedAt state,
      sum_ProjectStateJSON = document, sum_ProjectStateDigest = digest\<rparr>"

definition SaveProjection ::
  "('a store_codec_scheme) \<Rightarrow> Projection \<Rightarrow> database \<Rightarrow> database result" where
  "SaveProjection c p db =
     require (check (\<not> p_initialised p) CategoryInvalidArgument)
     (bind_result (render_state p) (\<lambda>state.
      bind_result (encoded (enc_ProjectState c state)) (\<lambda>document.
      let digest = DigestBytes c document;
          db1 = db\<lparr>db_Projects :=
                  upsert_project (project_summary p state document digest) (db_Projects db)\<rparr>
      in insert_all (insert_task_tree p) (Tasks_of p) (clear_projection (p_ProjectID p) db1))))"

definition DropProjection :: "string \<Rightarrow> database \<Rightarrow> database" where
  "DropProjection projectID db =
     (let db1 = clear_projection projectID db
      in db1\<lparr>db_Projects := filter (\<lambda>s. sum_ProjectID s \<noteq> projectID) (db_Projects db1)\<rparr>)"

definition verify_summary :: "('a codec_scheme) \<Rightarrow> ProjectSummary \<Rightarrow> go_error option" where
  "verify_summary c s = Wrap CategoryIntegrity
     (VerifyDigest c (sum_ProjectStateDigest s) (sum_ProjectStateJSON s))"

definition ProjectSummary_of :: "('a codec_scheme) \<Rightarrow> string \<Rightarrow> database \<Rightarrow> ProjectSummary result" where
  "ProjectSummary_of c projectID db =
     (case find (\<lambda>s. sum_ProjectID s = projectID) (db_Projects db) of
        None \<Rightarrow> Inl (New CategoryNotFound)
      | Some s \<Rightarrow> require (verify_summary c s) (Inr s))"

definition ProjectSummaries :: "('a codec_scheme) \<Rightarrow> database \<Rightarrow> ProjectSummary list result" where
  "ProjectSummaries c db =
     scan_all (\<lambda>s. require (verify_summary c s) (Inr s)) (sort_key sum_ProjectID (db_Projects db))"

definition MaterialisedProjectState ::
  "('a store_codec_scheme) \<Rightarrow> string \<Rightarrow> database \<Rightarrow> ProjectState result" where
  "MaterialisedProjectState c projectID db =
     bind_result (ProjectSummary_of c projectID db) (\<lambda>summary.
       case Unmarshal (dec_ProjectState c) st_SchemaVersion ProjectState_Validate
              (sum_ProjectStateJSON summary) of
         Inl e \<Rightarrow> Inl (Err CategoryIntegrity (Some e))
       | Inr state \<Rightarrow> Inr state)"

definition scanTask :: "Task \<Rightarrow> Task result" where
  "scanTask t = require (Task_Validate t) (Inr t)"

definition stored_tasks :: "string \<Rightarrow> State list \<Rightarrow> database \<Rightarrow> Task list result" where
  "stored_tasks projectID states db =
     scan_all scanTask (sort_key t_CreatedSeq
       (filter (\<lambda>t. t_ProjectID t = projectID \<and> (states \<noteq> [] \<longrightarrow> t_State t \<in> set states))
         (db_Tasks db)))"

definition stored_task_by_alias :: "string \<Rightarrow> string \<Rightarrow> database \<Rightarrow> Task result" where
  "stored_task_by_alias projectID handle db =
     (case find (\<lambda>t. t_ProjectID t = projectID \<and> t_Alias t = handle) (db_Tasks db) of
        None \<Rightarrow> Inl (New CategoryNotFound)
      | Some t \<Rightarrow> scanTask t)"

definition stored_attempts :: "string \<Rightarrow> database \<Rightarrow> Attempt list result" where
  "stored_attempts taskID db =
     scan_all (\<lambda>a. require (Attempt_Validate a) (Inr a))
       (sort_key a_Ordinal (filter (\<lambda>a. a_TaskID a = taskID) (db_Attempts db)))"

end
