(* ===== verification/Service.thy ===== *)
theory Service
  imports Store
begin

text \<open>
  The application service of internal/controlplane: Apply and its transactional body applyMember
  (service.go), the checks of references between records (references.go, records.go), batches
  (batch.go) and the operations built on them (operations.go).

  What the clock and the identifier source return for one command is its \<open>occasion\<close>. A batch guard
  is a function of the read view it is given. Contexts and logging are not modelled.
\<close>

section \<open>Commands\<close>

record RecordToStore =
  rts_Version :: int
  rts_Record :: "Record option"

record Command =
  cmd_ProjectID :: string
  cmd_Actor :: Actor
  cmd_Correlation :: Correlation
  cmd_Payload :: "Payload option"
  cmd_Records :: "RecordToStore list"

record Result =
  res_Event :: Event
  res_ProjectState :: ProjectState
  res_RecordDigests :: "string \<rightharpoonup> string"

record occasion =
  oc_Now :: Timestamp
  oc_EventID :: string
  oc_StoredAt :: Timestamp

text \<open>The codec extended with json.Marshal of a payload, which only the size of a batch depends on.\<close>

record service_codec = store_codec +
  raw_Payload :: "Payload \<Rightarrow> string option"

section \<open>References between records\<close>

definition checkProductAuthorityRefs ::
  "('a codec_scheme) \<Rightarrow> string \<Rightarrow> Record \<Rightarrow> database \<Rightarrow> go_error option" where
  "checkProductAuthorityRefs c projectID r db =
     (case r of
        RRequirement requirement \<Rightarrow>
          if req_Status requirement \<noteq> RequirementConfirmed then None
          else if rsrc_Type (req_Source requirement) \<noteq> SourceProductDecision then None
          else
            (case rsrc_Ref (req_Source requirement) of
               None \<Rightarrow> Some (New CategoryInvalidArgument)
             | Some ref \<Rightarrow>
                 if ref = [] then Some (New CategoryInvalidArgument)
                 else
                   (case LatestRecord c projectID ''ProductDecision'' ref db of
                      Inl e \<Rightarrow> Some e
                    | Inr None \<Rightarrow> Some (New CategoryIntegrity)
                    | Inr (Some stored) \<Rightarrow>
                        (case load_ProductDecision c (rcd_Document stored) of
                           Inl e \<Rightarrow> Some (Err CategoryIntegrity (Some e))
                         | Inr decision \<Rightarrow>
                             check (pdec_Status decision = ProductDecisionWithdrawn)
                               CategoryIntegrity)))
      | _ \<Rightarrow> None)"

definition resolveRecord ::
  "('a codec_scheme) \<Rightarrow> string \<Rightarrow> RecordRef \<Rightarrow> database \<Rightarrow> StoredRecord option result" where
  "resolveRecord c projectID ref db =
     (if ref_Version ref \<le> 0 then LatestRecord c projectID (ref_Kind ref) (ref_ID ref) db
      else
        (case read_record c projectID (ref_Kind ref) (ref_ID ref) (ref_Version ref) db of
           Inl e \<Rightarrow> (if CategoryOf (Some e) = Some CategoryNotFound then Inr None else Inl e)
         | Inr stored \<Rightarrow> Inr (Some stored)))"

definition check_reference ::
  "('a codec_scheme) \<Rightarrow> string \<Rightarrow> Payload \<Rightarrow> database \<Rightarrow> go_error option" where
  "check_reference c projectID payload db =
     (case ReferencedRecord payload of
        None \<Rightarrow> None
      | Some ref \<Rightarrow>
          if \<not> Claimed ref then None
          else if ref_ID ref = [] then Some (New CategoryInvalidArgument)
          else
            (case resolveRecord c projectID ref db of
               Inl e \<Rightarrow> Some e
             | Inr None \<Rightarrow> Some (New CategoryIntegrity)
             | Inr (Some stored) \<Rightarrow>
                 if rcd_Digest stored \<noteq> ref_Digest ref then Some (New CategoryIntegrity)
                 else CheckReferencedRecord c payload (rcd_Document stored)))"

section \<open>One command\<close>

text \<open>A nil record makes PutRecord panic; the transaction is rolled back all the same.\<close>

fun put_records ::
  "('a codec_scheme) \<Rightarrow> Timestamp \<Rightarrow> string \<Rightarrow> RecordToStore list \<Rightarrow> (string \<rightharpoonup> string) \<Rightarrow> database
     \<Rightarrow> ((string \<rightharpoonup> string) \<times> database) result" where
  "put_records c now projectID [] digests db = Inr (digests, db)"
| "put_records c now projectID (x # xs) digests db =
     (case rts_Record x of
        None \<Rightarrow> Inl (New CategoryInternal)
      | Some r \<Rightarrow>
          require (checkProductAuthorityRefs c projectID r db)
          (bind_result (PutRecord c now projectID (rts_Version x) r db) (\<lambda>(digest, db').
             put_records c now projectID xs (digests(RecordID r \<mapsto> digest)) db')))"

definition applyMember ::
  "('a store_codec_scheme) \<Rightarrow> occasion \<Rightarrow> Command \<Rightarrow> bool \<Rightarrow> Projection \<Rightarrow> database
     \<Rightarrow> (Result \<times> Projection \<times> database) result" where
  "applyMember c oc cmd savePerEvent projection db =
     (case cmd_Payload cmd of
        None \<Rightarrow> Inl (New CategoryInternal)
      | Some payload \<Rightarrow>
     require (check (\<not> p_initialised projection \<and> Payload_Type payload \<noteq> ''ProjectInitialized'')
                CategoryNotFound)
     (bind_result (put_records c (oc_StoredAt oc) (cmd_ProjectID cmd) (cmd_Records cmd)
                     Map.empty db) (\<lambda>(digests, db1).
      require (check_reference c (cmd_ProjectID cmd) payload db1)
      (bind_result (canonicalCorrelation payload (cmd_Correlation cmd)) (\<lambda>correlation.
       let e = \<lparr>ev_Seq = 0, ev_SchemaVersion = SchemaVersion1, ev_EventID = oc_EventID oc,
                ev_ProjectID = cmd_ProjectID cmd, ev_EventType = Payload_Type payload,
                ev_OccurredAt = oc_Now oc, ev_Actor = cmd_Actor cmd, ev_Correlation = correlation,
                ev_Payload = Some payload, ev_PayloadDigest = []\<rparr>
       in bind_result (AppendEvent c e db1) (\<lambda>(appended, db2).
          case Apply appended projection of
            (Some err, _) \<Rightarrow> Inl err
          | (None, projection') \<Rightarrow>
              bind_result (if savePerEvent then SaveProjection c projection' db2 else Inr db2) (\<lambda>db3.
              bind_result (render_state projection') (\<lambda>projectState.
                Inr (\<lparr>res_Event = appended, res_ProjectState = projectState,
                      res_RecordDigests = digests\<rparr>, projection', db3)))))))))"

definition loadProjection :: "('a codec_scheme) \<Rightarrow> string \<Rightarrow> database \<Rightarrow> Projection result" where
  "loadProjection c projectID db =
     bind_result (ReadEvents c (whole_journal projectID) db) Reduce"

text \<open>Store.Write: commit the database the function leaves, or roll back.\<close>

definition Write :: "(database \<Rightarrow> ('b \<times> database) result) \<Rightarrow> database \<Rightarrow> 'b result \<times> database" where
  "Write f db = (case f db of Inl e \<Rightarrow> (Inl e, db) | Inr (x, db') \<Rightarrow> (Inr x, db'))"

definition apply_transaction ::
  "('a store_codec_scheme) \<Rightarrow> occasion \<Rightarrow> Command \<Rightarrow> database \<Rightarrow> (Result \<times> database) result" where
  "apply_transaction c oc cmd db =
     bind_result (loadProjection c (cmd_ProjectID cmd) db) (\<lambda>projection.
     bind_result (applyMember c oc cmd True projection db) (\<lambda>(applied, _, db').
       Inr (applied, db')))"

definition Service_Apply ::
  "('a store_codec_scheme) \<Rightarrow> occasion \<Rightarrow> Command \<Rightarrow> database \<Rightarrow> Result result \<times> database" where
  "Service_Apply c oc cmd db =
     (if cmd_ProjectID cmd = [] then (Inl (New CategoryInvalidArgument), db)
      else if cmd_Payload cmd = None then (Inl (New CategoryInvalidArgument), db)
      else
        (case Actor_Validate (cmd_Actor cmd) of
           Some err \<Rightarrow> (Inl err, db)
         | None \<Rightarrow> Write (apply_transaction c oc cmd) db))"

section \<open>Contention\<close>

text \<open>
  WriteSerialized of internal/storage/serialized.go retries a whole transaction while SQLite reports
  contention. One attempt is described by what the world does to it: the error met before the body
  runs (no connection, no write lock), the fate of the commit, the state of the caller's context and
  of the contention budget afterwards and after the wait. A failed commit may have become durable.
\<close>

datatype commit_fate = Committed | CommitFailed (durable: bool)

record attempt_env =
  at_Start :: "go_error option"
  at_Commit :: commit_fate
  at_Cancelled :: "go_error option"
  at_BudgetSpent :: bool
  at_BudgetSpentAfterWait :: bool
  at_CancelledAtEnd :: "go_error option"

definition sqlite_busy :: string where
  "sqlite_busy = ''sqlite BUSY or LOCKED''"

definition commit_error :: string where
  "commit_error = ''storage.commitError''"

definition deadline_exceeded :: string where
  "deadline_exceeded = ''context.DeadlineExceeded''"

definition ErrBusy :: go_error where
  "ErrBusy = Foreign ''storage.ErrBusy'' (Some (New CategoryConflict))"

definition isBusy :: "go_error \<Rightarrow> bool" where
  "isBusy err \<longleftrightarrow> \<not> Is_Sentinel err commit_error \<and> Is_Sentinel err sqlite_busy"

definition MaxContentionAttempts :: nat where
  "MaxContentionAttempts = 5"

definition serializedAttempt ::
  "attempt_env \<Rightarrow> (database \<Rightarrow> ('b \<times> database) result) \<Rightarrow> database \<Rightarrow> 'b result \<times> database" where
  "serializedAttempt env f db =
     (case at_Start env of
        Some err \<Rightarrow> (Inl err, db)
      | None \<Rightarrow>
          (case f db of
             Inl err \<Rightarrow> (Inl err, db)
           | Inr (x, db') \<Rightarrow>
               (case at_Commit env of
                  Committed \<Rightarrow> (Inr x, db')
                | CommitFailed d \<Rightarrow>
                    (Inl (Foreign commit_error (Some (Err CategoryInternal (Some (Foreign ''commit'' None))))),
                     if d then db' else db))))"

definition give_up :: "go_error option \<Rightarrow> go_error \<Rightarrow> go_error" where
  "give_up cancelled last_error =
     (case cancelled of
        Some e \<Rightarrow> e
      | None \<Rightarrow>
          if \<not> isBusy last_error \<and> \<not> Is_Sentinel last_error deadline_exceeded then last_error
          else Foreign ''gave up'' (Some ErrBusy))"

text \<open>The loop over the attempts; the argument counts the attempts that are left.\<close>

fun serialized_loop ::
  "nat \<Rightarrow> (nat \<Rightarrow> attempt_env) \<Rightarrow> (database \<Rightarrow> ('b \<times> database) result) \<Rightarrow> database
     \<Rightarrow> 'b result \<times> database" where
  "serialized_loop 0 env f db = (Inl (Foreign ''gave up'' (Some ErrBusy)), db)"
| "serialized_loop (Suc left) env f db =
     (let now = env (MaxContentionAttempts - Suc left)
      in case serializedAttempt now f db of
           (Inr x, db') \<Rightarrow> (Inr x, db')
         | (Inl err, db') \<Rightarrow>
             (case at_Cancelled now of
                Some cancelled \<Rightarrow> (Inl cancelled, db')
              | None \<Rightarrow>
                  if \<not> at_BudgetSpent now \<and> \<not> isBusy err then (Inl err, db')
                  else if at_BudgetSpent now \<or> left = 0 \<or> at_BudgetSpentAfterWait now
                  then (Inl (give_up (at_CancelledAtEnd now) err), db')
                  else serialized_loop left env f db'))"

definition WriteSerialized ::
  "go_error option \<Rightarrow> (nat \<Rightarrow> attempt_env) \<Rightarrow> (database \<Rightarrow> ('b \<times> database) result) \<Rightarrow> database
     \<Rightarrow> 'b result \<times> database" where
  "WriteSerialized cancelled env f db =
     (case cancelled of
        Some err \<Rightarrow> (Inl err, db)
      | None \<Rightarrow> serialized_loop MaxContentionAttempts env f db)"

section \<open>Batches\<close>

definition MaxBatchCommands :: nat where "MaxBatchCommands = 256"
definition MaxBatchGuards :: nat where "MaxBatchGuards = 8"
definition MaxBatchBytes :: int where "MaxBatchBytes = 1048576"

definition ErrStaleProjectState :: go_error where
  "ErrStaleProjectState = Foreign ''ErrStaleProjectState'' (Some (New CategoryConflict))"

definition ErrStaleWorkPackage :: go_error where
  "ErrStaleWorkPackage = Foreign ''ErrStaleWorkPackage'' (Some (New CategoryConflict))"

text \<open>fmt.Errorf with one \<open>%w\<close>.\<close>

definition wrapping :: "go_error \<Rightarrow> go_error" where
  "wrapping err = Foreign ''fmt.wrapError'' (Some err)"

record WorkPackageGuard =
  wpg_TaskID :: string
  wpg_WorkPackageID :: string
  wpg_Version :: int
  wpg_Digest :: string
  wpg_BaseCommit :: string

record BatchReadView =
  view_ProjectState :: "ProjectState option"
  view_Record :: "string \<Rightarrow> string \<Rightarrow> int \<Rightarrow> StoredRecord result"

datatype guard_verdict = GuardReturns "go_error option" | GuardPanics

type_synonym BatchGuard = "BatchReadView \<Rightarrow> guard_verdict"

record BatchCommand =
  bat_ProjectID :: string
  bat_Actor :: Actor
  bat_Correlation :: Correlation
  bat_ExpectedStateRevision :: string
  bat_WorkPackage :: "WorkPackageGuard option"
  bat_Preconditions :: "BatchGuard option list"
  bat_Postconditions :: "BatchGuard option list"
  bat_Commands :: "Command list"

record BatchResult =
  bres_Results :: "Result list"
  bres_ProjectState :: ProjectState

text \<open>The checks of one member, with the identities and the bytes seen so far.\<close>

type_synonym identity = "string \<times> string \<times> int"

fun validate_records ::
  "('a service_codec_scheme) \<Rightarrow> RecordToStore list \<Rightarrow> identity list \<Rightarrow> nat \<Rightarrow> (identity list \<times> nat) result" where
  "validate_records c [] seen bytes = Inr (seen, bytes)"
| "validate_records c (x # xs) seen bytes =
     (case rts_Record x of
        None \<Rightarrow> Inl (New CategoryInvalidArgument)
      | Some r \<Rightarrow>
          if rts_Version x < 1 then Inl (New CategoryInvalidArgument)
          else
            (let i = (RecordKind r, RecordID r, rts_Version x)
             in if i \<in> set seen then Inl (New CategoryInvalidArgument)
                else
                  (case enc_Record c r of
                     None \<Rightarrow> Inl (Err CategoryInvalidArgument (Some (json_error CategoryInternal)))
                   | Some canonical \<Rightarrow>
                       validate_records c xs (i # seen) (bytes + length canonical))))"

fun validate_members ::
  "('a service_codec_scheme) \<Rightarrow> BatchCommand \<Rightarrow> Command list \<Rightarrow> identity list \<Rightarrow> nat \<Rightarrow> nat result" where
  "validate_members c b [] seen bytes = Inr bytes"
| "validate_members c b (m # ms) seen bytes =
     (case cmd_Payload m of
        None \<Rightarrow> Inl (New CategoryInvalidArgument)
      | Some payload \<Rightarrow>
          require (first_err
            [check (cmd_ProjectID m \<noteq> bat_ProjectID b) CategoryInvalidArgument,
             check (cmd_Actor m \<noteq> bat_Actor b) CategoryInvalidArgument,
             check (cmd_Correlation m \<noteq> bat_Correlation b) CategoryInvalidArgument])
          (case raw_Payload c payload of
             None \<Rightarrow> Inl (json_error CategoryInvalidArgument)
           | Some raw \<Rightarrow>
               bind_result (validate_records c (cmd_Records m) seen (bytes + length raw))
                 (\<lambda>(seen', bytes'). validate_members c b ms seen' bytes')))"

definition validateBatch :: "('a service_codec_scheme) \<Rightarrow> BatchCommand \<Rightarrow> go_error option" where
  "validateBatch c b = first_err
     [check (bat_ProjectID b = []) CategoryInvalidArgument,
      Actor_Validate (bat_Actor b),
      check (bat_ExpectedStateRevision b = []) CategoryInvalidArgument,
      (case ParseStateRevision (bat_ExpectedStateRevision b) of Inl e \<Rightarrow> Some e | Inr _ \<Rightarrow> None),
      check (length (bat_Commands b) < 1 \<or> MaxBatchCommands < length (bat_Commands b))
        CategoryInvalidArgument,
      check (MaxBatchGuards < length (bat_Preconditions b) \<or>
             MaxBatchGuards < length (bat_Postconditions b)) CategoryInvalidArgument,
      check (list_ex Option.is_none (bat_Preconditions b)) CategoryInvalidArgument,
      check (list_ex Option.is_none (bat_Postconditions b)) CategoryInvalidArgument,
      (case bat_WorkPackage b of
         None \<Rightarrow> None
       | Some g \<Rightarrow> check (wpg_TaskID g = [] \<or> wpg_WorkPackageID g = [] \<or> wpg_Version g < 1 \<or>
                          wpg_Digest g = [] \<or> wpg_BaseCommit g = []) CategoryInvalidArgument),
      (case validate_members c b (bat_Commands b) [] 0 of
         Inl e \<Rightarrow> Some e
       | Inr bytes \<Rightarrow> check (MaxBatchBytes < int bytes) CategoryInvalidArgument)]"

definition stale_unless :: "bool \<Rightarrow> go_error option" where
  "stale_unless ok = (if ok then None else Some (wrapping ErrStaleWorkPackage))"

definition checkWorkPackageGuard ::
  "('a codec_scheme) \<Rightarrow> string \<Rightarrow> Projection \<Rightarrow> WorkPackageGuard \<Rightarrow> database \<Rightarrow> go_error option" where
  "checkWorkPackageGuard c projectID projection g db =
     (case Task_of projection (wpg_TaskID g) of
        Inl e \<Rightarrow> Some e
      | Inr task \<Rightarrow> first_err
          [stale_unless (t_State task = StateReady),
           stale_unless (t_WorkPackageID task = wpg_WorkPackageID g \<and>
                         t_WorkPackageVersion task = wpg_Version g),
           (case ReadEvents c ((whole_journal projectID)\<lparr>eq_TaskID := wpg_TaskID g,
                    eq_Types := [''WorkPackageApproved''], eq_Newest := True, eq_Limit := 1\<rparr>) db of
              Inl e \<Rightarrow> Some e
            | Inr [] \<Rightarrow> stale_unless False
            | Inr (approval # _) \<Rightarrow>
                (case ev_Payload approval of
                   Some (PWorkPackageApproved approved) \<Rightarrow> first_err
                     [stale_unless (wa_WorkPackageID approved = wpg_WorkPackageID g \<and>
                        wa_WorkPackageVersion approved = wpg_Version g \<and>
                        wa_RecordDigest approved = wpg_Digest g \<and>
                        wa_BaseCommit approved = wpg_BaseCommit g),
                      (case ReadEvents c ((whole_journal projectID)\<lparr>eq_TaskID := wpg_TaskID g,
                               eq_AfterSeq := ev_Seq approval, eq_Limit := 1\<rparr>) db of
                         Inl e \<Rightarrow> Some e
                       | Inr later \<Rightarrow> stale_unless (later = []))]
                 | _ \<Rightarrow> Some (New CategoryIntegrity))),
           (case read_record c projectID ''EngineeringWorkPackage'' (wpg_WorkPackageID g)
                   (wpg_Version g) db of
              Inl e \<Rightarrow> Some e
            | Inr stored \<Rightarrow> first_err
                [stale_unless (rcd_Digest stored = wpg_Digest g),
                 (case load_WorkPackage c (rcd_Document stored) of
                    Inl e \<Rightarrow> Some (Err CategoryIntegrity (Some e))
                  | Inr w \<Rightarrow>
                      check (ewp_WorkPackageID w \<noteq> wpg_WorkPackageID g \<or>
                             ewp_Version w \<noteq> wpg_Version g \<or> ewp_TaskID w \<noteq> wpg_TaskID g \<or>
                             ewp_BaseCommit w \<noteq> wpg_BaseCommit g) CategoryIntegrity)]),
           (if p_RepositoryPath projection \<noteq> [] then first_err
              [stale_unless (p_AcceptedCommit projection \<noteq> []),
               stale_unless (p_AcceptedCommit projection = wpg_BaseCommit g)]
            else None)])"

definition batch_view ::
  "('a codec_scheme) \<Rightarrow> string \<Rightarrow> Projection \<Rightarrow> database \<Rightarrow> BatchReadView" where
  "batch_view c projectID projection db =
     \<lparr>view_ProjectState =
        (case render_state projection of Inl _ \<Rightarrow> None | Inr state \<Rightarrow> Some state),
      view_Record = (\<lambda>kind i version.
        require (check (kind = [] \<or> i = [] \<or> version < 1) CategoryInvalidArgument)
          (read_record c projectID kind i version db))\<rparr>"

definition invokeGuard :: "BatchGuard option \<Rightarrow> BatchReadView \<Rightarrow> go_error option" where
  "invokeGuard g view =
     (case g of
        None \<Rightarrow> Some (New CategoryInternal)
      | Some f \<Rightarrow> (case f view of GuardReturns err \<Rightarrow> err | GuardPanics \<Rightarrow> Some (New CategoryInternal)))"

fun runGuards :: "BatchGuard option list \<Rightarrow> BatchReadView \<Rightarrow> go_error option" where
  "runGuards [] view = None"
| "runGuards (g # gs) view =
     (case invokeGuard g view of Some err \<Rightarrow> Some (wrapping err) | None \<Rightarrow> runGuards gs view)"

fun apply_members ::
  "('a store_codec_scheme) \<Rightarrow> (nat \<Rightarrow> occasion) \<Rightarrow> nat \<Rightarrow> Command list \<Rightarrow> Projection \<Rightarrow> database
     \<Rightarrow> (Result list \<times> Projection \<times> database) result" where
  "apply_members c oc n [] projection db = Inr ([], projection, db)"
| "apply_members c oc n (m # ms) projection db =
     bind_result (applyMember c (oc n) m False projection db) (\<lambda>(applied, projection', db').
     bind_result (apply_members c oc (Suc n) ms projection' db') (\<lambda>(results, projection'', db'').
       Inr (applied # results, projection'', db'')))"

definition batch_transaction ::
  "('a store_codec_scheme) \<Rightarrow> (nat \<Rightarrow> occasion) \<Rightarrow> BatchCommand \<Rightarrow> database
     \<Rightarrow> (BatchResult \<times> database) result" where
  "batch_transaction c oc b db =
     bind_result (loadProjection c (bat_ProjectID b) db) (\<lambda>projection.
     if StateRevision (p_HighWatermark projection) \<noteq> bat_ExpectedStateRevision b
     then Inl (wrapping ErrStaleProjectState)
     else
       require (case bat_WorkPackage b of None \<Rightarrow> None
                | Some g \<Rightarrow> checkWorkPackageGuard c (bat_ProjectID b) projection g db)
       (require (runGuards (bat_Preconditions b) (batch_view c (bat_ProjectID b) projection db))
       (bind_result (apply_members c oc 0 (bat_Commands b) projection db) (\<lambda>(results, projection', db1).
        require (runGuards (bat_Postconditions b) (batch_view c (bat_ProjectID b) projection' db1))
        (bind_result (SaveProjection c projection' db1) (\<lambda>db2.
         bind_result (render_state projection') (\<lambda>finalState.
           Inr (\<lparr>bres_Results = results, bres_ProjectState = finalState\<rparr>, db2))))))))"

definition ApplyBatch ::
  "('a service_codec_scheme) \<Rightarrow> go_error option \<Rightarrow> (nat \<Rightarrow> attempt_env) \<Rightarrow> (nat \<Rightarrow> occasion)
     \<Rightarrow> BatchCommand \<Rightarrow> database \<Rightarrow> BatchResult result \<times> database" where
  "ApplyBatch c cancelled env oc b db =
     (case validateBatch c b of
        Some err \<Rightarrow> (Inl err, db)
      | None \<Rightarrow>
          (case WriteSerialized cancelled env (batch_transaction c oc b) db of
             (Inr out, db') \<Rightarrow> (Inr out, db')
           | (Inl err, db') \<Rightarrow>
               if Is_Sentinel err ''storage.ErrBusy''
               then (Inl (Foreign ''fmt.wrapErrors'' (Some (Foreign ''ErrStorageBusy'' (Some err)))), db')
               else (Inl err, db')))"

end
