(* ===== verification/Ownership.thy ===== *)
theory Ownership
  imports Render
begin

text \<open>
  Two facts about reduced projections that the projection tables rest on: every attempt carries the
  project of its projection, and the tasks are listed in the order in which the journal created
  them.
\<close>

section \<open>Attempts belong to the project\<close>

definition owned :: "Projection \<Rightarrow> bool" where
  "owned p \<longleftrightarrow> (\<forall>aid a. p_attempts p aid = Some a \<longrightarrow> a_ProjectID a = p_ProjectID p)"

definition same_attempts :: "Projection \<Rightarrow> Projection \<Rightarrow> bool" where
  "same_attempts p q \<longleftrightarrow> (\<forall>k. p_attempts q k = None \<longleftrightarrow> p_attempts p k = None)"

lemma same_attempts_ops:
  "finishAttempt e tid aid s f p = (None, p') \<Longrightarrow> same_attempts p p'"
  "recordValidation v r p = (None, p') \<Longrightarrow> same_attempts p p'"
  "recordReview v r p = (None, p') \<Longrightarrow> same_attempts p p'"
  "transitionTask e tid st g p = (None, p') \<Longrightarrow> same_attempts p p'"
  "same_evidence p p' \<Longrightarrow> same_attempts p p'"
  by (auto simp: same_attempts_def same_evidence_def finishAttempt_ok recordValidation_ok
      recordReview_ok transitionTask_ok put_task_def split: if_splits)

lemma same_attemptsD: "same_attempts p q \<Longrightarrow> p_attempts q k = Some a \<Longrightarrow> p_attempts p k \<noteq> None"
  unfolding same_attempts_def by (metis option.distinct(1))

lemma same_attempts_trans: "same_attempts p q \<Longrightarrow> same_attempts q r \<Longrightarrow> same_attempts p r"
  by (simp add: same_attempts_def)

lemma same_attempts_updates [simp]:
  "same_attempts p p" "same_attempts p (p\<lparr>p_AcceptedCommit := c\<rparr>)"
  "same_attempts p (q\<lparr>p_AcceptedCommit := c\<rparr>) = same_attempts p q"
  by (simp_all add: same_attempts_def)

lemma attempt_ops_same:
  "applyCandidateProduced e cp p = (None, p') \<Longrightarrow> same_attempts p p'"
  "applyAttemptBlocked e ab p = (None, p') \<Longrightarrow> same_attempts p p'"
  "applyAttemptFailed e af p = (None, p') \<Longrightarrow> same_attempts p p'"
  "applyReviewCompleted rc p = (None, p') \<Longrightarrow> same_attempts p p'"
  unfolding applyCandidateProduced_def applyAttemptBlocked_def applyAttemptFailed_def
    applyReviewCompleted_def Let_def
  by (auto simp: outcome_ok dest: same_attempts_ops intro: same_attempts_trans same_attempts_ops)

lemma attempt_validation_same:
  assumes "applyAttemptValidation e vc p = (None, p')"
  shows "same_attempts p p'"
proof -
  from assms obtain r st p1 where "recordValidation (vc_ValidationID vc) r p = (None, p1)"
    "transitionTask e (vc_TaskID vc) st Inr p1 = (None, p')"
    unfolding applyAttemptValidation_def outcome_ok by blast
  then show ?thesis by (blast intro: same_attempts_trans same_attempts_ops)
qed

lemma integration_validation_same:
  assumes "applyIntegrationValidation e vc p = (None, p')"
  shows "same_attempts p p'"
  using assms
proof (cases rule: IntegrationValidation_cases)
  case (fails t p1)
  then show ?thesis using same_attempts_ops(2) by blast
next
  case (passes t p1 p2 c)
  then show ?thesis
    by (simp only: same_attempts_updates) (blast intro: same_attempts_trans same_attempts_ops)
qed

lemma validation_attempts:
  "applyValidationCompleted e vc p = (None, p') \<Longrightarrow> same_attempts p p'"
  unfolding applyValidationCompleted_def
  by (cases "vc_Scope vc")
    (auto simp: applyBaselineValidation_def same_attempts_def [of p "p_Validation_update f p" for f]
      intro: attempt_validation_same integration_validation_same)

lemma new_attempts:
  assumes ok: "applyPayload e pl p = (None, p')"
    and a: "p_attempts p' aid = Some a" "p_attempts p aid = None"
  shows "a_ProjectID a = ev_ProjectID e"
proof (cases pl)
  case (PAttemptStarted x)
  then show ?thesis using assms
    by (auto simp: applyAttemptStarted_def outcome_ok Let_def new_attempt_def put_task_def add_attempt_def
        split: if_splits)
next
  case (PCandidateProduced x)
  then show ?thesis using same_attemptsD [OF attempt_ops_same(1) [of e x p p'] a(1)] ok a(2) by simp
next
  case (PAttemptBlocked x)
  then show ?thesis using same_attemptsD [OF attempt_ops_same(2) [of e x p p'] a(1)] ok a(2) by simp
next
  case (PAttemptFailed x)
  then show ?thesis using same_attemptsD [OF attempt_ops_same(3) [of e x p p'] a(1)] ok a(2) by simp
next
  case (PReviewCompleted x)
  then show ?thesis using same_attemptsD [OF attempt_ops_same(4) [of x p p'] a(1)] ok a(2) by simp
next
  case (PValidationCompleted x)
  then show ?thesis using same_attemptsD [OF validation_attempts [of e x p p'] a(1)] ok a(2) by simp
qed (use applyPayload_same_evidence [OF ok] a in \<open>simp_all add: same_evidence_def\<close>)

lemma Apply_project:
  assumes i: "inv p" and ok: "Apply e p = (None, p')"
  shows "p_ProjectID p' = ev_ProjectID e"
proof (cases "p_initialised p")
  case True
  then show ?thesis using evolvesD(9) [OF evolves_Apply [OF ok]] ok by (auto simp: Apply_ok)
next
  case False
  from ok False obtain pl p1 where "Event_Validate e = None"
    "ev_EventType e = ''ProjectInitialized''" "ev_Payload e = Some pl"
    "applyPayload e pl p = (None, p1)" "p_ProjectID p' = p_ProjectID p1"
    by (auto simp: Apply_ok)
  moreover from this have "Payload_Type pl = ''ProjectInitialized''"
    by (auto simp: Event_Validate_None)
  ultimately show ?thesis by (cases pl) (auto simp: op_defs)
qed

lemma owned_step:
  assumes i: "inv p" and o: "owned p" and ok: "Apply e p = (None, p')"
  shows "owned p'"
  unfolding owned_def
proof (intro allI impI)
  fix aid a
  assume a: "p_attempts p' aid = Some a"
  from ok obtain pl p1 where pl: "applyPayload e pl p = (None, p1)"
    and p': "p' = p1\<lparr>p_HighWatermark := ev_Seq e, p_LastOccurredAt := ev_OccurredAt e\<rparr>"
    by (auto simp: Apply_ok)
  have pid: "p_ProjectID p' = ev_ProjectID e"
    using Apply_project [OF i ok] by simp
  show "a_ProjectID a = p_ProjectID p'"
  proof (cases "p_attempts p aid")
    case None
    then show ?thesis using new_attempts [OF pl, of aid a] a pid by (simp add: p')
  next
    case (Some b)
    have "p_initialised p"
      using Some i by (cases "p_initialised p") (auto simp: inv_def inv_project_def New_Projection_def)
    then have "ev_ProjectID e = p_ProjectID p" using ok by (auto simp: Apply_ok)
    moreover have "keeps_attempt b a"
      using evolvesD(2) [OF evolves_Apply [OF ok]] Some a unfolding kept_def by fastforce
    ultimately show ?thesis using o Some pid by (auto simp: owned_def keeps_attempt_def)
  qed
qed

lemma Reduce_owned: "Reduce es = Inr p \<Longrightarrow> owned p"
  unfolding Reduce_run
proof (induction rule: run_induct)
  case empty
  then show ?case by (simp add: owned_def New_Projection_def)
next
  case (snoc es p e p')
  then show ?case by (blast intro: owned_step state_reducer.reduction_invar)
qed

section \<open>Tasks are listed in the order of creation\<close>

definition created :: "Projection \<Rightarrow> int list" where
  "created p = map (\<lambda>tid. case p_tasks p tid of None \<Rightarrow> 0 | Some t \<Rightarrow> t_CreatedSeq t) (p_taskIDs p)"

definition in_order :: "Projection \<Rightarrow> bool" where
  "in_order p \<longleftrightarrow> sorted_wrt (<) (created p) \<and> (\<forall>s \<in> set (created p). s \<le> p_HighWatermark p)"

lemma tasks_kept:
  assumes "inv p" "Apply e p = (None, p')"
  shows "map (\<lambda>tid. case p_tasks p' tid of None \<Rightarrow> 0 | Some t \<Rightarrow> t_CreatedSeq t) (p_taskIDs p) = created p"
proof -
  have "(case p_tasks p' tid of None \<Rightarrow> 0 | Some t \<Rightarrow> t_CreatedSeq t) =
      (case p_tasks p tid of None \<Rightarrow> 0 | Some t \<Rightarrow> t_CreatedSeq t)" if m: "tid \<in> set (p_taskIDs p)" for tid
  proof -
    have "indexed (p_tasks p) (p_taskIDs p)" using assms(1) by (simp add: inv_def inv_tasks_def)
    then obtain t where t: "p_tasks p tid = Some t" using indexed_lookup [OF _ m] by auto
    then obtain u where "p_tasks p' tid = Some u" "keeps_task t u"
      using evolvesD(1) [OF evolves_Apply [OF assms(2)]] unfolding kept_def by blast
    then show ?thesis using t by (simp add: keeps_task_def)
  qed
  then show ?thesis by (simp add: created_def)
qed

lemma board_dom: "board_step pl b = Some c \<Longrightarrow> creates pl = None \<Longrightarrow> dom c = dom b"
  unfolding board_step_def
  by (auto simp: insert_absorb simp del: dom_def split: option.splits prod.splits if_splits dest!: sym [of _ c])

text \<open>Only the creation of a task lengthens the list.\<close>

lemma task_list_step:
  assumes i: "inv p" and ok: "Apply e p = (None, p')"
  shows "p_taskIDs p' = p_taskIDs p \<or>
    (\<exists>t. p_taskIDs p' = p_taskIDs p @ [t_ID t] \<and> p_tasks p' (t_ID t) = Some t \<and>
       t_CreatedSeq t = ev_Seq e)"
proof -
  from ok obtain pl p1 where pl: "ev_Payload e = Some pl" "applyPayload e pl p = (None, p1)"
    and p': "p' = p1\<lparr>p_HighWatermark := ev_Seq e, p_LastOccurredAt := ev_OccurredAt e\<rparr>"
    by (auto simp: Apply_ok)
  show ?thesis
  proof (cases "\<exists>x. pl = PTaskCreated x")
    case True
    then obtain x where "pl = PTaskCreated x" by blast
    then show ?thesis using pl(2) unfolding p'
      by (intro disjI2 exI [of _ "new_task e x p"])
        (auto simp: applyTaskCreated_def outcome_ok Let_def new_task_def)
  next
    case False
    then have "creates pl = None" by (cases pl) simp_all
    then have "dom (task_board p1) = dom (task_board p)"
      using board_dom board_applyPayload [OF pl(2)] by blast
    then have "dom (p_tasks p') = dom (p_tasks p)"
      unfolding p' by (simp add: task_board_def dom_def)
    moreover have "inv p'" using Apply_inv [OF i ok] by simp
    ultimately have "set (p_taskIDs p') = set (p_taskIDs p)" "distinct (p_taskIDs p')"
      using i by (simp_all add: inv_def inv_tasks_def indexed_def)
    moreover obtain zs where "p_taskIDs p' = p_taskIDs p @ zs"
      using evolvesD(6) [OF evolves_Apply [OF ok]] by (auto simp: prefix_def)
    ultimately show ?thesis by (cases zs) auto
  qed
qed

lemma in_order_step:
  assumes i: "inv p" and o: "in_order p" and ok: "Apply e p = (None, p')"
  shows "in_order p'"
proof -
  have w: "p_HighWatermark p < ev_Seq e" "p_HighWatermark p' = ev_Seq e" using ok by (auto simp: Apply_ok)
  have "created p' = created p \<or> created p' = created p @ [ev_Seq e]"
    using task_list_step [OF i ok] tasks_kept [OF i ok] by (auto simp: created_def)
  then show ?thesis using o w by (fastforce simp: in_order_def sorted_wrt_snoc)
qed

lemma Reduce_in_order: "Reduce es = Inr p \<Longrightarrow> in_order p"
  unfolding Reduce_run
proof (induction rule: run_induct)
  case empty
  then show ?case by (simp add: in_order_def created_def New_Projection_def)
next
  case (snoc es p e p')
  then show ?case by (blast intro: in_order_step state_reducer.reduction_invar)
qed

end
