(* ===== verification/Chronicle.thy ===== *)
theory Chronicle
  imports Ledger
begin

text \<open>
  The journal of the store: an appended event reads back as it was appended, the journal of every
  other project is untouched, and a command of the control plane extends the reduction of its
  project by exactly its event. The codec is a parameter: what is assumed of it is that the payload
  and the correlation at hand survive being written and read.
\<close>

section \<open>What survives the codec\<close>

definition survives :: "('a codec_scheme) \<Rightarrow> Payload \<Rightarrow> bool" where
  "survives c pl \<longleftrightarrow>
     (\<forall>s. enc_Payload c pl = Some s \<longrightarrow> s \<noteq> [] \<and> dec_Payload c (Payload_Type pl) s = Some pl)"

definition correlation_survives :: "('a codec_scheme) \<Rightarrow> Correlation \<Rightarrow> bool" where
  "correlation_survives c co \<longleftrightarrow>
     (\<forall>s. enc_Correlation c co = Some s \<longrightarrow> dec_Correlation c s = Some co)"

definition command_survives :: "('a codec_scheme) \<Rightarrow> Command \<Rightarrow> bool" where
  "command_survives c cmd \<longleftrightarrow>
     (\<forall>pl. cmd_Payload cmd = Some pl \<longrightarrow> survives c pl \<and>
        (\<forall>co. canonicalCorrelation pl (cmd_Correlation cmd) = Inr co \<longrightarrow> correlation_survives c co))"

section \<open>Appending\<close>

definition project_rows :: "string \<Rightarrow> database \<Rightarrow> EventRow list" where
  "project_rows p db = filter (\<lambda>row. row_ProjectID row = p) (db_Events db)"

lemma matches_whole_journal: "matches_query (whole_journal p) = (\<lambda>row. row_ProjectID row = p)"
  by (rule ext) (simp add: matches_query_def whole_journal_def)

lemma query_whole_journal: "query_rows (whole_journal p) db = project_rows p db"
  by (simp add: query_rows_def project_rows_def matches_whole_journal) (simp add: whole_journal_def)

lemma ReadEvents_whole:
  "ReadEvents c (whole_journal p) db =
     (if p = [] then Inl (New CategoryInvalidArgument) else scan_all (scanEvent c) (project_rows p db))"
  by (simp add: ReadEvents_def query_whole_journal require_def) (simp add: whole_journal_def)

lemma AppendEvent_ok:
  "AppendEvent c e db = Inr (e', db') \<longleftrightarrow>
     (\<exists>pl payload correlation. ev_Payload e = Some pl \<and> Event_Validate e = None \<and>
        enc_Payload c pl = Some payload \<and> enc_Correlation c (ev_Correlation e) = Some correlation \<and>
        ev_EventID e \<notin> set (map row_EventID (db_Events db)) \<and>
        e' = e\<lparr>ev_Seq := db_NextSeq db, ev_PayloadDigest := DigestBytes c payload\<rparr> \<and>
        db' = db\<lparr>db_Events := db_Events db @
            [event_row e (db_NextSeq db) correlation payload (DigestBytes c payload)],
          db_NextSeq := db_NextSeq db + 1\<rparr>)"
  unfolding AppendEvent_def Let_def by (cases "ev_Payload e") auto

lemma Event_Validate_stamp [simp]:
  "Event_Validate (e\<lparr>ev_Seq := n, ev_PayloadDigest := d\<rparr>) = Event_Validate e"
  by (cases "ev_Payload e") (simp_all add: Event_Validate_def)

lemma DecodePayload_survives:
  assumes "survives c pl" "enc_Payload c pl = Some s"
  shows "DecodePayload c (Payload_Type pl) s = Inr pl"
  using assms by (simp add: DecodePayload_def survives_def)

text \<open>An appended event is read back as it was appended.\<close>

lemma scanEvent_appended:
  assumes "Event_Validate e = None" "ev_Payload e = Some pl" "survives c pl"
    "correlation_survives c (ev_Correlation e)"
    "enc_Payload c pl = Some payload" "enc_Correlation c (ev_Correlation e) = Some correlation"
  shows "scanEvent c (event_row e n correlation payload (DigestBytes c payload)) =
    Inr (e\<lparr>ev_Seq := n, ev_PayloadDigest := DigestBytes c payload\<rparr>)"
proof -
  have ty: "Payload_Type pl = ev_EventType e" using assms(1,2) by (auto simp: Event_Validate_None)
  have d: "DecodePayload c (ev_EventType e) payload = Inr pl"
    using DecodePayload_survives [OF assms(3,5)] ty by simp
  have e: "\<lparr>ev_Seq = n, ev_SchemaVersion = ev_SchemaVersion e, ev_EventID = ev_EventID e,
      ev_ProjectID = ev_ProjectID e, ev_EventType = ev_EventType e, ev_OccurredAt = ev_OccurredAt e,
      ev_Actor = ev_Actor e, ev_Correlation = ev_Correlation e, ev_Payload = Some pl,
      ev_PayloadDigest = DigestBytes c payload\<rparr> =
    e\<lparr>ev_Seq := n, ev_PayloadDigest := DigestBytes c payload\<rparr>"
    using assms(2) by simp
  have v: "Event_Validate (e\<lparr>ev_Seq := n, ev_PayloadDigest := DigestBytes c payload\<rparr>) = None"
    using assms(1) by simp
  show ?thesis
    using assms(4,6) d
    by (simp add: scanEvent_def event_row_def correlation_survives_def Let_def e v del: Event_Validate_stamp)
qed

section \<open>The invariant of the journal\<close>

text \<open>Sequence numbers grow along the table, event identities are unique, and every project's
  journal is readable and reduces.\<close>

definition sound_journal :: "('a codec_scheme) \<Rightarrow> database \<Rightarrow> bool" where
  "sound_journal c db \<longleftrightarrow>
     sorted_wrt (<) (map row_Seq (db_Events db)) \<and>
     (\<forall>row \<in> set (db_Events db). 1 \<le> row_Seq row \<and> row_Seq row < db_NextSeq db \<and>
        row_ProjectID row \<noteq> []) \<and>
     1 \<le> db_NextSeq db \<and> distinct (map row_EventID (db_Events db)) \<and>
     (\<forall>p. p \<noteq> [] \<longrightarrow> (\<exists>es q. scan_all (scanEvent c) (project_rows p db) = Inr es \<and>
        Reduce es = Inr q \<and> (es \<noteq> [] \<longrightarrow> render_state q = Inr (rendered q))))"

lemma loadProjection_ok:
  "loadProjection c p db = Inr q \<longleftrightarrow>
     p \<noteq> [] \<and> (\<exists>es. scan_all (scanEvent c) (project_rows p db) = Inr es \<and> Reduce es = Inr q)"
  by (auto simp: loadProjection_def ReadEvents_whole)

lemma load_inv: "loadProjection c p db = Inr q \<Longrightarrow> inv q"
  by (auto simp: loadProjection_ok intro: Reduce_inv)

text \<open>The projection a command starts from has seen only sequence numbers below the next one.\<close>

lemma Reduce_mark:
  assumes "Reduce es = Inr q" "\<forall>e \<in> set es. ev_Seq e < n" "0 < n"
  shows "p_HighWatermark q < n"
proof -
  have "p_HighWatermark q = last (0 # map ev_Seq es)"
    using state_reducer.run_mark [of New_Projection es q] assms(1)
    by (simp add: Reduce_run New_Projection_def)
  moreover have "last (0 # map ev_Seq es) \<in> insert 0 (ev_Seq ` set es)"
    by (metis last_in_set list.distinct(1) list.set_map list.simps(15))
  ultimately show ?thesis using assms(2,3) by auto
qed

lemma scanned_seq: "scanEvent c row = Inr e \<Longrightarrow> ev_Seq e = row_Seq row \<and> ev_ProjectID e = row_ProjectID row
    \<and> ev_EventID e = row_EventID row \<and> ev_PayloadDigest e = row_PayloadDigest row \<and> Event_Validate e = None"
  by (auto simp: scanEvent_def Let_def split: option.splits)

lemma scan_all_mem:
  "scan_all f rows = Inr es \<Longrightarrow> e \<in> set es \<Longrightarrow> \<exists>row \<in> set rows. f row = Inr e"
  by (induction rows arbitrary: es) auto

lemma sound_journal_empty: "sound_journal c empty_database"
  by (auto simp: sound_journal_def empty_database_def project_rows_def Reduce_def)

text \<open>The records and the projection tables do not matter to the journal.\<close>

lemma journal_only [simp]:
  "project_rows p (db\<lparr>db_Records := rs\<rparr>) = project_rows p db"
  "sound_journal c (db\<lparr>db_Records := rs\<rparr>) = sound_journal c db"
  "loadProjection c p (db\<lparr>db_Records := rs\<rparr>) = loadProjection c p db"
  by (simp_all add: project_rows_def sound_journal_def loadProjection_def ReadEvents_whole)

definition same_ledger :: "database \<Rightarrow> database \<Rightarrow> bool" where
  "same_ledger db db' \<longleftrightarrow> db_Events db' = db_Events db \<and> db_NextSeq db' = db_NextSeq db \<and>
     db_Records db' = db_Records db"

lemma same_ledger_journal:
  assumes "same_ledger db db'"
  shows "project_rows p db' = project_rows p db" "sound_journal c db' = sound_journal c db"
    "loadProjection c p db' = loadProjection c p db" "sound_records c db' = sound_records c db"
    "stored_at db' = stored_at db"
  using assms
  by (simp_all add: same_ledger_def project_rows_def sound_journal_def loadProjection_def
      ReadEvents_whole sound_records_def stored_at_def fun_eq_iff)

lemma project_rows_append:
  "project_rows p (db\<lparr>db_Events := db_Events db @ [row], db_NextSeq := n\<rparr>) =
     project_rows p db @ (if row_ProjectID row = p then [row] else [])"
  by (simp add: project_rows_def)

lemma row_fields [simp]:
  "row_Seq (event_row e n co pl d) = n" "row_ProjectID (event_row e n co pl d) = ev_ProjectID e"
  "row_EventID (event_row e n co pl d) = ev_EventID e"
  by (simp_all add: event_row_def)

lemma sound_journal_reduces:
  assumes "sound_journal c db" "p \<noteq> []"
  obtains es q where "scan_all (scanEvent c) (project_rows p db) = Inr es" "Reduce es = Inr q"
    "loadProjection c p db = Inr q" "es \<noteq> [] \<Longrightarrow> render_state q = Inr (rendered q)"
  using assms unfolding sound_journal_def loadProjection_ok by blast

lemma append_journal:
  assumes j: "sound_journal c db" and ap: "AppendEvent c e db = Inr (e', db')"
    and s: "ev_Payload e = Some pl" "survives c pl" "correlation_survives c (ev_Correlation e)"
    and q: "loadProjection c (ev_ProjectID e) db = Inr q" "Apply e' q = (None, q')"
      "render_state q' = Inr st"
  shows "sound_journal c db'" "loadProjection c (ev_ProjectID e) db' = Inr q'"
    "scan_all (scanEvent c) (project_rows (ev_ProjectID e) db) = Inr es \<Longrightarrow>
       scan_all (scanEvent c) (project_rows (ev_ProjectID e) db') = Inr (es @ [e'])"
    "p \<noteq> ev_ProjectID e \<Longrightarrow> project_rows p db' = project_rows p db"
proof -
  let ?p = "ev_ProjectID e"
  from ap s(1) obtain payload correlation where v: "Event_Validate e = None"
    and enc: "enc_Payload c pl = Some payload" "enc_Correlation c (ev_Correlation e) = Some correlation"
    and new: "ev_EventID e \<notin> set (map row_EventID (db_Events db))"
    and e': "e' = e\<lparr>ev_Seq := db_NextSeq db, ev_PayloadDigest := DigestBytes c payload\<rparr>"
    and db': "db' = db\<lparr>db_Events := db_Events db @
        [event_row e (db_NextSeq db) correlation payload (DigestBytes c payload)],
      db_NextSeq := db_NextSeq db + 1\<rparr>"
    unfolding AppendEvent_ok by auto
  let ?row = "event_row e (db_NextSeq db) correlation payload (DigestBytes c payload)"
  have row: "scanEvent c ?row = Inr e'"
    unfolding e' by (rule scanEvent_appended [OF v s enc])
  have rows: "project_rows p db' = project_rows p db @ (if ?p = p then [?row] else [])" for p
    unfolding db' by (simp add: project_rows_append)
  from q(1) obtain es' where es': "scan_all (scanEvent c) (project_rows ?p db) = Inr es'"
    "Reduce es' = Inr q" by (auto simp: loadProjection_ok)
  have scan: "scan_all (scanEvent c) (project_rows ?p db') = Inr (es' @ [e'])"
    by (simp add: rows scan_all_append es' row)
  have red: "Reduce (es' @ [e']) = Inr q'"
    using es'(2) q(2) by (simp add: Reduce_run run_snoc)
  have p: "?p \<noteq> []" using v by (simp add: Event_Validate_None)
  show "loadProjection c ?p db' = Inr q'" using p scan red by (auto simp: loadProjection_ok)
  show "project_rows p db' = project_rows p db" if "p \<noteq> ?p" using that by (simp add: rows)
  show "scan_all (scanEvent c) (project_rows ?p db') = Inr (es @ [e'])"
    if "scan_all (scanEvent c) (project_rows ?p db) = Inr es" using scan es'(1) that by simp
  have ren: "render_state q' = Inr (rendered q')" using q(3) by (simp add: render_state_ok)
  have "\<exists>es q. scan_all (scanEvent c) (project_rows k db') = Inr es \<and> Reduce es = Inr q \<and>
      (es \<noteq> [] \<longrightarrow> render_state q = Inr (rendered q))" if "k \<noteq> []" for k
  proof (cases "k = ?p")
    case True
    then show ?thesis using scan red ren by blast
  next
    case False
    then show ?thesis using j that by (auto simp: sound_journal_def rows)
  qed
  then show "sound_journal c db'"
    using j new p unfolding sound_journal_def db'
    by (auto simp: sorted_wrt_snoc less_Suc_eq)
qed

section \<open>Evidence is backed by records\<close>

definition backed :: "('a codec_scheme) \<Rightarrow> database \<Rightarrow> string \<Rightarrow> Payload \<Rightarrow> bool" where
  "backed c db p pl \<longleftrightarrow>
     (case ReferencedRecord pl of
        None \<Rightarrow> True
      | Some ref \<Rightarrow> Claimed ref \<longrightarrow>
          (\<exists>r. stored_at db (record_key r) = Some r \<and> is_record p (ref_Kind ref) (ref_ID ref) r \<and>
             (0 < ref_Version ref \<longrightarrow> rcd_Version r = ref_Version ref) \<and>
             rcd_Digest r = ref_Digest ref \<and> CheckReferencedRecord c pl (rcd_Document r) = None))"

lemma resolveRecord_found:
  assumes "sound_records c db" "resolveRecord c p ref db = Inr (Some r)"
  shows "stored_at db (record_key r) = Some r \<and> is_record p (ref_Kind ref) (ref_ID ref) r \<and>
    (0 < ref_Version ref \<longrightarrow> rcd_Version r = ref_Version ref)"
proof -
  have "\<exists>v. read_record c p (ref_Kind ref) (ref_ID ref) v db = Inr r \<and>
      (0 < ref_Version ref \<longrightarrow> v = ref_Version ref)"
    using assms(2)
    by (auto simp: resolveRecord_def LatestRecord_def split: if_splits sum.splits)
  then show ?thesis
    by (auto simp: read_record_ok [OF assms(1)] stored_at_iff [OF assms(1)] record_key_def is_record_def)
qed

lemma check_reference_backed:
  assumes "sound_records c db" "check_reference c p pl db = None"
  shows "backed c db p pl"
proof (cases "ReferencedRecord pl")
  case None
  then show ?thesis by (simp add: backed_def)
next
  case (Some ref)
  show ?thesis
  proof (cases "Claimed ref")
    case True
    with Some assms(2) obtain r where "resolveRecord c p ref db = Inr (Some r)"
      "rcd_Digest r = ref_Digest ref" "CheckReferencedRecord c pl (rcd_Document r) = None"
      by (auto simp: check_reference_def split: if_splits sum.splits option.splits)
    then show ?thesis using Some resolveRecord_found [OF assms(1)] unfolding backed_def by auto
  qed (simp add: Some backed_def)
qed

lemma backed_more:
  assumes "backed c db p pl" "\<And>k r. stored_at db k = Some r \<Longrightarrow> stored_at db' k = Some r"
  shows "backed c db' p pl"
proof (cases "ReferencedRecord pl")
  case (Some ref)
  then show ?thesis using assms unfolding backed_def by (simp only: option.case) blast
qed (simp add: backed_def)

lemma backed_cong: "stored_at db' = stored_at db \<Longrightarrow> backed c db' p pl = backed c db p pl"
  by (cases "ReferencedRecord pl") (simp_all add: backed_def)

definition evidence_backed :: "('a codec_scheme) \<Rightarrow> database \<Rightarrow> bool" where
  "evidence_backed c db \<longleftrightarrow>
     (\<forall>row \<in> set (db_Events db). \<forall>e pl. scanEvent c row = Inr e \<longrightarrow> ev_Payload e = Some pl \<longrightarrow>
        backed c db (row_ProjectID row) pl)"

definition ledger :: "('a codec_scheme) \<Rightarrow> database \<Rightarrow> bool" where
  "ledger c db \<longleftrightarrow> sound_records c db \<and> sound_journal c db \<and> evidence_backed c db"

lemma ledger_empty: "ledger c empty_database"
  by (simp add: ledger_def sound_journal_empty evidence_backed_def sound_records_def)
    (simp add: empty_database_def)

lemma same_ledger_ledger: "same_ledger db db' \<Longrightarrow> ledger c db' = ledger c db"
  using backed_cong [OF same_ledger_journal(5) [of db db'], of c]
  by (simp add: ledger_def same_ledger_journal evidence_backed_def) (simp add: same_ledger_def)

section \<open>One command\<close>

lemma outcome_result:
  "(case r of (Some err, _) \<Rightarrow> Inl err | (None, s) \<Rightarrow> k s) = Inr y \<longleftrightarrow> (\<exists>s. r = (None, s) \<and> k s = Inr y)"
  by (auto split: prod.splits option.splits)

lemma applyMember_ok:
  assumes "applyMember c oc cmd save q db = Inr (res, q', db')"
  obtains pl ds db1 correlation e db2 where
    "cmd_Payload cmd = Some pl"
    "p_initialised q \<or> Payload_Type pl = ''ProjectInitialized''"
    "put_records c (oc_StoredAt oc) (cmd_ProjectID cmd) (cmd_Records cmd) Map.empty db = Inr (ds, db1)"
    "check_reference c (cmd_ProjectID cmd) pl db1 = None"
    "canonicalCorrelation pl (cmd_Correlation cmd) = Inr correlation"
    "AppendEvent c \<lparr>ev_Seq = 0, ev_SchemaVersion = SchemaVersion1, ev_EventID = oc_EventID oc,
        ev_ProjectID = cmd_ProjectID cmd, ev_EventType = Payload_Type pl,
        ev_OccurredAt = oc_Now oc, ev_Actor = cmd_Actor cmd, ev_Correlation = correlation,
        ev_Payload = Some pl, ev_PayloadDigest = []\<rparr> db1 = Inr (res_Event res, db2)"
    "Apply (res_Event res) q = (None, q')"
    "(if save then SaveProjection c q' db2 else Inr db2) = Inr db'"
    "render_state q' = Inr (res_ProjectState res)"
  using assms unfolding applyMember_def Let_def
  by (cases "cmd_Payload cmd") (auto simp: outcome_result)

text \<open>A command adds its records and one event, and steps the projection of its project.\<close>

definition commits ::
  "('a codec_scheme) \<Rightarrow> string \<Rightarrow> Projection \<Rightarrow> Event list \<Rightarrow> Projection \<Rightarrow> database \<Rightarrow> database \<Rightarrow> bool" where
  "commits c p q new q' db db' \<longleftrightarrow>
     ledger c db' \<and> loadProjection c p db' = Inr q' \<and>
     (\<forall>es. scan_all (scanEvent c) (project_rows p db) = Inr es \<longrightarrow>
        scan_all (scanEvent c) (project_rows p db') = Inr (es @ new)) \<and>
     run Apply q new = Inr q' \<and>
     (\<forall>k. k \<noteq> p \<longrightarrow> project_rows k db' = project_rows k db) \<and>
     (\<forall>k r. stored_at db k = Some r \<longrightarrow> stored_at db' k = Some r) \<and>
     prefix (db_Events db) (db_Events db')"

lemma commits_trans:
  assumes "commits c p q es q1 db db1" "commits c p q1 fs q2 db1 db2"
  shows "commits c p q (es @ fs) q2 db db2"
  using assms unfolding commits_def by (auto simp: run_append)

lemma commits_same_ledger:
  assumes "commits c p q es q' db db1" "same_ledger db1 db2"
  shows "commits c p q es q' db db2"
  using assms unfolding commits_def
  by (simp add: same_ledger_journal [OF assms(2)] same_ledger_ledger [OF assms(2)])
    (simp add: same_ledger_def)

lemma member_commits:
  assumes l: "ledger c db" and q: "loadProjection c (cmd_ProjectID cmd) db = Inr q"
    and ok: "applyMember c oc cmd False q db = Inr (res, q', db')" and s: "command_survives c cmd"
  shows "commits c (cmd_ProjectID cmd) q [res_Event res] q' db db'"
proof -
  let ?p = "cmd_ProjectID cmd"
  obtain pl ds db1 correlation db2 where pl: "cmd_Payload cmd = Some pl"
    and put: "put_records c (oc_StoredAt oc) ?p (cmd_Records cmd) Map.empty db = Inr (ds, db1)"
    and chk: "check_reference c ?p pl db1 = None"
    and co: "canonicalCorrelation pl (cmd_Correlation cmd) = Inr correlation"
    and ap: "AppendEvent c \<lparr>ev_Seq = 0, ev_SchemaVersion = SchemaVersion1, ev_EventID = oc_EventID oc,
        ev_ProjectID = ?p, ev_EventType = Payload_Type pl, ev_OccurredAt = oc_Now oc,
        ev_Actor = cmd_Actor cmd, ev_Correlation = correlation, ev_Payload = Some pl,
        ev_PayloadDigest = []\<rparr> db1 = Inr (res_Event res, db')"
    and step: "Apply (res_Event res) q = (None, q')"
    and ren: "render_state q' = Inr (res_ProjectState res)"
    using ok by (cases rule: applyMember_ok) simp
  have sr: "sound_records c db" and sj: "sound_journal c db" and eb: "evidence_backed c db"
    using l by (simp_all add: ledger_def)
  note keep = put_records_keep [OF put sr]
  obtain rs where db1: "db1 = db\<lparr>db_Records := db_Records db @ rs\<rparr>"
    using put_records_only [OF put sr] by blast
  have sv: "survives c pl" "correlation_survives c correlation"
    using s pl co by (simp_all add: command_survives_def)
  have same: "stored_at db' = stored_at db1" "db_Records db' = db_Records db1"
    using ap unfolding AppendEvent_ok by (auto simp: stored_at_def fun_eq_iff)
  have j: "sound_journal c db'" "loadProjection c ?p db' = Inr q'"
      "scan_all (scanEvent c) (project_rows ?p db1) = Inr es \<Longrightarrow>
         scan_all (scanEvent c) (project_rows ?p db') = Inr (es @ [res_Event res])"
      "k \<noteq> ?p \<Longrightarrow> project_rows k db' = project_rows k db1" for es k
    using append_journal [OF _ ap _ sv(1) _ _ _ ren] sv(2) sj q step by (simp_all add: db1)
  obtain row where rows: "db_Events db' = db_Events db @ [row]" "row_ProjectID row = ?p"
      "scanEvent c row = Inr (res_Event res)" "ev_Payload (res_Event res) = Some pl"
    using ap scanEvent_appended [OF _ _ sv(1)] sv(2) unfolding AppendEvent_ok db1 by auto
  have "backed c db' (row_ProjectID x) pl'"
    if "x \<in> set (db_Events db')" "scanEvent c x = Inr e" "ev_Payload e = Some pl'" for x e pl'
  proof (cases "x \<in> set (db_Events db)")
    case True
    then have "backed c db (row_ProjectID x) pl'"
      using eb that unfolding evidence_backed_def by blast
    then show ?thesis by (rule backed_more) (use keep(2) same in simp)
  next
    case False
    then have "backed c db1 ?p pl' \<and> row_ProjectID x = ?p"
      using that rows check_reference_backed [OF keep(1) chk] by auto
    then show ?thesis by (simp add: backed_cong [OF same(1)])
  qed
  then have "evidence_backed c db'" unfolding evidence_backed_def by blast
  moreover have "sound_records c db'" using keep(1) same(2) by (simp add: sound_records_def)
  ultimately show ?thesis
    using j step rows(1) keep(2) same(1) unfolding commits_def ledger_def
    by (simp add: db1 run_Cons prefix_def)
qed

text \<open>A batch is the sequence of its members.\<close>

lemma members_commit:
  assumes "apply_members c oc n ms q db = Inr (rs, q', db')" "ledger c db"
    "loadProjection c p db = Inr q" "\<forall>m \<in> set ms. cmd_ProjectID m = p \<and> command_survives c m"
  shows "commits c p q (map res_Event rs) q' db db'"
  using assms
proof (induction ms arbitrary: n q db rs)
  case Nil
  then show ?case by (simp add: commits_def)
next
  case (Cons m ms)
  then obtain res q1 db1 rs' where
    m: "applyMember c (oc n) m False q db = Inr (res, q1, db1)"
    and rest: "apply_members c oc (Suc n) ms q1 db1 = Inr (rs', q', db')" and rs: "rs = res # rs'"
    by auto
  have one: "commits c p q [res_Event res] q1 db db1"
    using member_commits [OF Cons.prems(2) _ m] Cons.prems(3,4) by simp
  have "commits c p q1 (map res_Event rs') q' db1 db'"
    using Cons.IH [OF rest] one Cons.prems(4) unfolding commits_def by simp
  then show ?case using commits_trans [OF one] rs by simp
qed

end
