(* ===== verification/Tables.thy ===== *)
theory Tables
  imports Chronicle
begin

text \<open>
  The projection tables: SaveProjection leaves exactly the rows of the projection it is given and
  does not disturb another project, so that the tables are at every moment the materialised
  reduction of the journal.
\<close>

section \<open>The rows of a projection\<close>

definition task_rows :: "Projection \<Rightarrow> Task list" where
  "task_rows q = map (\<lambda>tid. the (p_tasks q tid)) (p_taskIDs q)"

definition attempt_rows_of :: "Projection \<Rightarrow> Task \<Rightarrow> Attempt list" where
  "attempt_rows_of q t = map (\<lambda>aid. the (p_attempts q aid)) (p_attemptsByTask q (t_ID t))"

definition attempt_rows :: "Projection \<Rightarrow> Attempt list" where
  "attempt_rows q = concat (map (attempt_rows_of q) (task_rows q))"

lemma Tasks_of_rows: "inv q \<Longrightarrow> Tasks_of q = map Some (task_rows q)"
  by (auto simp: Tasks_of_def task_rows_def inv_def inv_tasks_def indexed_def)

lemma AttemptsForTask_rows:
  assumes "inv q"
  shows "AttemptsForTask q (t_ID t) = map Some (attempt_rows_of q t)"
proof -
  have "p_attempts q aid \<noteq> None" if "aid \<in> set (p_attemptsByTask q tid)" for aid tid
  proof -
    have "wf_order q tid" using assms by (simp add: inv_def inv_attempts_def)
    then show ?thesis using that unfolding wf_order_def in_set_conv_nth by (metis option.distinct(1))
  qed
  then show ?thesis by (auto simp: AttemptsForTask_def attempt_rows_of_def)
qed

text \<open>The rows as the invariant of the projection has them.\<close>

lemma task_row:
  assumes "inv q" "t \<in> set (task_rows q)"
  shows "p_tasks q (t_ID t) = Some t" "t_ProjectID t = p_ProjectID q" "Task_Validate t = None"
proof -
  from assms obtain tid where "tid \<in> set (p_taskIDs q)" "t = the (p_tasks q tid)"
    by (auto simp: task_rows_def)
  moreover from this assms(1) obtain u where "p_tasks q tid = Some u"
    by (auto simp: inv_def inv_tasks_def indexed_def)
  ultimately have "p_tasks q tid = Some t" by simp
  moreover from this have "wf_task q tid t"
    using assms(1) by (simp add: inv_def inv_tasks_def)
  ultimately show "p_tasks q (t_ID t) = Some t" "t_ProjectID t = p_ProjectID q" "Task_Validate t = None"
    by (simp_all add: wf_task_def)
qed

lemma task_in_rows: "inv q \<Longrightarrow> p_tasks q tid = Some t \<Longrightarrow> t \<in> set (task_rows q)"
  by (force simp: task_rows_def inv_def inv_tasks_def indexed_def)

lemma attempt_row:
  assumes "inv q" "owned q" "a \<in> set (attempt_rows_of q t)"
  shows "a_TaskID a = t_ID t" "a_ProjectID a = p_ProjectID q" "Attempt_Validate a = None"
    "p_attempts q (a_ID a) = Some a"
proof -
  from assms(3) obtain i where i: "i < length (p_attemptsByTask q (t_ID t))"
    "a = the (p_attempts q (p_attemptsByTask q (t_ID t) ! i))"
    by (auto simp: attempt_rows_of_def in_set_conv_nth)
  have "wf_order q (t_ID t)" using assms(1) by (simp add: inv_def inv_attempts_def)
  then obtain b where "p_attempts q (p_attemptsByTask q (t_ID t) ! i) = Some b" "a_TaskID b = t_ID t"
    using i(1) unfolding wf_order_def by blast
  with i(2) have a: "p_attempts q (p_attemptsByTask q (t_ID t) ! i) = Some a" "a_TaskID a = t_ID t"
    by simp_all
  then have "wf_attempt q (p_attemptsByTask q (t_ID t) ! i) a"
    using assms(1) by (simp add: inv_def inv_attempts_def)
  with a assms(2) show "a_TaskID a = t_ID t" "a_ProjectID a = p_ProjectID q" "Attempt_Validate a = None"
    "p_attempts q (a_ID a) = Some a"
    by (auto simp: wf_attempt_def owned_def)
qed

lemma attempt_ordinals:
  assumes "inv q"
  shows "map a_Ordinal (attempt_rows_of q t) = map (\<lambda>i. int i + 1) [0..<length (attempt_rows_of q t)]"
proof (rule nth_equalityI)
  fix i
  assume "i < length (map a_Ordinal (attempt_rows_of q t))"
  then have i: "i < length (p_attemptsByTask q (t_ID t))" by (simp add: attempt_rows_of_def)
  have "wf_order q (t_ID t)" using assms by (simp add: inv_def inv_attempts_def)
  then obtain b where "p_attempts q (p_attemptsByTask q (t_ID t) ! i) = Some b" "a_Ordinal b = int i + 1"
    using i unfolding wf_order_def by blast
  then show "map a_Ordinal (attempt_rows_of q t) ! i =
      map (\<lambda>i. int i + 1) [0..<length (attempt_rows_of q t)] ! i"
    using i by (simp add: attempt_rows_of_def)
qed simp

section \<open>Inserting the rows\<close>

lemma filter_append_only:
  "filter P xs = [] \<Longrightarrow> \<forall>y \<in> set ys. P y \<Longrightarrow> filter P (xs @ ys) = ys"
  by simp

lemma filter_append_none: "\<forall>y \<in> set ys. \<not> P y \<Longrightarrow> filter P (xs @ ys) = filter P xs"
  by simp

text \<open>New rows whose keys are new and do not repeat.\<close>

definition keys_fresh :: "('r \<Rightarrow> 'k) \<Rightarrow> 'r list \<Rightarrow> 'r list \<Rightarrow> bool" where
  "keys_fresh f xs ys \<longleftrightarrow> distinct (map f ys) \<and> set (map f ys) \<inter> set (map f xs) = {}"

lemma keys_fresh_Nil [simp]: "keys_fresh f xs []"
  by (simp add: keys_fresh_def)

lemma keys_fresh_Cons:
  "keys_fresh f xs (y # ys) \<longleftrightarrow> f y \<notin> f ` set xs \<and> keys_fresh f (xs @ [y]) ys"
  by (auto simp: keys_fresh_def)

lemma keys_fresh_append:
  "keys_fresh f xs (ys @ zs) \<longleftrightarrow> keys_fresh f xs ys \<and> keys_fresh f (xs @ ys) zs"
  by (auto simp: keys_fresh_def)

lemma keys_fresh_distinct: "distinct (map f (xs @ ys)) \<longleftrightarrow> distinct (map f xs) \<and> keys_fresh f xs ys"
  by (auto simp: keys_fresh_def)

lemma keys_fresh_split:
  assumes "distinct (map f xs)"
  shows "keys_fresh f (filter (\<lambda>x. \<not> P x) xs) (filter P xs)"
proof -
  have "distinct (map f (filter P xs))" using assms by (simp add: distinct_map_filter)
  moreover have "inj_on f (set xs)" using assms by (simp add: distinct_map)
  then have "f x \<noteq> f y" if "x \<in> set xs" "y \<in> set xs" "P x" "\<not> P y" for x y
    using that by (metis inj_onD)
  then have "set (map f (filter P xs)) \<inter> set (map f (filter (\<lambda>x. \<not> P x) xs)) = {}" by fastforce
  ultimately show ?thesis by (simp add: keys_fresh_def)
qed

definition alias_key :: "Task \<Rightarrow> string \<times> string" where
  "alias_key t = (t_ProjectID t, t_Alias t)"

definition ordinal_key :: "Attempt \<Rightarrow> string \<times> int" where
  "ordinal_key a = (a_TaskID a, a_Ordinal a)"

lemma insert_task_ok:
  "insert_task t db = Inr db' \<longleftrightarrow>
     db' = db\<lparr>db_Tasks := db_Tasks db @ [t]\<rparr> \<and> t_ID t \<notin> t_ID ` set (db_Tasks db) \<and>
     alias_key t \<notin> alias_key ` set (db_Tasks db) \<and> t_ProjectID t \<in> sum_ProjectID ` set (db_Projects db)"
  by (auto simp: insert_task_def alias_key_def)

lemma insert_attempt_ok:
  "insert_attempt a db = Inr db' \<longleftrightarrow>
     db' = db\<lparr>db_Attempts := db_Attempts db @ [a]\<rparr> \<and> a_ID a \<notin> a_ID ` set (db_Attempts db) \<and>
     ordinal_key a \<notin> ordinal_key ` set (db_Attempts db) \<and> a_TaskID a \<in> t_ID ` set (db_Tasks db)"
  by (auto simp: insert_attempt_def ordinal_key_def)

lemma insert_attempts:
  "insert_all insert_attempt (map Some as) db = Inr db' \<longleftrightarrow>
     db' = db\<lparr>db_Attempts := db_Attempts db @ as\<rparr> \<and> keys_fresh a_ID (db_Attempts db) as \<and>
     keys_fresh ordinal_key (db_Attempts db) as \<and> (\<forall>a \<in> set as. a_TaskID a \<in> t_ID ` set (db_Tasks db))"
proof (induction as arbitrary: db)
  case (Cons a as)
  show ?case
    by (simp add: insert_attempt_ok Cons.IH keys_fresh_Cons) blast
qed auto

lemma insert_task_tree_ok:
  assumes "inv q" "owned q"
  shows "insert_task_tree q t db = Inr db' \<longleftrightarrow>
     db' = db\<lparr>db_Tasks := db_Tasks db @ [t], db_Attempts := db_Attempts db @ attempt_rows_of q t\<rparr> \<and>
     keys_fresh t_ID (db_Tasks db) [t] \<and> keys_fresh alias_key (db_Tasks db) [t] \<and>
     t_ProjectID t \<in> sum_ProjectID ` set (db_Projects db) \<and>
     keys_fresh a_ID (db_Attempts db) (attempt_rows_of q t) \<and>
     keys_fresh ordinal_key (db_Attempts db) (attempt_rows_of q t)"
  using attempt_row(1) [OF assms, of _ t]
  by (auto simp: insert_task_tree_def insert_task_ok AttemptsForTask_rows [OF assms(1)] insert_attempts
      keys_fresh_Cons)

lemma insert_trees:
  assumes "inv q" "owned q"
  shows "insert_all (insert_task_tree q) (map Some ts) db = Inr db' \<longleftrightarrow>
    db' = db\<lparr>db_Tasks := db_Tasks db @ ts,
      db_Attempts := db_Attempts db @ concat (map (attempt_rows_of q) ts)\<rparr> \<and>
    keys_fresh t_ID (db_Tasks db) ts \<and> keys_fresh alias_key (db_Tasks db) ts \<and>
    (\<forall>t \<in> set ts. t_ProjectID t \<in> sum_ProjectID ` set (db_Projects db)) \<and>
    keys_fresh a_ID (db_Attempts db) (concat (map (attempt_rows_of q) ts)) \<and>
    keys_fresh ordinal_key (db_Attempts db) (concat (map (attempt_rows_of q) ts))"
proof (induction ts arbitrary: db)
  case (Cons t ts)
  show ?case
    by (simp add: insert_task_tree_ok [OF assms] Cons.IH keys_fresh_append keys_fresh_Cons) blast
qed auto

section \<open>The tables of all projects\<close>

definition tables :: "database \<Rightarrow> bool" where
  "tables db \<longleftrightarrow>
     distinct (map sum_ProjectID (db_Projects db)) \<and> distinct (map t_ID (db_Tasks db)) \<and>
     distinct (map alias_key (db_Tasks db)) \<and> distinct (map a_ID (db_Attempts db)) \<and>
     distinct (map ordinal_key (db_Attempts db)) \<and>
     (\<forall>a \<in> set (db_Attempts db). \<exists>t \<in> set (db_Tasks db).
        t_ID t = a_TaskID a \<and> t_ProjectID t = a_ProjectID a)"

definition summary_row :: "string \<Rightarrow> database \<Rightarrow> ProjectSummary option" where
  "summary_row p db = find (\<lambda>s. sum_ProjectID s = p) (db_Projects db)"

definition tasks_of_project :: "string \<Rightarrow> database \<Rightarrow> Task list" where
  "tasks_of_project p db = filter (\<lambda>t. t_ProjectID t = p) (db_Tasks db)"

definition attempts_of_project :: "string \<Rightarrow> database \<Rightarrow> Attempt list" where
  "attempts_of_project p db = filter (\<lambda>a. a_ProjectID a = p) (db_Attempts db)"

lemma upsert_keys:
  "map sum_ProjectID (upsert_project s rs) =
     map sum_ProjectID rs @ (if sum_ProjectID s \<in> set (map sum_ProjectID rs) then [] else [sum_ProjectID s])"
  by (induction rs) auto

lemma upsert_find:
  "find (\<lambda>r. sum_ProjectID r = p) (upsert_project s rs) =
     (if p = sum_ProjectID s then Some s else find (\<lambda>r. sum_ProjectID r = p) rs)"
  by (induction rs) auto

lemma attempts_follow_tasks:
  assumes "tables db" "a \<in> set (db_Attempts db)"
  shows "a_TaskID a \<in> t_ID ` {t \<in> set (db_Tasks db). t_ProjectID t = p} \<longleftrightarrow> a_ProjectID a = p"
proof -
  from assms obtain t where a: "t \<in> set (db_Tasks db)" "t_ID t = a_TaskID a" "t_ProjectID t = a_ProjectID a"
    unfolding tables_def by blast
  have "u = t" if "u \<in> set (db_Tasks db)" "t_ID u = a_TaskID a" for u
    using assms(1) a that unfolding tables_def distinct_map by (metis inj_onD)
  then have "a_TaskID a \<in> t_ID ` {t \<in> set (db_Tasks db). t_ProjectID t = p} \<Longrightarrow> t_ProjectID t = p"
    by force
  then show ?thesis using a by force
qed

text \<open>Clearing one project's rows keeps those of the others.\<close>

lemma clear_projection_rows:
  assumes "tables db"
  shows "tables (clear_projection p db)"
    "tasks_of_project p (clear_projection p db) = []"
    "attempts_of_project p (clear_projection p db) = []"
    "k \<noteq> p \<Longrightarrow> tasks_of_project k (clear_projection p db) = tasks_of_project k db"
    "k \<noteq> p \<Longrightarrow> attempts_of_project k (clear_projection p db) = attempts_of_project k db"
    "db_Projects (clear_projection p db) = db_Projects db"
    "same_ledger db (clear_projection p db)"
proof -
  have t: "distinct (map t_ID (db_Tasks db))"
    "\<And>a. a \<in> set (db_Attempts db) \<Longrightarrow> \<exists>t \<in> set (db_Tasks db). t_ID t = a_TaskID a \<and> t_ProjectID t = a_ProjectID a"
    using assms by (auto simp: tables_def)
  have own: "(a_TaskID a \<in> t_ID ` {t \<in> set (db_Tasks db). t_ProjectID t = p}) = (a_ProjectID a = p)"
    if "a \<in> set (db_Attempts db)" for a
    using attempts_follow_tasks [OF assms that] by simp
  then have atts: "db_Attempts (clear_projection p db) = filter (\<lambda>a. a_ProjectID a \<noteq> p) (db_Attempts db)"
    by (auto simp: clear_projection_def Let_def intro!: filter_cong)
  have tasks: "db_Tasks (clear_projection p db) = filter (\<lambda>t. t_ProjectID t \<noteq> p) (db_Tasks db)"
    by (simp add: clear_projection_def Let_def)
  show "tasks_of_project p (clear_projection p db) = []"
    "attempts_of_project p (clear_projection p db) = []"
    by (simp_all add: tasks_of_project_def attempts_of_project_def tasks atts)
  show "k \<noteq> p \<Longrightarrow> tasks_of_project k (clear_projection p db) = tasks_of_project k db"
    "k \<noteq> p \<Longrightarrow> attempts_of_project k (clear_projection p db) = attempts_of_project k db"
    unfolding tasks_of_project_def attempts_of_project_def tasks atts
    by (auto intro!: filter_cong)
  show "db_Projects (clear_projection p db) = db_Projects db" "same_ledger db (clear_projection p db)"
    by (simp_all add: clear_projection_def Let_def same_ledger_def)
  then show "tables (clear_projection p db)"
    using assms t(2) by (fastforce simp: tables_def tasks atts distinct_map_filter)
qed

section \<open>Saving a projection\<close>

text \<open>What the tables hold of a project when they are up to date with its projection.\<close>

definition materialised :: "('a store_codec_scheme) \<Rightarrow> Projection \<Rightarrow> database \<Rightarrow> bool" where
  "materialised c q db \<longleftrightarrow>
     (\<exists>doc. render_state q = Inr (rendered q) \<and> enc_ProjectState c (rendered q) = Some doc \<and>
        summary_row (p_ProjectID q) db =
          Some (project_summary q (rendered q) doc (DigestBytes c doc))) \<and>
     tasks_of_project (p_ProjectID q) db = task_rows q \<and>
     attempts_of_project (p_ProjectID q) db = attempt_rows q"

definition same_project_rows :: "string \<Rightarrow> database \<Rightarrow> database \<Rightarrow> bool" where
  "same_project_rows p db db' \<longleftrightarrow>
     summary_row p db' = summary_row p db \<and> tasks_of_project p db' = tasks_of_project p db \<and>
     attempts_of_project p db' = attempts_of_project p db"

lemma same_project_rows_trans:
  "same_project_rows p db db1 \<Longrightarrow> same_project_rows p db1 db2 \<Longrightarrow> same_project_rows p db db2"
  by (simp add: same_project_rows_def)

lemma materialised_frame:
  "same_project_rows (p_ProjectID q) db db' \<Longrightarrow> materialised c q db' = materialised c q db"
  by (simp add: materialised_def same_project_rows_def)

lemma SaveProjection_tables:
  assumes save: "SaveProjection c q db = Inr db'" and i: "inv q" "owned q" and t: "tables db"
  shows "tables db'" "same_ledger db db'" "materialised c q db'"
    "k \<noteq> p_ProjectID q \<Longrightarrow> same_project_rows k db db'"
proof -
  let ?p = "p_ProjectID q"
  from save obtain doc where ren: "render_state q = Inr (rendered q)"
    and doc: "enc_ProjectState c (rendered q) = Some doc"
    and rows: "insert_all (insert_task_tree q) (Tasks_of q) (clear_projection ?p
       (db\<lparr>db_Projects := upsert_project (project_summary q (rendered q) doc (DigestBytes c doc))
          (db_Projects db)\<rparr>)) = Inr db'"
    by (auto simp: SaveProjection_def render_state_ok Let_def)
  define s where "s = project_summary q (rendered q) doc (DigestBytes c doc)"
  have sp: "sum_ProjectID s = ?p" by (simp add: s_def project_summary_def)
  define db1 where "db1 = db\<lparr>db_Projects := upsert_project s (db_Projects db)\<rparr>"
  define db2 where "db2 = clear_projection ?p db1"
  have t1: "tables db1"
    using t unfolding tables_def db1_def by (simp add: upsert_keys)
  note clear = clear_projection_rows [OF t1, where p = ?p, folded db2_def]
  have rows': "insert_all (insert_task_tree q) (map Some (task_rows q)) db2 = Inr db'"
    using rows unfolding Tasks_of_rows [OF i(1)] db2_def db1_def s_def .
  note ins = rows' [unfolded insert_trees [OF i]]
  have db': "db_Tasks db' = db_Tasks db2 @ task_rows q"
    "db_Attempts db' = db_Attempts db2 @ attempt_rows q" "db_Projects db' = db_Projects db1"
    "same_ledger db2 db'"
    using ins clear(6) by (auto simp: attempt_rows_def same_ledger_def)
  have own: "\<forall>t \<in> set (task_rows q). t_ProjectID t = ?p"
    "\<forall>a \<in> set (attempt_rows q). a_ProjectID a = ?p \<and>
       (\<exists>t \<in> set (task_rows q). t_ID t = a_TaskID a \<and> t_ProjectID t = a_ProjectID a)"
    using task_row [OF i(1)] attempt_row [OF i] by (auto simp: attempt_rows_def)
  show "same_ledger db db'"
    using db'(4) clear(7) by (simp add: same_ledger_def db1_def)
  have "\<forall>a \<in> set (db_Attempts db2). \<exists>t \<in> set (db_Tasks db2). t_ID t = a_TaskID a \<and>
      t_ProjectID t = a_ProjectID a"
    using clear(1) by (simp add: tables_def)
  then have "\<forall>a \<in> set (db_Attempts db'). \<exists>t \<in> set (db_Tasks db'). t_ID t = a_TaskID a \<and>
      t_ProjectID t = a_ProjectID a"
    using own(2) unfolding db'(1,2) by fastforce
  moreover have "distinct (map t_ID (db_Tasks db'))" "distinct (map alias_key (db_Tasks db'))"
    "distinct (map a_ID (db_Attempts db'))" "distinct (map ordinal_key (db_Attempts db'))"
    using ins clear(1) unfolding db'(1,2) keys_fresh_distinct attempt_rows_def tables_def by simp_all
  moreover have "distinct (map sum_ProjectID (db_Projects db'))" using t1 db'(3) by (simp add: tables_def)
  ultimately show "tables db'" by (simp only: tables_def)
  have "tasks_of_project ?p db' = task_rows q" "attempts_of_project ?p db' = attempt_rows q"
    using clear(2,3) own unfolding tasks_of_project_def attempts_of_project_def db'(1,2)
    by (intro filter_append_only; blast)+
  moreover have "summary_row ?p db' = Some s"
    using sp by (simp add: summary_row_def db'(3) db1_def upsert_find)
  ultimately show "materialised c q db'"
    using ren doc by (simp add: materialised_def s_def)
  show "same_project_rows k db db'" if k: "k \<noteq> ?p"
  proof -
    have "tasks_of_project k db' = tasks_of_project k db2"
      "attempts_of_project k db' = attempts_of_project k db2"
      using own k unfolding tasks_of_project_def attempts_of_project_def db'(1,2)
      by (intro filter_append_none; blast)+
    moreover have "summary_row k db' = summary_row k db"
      using sp k by (simp add: summary_row_def db'(3) db1_def upsert_find)
    ultimately show ?thesis using clear(4,5) [OF k]
      by (simp add: same_project_rows_def db1_def tasks_of_project_def attempts_of_project_def)
  qed
qed

section \<open>The whole database\<close>

text \<open>
  The control plane keeps its database consistent: the ledger is sound, and the tables are the
  materialised reduction of every project's journal.
\<close>

definition current :: "('a store_codec_scheme) \<Rightarrow> string \<Rightarrow> database \<Rightarrow> bool" where
  "current c p db \<longleftrightarrow>
     (\<forall>q. loadProjection c p db = Inr q \<longrightarrow>
        (if p_initialised q then materialised c q db
         else summary_row p db = None \<and> tasks_of_project p db = [] \<and> attempts_of_project p db = []))"

definition consistent :: "('a store_codec_scheme) \<Rightarrow> database \<Rightarrow> bool" where
  "consistent c db \<longleftrightarrow> ledger c db \<and> tables db \<and> (\<forall>p. current c p db)"

lemma Reduce_uninitialised: "Reduce es = Inr q \<Longrightarrow> \<not> p_initialised q \<Longrightarrow> es = []"
  using Reduce_live live_iff by blast

lemma load_owned: "loadProjection c p db = Inr q \<Longrightarrow> inv q \<and> owned q \<and> in_order q"
  by (auto simp: loadProjection_ok intro: Reduce_inv Reduce_owned Reduce_in_order)

lemma consistent_empty: "consistent c empty_database"
proof -
  have "current c p empty_database" for p
    by (auto simp: current_def loadProjection_ok summary_row_def tasks_of_project_def
        attempts_of_project_def empty_database_def project_rows_def Reduce_def New_Projection_def)
  then show ?thesis
    by (simp add: consistent_def ledger_empty) (simp add: tables_def empty_database_def)
qed

text \<open>The project of a projection that has seen an event.\<close>

lemma load_project:
  assumes "loadProjection c p db = Inr q" "p_initialised q"
  shows "p_ProjectID q = p"
proof -
  from assms(1) obtain es where es: "scan_all (scanEvent c) (project_rows p db) = Inr es"
    "Reduce es = Inr q" by (auto simp: loadProjection_ok)
  then obtain fs e where fs: "es = fs @ [e]"
    using assms(2) by (cases es rule: rev_cases) (auto simp: Reduce_def New_Projection_def)
  with es(2) obtain q1 where "Reduce fs = Inr q1" "Apply e q1 = (None, q)"
    by (auto simp: Reduce_run run_snoc)
  then have "p_ProjectID q = ev_ProjectID e" using Apply_project Reduce_inv by blast
  moreover have "ev_ProjectID e = p"
    using scan_all_mem [OF es(1), of e] fs by (auto dest: scanned_seq simp: project_rows_def)
  ultimately show ?thesis by simp
qed

lemma Apply_initialised: "inv p \<Longrightarrow> Apply e p = (None, p') \<Longrightarrow> p_initialised p'"
  using Apply_inv by blast

text \<open>A ledger step of one project followed by saving its projection keeps everything consistent.\<close>

lemma consistent_step:
  assumes c: "consistent c db" and step: "commits c p q new q' db db1"
    and same: "db_Projects db1 = db_Projects db" "db_Tasks db1 = db_Tasks db"
      "db_Attempts db1 = db_Attempts db"
    and save: "SaveProjection c q' db1 = Inr db'"
  shows "consistent c db'" "commits c p q new q' db db'" "materialised c q' db'"
    "k \<noteq> p \<Longrightarrow> same_project_rows k db db'"
proof -
  have load: "loadProjection c p db1 = Inr q'" using step by (simp add: commits_def)
  have i: "inv q'" "owned q'" using load_owned [OF load] by simp_all
  have "p_initialised q'" using save by (auto simp: SaveProjection_def)
  then have pid: "p_ProjectID q' = p" using load_project [OF load] by simp
  have t: "tables db1" using c same by (simp add: consistent_def tables_def)
  note sp = SaveProjection_tables [OF save i t, unfolded pid]
  show step': "commits c p q new q' db db'" using commits_same_ledger [OF step sp(2)] .
  show m: "materialised c q' db'" by (rule sp(3))
  have rows: "same_project_rows k db db'" if "k \<noteq> p" for k
    using sp(4) [OF that] same
    by (simp add: same_project_rows_def summary_row_def tasks_of_project_def attempts_of_project_def)
  then show "k \<noteq> p \<Longrightarrow> same_project_rows k db db'" .
  have "current c k db'" for k
  proof (cases "k = p")
    case True
    then show ?thesis using step' m \<open>p_initialised q'\<close> by (simp add: current_def commits_def)
  next
    case False
    have load_k: "loadProjection c k db' = loadProjection c k db"
      using step' False by (simp add: commits_def loadProjection_def ReadEvents_whole)
    have ck: "current c k db" using c by (simp add: consistent_def)
    show ?thesis
      unfolding current_def load_k
    proof (intro allI impI)
      fix r
      assume r: "loadProjection c k db = Inr r"
      show "if p_initialised r then materialised c r db'
        else summary_row k db' = None \<and> tasks_of_project k db' = [] \<and> attempts_of_project k db' = []"
        using ck r rows [OF False] load_project [OF r] materialised_frame [of r db db' c]
        unfolding current_def same_project_rows_def by (cases "p_initialised r") simp_all
    qed
  qed
  then show "consistent c db'"
    using step' sp(1) by (simp add: consistent_def commits_def)
qed

section \<open>Saving again\<close>

text \<open>What the rows of the other projects are, and how a saved projection is laid out.\<close>

definition other_rows :: "string \<Rightarrow> database \<Rightarrow> Task list \<times> Attempt list" where
  "other_rows p db = (filter (\<lambda>t. t_ProjectID t \<noteq> p) (db_Tasks db),
     filter (\<lambda>a. a_ProjectID a \<noteq> p) (db_Attempts db))"

lemma clear_projection_other:
  assumes "tables db"
  shows "clear_projection p db =
    db\<lparr>db_Tasks := fst (other_rows p db), db_Attempts := snd (other_rows p db)\<rparr>"
proof -
  have "filter (\<lambda>a. a_ProjectID a \<noteq> p \<and> a_TaskID a \<notin> t_ID ` {t \<in> set (db_Tasks db). t_ProjectID t = p})
      (db_Attempts db) = filter (\<lambda>a. a_ProjectID a \<noteq> p) (db_Attempts db)"
    using attempts_follow_tasks [OF assms] by (intro filter_cong) auto
  then show ?thesis by (simp add: clear_projection_def other_rows_def Let_def)
qed

lemma tables_upsert: "tables db \<Longrightarrow> tables (db\<lparr>db_Projects := upsert_project s (db_Projects db)\<rparr>)"
  by (simp add: tables_def upsert_keys)

lemma SaveProjection_iff:
  assumes i: "inv q" "owned q" and t: "tables db"
  shows "SaveProjection c q db = Inr db' \<longleftrightarrow>
    (\<exists>doc. render_state q = Inr (rendered q) \<and> enc_ProjectState c (rendered q) = Some doc \<and>
       db' = db\<lparr>db_Projects := upsert_project (project_summary q (rendered q) doc (DigestBytes c doc))
                  (db_Projects db),
                db_Tasks := fst (other_rows (p_ProjectID q) db) @ task_rows q,
                db_Attempts := snd (other_rows (p_ProjectID q) db) @ attempt_rows q\<rparr> \<and>
       keys_fresh t_ID (fst (other_rows (p_ProjectID q) db)) (task_rows q) \<and>
       keys_fresh alias_key (fst (other_rows (p_ProjectID q) db)) (task_rows q) \<and>
       keys_fresh a_ID (snd (other_rows (p_ProjectID q) db)) (attempt_rows q) \<and>
       keys_fresh ordinal_key (snd (other_rows (p_ProjectID q) db)) (attempt_rows q))"
proof -
  have keys: "sum_ProjectID s \<in> sum_ProjectID ` set (upsert_project s rs)" for s rs
    by (induction rs) auto
  have "(\<forall>t \<in> set (task_rows q). t_ProjectID t \<in> sum_ProjectID `
      set (upsert_project (project_summary q st doc d) (db_Projects db)))" for st doc d
    using keys [of "project_summary q st doc d"] task_row(2) [OF i(1)]
    by (simp add: project_summary_def)
  then show ?thesis
    by (auto simp: SaveProjection_def render_state_ok Let_def Tasks_of_rows [OF i(1)]
        clear_projection_other [OF tables_upsert [OF t]] insert_trees [OF i] other_rows_def
        attempt_rows_def)
qed

text \<open>Saving a later projection of the same project overwrites what was saved before.\<close>

definition with_ledger :: "database \<Rightarrow> database \<Rightarrow> database" where
  "with_ledger L T = T\<lparr>db_Events := db_Events L, db_NextSeq := db_NextSeq L, db_Records := db_Records L\<rparr>"

lemma with_ledger_simps [simp]:
  "db_Events (with_ledger L T) = db_Events L" "db_NextSeq (with_ledger L T) = db_NextSeq L"
  "db_Records (with_ledger L T) = db_Records L" "db_Projects (with_ledger L T) = db_Projects T"
  "db_Tasks (with_ledger L T) = db_Tasks T" "db_Attempts (with_ledger L T) = db_Attempts T"
  "tables (with_ledger L T) = tables T" "other_rows p (with_ledger L T) = other_rows p T"
  "with_ledger L (with_ledger M T) = with_ledger L T" "with_ledger (with_ledger L T) U = with_ledger L U"
  by (simp_all add: with_ledger_def tables_def other_rows_def)

lemma with_ledger_self: "same_ledger L T \<Longrightarrow> with_ledger L T = T"
  by (simp add: with_ledger_def same_ledger_def)

lemma with_ledger_saved:
  "(with_ledger M T)\<lparr>db_Projects := ps, db_Tasks := ts, db_Attempts := as\<rparr> =
     \<lparr>db_Events = db_Events M, db_NextSeq = db_NextSeq M, db_Records = db_Records M, db_Projects = ps,
      db_Tasks = ts, db_Attempts = as\<rparr>"
  by (cases T) (simp add: with_ledger_def)

definition overwrites :: "('a store_codec_scheme) \<Rightarrow> string \<Rightarrow> database \<Rightarrow> database \<Rightarrow> bool" where
  "overwrites c p db T \<longleftrightarrow> tables db \<and> tables T \<and>
     (\<forall>q L db'. inv q \<longrightarrow> owned q \<longrightarrow> p_ProjectID q = p \<longrightarrow>
        SaveProjection c q (with_ledger L db) = Inr db' \<longrightarrow> SaveProjection c q (with_ledger L T) = Inr db')"

lemma overwrites_refl: "tables db \<Longrightarrow> overwrites c p db db"
  by (simp add: overwrites_def)

lemma upsert_upsert:
  "sum_ProjectID s = sum_ProjectID r \<Longrightarrow> upsert_project s (upsert_project r rs) = upsert_project s rs"
  by (induction rs) auto

lemma other_rows_saved:
  assumes "SaveProjection c q db = Inr db'" "inv q" "owned q" "tables db"
  shows "other_rows (p_ProjectID q) db' = other_rows (p_ProjectID q) db"
proof -
  have "\<forall>t \<in> set (task_rows q). t_ProjectID t = p_ProjectID q" using task_row(2) [OF assms(2)] by blast
  moreover have "\<forall>a \<in> set (attempt_rows q). a_ProjectID a = p_ProjectID q"
    using attempt_row(2) [OF assms(2,3)] by (auto simp: attempt_rows_def)
  ultimately show ?thesis
    using assms(1) unfolding SaveProjection_iff [OF assms(2-4)]
    by (auto simp: other_rows_def filter_empty_conv)
qed

lemma overwrites_saved:
  assumes o: "overwrites c (p_ProjectID q) db T" and i: "inv q" "owned q"
    and save: "SaveProjection c q (with_ledger L db) = Inr db'"
  shows "overwrites c (p_ProjectID q) db' T"
  unfolding overwrites_def
proof (intro conjI allI impI)
  have t: "tables (with_ledger L db)" "tables T" using o by (simp_all add: overwrites_def)
  show "tables T" by (rule t(2))
  show t': "tables db'" using SaveProjection_tables(1) [OF save i t(1)] .
  fix r M db2
  assume r: "inv r" "owned r" and pid: "p_ProjectID r = p_ProjectID q"
    and s: "SaveProjection c r (with_ledger M db') = Inr db2"
  have t2: "tables (with_ledger M db')" "tables (with_ledger M db)" using t' t(1) by simp_all
  have "other_rows (p_ProjectID r) db' = other_rows (p_ProjectID r) db"
    using other_rows_saved [OF save i t(1)] pid by simp
  moreover obtain doc where "db_Projects db' =
      upsert_project (project_summary q (rendered q) doc (DigestBytes c doc)) (db_Projects db)"
    using save unfolding SaveProjection_iff [OF i t(1)] by auto
  ultimately have "SaveProjection c r (with_ledger M db) = Inr db2"
    using s unfolding SaveProjection_iff [OF r t2(1)] SaveProjection_iff [OF r t2(2)]
    by (auto simp: upsert_upsert project_summary_def pid with_ledger_saved)
  then show "SaveProjection c r (with_ledger M T) = Inr db2"
    using o r pid unfolding overwrites_def by blast
qed

end
