(* ===== verification/Operations.thy ===== *)
theory Operations
  imports Tables
begin

text \<open>
  The operations of the application service that are built on Apply (operations.go) and its reads
  (service.go). What the identifier source returns for a new task is an argument.
\<close>

section \<open>Operations that append an event\<close>

definition validateProjectID_char :: "char \<Rightarrow> bool" where
  "validateProjectID_char r \<longleftrightarrow>
     (CHR ''a'' \<le> r \<and> r \<le> CHR ''z'') \<or> (CHR ''0'' \<le> r \<and> r \<le> CHR ''9'') \<or>
     r = CHR ''-'' \<or> r = CHR ''_''"

definition validateProjectID :: "string \<Rightarrow> go_error option" where
  "validateProjectID i = first_err
     [check (i = []) CategoryInvalidArgument,
      check (length i > 64) CategoryInvalidArgument,
      check (\<not> list_all validateProjectID_char i) CategoryInvalidArgument]"

definition defaultActor :: "Actor \<Rightarrow> ActorKind \<Rightarrow> string \<Rightarrow> Actor" where
  "defaultActor actor kind i =
     \<lparr>actor_Kind = (if actor_Kind actor = UnknownActorKind [] then kind else actor_Kind actor),
      actor_ID = (if actor_ID actor = [] then i else actor_ID actor)\<rparr>"

record InitProjectInput =
  in_ProjectID :: string
  in_Name :: string
  in_MilestoneID :: string
  in_MilestoneTitle :: string
  in_VisionRef :: string
  in_CurrentOutcome :: string
  in_RepositoryPath :: string
  in_AcceptedCommit :: string
  in_Branch :: string
  in_ActiveInvariants :: "string list"
  in_Actor :: Actor

definition InitProject ::
  "('a store_codec_scheme) \<Rightarrow> occasion \<Rightarrow> InitProjectInput \<Rightarrow> database \<Rightarrow> Result result \<times> database" where
  "InitProject c oc i db =
     (case validateProjectID (in_ProjectID i) of
        Some err \<Rightarrow> (Inl err, db)
      | None \<Rightarrow>
          if in_RepositoryPath i \<noteq> [] \<and> take 1 (in_RepositoryPath i) \<noteq> ''/''
          then (Inl (New CategoryInvalidArgument), db)
          else
            (let name = (if in_Name i = [] then in_ProjectID i else in_Name i)
             in Service_Apply c oc
                  \<lparr>cmd_ProjectID = in_ProjectID i,
                   cmd_Actor = defaultActor (in_Actor i) ActorHuman ''operator'',
                   cmd_Correlation = NoCorrelation\<lparr>co_MilestoneID := in_MilestoneID i\<rparr>,
                   cmd_Payload = Some (PProjectInitialized
                     \<lparr>pi_Name = name, pi_AcceptedCommit = in_AcceptedCommit i,
                      pi_Branch = in_Branch i, pi_RepositoryPath = in_RepositoryPath i,
                      pi_VisionRef = in_VisionRef i, pi_CurrentOutcome = in_CurrentOutcome i,
                      pi_MilestoneID = in_MilestoneID i, pi_MilestoneTitle = in_MilestoneTitle i,
                      pi_ActiveInvariants = in_ActiveInvariants i\<rparr>),
                   cmd_Records = []\<rparr> db))"

record CreateTaskInput =
  ct_ProjectID :: string
  ct_Alias :: string
  ct_Title :: string
  ct_MilestoneID :: string
  ct_ChangeClass :: ChangeClass
  ct_DependsOn :: "string list"
  ct_Actor :: Actor

definition CreateTask ::
  "('a store_codec_scheme) \<Rightarrow> occasion \<Rightarrow> string \<Rightarrow> CreateTaskInput \<Rightarrow> database
     \<Rightarrow> Result result \<times> database" where
  "CreateTask c oc taskID i db =
     (if ct_Alias i = [] then (Inl (New CategoryInvalidArgument), db)
      else if ct_Title i = [] then (Inl (New CategoryInvalidArgument), db)
      else
        (let changeClass = (if ct_ChangeClass i = UnknownChangeClass [] then ChangeSystemic
                            else ct_ChangeClass i)
         in Service_Apply c oc
              \<lparr>cmd_ProjectID = ct_ProjectID i,
               cmd_Actor = defaultActor (ct_Actor i) ActorPrincipal ''principal'',
               cmd_Correlation = NoCorrelation
                 \<lparr>co_TaskID := taskID, co_MilestoneID := ct_MilestoneID i\<rparr>,
               cmd_Payload = Some (PTaskCreated
                 \<lparr>tc_TaskID = taskID, tc_Alias = ct_Alias i, tc_Title = ct_Title i,
                  tc_MilestoneID = ct_MilestoneID i, tc_ChangeClass = changeClass,
                  tc_DependsOn = ct_DependsOn i\<rparr>),
               cmd_Records = []\<rparr> db))"

definition ResolveTaskID :: "string \<Rightarrow> string \<Rightarrow> database \<Rightarrow> string result" where
  "ResolveTaskID projectID handle db =
     bind_result (stored_task_by_alias projectID handle db) (\<lambda>task. Inr (t_ID task))"

record ApproveWorkPackageInput =
  aw_ProjectID :: string
  aw_TaskAlias :: string
  aw_WorkPackage :: "EngineeringWorkPackage option"
  aw_Actor :: Actor

definition approval_command ::
  "ApproveWorkPackageInput \<Rightarrow> string \<Rightarrow> EngineeringWorkPackage \<Rightarrow> string \<Rightarrow> Command" where
  "approval_command i taskID w digest =
     \<lparr>cmd_ProjectID = aw_ProjectID i,
      cmd_Actor = defaultActor (aw_Actor i) ActorPrincipal ''principal'',
      cmd_Correlation = NoCorrelation
        \<lparr>co_TaskID := taskID, co_WorkPackageID := ewp_WorkPackageID w\<rparr>,
      cmd_Payload = Some (PWorkPackageApproved
        \<lparr>wa_TaskID = taskID, wa_WorkPackageID = ewp_WorkPackageID w,
         wa_WorkPackageVersion = ewp_Version w, wa_RecordDigest = digest,
         wa_ProjectStateRevision = ewp_ProjectStateRevision w, wa_BaseCommit = ewp_BaseCommit w,
         wa_ChangeClass = ewp_ChangeClass w\<rparr>),
      cmd_Records = [\<lparr>rts_Version = ewp_Version w, rts_Record = Some (RWorkPackage w)\<rparr>]\<rparr>"

definition ApproveWorkPackage ::
  "('a store_codec_scheme) \<Rightarrow> occasion \<Rightarrow> ApproveWorkPackageInput \<Rightarrow> database
     \<Rightarrow> Result result \<times> database" where
  "ApproveWorkPackage c oc i db =
     (case aw_WorkPackage i of
        None \<Rightarrow> (Inl (New CategoryInvalidArgument), db)
      | Some given \<Rightarrow>
          (case ResolveTaskID (aw_ProjectID i) (aw_TaskAlias i) db of
             Inl err \<Rightarrow> (Inl err, db)
           | Inr taskID \<Rightarrow>
               (let w = given\<lparr>ewp_SchemaVersion := SchemaVersion1,
                              ewp_ProjectID := aw_ProjectID i, ewp_TaskID := taskID\<rparr>
                in case EngineeringWorkPackage_Validate w of
                     Some err \<Rightarrow> (Inl err, db)
                   | None \<Rightarrow>
                       (case encoded (enc_Record c (RWorkPackage w)) of
                          Inl err \<Rightarrow> (Inl err, db)
                        | Inr canonical \<Rightarrow>
                            Service_Apply c oc
                              (approval_command i taskID w (DigestBytes c canonical)) db))))"

record AppendTypedEventInput =
  at_ProjectID :: string
  at_Payload :: "Payload option"
  at_Records :: "RecordToStore list"
  at_Correlation :: Correlation
  at_Actor :: Actor

definition AppendTypedEvent ::
  "('a store_codec_scheme) \<Rightarrow> occasion \<Rightarrow> AppendTypedEventInput \<Rightarrow> database
     \<Rightarrow> Result result \<times> database" where
  "AppendTypedEvent c oc i db =
     Service_Apply c oc
       \<lparr>cmd_ProjectID = at_ProjectID i,
        cmd_Actor = defaultActor (at_Actor i) ActorControlPlane ''devcadence'',
        cmd_Correlation = at_Correlation i, cmd_Payload = at_Payload i,
        cmd_Records = at_Records i\<rparr> db"

section \<open>Reads\<close>

definition Service_ProjectState ::
  "('a store_codec_scheme) \<Rightarrow> string \<Rightarrow> database \<Rightarrow> ProjectState result" where
  "Service_ProjectState c projectID db = MaterialisedProjectState c projectID db"

definition ProjectStateAt ::
  "('a codec_scheme) \<Rightarrow> string \<Rightarrow> int \<Rightarrow> database \<Rightarrow> ProjectState result" where
  "ProjectStateAt c projectID seq db =
     bind_result (ReadEvents c ((whole_journal projectID)\<lparr>eq_UpToSeq := seq\<rparr>) db) (\<lambda>stream.
     bind_result (Reduce stream) render_state)"

definition rebuild_transaction ::
  "('a store_codec_scheme) \<Rightarrow> string \<Rightarrow> database \<Rightarrow> (ProjectState \<times> database) result" where
  "rebuild_transaction c projectID db =
     bind_result (loadProjection c projectID db) (\<lambda>projection.
     require (check (\<not> p_initialised projection) CategoryNotFound)
     (bind_result (SaveProjection c projection (DropProjection projectID db)) (\<lambda>db'.
      bind_result (render_state projection) (\<lambda>projectState. Inr (projectState, db')))))"

definition RebuildProjection ::
  "('a store_codec_scheme) \<Rightarrow> string \<Rightarrow> database \<Rightarrow> ProjectState result \<times> database" where
  "RebuildProjection c projectID db = Write (rebuild_transaction c projectID) db"

definition Service_Events :: "('a codec_scheme) \<Rightarrow> EventQuery \<Rightarrow> database \<Rightarrow> Event list result" where
  "Service_Events c query db = ReadEvents c query db"

definition Projects :: "('a codec_scheme) \<Rightarrow> database \<Rightarrow> ProjectSummary list result" where
  "Projects c db = ProjectSummaries c db"

definition Service_Tasks :: "string \<Rightarrow> State list \<Rightarrow> database \<Rightarrow> Task list result" where
  "Service_Tasks projectID states db = stored_tasks projectID states db"

record TaskDetail =
  td_Task :: Task
  td_Attempts :: "Attempt list"
  td_History :: "Event list"

definition Service_TaskDetail ::
  "('a codec_scheme) \<Rightarrow> string \<Rightarrow> string \<Rightarrow> database \<Rightarrow> TaskDetail result" where
  "Service_TaskDetail c projectID handle db =
     bind_result (stored_task_by_alias projectID handle db) (\<lambda>task.
     bind_result (stored_attempts (t_ID task) db) (\<lambda>attempts.
     bind_result (ReadEvents c ((whole_journal projectID)\<lparr>eq_TaskID := t_ID task\<rparr>) db) (\<lambda>history.
       Inr \<lparr>td_Task = task, td_Attempts = attempts, td_History = history\<rparr>)))"

definition Service_Record ::
  "('a codec_scheme) \<Rightarrow> string \<Rightarrow> string \<Rightarrow> string \<Rightarrow> int \<Rightarrow> database \<Rightarrow> StoredRecord result" where
  "Service_Record c projectID kind i version db = read_record c projectID kind i version db"

definition Service_LatestRecord ::
  "('a codec_scheme) \<Rightarrow> string \<Rightarrow> string \<Rightarrow> string \<Rightarrow> database \<Rightarrow> StoredRecord option result" where
  "Service_LatestRecord c projectID kind i db = LatestRecord c projectID kind i db"

section \<open>Every operation keeps the database consistent\<close>

lemma applyMember_saving:
  "applyMember c oc cmd True q db = Inr (res, q', db') \<longleftrightarrow>
     (\<exists>db1. applyMember c oc cmd False q db = Inr (res, q', db1) \<and> SaveProjection c q' db1 = Inr db')"
  unfolding applyMember_def Let_def
  by (cases "cmd_Payload cmd") (auto simp: outcome_result)

lemma applyMember_tables:
  assumes "applyMember c oc cmd False q db = Inr (res, q', db')" "ledger c db"
  shows "db_Projects db' = db_Projects db" "db_Tasks db' = db_Tasks db"
    "db_Attempts db' = db_Attempts db"
proof -
  obtain ds db1 where put: "put_records c (oc_StoredAt oc) (cmd_ProjectID cmd) (cmd_Records cmd)
      Map.empty db = Inr (ds, db1)"
    and ap: "\<exists>e. AppendEvent c e db1 = Inr (res_Event res, db')"
    using assms(1) by (cases rule: applyMember_ok) auto
  obtain rs where "db1 = db\<lparr>db_Records := db_Records db @ rs\<rparr>"
    using put_records_only [OF put] assms(2) by (auto simp: ledger_def)
  then show "db_Projects db' = db_Projects db" "db_Tasks db' = db_Tasks db"
    "db_Attempts db' = db_Attempts db"
    using ap by (auto simp: AppendEvent_ok)
qed

lemma apply_members_tables:
  assumes "apply_members c oc n ms q db = Inr (rs, q', db')" "ledger c db"
    "loadProjection c p db = Inr q" "\<forall>m \<in> set ms. cmd_ProjectID m = p \<and> command_survives c m"
  shows "db_Projects db' = db_Projects db \<and> db_Tasks db' = db_Tasks db \<and>
    db_Attempts db' = db_Attempts db"
  using assms
proof (induction ms arbitrary: n q db rs)
  case Nil
  then show ?case by simp
next
  case (Cons m ms)
  then obtain res q1 db1 rs' where m: "applyMember c (oc n) m False q db = Inr (res, q1, db1)"
    and rest: "apply_members c oc (Suc n) ms q1 db1 = Inr (rs', q', db')"
    by auto
  have "commits c p q [res_Event res] q1 db db1"
    using member_commits [OF Cons.prems(2) _ m] Cons.prems(3,4) by simp
  then show ?case
    using Cons.IH [OF rest] applyMember_tables [OF m Cons.prems(2)] Cons.prems(4)
    by (simp add: commits_def)
qed

end
