(* ===== verification/Custody.thy ===== *)
theory Custody
  imports Operations
begin

text \<open>
  What the control plane promises of its database as a whole: every operation keeps the ledger sound
  and the tables materialised, a failed operation changes nothing, a batch is the sequence of its
  commands, and reads answer from the reduction of the journal.
\<close>

section \<open>Commands read and write only the ledger\<close>

definition on_tables :: "database \<Rightarrow> ('b \<times> database) result \<Rightarrow> ('b \<times> database) result" where
  "on_tables T r = (case r of Inl e \<Rightarrow> Inl e | Inr (x, db) \<Rightarrow> Inr (x, with_ledger db T))"

lemma on_tables_simps [simp]:
  "on_tables T (Inl e) = Inl e" "on_tables T (Inr (x, db)) = Inr (x, with_ledger db T)"
  "on_tables T (require c r) = require c (on_tables T r)"
  "on_tables T (bind_result s k) = bind_result s (\<lambda>x. on_tables T (k x))"
  "on_tables T (if b then r else r') = (if b then on_tables T r else on_tables T r')"
  by (auto simp: on_tables_def require_def bind_result_def split: option.splits sum.splits)

lemma ledger_reads [simp]:
  "read_record c p k i v (with_ledger db T) = read_record c p k i v db"
  "LatestRecord c p k i (with_ledger db T) = LatestRecord c p k i db"
  "resolveRecord c p ref (with_ledger db T) = resolveRecord c p ref db"
  "check_reference c p pl (with_ledger db T) = check_reference c p pl db"
  "checkProductAuthorityRefs c p r (with_ledger db T) = checkProductAuthorityRefs c p r db"
  "project_rows p (with_ledger db T) = project_rows p db"
  "loadProjection c p (with_ledger db T) = loadProjection c p db"
proof -
  show r: "read_record c p k i v (with_ledger db T) = read_record c p k i v db" for p k i v
    by (simp add: read_record_def)
  show l: "LatestRecord c p k i (with_ledger db T) = LatestRecord c p k i db" for p k i
    by (simp add: LatestRecord_def LatestRecordVersion_def r cong: if_cong)
  show s: "resolveRecord c p ref (with_ledger db T) = resolveRecord c p ref db" for p ref
    by (simp add: resolveRecord_def r l cong: if_cong sum.case_cong)
  show "check_reference c p pl (with_ledger db T) = check_reference c p pl db"
    by (simp add: check_reference_def s cong: if_cong option.case_cong sum.case_cong)
  show "checkProductAuthorityRefs c p r (with_ledger db T) = checkProductAuthorityRefs c p r db"
    by (simp add: checkProductAuthorityRefs_def l cong: if_cong option.case_cong Record.case_cong)
  show "project_rows p (with_ledger db T) = project_rows p db" by (simp add: project_rows_def)
  show "loadProjection c p (with_ledger db T) = loadProjection c p db"
    by (simp add: loadProjection_def ReadEvents_whole project_rows_def)
qed

lemma with_ledger_append [simp]:
  "with_ledger (db\<lparr>db_Records := rs\<rparr>) T = (with_ledger db T)\<lparr>db_Records := rs\<rparr>"
  "with_ledger (db\<lparr>db_Events := es, db_NextSeq := n\<rparr>) T =
     (with_ledger db T)\<lparr>db_Events := es, db_NextSeq := n\<rparr>"
  by (simp_all add: with_ledger_def)

lemma PutRecord_tables:
  "PutRecord c now p v r (with_ledger db T) = on_tables T (PutRecord c now p v r db)"
  by (cases "read_record c p (RecordKind r) (RecordID r) v db") (simp_all add: PutRecord_def Let_def cong: if_cong)

lemma AppendEvent_tables: "AppendEvent c e (with_ledger db T) = on_tables T (AppendEvent c e db)"
  by (simp add: AppendEvent_def Let_def cong: if_cong)

lemma put_records_tables:
  "put_records c now p xs ds (with_ledger db T) = on_tables T (put_records c now p xs ds db)"
proof (induction xs arbitrary: ds db)
  case (Cons x xs)
  show ?case
  proof (cases "rts_Record x")
    case (Some r)
    show ?thesis
      by (cases "PutRecord c now p (rts_Version x) r db")
        (auto simp: Some PutRecord_tables Cons.IH require_def fun_upd_def split: option.splits)
  qed simp
qed simp

lemma applyMember_tables_frame:
  assumes "applyMember c oc cmd False q db = Inr (res, q', db')"
  shows "applyMember c oc cmd False q (with_ledger db T) = Inr (res, q', with_ledger db' T)"
  using assms unfolding applyMember_def Let_def
  by (cases "cmd_Payload cmd")
    (auto simp: outcome_result put_records_tables AppendEvent_tables)

section \<open>Transactions\<close>

lemma members_payloads:
  "apply_members c oc n ms q db = Inr (rs, q', db') \<Longrightarrow>
     map ev_Payload (map res_Event rs) = map cmd_Payload ms"
proof (induction ms arbitrary: n q db rs)
  case (Cons m ms)
  then obtain res q1 db1 rs' where m: "applyMember c (oc n) m False q db = Inr (res, q1, db1)"
    and rest: "apply_members c oc (Suc n) ms q1 db1 = Inr (rs', q', db')" and rs: "rs = res # rs'"
    by auto
  have "ev_Payload (res_Event res) = cmd_Payload m"
    using m by (cases rule: applyMember_ok) (auto simp: AppendEvent_ok)
  then show ?case using Cons.IH [OF rest] rs by simp
qed simp

text \<open>What a transaction of one project did when it committed these events.\<close>

definition committed ::
  "('a store_codec_scheme) \<Rightarrow> string \<Rightarrow> Event list \<Rightarrow> Projection \<Rightarrow> database \<Rightarrow> database \<Rightarrow> bool" where
  "committed c p new q' db db' \<longleftrightarrow>
     consistent c db' \<and>
     (\<exists>q. loadProjection c p db = Inr q \<and> commits c p q new q' db db') \<and> materialised c q' db' \<and>
     (\<forall>k. k \<noteq> p \<longrightarrow> same_project_rows k db db')"

lemma apply_transaction_committed:
  assumes c: "consistent c db" and s: "command_survives c cmd"
    and ok: "apply_transaction c oc cmd db = Inr (res, db')"
  obtains q' where "committed c (cmd_ProjectID cmd) [res_Event res] q' db db'"
    "render_state q' = Inr (res_ProjectState res)"
proof -
  from ok obtain q q' db1 where q: "loadProjection c (cmd_ProjectID cmd) db = Inr q"
    and m: "applyMember c oc cmd False q db = Inr (res, q', db1)"
    and save: "SaveProjection c q' db1 = Inr db'"
    by (auto simp: apply_transaction_def applyMember_saving)
  have l: "ledger c db" using c by (simp add: consistent_def)
  note step = member_commits [OF l q m s]
  have "committed c (cmd_ProjectID cmd) [res_Event res] q' db db'"
    using consistent_step [OF c step applyMember_tables [OF m l] save] q unfolding committed_def by blast
  moreover have "render_state q' = Inr (res_ProjectState res)"
    using m by (cases rule: applyMember_ok) simp
  ultimately show thesis by (rule that)
qed

lemma Service_Apply_cases:
  assumes "Service_Apply c oc cmd db = (r, db')"
  obtains (refused) e where "r = Inl e" "db' = db"
  | (applied) res where "r = Inr res" "apply_transaction c oc cmd db = Inr (res, db')"
      "cmd_ProjectID cmd \<noteq> []" "Actor_Validate (cmd_Actor cmd) = None"
  using assms
  by (auto simp: Service_Apply_def Write_def split: if_splits option.splits sum.splits)

lemma batch_transaction_committed:
  assumes c: "consistent c db"
    and s: "\<forall>m \<in> set (bat_Commands b). cmd_ProjectID m = bat_ProjectID b \<and> command_survives c m"
    and ok: "batch_transaction c oc b db = Inr (out, db')"
  obtains q q' where "committed c (bat_ProjectID b) (map res_Event (bres_Results out)) q' db db'"
    "render_state q' = Inr (bres_ProjectState out)" "loadProjection c (bat_ProjectID b) db = Inr q"
    "StateRevision (p_HighWatermark q) = bat_ExpectedStateRevision b"
    "map ev_Payload (map res_Event (bres_Results out)) = map cmd_Payload (bat_Commands b)"
proof -
  from ok obtain q rs q' db1 st where q: "loadProjection c (bat_ProjectID b) db = Inr q"
    and rev: "StateRevision (p_HighWatermark q) = bat_ExpectedStateRevision b"
    and ms: "apply_members c oc 0 (bat_Commands b) q db = Inr (rs, q', db1)"
    and save: "SaveProjection c q' db1 = Inr db'" and st: "render_state q' = Inr st"
    and out: "out = \<lparr>bres_Results = rs, bres_ProjectState = st\<rparr>"
    by (auto simp: batch_transaction_def split: if_splits prod.splits)
  have l: "ledger c db" using c by (simp add: consistent_def)
  have step: "commits c (bat_ProjectID b) q (map res_Event rs) q' db db1"
    by (rule members_commit [OF ms l q s])
  have same: "db_Projects db1 = db_Projects db" "db_Tasks db1 = db_Tasks db"
    "db_Attempts db1 = db_Attempts db"
    using apply_members_tables [OF ms l q s] by simp_all
  have "committed c (bat_ProjectID b) (map res_Event rs) q' db db'"
    using consistent_step [OF c step same save] q unfolding committed_def by blast
  moreover have "map ev_Payload (map res_Event rs) = map cmd_Payload (bat_Commands b)"
    using ms by (rule members_payloads)
  ultimately show thesis using st rev q out by (intro that [of q' q]) simp_all
qed

section \<open>Rebuilding\<close>

lemma DropProjection_rows:
  assumes "tables db"
  shows "tables (DropProjection p db)" "same_ledger db (DropProjection p db)"
    "other_rows p (DropProjection p db) = other_rows p db"
    "k \<noteq> p \<Longrightarrow> same_project_rows k db (DropProjection p db)"
proof -
  note clear = clear_projection_rows [OF assms, where p = p]
  have f: "find (\<lambda>s. sum_ProjectID s = k) (filter (\<lambda>s. sum_ProjectID s \<noteq> p) rs) =
      find (\<lambda>s. sum_ProjectID s = k) rs" if "k \<noteq> p" for k rs
    using that by (induction rs) auto
  show "tables (DropProjection p db)"
    using clear(1) by (simp add: DropProjection_def Let_def tables_def distinct_map_filter)
  show "same_ledger db (DropProjection p db)"
    using clear(7) by (simp add: DropProjection_def Let_def same_ledger_def)
  show "other_rows p (DropProjection p db) = other_rows p db"
    by (simp add: DropProjection_def Let_def clear_projection_other [OF assms] other_rows_def)
  show "k \<noteq> p \<Longrightarrow> same_project_rows k db (DropProjection p db)"
    using clear(4-6) f by (simp add: DropProjection_def Let_def same_project_rows_def summary_row_def
        tasks_of_project_def attempts_of_project_def)
qed

text \<open>The rows that are saved again had unique keys before, so the rebuild succeeds.\<close>

lemma rebuild_succeeds:
  assumes c: "consistent c db" and q: "loadProjection c p db = Inr q" and i: "p_initialised q"
  obtains db' where "SaveProjection c q (DropProjection p db) = Inr db'"
proof -
  have pid: "p_ProjectID q = p" using load_project [OF q i] .
  have t: "tables db" using c by (simp add: consistent_def)
  have inv: "inv q" "owned q" using load_owned [OF q] by simp_all
  have "materialised c q db" using c q i by (simp add: consistent_def current_def)
  then obtain doc where doc: "render_state q = Inr (rendered q)"
    "enc_ProjectState c (rendered q) = Some doc"
    and rows: "task_rows q = filter (\<lambda>t. t_ProjectID t = p) (db_Tasks db)"
      "attempt_rows q = filter (\<lambda>a. a_ProjectID a = p) (db_Attempts db)"
    by (auto simp: materialised_def pid tasks_of_project_def attempts_of_project_def)
  have "keys_fresh t_ID (fst (other_rows p db)) (task_rows q)"
    "keys_fresh alias_key (fst (other_rows p db)) (task_rows q)"
    "keys_fresh a_ID (snd (other_rows p db)) (attempt_rows q)"
    "keys_fresh ordinal_key (snd (other_rows p db)) (attempt_rows q)"
    using t unfolding rows other_rows_def fst_conv snd_conv
    by (intro keys_fresh_split; simp add: tables_def)+
  then show thesis
    using doc that unfolding SaveProjection_iff [OF inv DropProjection_rows(1) [OF t]]
    by (simp add: pid DropProjection_rows(3) [OF t])
qed

lemma materialised_unique:
  assumes "materialised c q db" "materialised c q db'" "p_ProjectID q = p"
  shows "same_project_rows p db db'"
  using assms by (auto simp: materialised_def same_project_rows_def)

lemma rebuild_same:
  assumes c: "consistent c db" and q: "loadProjection c p db = Inr q" and i: "p_initialised q"
    and save: "SaveProjection c q (DropProjection p db) = Inr db'"
  shows "same_ledger db db'" "\<forall>k. same_project_rows k db db'" "consistent c db'"
proof -
  have pid: "p_ProjectID q = p" using load_project [OF q i] .
  have t: "tables db" using c by (simp add: consistent_def)
  have inv: "inv q" "owned q" using load_owned [OF q] by simp_all
  note drop = DropProjection_rows [OF t, where p = p]
  note sp = SaveProjection_tables [OF save inv drop(1), unfolded pid]
  show l: "same_ledger db db'" using drop(2) sp(2) by (simp add: same_ledger_def)
  have "materialised c q db" using c q i by (simp add: consistent_def current_def)
  then have "same_project_rows k db db'" for k
    using materialised_unique [OF _ sp(3) pid] same_project_rows_trans [OF drop(4) sp(4)]
    by (cases "k = p") simp_all
  then show rows: "\<forall>k. same_project_rows k db db'" by blast
  have "current c k db'" for k
  proof -
    have "loadProjection c k db' = loadProjection c k db" using same_ledger_journal(3) [OF l] .
    moreover have "current c k db" using c by (simp add: consistent_def)
    ultimately show ?thesis
      using rows load_project [of c k db] materialised_frame [of _ db db' c]
      unfolding current_def same_project_rows_def by metis
  qed
  then show "consistent c db'"
    using c sp(1) same_ledger_ledger [OF l, of c] by (simp add: consistent_def)
qed

section \<open>Contention\<close>

lemma serializedAttempt_cases:
  assumes "serializedAttempt env f db = (r, db')"
  shows "(\<exists>x. r = Inr x \<and> f db = Inr (x, db')) \<or>
    (\<exists>e. r = Inl e \<and> (db' = db \<or> (\<exists>x. f db = Inr (x, db')) \<and> \<not> isBusy e \<and>
       \<not> Is_Sentinel e deadline_exceeded))"
  using assms
  by (auto simp: serializedAttempt_def isBusy_def commit_error_def deadline_exceeded_def
      split: option.splits sum.splits prod.splits commit_fate.splits if_splits)

text \<open>However the retries go, the transaction took effect at most once, and an error that is not a
  cancellation and reports exhausted contention means that it did not.\<close>

lemma serialized_loop_once:
  assumes "serialized_loop left env f db = (r, db')"
  shows "(\<exists>x. r = Inr x \<and> f db = Inr (x, db')) \<or>
    (\<exists>e. r = Inl e \<and> (db' = db \<or> (\<exists>x. f db = Inr (x, db'))))"
  using assms
proof (induction left)
  case (Suc left)
  let ?now = "env (MaxContentionAttempts - Suc left)"
  obtain r1 db1 where one: "serializedAttempt ?now f db = (r1, db1)" by fastforce
  note fate = serializedAttempt_cases [OF one]
  show ?case
  proof (cases r1)
    case (Inr x)
    then show ?thesis using Suc.prems fate one by (auto simp: Let_def)
  next
    case (Inl e)
    show ?thesis
    proof (cases "at_Cancelled ?now = None \<and> (at_BudgetSpent ?now \<or> isBusy e) \<and>
        \<not> (at_BudgetSpent ?now \<or> left = 0 \<or> at_BudgetSpentAfterWait ?now)")
      case True
      then have "db1 = db" using fate Inl by auto
      then show ?thesis using Suc.IH Suc.prems True one Inl by (auto simp: Let_def)
    next
      case False
      then show ?thesis using Suc.prems fate one Inl
        by (auto simp: Let_def split: option.splits if_splits)
    qed
  qed
qed auto

lemma WriteSerialized_once:
  assumes "WriteSerialized cancelled env f db = (r, db')"
  shows "(\<exists>x. r = Inr x \<and> f db = Inr (x, db')) \<or>
    (\<exists>e. r = Inl e \<and> (db' = db \<or> (\<exists>x. f db = Inr (x, db'))))"
  using assms serialized_loop_once [of MaxContentionAttempts env f db r db']
  by (auto simp: WriteSerialized_def split: option.splits)

lemma ApplyBatch_cases:
  assumes "ApplyBatch c cancelled env oc b db = (r, db')"
  obtains (refused) e where "r = Inl e" "db' = db"
  | (applied) out where "r = Inr out" "validateBatch c b = None"
      "batch_transaction c oc b db = Inr (out, db')"
  | (unconfirmed) e out where "r = Inl e" "validateBatch c b = None"
      "batch_transaction c oc b db = Inr (out, db')"
proof -
  consider (invalid) e where "validateBatch c b = Some e" | (valid) "validateBatch c b = None"
    by fastforce
  then show thesis
  proof cases
    case (invalid e)
    then show thesis using assms by (intro refused [of e]) (simp_all add: ApplyBatch_def)
  next
    case valid
    obtain r1 db1 where w: "WriteSerialized cancelled env (batch_transaction c oc b) db = (r1, db1)"
      by fastforce
    then have "db' = db1" "r = r1 \<or> (\<exists>e e'. r1 = Inl e \<and> r = Inl e')"
      using assms valid by (auto simp: ApplyBatch_def split: sum.splits if_splits)
    then show thesis using WriteSerialized_once [OF w] valid refused applied unconfirmed by metis
  qed
qed

end
