(* ===== verification/Requests.thy ===== *)
theory Requests
  imports Custody
begin

text \<open>
  Sequences of requests to the control plane and what holds after each of them; how the journal, the
  materialised view and the stored documents of a consistent database determine each other.
\<close>

section \<open>Consistency\<close>

text \<open>Any sequence of requests: commands, batches under contention, rebuilds.\<close>

datatype request =
    ApplyRequest occasion Command
  | BatchRequest "go_error option" "nat \<Rightarrow> attempt_env" "nat \<Rightarrow> occasion" BatchCommand
  | RebuildRequest string

fun serve :: "('a service_codec_scheme) \<Rightarrow> request \<Rightarrow> database \<Rightarrow> database" where
  "serve c (ApplyRequest oc cmd) db = snd (Service_Apply c oc cmd db)"
| "serve c (BatchRequest cancelled env oc b) db = snd (ApplyBatch c cancelled env oc b db)"
| "serve c (RebuildRequest p) db = snd (RebuildProjection c p db)"

fun request_survives :: "('a service_codec_scheme) \<Rightarrow> request \<Rightarrow> bool" where
  "request_survives c (ApplyRequest oc cmd) \<longleftrightarrow> command_survives c cmd"
| "request_survives c (BatchRequest cancelled env oc b) \<longleftrightarrow>
     (\<forall>m \<in> set (bat_Commands b). command_survives c m)"
| "request_survives c (RebuildRequest p) \<longleftrightarrow> True"

lemma validateBatch_projects:
  assumes "validateBatch c b = None" "m \<in> set (bat_Commands b)"
  shows "cmd_ProjectID m = bat_ProjectID b" "cmd_Actor m = bat_Actor b" "cmd_Payload m \<noteq> None"
proof -
  have "validate_members c b ms seen n = Inr k \<Longrightarrow> m \<in> set ms \<Longrightarrow>
      cmd_ProjectID m = bat_ProjectID b \<and> cmd_Actor m = bat_Actor b \<and> cmd_Payload m \<noteq> None" for ms seen n k
    by (induction ms arbitrary: seen n) (auto split: option.splits)
  moreover obtain k where "validate_members c b (bat_Commands b) [] 0 = Inr k"
    using assms(1) by (auto simp: validateBatch_def split: sum.splits)
  ultimately show "cmd_ProjectID m = bat_ProjectID b" "cmd_Actor m = bat_Actor b" "cmd_Payload m \<noteq> None"
    using assms(2) by blast+
qed

lemma serve_consistent:
  assumes "consistent c db" "request_survives c r"
  shows "consistent c (serve c r db)"
proof (cases r)
  case (ApplyRequest oc cmd)
  obtain x db' where a: "Service_Apply c oc cmd db = (x, db')" by fastforce
  then show ?thesis
    using assms unfolding ApplyRequest
    by (cases rule: Service_Apply_cases)
      (auto simp: committed_def a elim: apply_transaction_committed [OF assms(1)])
next
  case (BatchRequest cancelled env oc b)
  have "consistent c db'" if "validateBatch c b = None" "batch_transaction c oc b db = Inr (out, db')"
    for db' out
    using batch_transaction_committed [OF assms(1) _ that(2)] assms(2)
      validateBatch_projects [OF that(1)] unfolding BatchRequest committed_def by auto
  moreover obtain x db' where a: "ApplyBatch c cancelled env oc b db = (x, db')" by fastforce
  ultimately show ?thesis
    using assms(1) unfolding BatchRequest by (cases rule: ApplyBatch_cases [OF a]) (simp_all add: a)
next
  case (RebuildRequest p)
  show ?thesis
    using assms(1) rebuild_same(3) [OF assms(1)]
    by (auto simp: RebuildRequest RebuildProjection_def Write_def rebuild_transaction_def
        split: sum.splits)
qed

text \<open>The journal of a project as the service reads it.\<close>

lemma journal_reads:
  assumes "consistent c db" "p \<noteq> []"
  shows "\<exists>es q. ReadEvents c (whole_journal p) db = Inr es \<and> Reduce es = Inr q \<and>
    loadProjection c p db = Inr q \<and> scan_all (scanEvent c) (project_rows p db) = Inr es"
proof (rule sound_journal_reduces [of c db p])
  show "sound_journal c db" "p \<noteq> []" using assms by (simp_all add: consistent_def ledger_def)
qed (use assms(2) in \<open>auto simp: ReadEvents_whole\<close>)

section \<open>Reads answer from the journal\<close>

lemma summary_current:
  assumes "materialised c q db" "p_ProjectID q = p"
  shows "\<exists>doc. enc_ProjectState c (rendered q) = Some doc \<and> render_state q = Inr (rendered q) \<and>
    ProjectSummary_of c p db = Inr (project_summary q (rendered q) doc (DigestBytes c doc))"
  using assms
  by (auto simp: materialised_def ProjectSummary_of_def summary_row_def verify_summary_def
      project_summary_def require_def VerifyDigest_ok [THEN iffD2] Wrap_def)

section \<open>Evidence\<close>

lemma stored_task_reduced:
  assumes "consistent c db" "p \<noteq> []" "stored_task_by_alias p h db = Inr t"
  obtains es q where "ReadEvents c (whole_journal p) db = Inr es" "Reduce es = Inr q"
    "loadProjection c p db = Inr q" "p_initialised q" "p_tasks q (t_ID t) = Some t" "materialised c q db"
    "scan_all (scanEvent c) (project_rows p db) = Inr es" "p_ProjectID q = p"
proof -
  from assms(3) have t: "t \<in> set (tasks_of_project p db)"
    by (auto simp: stored_task_by_alias_def scanTask_def tasks_of_project_def find_Some_iff
        split: option.splits)
  obtain es q where q: "ReadEvents c (whole_journal p) db = Inr es" "Reduce es = Inr q"
    "loadProjection c p db = Inr q" "scan_all (scanEvent c) (project_rows p db) = Inr es"
    using journal_reads [OF assms(1,2)] by blast
  have cur: "current c p db" using assms(1) by (simp add: consistent_def)
  then have i: "p_initialised q" using q(3) t by (auto simp: current_def split: if_splits)
  then have m: "materialised c q db" using cur q(3) by (simp add: current_def)
  moreover have pid: "p_ProjectID q = p" using load_project [OF q(3) i] .
  ultimately have "t \<in> set (task_rows q)" using t by (simp add: materialised_def)
  then have "p_tasks q (t_ID t) = Some t" using task_row(1) load_inv [OF q(3)] by blast
  then show thesis using that q i m pid by blast
qed

text \<open>An event of the journal that refers to a document is backed by a stored one.\<close>

lemma journalled_backed:
  assumes "consistent c db" "scan_all (scanEvent c) (project_rows p db) = Inr es" "journalled es pl"
  shows "backed c db p pl \<and> Payload_Validate pl = None"
proof -
  obtain e where e: "e \<in> set es" "ev_Payload e = Some pl"
    using assms(3) by (auto simp: journalled_def)
  then obtain row where row: "row \<in> set (project_rows p db)" "scanEvent c row = Inr e"
    using scan_all_mem [OF assms(2)] by blast
  then have "backed c db (row_ProjectID row) pl"
    using assms(1) e(2) unfolding consistent_def ledger_def evidence_backed_def project_rows_def by auto
  moreover have "Payload_Validate pl = None"
    using scanned_seq [OF row(2)] e(2) by (auto simp: Event_Validate_None)
  ultimately show ?thesis using row(1) by (simp add: project_rows_def)
qed

lemma backed_validation:
  assumes "consistent c db" "backed c db p (PValidationCompleted vc)"
    "Payload_Validate (PValidationCompleted vc) = None"
  obtains n r v where "read_record c p ''ValidationResult'' (vc_ValidationID vc) n db = Inr r"
    "rcd_Digest r = vc_RecordDigest vc" "load_ValidationResult c (rcd_Document r) = Inr v"
    "vres_Commit v = vc_Commit vc" "vres_Status v = vc_Status vc"
    "vres_Subject v = \<lparr>vsub_Kind = vc_Scope vc, vsub_TaskID = vc_TaskID vc, vsub_AttemptID = vc_AttemptID vc\<rparr>"
proof -
  have sr: "sound_records c db" using assms(1) by (simp add: consistent_def ledger_def)
  have "vc_RecordDigest vc \<noteq> []" using assms(3) by (simp add: validate_defs)
  then obtain r where r: "stored_at db (record_key r) = Some r"
    "is_record p ''ValidationResult'' (vc_ValidationID vc) r" "rcd_Digest r = vc_RecordDigest vc"
    "CheckReferencedRecord c (PValidationCompleted vc) (rcd_Document r) = None"
    using assms(2) by (auto simp: backed_def Claimed_def)
  have "read_record c p ''ValidationResult'' (vc_ValidationID vc) (rcd_Version r) db = Inr r"
    using r(1,2) read_record_stored_at [OF sr] by (simp add: record_key_def is_record_def)
  moreover obtain v where "load_ValidationResult c (rcd_Document r) = Inr v"
    "vres_Commit v = vc_Commit vc" "vres_Status v = vc_Status vc" "vsub_Kind (vres_Subject v) = vc_Scope vc"
    "vsub_TaskID (vres_Subject v) = vc_TaskID vc" "vsub_AttemptID (vres_Subject v) = vc_AttemptID vc"
    using r(4) by (auto simp: with_document_None mismatch_def)
  ultimately show thesis using r(3) by (intro that [of "rcd_Version r" r v]) auto
qed

lemma backed_review:
  assumes "consistent c db" "backed c db p (PReviewCompleted rc)"
    "Payload_Validate (PReviewCompleted rc) = None"
  obtains n r v where "read_record c p ''ReviewResult'' (rc_ReviewID rc) n db = Inr r"
    "load_ReviewResult c (rcd_Document r) = Inr v"
    "rres_AttemptID v = rc_AttemptID rc" "rres_WorkPackageID v = rc_WorkPackageID rc"
    "rres_Verdict v = rc_Verdict rc"
proof -
  have sr: "sound_records c db" using assms(1) by (simp add: consistent_def ledger_def)
  have "rc_RecordDigest rc \<noteq> []" using assms(3) by (simp add: validate_defs)
  then obtain r where r: "stored_at db (record_key r) = Some r"
    "is_record p ''ReviewResult'' (rc_ReviewID rc) r"
    "CheckReferencedRecord c (PReviewCompleted rc) (rcd_Document r) = None"
    using assms(2) by (auto simp: backed_def Claimed_def)
  have "read_record c p ''ReviewResult'' (rc_ReviewID rc) (rcd_Version r) db = Inr r"
    using r(1,2) read_record_stored_at [OF sr] by (simp add: record_key_def is_record_def)
  moreover obtain v where "load_ReviewResult c (rcd_Document r) = Inr v"
    "rres_AttemptID v = rc_AttemptID rc" "rres_WorkPackageID v = rc_WorkPackageID rc"
    "rres_Verdict v = rc_Verdict rc"
    using r(3) by (auto simp: with_document_None mismatch_def)
  ultimately show thesis by (intro that [of "rcd_Version r" r v])
qed

end
