(* ===== verification/Rehearsal.thy ===== *)
theory Rehearsal
  imports Requests
begin

text \<open>
  A concrete codec and concrete commands: one task of one project from its creation to the accepted
  change, with the documents its events refer to. The properties of the store are applied to them.
\<close>

definition rehearsed_package :: EngineeringWorkPackage where
  "rehearsed_package =
     \<lparr>ewp_SchemaVersion = SchemaVersion1, ewp_WorkPackageID = ''wp1'', ewp_TaskID = ''t1'',
      ewp_Version = 1, ewp_ProjectID = ''project'', ewp_ProjectStateRevision = ''ps_000000001'',
      ewp_BaseCommit = ''0000000'', ewp_ChangeClass = ChangeLocal, ewp_Objective = ''objective'',
      ewp_Rationale = ''rationale'', ewp_ArchitecturalIntent = ''intent'', ewp_Assumptions = [],
      ewp_DecisionRefs = [], ewp_InvariantRefs = [], ewp_EvidenceRefs = [],
      ewp_Scope = \<lparr>sco_InScope = [], sco_OutOfScope = [], sco_ExpectedComponents = [],
                   sco_ProhibitedComponents = []\<rparr>,
      ewp_ImplementationStrategy = None, ewp_Interfaces = [], ewp_Pseudocode = [],
      ewp_CodeSnippets = [], ewp_RepositoryAnchors = [], ewp_EdgeCases = [], ewp_FailureModes = [],
      ewp_Guidance = [\<lparr>gd_ID = ''g1'', gd_Strength = GuidanceMust, gd_Statement = ''do'',
                       gd_SourceRefs = []\<rparr>],
      ewp_AcceptanceCriteria = [''works''], ewp_ValidationRequirements = [''tests''],
      ewp_EscalationConditions = [''stuck''], ewp_ObservabilityRequirements = [],
      ewp_Migration = None, ewp_Rollback = None\<rparr>"

definition rehearsed_validation :: ValidationResult where
  "rehearsed_validation =
     \<lparr>vres_SchemaVersion = SchemaVersion1, vres_ValidationID = ''v1'', vres_ProjectID = ''project'',
      vres_Subject = \<lparr>vsub_Kind = ScopeAttempt, vsub_TaskID = ''t1'', vsub_AttemptID = ''a1''\<rparr>,
      vres_Commit = ''ccccccc'', vres_Status = OutcomePass,
      vres_Checks = [\<lparr>ck_ID = ''k1'', ck_Kind = ''test'', ck_Command = [''make''],
        ck_ToolVersion = None, ck_WorkingDirectory = None, ck_Status = CheckPass,
        ck_ExitCode = Some 0, ck_StartedAt = 1, ck_FinishedAt = 2, ck_Summary = None,
        ck_StdoutArtifact = None, ck_StderrArtifact = None, ck_OutputTruncated = False\<rparr>]\<rparr>"

definition rehearsed_review :: ReviewResult where
  "rehearsed_review =
     \<lparr>rres_SchemaVersion = SchemaVersion1, rres_ReviewID = ''r1'', rres_ProjectID = ''project'',
      rres_AttemptID = ''a1'', rres_WorkPackageID = ''wp1'', rres_Dimension = DimensionCorrectness,
      rres_ReviewerProfile = None, rres_ModelIdentity = None, rres_Verdict = VerdictPass,
      rres_Findings = [], rres_MustCompliance = [], rres_Deviations = [], rres_Uncertainties = [],
      rres_PrincipalEscalationRecommended = False\<rparr>"

definition with_digest :: "string \<Rightarrow> Payload \<Rightarrow> Payload" where
  "with_digest d pl =
     (case pl of
        PWorkPackageApproved p \<Rightarrow> PWorkPackageApproved (p\<lparr>wa_RecordDigest := d\<rparr>)
      | PValidationCompleted p \<Rightarrow> PValidationCompleted (p\<lparr>vc_RecordDigest := d\<rparr>)
      | PReviewCompleted p \<Rightarrow> PReviewCompleted (p\<lparr>rc_RecordDigest := d\<rparr>)
      | p \<Rightarrow> p)"

definition rehearsed_steps :: "(Payload \<times> RecordToStore list) list" where
  "rehearsed_steps =
     [(sample_init, []), (sample_task, []), (sample_design, []),
      (with_digest ''sha256:w'' sample_approve,
       [\<lparr>rts_Version = 1, rts_Record = Some (RWorkPackage rehearsed_package)\<rparr>]),
      (sample_delegate, []), (sample_start ''a1'', []), (sample_candidate ''a1'' ''ccccccc'', []),
      (with_digest ''sha256:v'' (sample_validation ''a1'' ''v1'' ''ccccccc'' ScopeAttempt OutcomePass),
       [\<lparr>rts_Version = 1, rts_Record = Some (RValidationResult rehearsed_validation)\<rparr>]),
      (with_digest ''sha256:r'' (sample_review ''a1'' ''r1''),
       [\<lparr>rts_Version = 1, rts_Record = Some (RReviewResult rehearsed_review)\<rparr>]),
      (sample_accept ''a1'' ''ccccccc'' ''v1'' ''r1'', [])]"

text \<open>A codec that spells out just these documents: a payload is written as its type, a correlation as
  the fields that occur, a document as one letter, and the hash is the identity.\<close>

definition correlation_text :: "Correlation \<Rightarrow> string" where
  "correlation_text co = concat (map (\<lambda>s. s @ '','')
     [co_MilestoneID co, co_TaskID co, co_WorkPackageID co, co_AttemptID co, co_ValidationID co,
      co_ReviewID co])"

fun read_fields :: "string \<Rightarrow> string \<Rightarrow> string list" where
  "read_fields acc [] = []"
| "read_fields acc (c # cs) =
     (if c = CHR '','' then rev acc # read_fields [] cs else read_fields (c # acc) cs)"

definition read_correlation :: "string \<Rightarrow> Correlation option" where
  "read_correlation s =
     (case read_fields [] s of
        [m, t, w, a, v, r] \<Rightarrow> Some (NoCorrelation\<lparr>co_MilestoneID := m, co_TaskID := t,
          co_WorkPackageID := w, co_AttemptID := a, co_ValidationID := v, co_ReviewID := r\<rparr>)
      | _ \<Rightarrow> None)"

definition rehearsed_state_literal :: ProjectState where
  "rehearsed_state_literal =
     \<lparr>st_SchemaVersion = SchemaVersion1, st_ProjectID = ''project'',
      st_StateRevision = ''ps_000000002'', st_GeneratedAt = 102, st_EventHighWatermark = Some ''2'',
      st_Git = \<lparr>gs_AcceptedCommit = Some ''0000000'', gs_Branch = Some ''main'', gs_Dirty = False\<rparr>,
      st_Product = None,
      st_Milestone = \<lparr>mi_ID = ''m1'', mi_Title = ''first'', mi_Status = [], mi_CompletedTasks = 0,
                      mi_TotalTasks = 1\<rparr>,
      st_Components = [], st_Modules = [],
      st_Tasks = \<lparr>tb_Ready = [], tb_Running = [], tb_Blocked = [], tb_AwaitingPrincipal = []\<rparr>,
      st_ActiveInvariants = [], st_ActiveDecisions = [],
      st_Validation = \<lparr>vs_Status = ValidationUnknown, vs_AcceptedCommitVerified = False,
                       vs_LastFullValidationID = None\<rparr>,
      st_Health = None, st_Risks = [], st_DecisionsRequired = [], st_RecentSemanticChanges = [],
      st_Discovery = None\<rparr>"

definition rehearsed_state :: "string \<Rightarrow> ProjectState option" where
  "rehearsed_state s = (if s = ''ps_000000002'' then Some rehearsed_state_literal else None)"

definition rehearsed_codec :: service_codec where
  "rehearsed_codec =
     \<lparr>enc_Record = (\<lambda>r. case r of RWorkPackage _ \<Rightarrow> Some ''w'' | RValidationResult _ \<Rightarrow> Some ''v''
                       | RReviewResult _ \<Rightarrow> Some ''r'' | _ \<Rightarrow> None),
      dec_WorkPackage = (\<lambda>s. if s = ''w'' then Some rehearsed_package else None),
      dec_ValidationResult = (\<lambda>s. if s = ''v'' then Some rehearsed_validation else None),
      dec_ReviewResult = (\<lambda>s. if s = ''r'' then Some rehearsed_review else None),
      dec_ReviewIntent = (\<lambda>s. None), dec_Decision = (\<lambda>s. None), dec_Lesson = (\<lambda>s. None),
      dec_ProblemModel = (\<lambda>s. None), dec_ProductDecision = (\<lambda>s. None),
      dec_Requirement = (\<lambda>s. None), dec_Experiment = (\<lambda>s. None), dec_Readiness = (\<lambda>s. None),
      dec_SpecReview = (\<lambda>s. None),
      enc_Payload = (\<lambda>pl. Some (Payload_Type pl)),
      dec_Payload = (\<lambda>ty s. find (\<lambda>pl. Payload_Type pl = s) (map fst rehearsed_steps)),
      enc_Correlation = (\<lambda>co. Some (correlation_text co)), dec_Correlation = read_correlation,
      sha256_hex = (\<lambda>s. s), schema_check = None,
      enc_ProjectState = (\<lambda>st. Some (st_StateRevision st)), dec_ProjectState = rehearsed_state,
      raw_Payload = (\<lambda>pl. Some (Payload_Type pl))\<rparr>"

definition rehearsed_command :: "Payload \<times> RecordToStore list \<Rightarrow> Command" where
  "rehearsed_command s =
     \<lparr>cmd_ProjectID = ''project'',
      cmd_Actor = \<lparr>actor_Kind = ActorPrincipal, actor_ID = ''principal''\<rparr>,
      cmd_Correlation = NoCorrelation, cmd_Payload = Some (fst s), cmd_Records = snd s\<rparr>"

definition rehearsed_occasion :: "nat \<Rightarrow> occasion" where
  "rehearsed_occasion n =
     \<lparr>oc_Now = 100 + int n, oc_EventID = ''e'' @ decimal n, oc_StoredAt = 100 + int n\<rparr>"

fun rehearse :: "nat \<Rightarrow> Command list \<Rightarrow> database \<Rightarrow> database" where
  "rehearse n [] db = db"
| "rehearse n (m # ms) db =
     rehearse (Suc n) ms (snd (Service_Apply rehearsed_codec (rehearsed_occasion n) m db))"

section \<open>Every command of the rehearsal survives the codec\<close>

definition rehearsed :: "nat \<Rightarrow> database" where
  "rehearsed n = rehearse 1 (map rehearsed_command (take n rehearsed_steps)) empty_database"

lemmas rehearsed_docs = sample_payloads with_digest_def rehearsed_package_def
  rehearsed_validation_def rehearsed_review_def

lemma rehearsed_distinct: "distinct (map (Payload_Type \<circ> fst) rehearsed_steps)"
  by (simp add: rehearsed_steps_def rehearsed_docs)

lemma Payload_Type_nonempty [simp]: "Payload_Type p \<noteq> []"
  by (cases p) simp_all

lemma find_by_type:
  "distinct (map (f \<circ> fst) xs) \<Longrightarrow> x \<in> set xs \<Longrightarrow> find (\<lambda>y. f y = f (fst x)) (map fst xs) = Some (fst x)"
  by (induction xs) auto

lemma rehearsed_survives:
  assumes "s \<in> set rehearsed_steps"
  shows "command_survives rehearsed_codec (rehearsed_command s)"
proof -
  have "\<forall>s \<in> set rehearsed_steps. \<forall>co. canonicalCorrelation (fst s) NoCorrelation = Inr co \<longrightarrow>
      read_correlation (correlation_text co) = Some co"
    by (simp add: rehearsed_steps_def rehearsed_docs canonicalCorrelation_def NoCorrelation_def
        read_correlation_def correlation_text_def correlation_fields_def merge_field_def)
  then show ?thesis
    using assms find_by_type [OF rehearsed_distinct assms]
    by (auto simp: command_survives_def survives_def correlation_survives_def rehearsed_command_def
        rehearsed_codec_def)
qed

lemma rehearse_consistent:
  "consistent rehearsed_codec db \<Longrightarrow> set ss \<subseteq> set rehearsed_steps \<Longrightarrow>
     consistent rehearsed_codec (rehearse n (map rehearsed_command ss) db)"
proof (induction ss arbitrary: n db)
  case (Cons s ss)
  obtain r db1 where a: "Service_Apply rehearsed_codec (rehearsed_occasion n) (rehearsed_command s) db = (r, db1)"
    by fastforce
  have "consistent rehearsed_codec db1"
    using a
  proof (cases rule: Service_Apply_cases)
    case (applied res)
    then show ?thesis
      using apply_transaction_committed [OF Cons.prems(1) rehearsed_survives applied(2)] Cons.prems(2)
      by (auto simp: committed_def)
  qed (use Cons.prems in simp)
  then show ?case using Cons by (simp add: a)
qed simp

lemma rehearsed_consistent: "consistent rehearsed_codec (rehearsed n)"
  unfolding rehearsed_def by (rule rehearse_consistent [OF consistent_empty]) (rule set_take_subset)

lemma rehearsed_state_2:
  assumes "loadProjection rehearsed_codec ''project'' (rehearsed 2) = Inr q"
  shows "rendered q = rehearsed_state_literal"
proof -
  have "case loadProjection rehearsed_codec ''project'' (rehearsed 2) of Inl _ \<Rightarrow> False
    | Inr q \<Rightarrow>
        (let s = rendered q; r = rehearsed_state_literal
         in (st_SchemaVersion s, st_ProjectID s, st_StateRevision s, st_GeneratedAt s,
             st_EventHighWatermark s) =
            (st_SchemaVersion r, st_ProjectID r, st_StateRevision r, st_GeneratedAt r,
             st_EventHighWatermark r) \<and>
            st_Git s = st_Git r \<and> st_Product s = st_Product r \<and> st_Milestone s = st_Milestone r \<and>
            st_Components s = [] \<and> st_Modules s = [] \<and> st_Tasks s = st_Tasks r \<and>
            st_ActiveInvariants s = [] \<and> st_ActiveDecisions s = [] \<and>
            st_Validation s = st_Validation r \<and> st_Health s = None \<and> st_Risks s = [] \<and>
            st_DecisionsRequired s = [] \<and> st_RecentSemanticChanges s = [] \<and> st_Discovery s = None)"
    by code_simp
  then show ?thesis
    using assms by (auto simp: Let_def rehearsed_state_literal_def intro!: ProjectState.equality)
qed

section \<open>The rehearsal as a batch\<close>

text \<open>Attempts that meet no contention, or find the store locked, and steps of the rehearsal as a batch.\<close>

definition calm :: attempt_env where
  "calm = \<lparr>at_Start = None, at_Commit = Committed, at_Cancelled = None, at_BudgetSpent = False,
     at_BudgetSpentAfterWait = False, at_CancelledAtEnd = None\<rparr>"

definition contended :: attempt_env where
  "contended = calm\<lparr>at_Start := Some (Foreign sqlite_busy None)\<rparr>"

definition rehearsed_batch :: "string \<Rightarrow> (Payload \<times> RecordToStore list) list \<Rightarrow> BatchCommand" where
  "rehearsed_batch revision steps =
     \<lparr>bat_ProjectID = ''project'',
      bat_Actor = \<lparr>actor_Kind = ActorPrincipal, actor_ID = ''principal''\<rparr>,
      bat_Correlation = NoCorrelation, bat_ExpectedStateRevision = revision, bat_WorkPackage = None,
      bat_Preconditions = [], bat_Postconditions = [],
      bat_Commands = map rehearsed_command steps\<rparr>"

lemma rehearsed_batch_survives:
  "set steps \<subseteq> set rehearsed_steps \<Longrightarrow>
     \<forall>m \<in> set (bat_Commands (rehearsed_batch r steps)). command_survives rehearsed_codec m"
  using rehearsed_survives by (auto simp: rehearsed_batch_def)

end
