(* ===== verification/Promises.thy ===== *)
theory Promises
  imports Rehearsal
begin

text \<open>
  The properties of the control plane and its store, each with its instance on the rehearsal.
\<close>

text \<open>C22: Whatever requests the control plane serves, in whatever order and under whatever contention,
  its database stays consistent: every stored record hashes to its digest and is the only one of its
  identity, the journal's sequence numbers grow and every project's journal is readable, reduces and
  renders, every event that claims a document is backed by a stored one it agrees with, and the
  projection tables hold exactly the materialised reduction of the journal.\<close>

theorem control_plane_consistent:
  assumes "\<forall>r \<in> set rs. request_survives c r"
  shows "consistent c (fold (serve c) rs empty_database)"
proof -
  have "consistent c db \<Longrightarrow> \<forall>r \<in> set rs. request_survives c r \<Longrightarrow> consistent c (fold (serve c) rs db)"
    for db
    by (induction rs arbitrary: db) (auto intro: serve_consistent)
  then show ?thesis using consistent_empty assms by blast
qed

theorem control_plane_consistent_witness:
  "let db = fold (serve rehearsed_codec)
     [ApplyRequest (rehearsed_occasion 1) (rehearsed_command (rehearsed_steps ! 0)),
      RebuildRequest ''project'',
      ApplyRequest (rehearsed_occasion 2) (rehearsed_command (rehearsed_steps ! 1))] empty_database
   in consistent rehearsed_codec db \<and> map t_State (db_Tasks db) = [StateProposed]"
proof -
  let ?rs = "[ApplyRequest (rehearsed_occasion 1) (rehearsed_command (rehearsed_steps ! 0)),
      RebuildRequest ''project'',
      ApplyRequest (rehearsed_occasion 2) (rehearsed_command (rehearsed_steps ! 1))]"
  have "\<forall>r \<in> set ?rs. request_survives rehearsed_codec r"
    using rehearsed_survives by (simp add: rehearsed_steps_def)
  then have "consistent rehearsed_codec (fold (serve rehearsed_codec) ?rs empty_database)"
    by (rule control_plane_consistent)
  moreover have "map t_State (db_Tasks (fold (serve rehearsed_codec) ?rs empty_database)) = [StateProposed]"
    by code_simp
  ultimately show ?thesis by (simp only: Let_def)
qed

text \<open>C27: The project state the service answers with is the rendering of the reduction of the project's
  journal: the materialised view carries no information of its own. It is assumed that the state
  document survives being written and read.\<close>

theorem project_state_is_the_reduction:
  assumes "consistent c db" "p \<noteq> []"
    and "\<And>q doc. loadProjection c p db = Inr q \<Longrightarrow> enc_ProjectState c (rendered q) = Some doc \<Longrightarrow>
      dec_ProjectState c doc = Some (rendered q)"
  shows "Service_ProjectState c p db = bind_result (loadProjection c p db) render_state"
proof -
  obtain es q where q: "loadProjection c p db = Inr q"
    using assms(1,2) by (auto simp: consistent_def ledger_def elim: sound_journal_reduces)
  have cur: "current c p db" using assms(1) by (simp add: consistent_def)
  show ?thesis
  proof (cases "p_initialised q")
    case False
    then have "summary_row p db = None" using cur q by (simp add: current_def)
    then show ?thesis using q False
      by (simp add: Service_ProjectState_def MaterialisedProjectState_def ProjectSummary_of_def
          summary_row_def render_state_def)
  next
    case True
    then have m: "materialised c q db" using cur q by (simp add: current_def)
    obtain doc where doc: "enc_ProjectState c (rendered q) = Some doc"
      "render_state q = Inr (rendered q)"
      "ProjectSummary_of c p db = Inr (project_summary q (rendered q) doc (DigestBytes c doc))"
      using summary_current [OF m load_project [OF q True]] by blast
    have "st_SchemaVersion (rendered q) = SchemaVersion1"
      by (simp add: rendered_def split: prod.split)
    then have "Unmarshal (dec_ProjectState c) st_SchemaVersion ProjectState_Validate doc = Inr (rendered q)"
      using assms(3) [OF q doc(1)] doc(2) by (simp add: Unmarshal_ok render_state_ok SchemaVersion_Validate_def)
    then show ?thesis using q doc
      by (simp add: Service_ProjectState_def MaterialisedProjectState_def project_summary_def)
  qed
qed

theorem project_state_is_the_reduction_witness:
  "Service_ProjectState rehearsed_codec ''project'' (rehearsed 2) =
     bind_result (loadProjection rehearsed_codec ''project'' (rehearsed 2)) render_state \<and>
   map_option st_StateRevision (rehearsed_state ''ps_000000002'') = Some ''ps_000000002''"
proof -
  have "dec_ProjectState rehearsed_codec doc = Some (rendered q)"
    if "loadProjection rehearsed_codec ''project'' (rehearsed 2) = Inr q"
      "enc_ProjectState rehearsed_codec (rendered q) = Some doc" for q doc
    using rehearsed_state_2 that by (simp add: rehearsed_codec_def rehearsed_state_def rehearsed_state_literal_def)
  moreover have "map_option st_StateRevision (rehearsed_state ''ps_000000002'') = Some ''ps_000000002''"
    by (simp add: rehearsed_state_def rehearsed_state_literal_def)
  ultimately show ?thesis
    using project_state_is_the_reduction [OF rehearsed_consistent, of "''project''" 2] by blast
qed

text \<open>C24: A command either leaves the database exactly as it was, or commits exactly one event, the one
  of its payload: the project's journal grows by it, the answered state is the rendering of the longer
  journal, no stored record changes, and every other project keeps its journal and its rows.\<close>

theorem apply_commits_one_event:
  assumes "consistent c db" "command_survives c cmd"
    and "Service_Apply c oc cmd db = (r, db')"
  shows "case r of
      Inl e \<Rightarrow> db' = db
    | Inr res \<Rightarrow>
        ev_Payload (res_Event res) = cmd_Payload cmd \<and>
        (\<exists>es q. ReadEvents c (whole_journal (cmd_ProjectID cmd)) db = Inr es \<and>
           ReadEvents c (whole_journal (cmd_ProjectID cmd)) db' = Inr (es @ [res_Event res]) \<and>
           Reduce (es @ [res_Event res]) = Inr q \<and> render_state q = Inr (res_ProjectState res)) \<and>
        (\<forall>p k i v x. read_record c p k i v db = Inr x \<longrightarrow> read_record c p k i v db' = Inr x) \<and>
        (\<forall>p. p \<noteq> cmd_ProjectID cmd \<longrightarrow>
           ReadEvents c (whole_journal p) db' = ReadEvents c (whole_journal p) db \<and>
           same_project_rows p db db')"
  using assms(3)
proof (cases rule: Service_Apply_cases)
  case (refused e)
  then show ?thesis by simp
next
  case (applied res)
  let ?p = "cmd_ProjectID cmd"
  obtain q' where co: "committed c ?p [res_Event res] q' db db'"
    and st: "render_state q' = Inr (res_ProjectState res)"
    using apply_transaction_committed [OF assms(1,2) applied(2)] .
  obtain es q where es: "ReadEvents c (whole_journal ?p) db = Inr es" "Reduce es = Inr q"
    "loadProjection c ?p db = Inr q" "scan_all (scanEvent c) (project_rows ?p db) = Inr es"
    using journal_reads [OF assms(1) applied(3)] by blast
  have step: "commits c ?p q [res_Event res] q' db db'"
    using co es(3) by (auto simp: committed_def)
  then have "ReadEvents c (whole_journal ?p) db' = Inr (es @ [res_Event res])"
    using es(4) applied(3) by (simp add: commits_def ReadEvents_whole)
  moreover have "Reduce (es @ [res_Event res]) = Inr q'"
    using step es(2) by (simp add: commits_def Reduce_run run_append)
  moreover have "ev_Payload (res_Event res) = cmd_Payload cmd"
  proof -
    obtain q1 q2 db1 where "applyMember c oc cmd True q1 db = Inr (res, q2, db1)"
      using applied(2) by (auto simp: apply_transaction_def)
    then show ?thesis by (cases rule: applyMember_ok) (auto simp: AppendEvent_ok)
  qed
  moreover have "read_record c p k i v db' = Inr x" if "read_record c p k i v db = Inr x" for p k i v x
    using that step assms(1) unfolding commits_def consistent_def ledger_def
    by (metis read_record_stored_at)
  moreover have "ReadEvents c (whole_journal p) db' = ReadEvents c (whole_journal p) db \<and>
      same_project_rows p db db'" if "p \<noteq> ?p" for p
    using co step that by (simp add: committed_def commits_def ReadEvents_whole)
  ultimately show ?thesis using applied(1) es(1) st by simp
qed

theorem apply_commits_one_event_witness:
  "\<exists>res. fst (Service_Apply rehearsed_codec (rehearsed_occasion 1)
      (rehearsed_command (rehearsed_steps ! 0)) empty_database) = Inr res \<and>
     ReadEvents rehearsed_codec (whole_journal ''project'') (rehearsed 1) = Inr [res_Event res]"
proof -
  let ?cmd = "rehearsed_command (rehearsed_steps ! 0)"
  obtain r db' where a: "Service_Apply rehearsed_codec (rehearsed_occasion 1) ?cmd empty_database = (r, db')"
    by fastforce
  have "\<not> Option.is_none (case fst (Service_Apply rehearsed_codec (rehearsed_occasion 1) ?cmd
      empty_database) of Inl _ \<Rightarrow> None | Inr x \<Rightarrow> Some x)"
    by code_simp
  then obtain res where r: "r = Inr res" using a by (cases r) auto
  have p: "cmd_ProjectID ?cmd = ''project''" by (simp add: rehearsed_command_def)
  have e: "ReadEvents rehearsed_codec (whole_journal ''project'') empty_database = Inr []"
    by (simp add: ReadEvents_whole project_rows_def empty_database_def)
  have db': "db' = rehearsed 1"
    using a by (simp add: rehearsed_def rehearsed_steps_def)
  have "command_survives rehearsed_codec ?cmd"
    by (rule rehearsed_survives) (simp add: rehearsed_steps_def)
  from apply_commits_one_event [OF consistent_empty this a] show ?thesis
    using a by (auto simp: r p e db')
qed

text \<open>C23: A task the store shows as accepted, integrating, validating its integration or done rests on
  documents that are in the store, verified against their digests: a validation result and a review
  result of one attempt of the task, the validation at exactly the accepted commit, the review of the
  approved work package.\<close>

theorem acceptance_rests_on_stored_documents:
  assumes "consistent c db" "p \<noteq> []" "stored_task_by_alias p h db = Inr t"
    and "t_State t \<in> {StateAccepted, StateIntegrating, StateIntegrationValidating, StateDone}"
  shows "\<exists>vid n vr v rid m rr r.
    read_record c p ''ValidationResult'' vid n db = Inr vr \<and>
    load_ValidationResult c (rcd_Document vr) = Inr v \<and> vres_Commit v = t_AcceptedCommit t \<and>
    vsub_Kind (vres_Subject v) = ScopeAttempt \<and> vsub_TaskID (vres_Subject v) = t_ID t \<and>
    read_record c p ''ReviewResult'' rid m db = Inr rr \<and>
    load_ReviewResult c (rcd_Document rr) = Inr r \<and> rres_WorkPackageID r = t_WorkPackageID t \<and>
    rres_AttemptID r = vsub_AttemptID (vres_Subject v)"
proof -
  obtain es q where q: "Reduce es = Inr q" "p_tasks q (t_ID t) = Some t"
    and scan: "scan_all (scanEvent c) (project_rows p db) = Inr es"
    using stored_task_reduced [OF assms(1-3)] by blast
  have "explained es t"
    using explained_accepted [OF q] assms(4) by (simp add: accepted_states_def)
  then obtain vc rc where vc: "journalled es (PValidationCompleted vc)" "vc_TaskID vc = t_ID t"
      "vc_Scope vc = ScopeAttempt" "vc_Commit vc = t_AcceptedCommit t"
    and rc: "journalled es (PReviewCompleted rc)" "rc_AttemptID rc = vc_AttemptID vc"
      "rc_WorkPackageID rc = t_WorkPackageID t"
    unfolding explained_def by metis
  note jv = journalled_backed [OF assms(1) scan vc(1)] and jr = journalled_backed [OF assms(1) scan rc(1)]
  obtain n vr v where "read_record c p ''ValidationResult'' (vc_ValidationID vc) n db = Inr vr"
    "load_ValidationResult c (rcd_Document vr) = Inr v" "vres_Commit v = vc_Commit vc"
    "vres_Subject v = \<lparr>vsub_Kind = vc_Scope vc, vsub_TaskID = vc_TaskID vc, vsub_AttemptID = vc_AttemptID vc\<rparr>"
    using backed_validation [OF assms(1) conjunct1 [OF jv] conjunct2 [OF jv]] .
  moreover obtain m rr r where "read_record c p ''ReviewResult'' (rc_ReviewID rc) m db = Inr rr"
    "load_ReviewResult c (rcd_Document rr) = Inr r" "rres_AttemptID r = rc_AttemptID rc"
    "rres_WorkPackageID r = rc_WorkPackageID rc"
    using backed_review [OF assms(1) conjunct1 [OF jr] conjunct2 [OF jr]] .
  ultimately show ?thesis using vc rc
    by (intro exI [of _ "vc_ValidationID vc"] exI [of _ n] exI [of _ vr] exI [of _ v]
        exI [of _ "rc_ReviewID rc"] exI [of _ m] exI [of _ rr] exI [of _ r]) simp
qed

text \<open>C25: A validation the journal records as passed has a stored result document in which some check
  passed and none failed.\<close>

theorem recorded_pass_has_passing_check:
  assumes "consistent c db" "ReadEvents c (whole_journal p) db = Inr es" "e \<in> set es"
    and "ev_Payload e = Some (PValidationCompleted vc)" "vc_Status vc = OutcomePass"
  shows "\<exists>n r v. read_record c p ''ValidationResult'' (vc_ValidationID vc) n db = Inr r \<and>
    rcd_Digest r = vc_RecordDigest vc \<and> load_ValidationResult c (rcd_Document r) = Inr v \<and>
    vres_Commit v = vc_Commit vc \<and> (\<exists>k \<in> set (vres_Checks v). ck_Status k = CheckPass) \<and>
    \<not> (\<exists>k \<in> set (vres_Checks v). ck_Status k \<in> {CheckFail, CheckError})"
proof -
  have scan: "scan_all (scanEvent c) (project_rows p db) = Inr es"
    using assms(2) by (simp add: ReadEvents_whole split: if_splits)
  have "journalled es (PValidationCompleted vc)" using assms(3,4) by (auto simp: journalled_def)
  note j = journalled_backed [OF assms(1) scan this]
  obtain n r v where r: "read_record c p ''ValidationResult'' (vc_ValidationID vc) n db = Inr r"
    "rcd_Digest r = vc_RecordDigest vc" "load_ValidationResult c (rcd_Document r) = Inr v"
    "vres_Commit v = vc_Commit vc" "vres_Status v = vc_Status vc"
    using backed_validation [OF assms(1) conjunct1 [OF j] conjunct2 [OF j]] .
  have "ValidationResult_Validate v = None" using r(3) by (simp add: load_ValidationResult_def Unmarshal_ok)
  then show ?thesis using passing_result [of v] r assms(5) by auto
qed

section \<open>Records\<close>

text \<open>C26: A stored record is immutable. After a successful PutRecord the record reads back at its version
  with the digest that was returned, every record readable before reads the same, storing the same
  record again changes nothing, and a document with another digest is refused as a conflict.\<close>

theorem records_are_immutable:
  assumes "sound_records c db" "PutRecord c now p v r db = Inr (d, db')"
  shows "(\<exists>x. read_record c p (RecordKind r) (RecordID r) v db' = Inr x \<and> rcd_Digest x = d \<and>
        DigestBytes c (rcd_Document x) = d) \<and>
    (\<forall>p k i n x. read_record c p k i n db = Inr x \<longrightarrow> read_record c p k i n db' = Inr x) \<and>
    PutRecord c later p v r db' = Inr (d, db') \<and>
    (\<forall>s y. RecordKind s = RecordKind r \<longrightarrow> RecordID s = RecordID r \<longrightarrow> Record_Validate s = None \<longrightarrow>
       ProjectOf s = ProjectOf r \<longrightarrow> enc_Record c s = Some y \<longrightarrow> schema_refuses c (RecordKind s) y = None \<longrightarrow>
       DigestBytes c y \<noteq> d \<longrightarrow> PutRecord c later p v s db' = Inl (New CategoryConflict))"
proof -
  note put = PutRecord_stores [OF assms]
  obtain x where x: "stored_at db' (p, RecordKind r, RecordID r, v) = Some x" "rcd_Digest x = d"
    using put(2) by blast
  have read: "read_record c p (RecordKind r) (RecordID r) v db' = Inr x"
    using x(1) read_record_stored_at [OF put(1)] by simp
  have "sound_record c x" using x(1) put(1) stored_at_iff [OF put(1)] by (simp add: sound_records_def)
  then have "DigestBytes c (rcd_Document x) = d" using x(2) by (simp add: sound_record_def)
  moreover have "read_record c p k i n db' = Inr y" if "read_record c p k i n db = Inr y" for p k i n y
    using that put(3) read_record_stored_at [OF put(1)] read_record_stored_at [OF assms(1)] by simp
  moreover obtain y where y: "p \<noteq> []" "1 \<le> v" "enc_Record c r = Some y" "d = DigestBytes c y"
      "check (case ProjectOf r of None \<Rightarrow> False | Some declared \<Rightarrow> declared \<noteq> p) CategoryInvalidArgument = None"
      "Record_Validate r = None" "schema_refuses c (RecordKind r) y = None"
    using assms(2) unfolding PutRecord_def Let_def
    by (cases "read_record c p (RecordKind r) (RecordID r) v db") (auto split: if_splits)
  then have "PutRecord c later p v r db' = Inr (d, db')"
    using read x(2) by (simp add: PutRecord_def Let_def)
  moreover have "PutRecord c later p v s db' = Inl (New CategoryConflict)"
    if "RecordKind s = RecordKind r" "RecordID s = RecordID r" "Record_Validate s = None"
      "ProjectOf s = ProjectOf r" "enc_Record c s = Some z" "schema_refuses c (RecordKind s) z = None"
      "DigestBytes c z \<noteq> d" for s z
    using that y read x(2) by (simp add: PutRecord_def Let_def encoded_def check_Some)
  ultimately show ?thesis using read x(2) by blast
qed

lemma sound_records_empty: "sound_records c empty_database"
  by (simp add: sound_records_def empty_database_def)

theorem records_are_immutable_witness:
  "\<exists>db'. PutRecord rehearsed_codec 5 ''project'' 1 (RReviewResult rehearsed_review) empty_database =
       Inr (''sha256:r'', db') \<and>
     PutRecord rehearsed_codec 6 ''project'' 1 (RReviewResult rehearsed_review) db' =
       Inr (''sha256:r'', db')"
proof -
  obtain db' where "PutRecord rehearsed_codec 5 ''project'' 1 (RReviewResult rehearsed_review)
      empty_database = Inr (''sha256:r'', db')"
    by (simp add: PutRecord_def rehearsed_codec_def rehearsed_review_def ReviewResult_Validate_def
        SchemaVersion_Validate_def validate_defs enum_defs encoded_def schema_refuses_def
        read_record_def empty_database_def DigestBytes_def first_err.simps(2) require_def Let_def)
  with records_are_immutable [OF sound_records_empty this, of 6] show ?thesis by blast
qed

section \<open>The rehearsal, evaluated\<close>

text \<open>The whole rehearsal in one batch on an empty database.\<close>

definition rehearsed_at_once :: database where
  "rehearsed_at_once = serve rehearsed_codec
     (BatchRequest None (\<lambda>_. calm) rehearsed_occasion (rehearsed_batch ''ps_000000000'' rehearsed_steps))
     empty_database"

lemma at_once_consistent: "consistent rehearsed_codec rehearsed_at_once"
  unfolding rehearsed_at_once_def
  using rehearsed_batch_survives [OF subset_refl]
  by (intro serve_consistent [OF consistent_empty]) simp

definition is_pass :: "Event \<Rightarrow> bool" where
  "is_pass e \<longleftrightarrow>
     (case ev_Payload e of Some (PValidationCompleted vc) \<Rightarrow> vc_Status vc = OutcomePass | _ \<Rightarrow> False)"

lemma is_pass_iff:
  "is_pass e \<longleftrightarrow> (\<exists>vc. ev_Payload e = Some (PValidationCompleted vc) \<and> vc_Status vc = OutcomePass)"
  by (auto simp: is_pass_def split: option.splits Payload.splits)

definition shown :: "database \<Rightarrow> (string \<times> string \<times> State) list \<times> bool" where
  "shown db =
     (map (\<lambda>t. (t_ProjectID t, t_Alias t, t_State t)) (db_Tasks db),
      case ReadEvents rehearsed_codec (whole_journal ''project'') db of
        Inl _ \<Rightarrow> False | Inr es \<Rightarrow> list_ex is_pass es)"

lemma rehearsal_shown: "shown rehearsed_at_once = ([(''project'', ''T-1'', StateAccepted)], True)"
  by code_simp

theorem acceptance_rests_on_stored_documents_witness:
  "\<exists>t vid n vr v.
     stored_task_by_alias ''project'' ''T-1'' rehearsed_at_once = Inr t \<and> t_State t = StateAccepted \<and>
     read_record rehearsed_codec ''project'' ''ValidationResult'' vid n rehearsed_at_once = Inr vr \<and>
     load_ValidationResult rehearsed_codec (rcd_Document vr) = Inr v \<and>
     vres_Commit v = t_AcceptedCommit t"
proof -
  let ?db = rehearsed_at_once
  obtain t where db: "db_Tasks ?db = [t]"
    and t: "t_ProjectID t = ''project''" "t_Alias t = ''T-1''" "t_State t = StateAccepted"
    using rehearsal_shown by (auto simp: shown_def)
  obtain q where q: "loadProjection rehearsed_codec ''project'' ?db = Inr q"
    using journal_reads [OF at_once_consistent, of "''project''"] by blast
  have "current rehearsed_codec ''project'' ?db"
    using at_once_consistent by (simp add: consistent_def)
  moreover have own: "tasks_of_project ''project'' ?db = [t]"
    by (simp add: tasks_of_project_def db t)
  ultimately have i: "p_initialised q" and "materialised rehearsed_codec q ?db"
    using q by (auto simp: current_def split: if_splits)
  then have "task_rows q = [t]"
    using own load_project [OF q i] by (simp add: materialised_def)
  then have "t \<in> set (task_rows q)" by simp
  then have "Task_Validate t = None" using task_row load_inv [OF q] by blast
  then have a: "stored_task_by_alias ''project'' ''T-1'' ?db = Inr t"
    by (simp add: stored_task_by_alias_def db t scanTask_def require_def)
  have "t_State t \<in> {StateAccepted, StateIntegrating, StateIntegrationValidating, StateDone}"
    using t by simp
  from acceptance_rests_on_stored_documents [OF at_once_consistent _ a this] a t show ?thesis by blast
qed

theorem recorded_pass_has_passing_check_witness:
  "\<exists>vid n r v. read_record rehearsed_codec ''project'' ''ValidationResult'' vid n rehearsed_at_once = Inr r \<and>
     load_ValidationResult rehearsed_codec (rcd_Document r) = Inr v \<and>
     (\<exists>k \<in> set (vres_Checks v). ck_Status k = CheckPass)"
proof -
  obtain es where es: "ReadEvents rehearsed_codec (whole_journal ''project'') rehearsed_at_once = Inr es"
    "list_ex is_pass es"
    using rehearsal_shown by (auto simp: shown_def split: sum.splits)
  then obtain e vc where "e \<in> set es" "ev_Payload e = Some (PValidationCompleted vc)"
    "vc_Status vc = OutcomePass"
    by (auto simp: list_ex_iff is_pass_iff)
  from recorded_pass_has_passing_check [OF at_once_consistent es(1) this] show ?thesis by blast
qed

end
