(* ===== verification/Batches.thy ===== *)
theory Batches
  imports Rehearsal
begin

text \<open>
  Batches under contention: a batch takes effect once and whole or not at all, a stale batch is
  refused, the retries are bounded, and an unguarded batch is the sequence of its commands. Then what
  rebuilding and the remaining reads answer.
\<close>

section \<open>All or nothing\<close>

text \<open>An error without a failed commit leaves the database alone.\<close>

lemma serialized_loop_committed:
  assumes "serialized_loop left env f db = (Inl e, db')" "\<forall>n. at_Commit (env n) = Committed"
  shows "db' = db"
  using assms(1)
proof (induction left)
  case (Suc left)
  let ?now = "env (MaxContentionAttempts - Suc left)"
  have "serializedAttempt ?now f db = (Inl x, y) \<Longrightarrow> y = db" for x y
    using assms(2) by (auto simp: serializedAttempt_def split: option.splits sum.splits prod.splits)
  then show ?case using Suc
    by (auto simp: Let_def split: prod.splits sum.splits option.splits if_splits)
qed simp

lemma ApplyBatch_committed:
  assumes "ApplyBatch c cancelled env oc b db = (Inl e, db')" "\<forall>n. at_Commit (env n) = Committed"
  shows "db' = db"
  using assms serialized_loop_committed [OF _ assms(2)]
  by (auto simp: ApplyBatch_def WriteSerialized_def split: option.splits prod.splits sum.splits if_splits)

text \<open>C29: A batch takes effect whole or not at all, however its attempts are retried, cancelled or fail
  to commit. Either the database is exactly what it was, or the project's journal has grown by one
  event per member, in the order of the members, from the very revision the caller expected, and no
  other project changed. A success always took effect, and an error did only where the failure of a
  commit left its outcome unknown.\<close>

theorem batch_all_or_nothing:
  assumes "consistent c db" "\<forall>m \<in> set (bat_Commands b). command_survives c m"
    and "ApplyBatch c cancelled env oc b db = (r, db')"
  shows "(db' = db \<and> (\<exists>e. r = Inl e)) \<or>
    (\<exists>es new q q'. ReadEvents c (whole_journal (bat_ProjectID b)) db = Inr es \<and> Reduce es = Inr q \<and>
       StateRevision (p_HighWatermark q) = bat_ExpectedStateRevision b \<and>
       ReadEvents c (whole_journal (bat_ProjectID b)) db' = Inr (es @ new) \<and>
       map ev_Payload new = map cmd_Payload (bat_Commands b) \<and>
       Reduce (es @ new) = Inr q' \<and> materialised c q' db' \<and>
       (\<forall>p. p \<noteq> bat_ProjectID b \<longrightarrow>
          ReadEvents c (whole_journal p) db' = ReadEvents c (whole_journal p) db \<and>
          same_project_rows p db db') \<and>
       (case r of Inl e \<Rightarrow> \<exists>n. at_Commit (env n) \<noteq> Committed
        | Inr out \<Rightarrow> map res_Event (bres_Results out) = new \<and>
            render_state q' = Inr (bres_ProjectState out)))"
proof -
  let ?p = "bat_ProjectID b"
  have effect: ?thesis
    if valid: "validateBatch c b = None" and t: "batch_transaction c oc b db = Inr (out, db')"
      and r: "r = Inr out \<or> (\<exists>e. r = Inl e) \<and> (\<exists>n. at_Commit (env n) \<noteq> Committed)" for out
  proof -
    have pn: "?p \<noteq> []" using valid by (auto simp: validateBatch_def)
    have ms: "\<forall>m \<in> set (bat_Commands b). cmd_ProjectID m = ?p \<and> command_survives c m"
      using assms(2) validateBatch_projects [OF valid] by blast
    obtain q q' where co: "committed c ?p (map res_Event (bres_Results out)) q' db db'"
      and st: "render_state q' = Inr (bres_ProjectState out)" and q: "loadProjection c ?p db = Inr q"
      and rev: "StateRevision (p_HighWatermark q) = bat_ExpectedStateRevision b"
      and pays: "map ev_Payload (map res_Event (bres_Results out)) = map cmd_Payload (bat_Commands b)"
      by (rule batch_transaction_committed [OF assms(1) ms t])
    obtain es where es: "ReadEvents c (whole_journal ?p) db = Inr es" "Reduce es = Inr q"
      "scan_all (scanEvent c) (project_rows ?p db) = Inr es"
      using journal_reads [OF assms(1) pn] q by auto
    have step: "commits c ?p q (map res_Event (bres_Results out)) q' db db'"
      using co q by (auto simp: committed_def)
    then have "ReadEvents c (whole_journal ?p) db' = Inr (es @ map res_Event (bres_Results out))"
      using es(3) pn by (simp add: commits_def ReadEvents_whole)
    moreover have "Reduce (es @ map res_Event (bres_Results out)) = Inr q'"
      using step es(2) by (simp add: commits_def Reduce_run run_append)
    moreover have "ReadEvents c (whole_journal p) db' = ReadEvents c (whole_journal p) db \<and>
        same_project_rows p db db'" if "p \<noteq> ?p" for p
      using co step that by (simp add: committed_def commits_def ReadEvents_whole)
    moreover have "case r of Inl e \<Rightarrow> \<exists>n. at_Commit (env n) \<noteq> Committed
        | Inr out' \<Rightarrow> map res_Event (bres_Results out') = map res_Event (bres_Results out) \<and>
            render_state q' = Inr (bres_ProjectState out')"
      using r st by auto
    moreover have "materialised c q' db'" using co by (simp add: committed_def)
    ultimately show ?thesis using es(1,2) rev pays by blast
  qed
  show ?thesis
    using assms(3)
  proof (cases rule: ApplyBatch_cases)
    case (unconfirmed e out)
    show ?thesis
    proof (cases "\<exists>n. at_Commit (env n) \<noteq> Committed")
      case True
      then show ?thesis using unconfirmed effect by blast
    next
      case False
      then have "db' = db" using ApplyBatch_committed assms(3) unconfirmed(1) by blast
      then show ?thesis using unconfirmed(1) by blast
    qed
  qed (use effect in blast)+
qed

definition is_ok :: "'b result \<Rightarrow> bool" where
  "is_ok r \<longleftrightarrow> (case r of Inl _ \<Rightarrow> False | Inr _ \<Rightarrow> True)"

lemma rehearsed_batch_succeeds:
  "is_ok (fst (ApplyBatch rehearsed_codec None (\<lambda>n. if n = 0 then contended else calm)
     (\<lambda>n. rehearsed_occasion (Suc n)) (rehearsed_batch ''ps_000000000'' (take 2 rehearsed_steps))
     empty_database))"
  by code_simp

theorem batch_all_or_nothing_witness:
  "\<exists>es db' out. ApplyBatch rehearsed_codec None (\<lambda>n. if n = 0 then contended else calm)
      (\<lambda>n. rehearsed_occasion (Suc n)) (rehearsed_batch ''ps_000000000'' (take 2 rehearsed_steps))
      empty_database = (Inr out, db') \<and>
    ReadEvents rehearsed_codec (whole_journal ''project'') db' = Inr es \<and>
    map ev_Payload es = map (Some \<circ> fst) (take 2 rehearsed_steps)"
proof -
  let ?b = "rehearsed_batch ''ps_000000000'' (take 2 rehearsed_steps)"
  obtain out db' where a: "ApplyBatch rehearsed_codec None (\<lambda>n. if n = 0 then contended else calm)
      (\<lambda>n. rehearsed_occasion (Suc n)) ?b empty_database = (Inr out, db')"
    using rehearsed_batch_succeeds by (auto simp: is_ok_def split: sum.splits prod.splits) (metis prod.collapse)
  have s: "\<forall>m \<in> set (bat_Commands ?b). command_survives rehearsed_codec m"
    by (rule rehearsed_batch_survives) (rule set_take_subset)
  have "ReadEvents rehearsed_codec (whole_journal ''project'') empty_database = Inr []"
    by (simp add: ReadEvents_whole project_rows_def empty_database_def)
  then show ?thesis
    using batch_all_or_nothing [OF consistent_empty s a] a
    by (auto simp: rehearsed_batch_def rehearsed_command_def comp_def)
qed

section \<open>Contention is bounded\<close>

definition busy_attempt :: "attempt_env \<Rightarrow> bool" where
  "busy_attempt a \<longleftrightarrow> (\<exists>e. at_Start a = Some e \<and> isBusy e) \<and> at_Cancelled a = None \<and>
     \<not> at_BudgetSpent a \<and> \<not> at_BudgetSpentAfterWait a \<and> at_CancelledAtEnd a = None"

lemma busy_step:
  assumes "busy_attempt (env (MaxContentionAttempts - Suc left))" "left \<noteq> 0"
  shows "serialized_loop (Suc left) env f db = serialized_loop left env f db"
  using assms by (auto simp: busy_attempt_def serializedAttempt_def Let_def)

lemma busy_end:
  assumes "busy_attempt (env (MaxContentionAttempts - Suc 0))"
  shows "serialized_loop (Suc 0) env f db = (Inl (Foreign ''gave up'' (Some ErrBusy)), db)"
  using assms by (auto simp: busy_attempt_def serializedAttempt_def Let_def give_up_def)

lemma busy_prefix:
  assumes "\<forall>i < k. busy_attempt (env i)" "k < MaxContentionAttempts"
  shows "serialized_loop MaxContentionAttempts env f db =
    serialized_loop (MaxContentionAttempts - k) env f db"
  using assms
proof (induction k)
  case (Suc k)
  obtain left where left: "MaxContentionAttempts - k = Suc left" "left \<noteq> 0"
    using Suc.prems(2) by (cases "MaxContentionAttempts - k") (auto simp: MaxContentionAttempts_def)
  moreover have "MaxContentionAttempts - Suc left = k" "MaxContentionAttempts - Suc k = left"
    using left Suc.prems(2) by auto
  ultimately show ?case using Suc busy_step [of env left f db] by simp
qed simp


lemma contended_busy: "busy_attempt contended"
  by (simp add: busy_attempt_def contended_def calm_def isBusy_def sqlite_busy_def commit_error_def)


section \<open>Staleness\<close>

text \<open>C34: A batch that was prepared against an older revision of the project is refused without any
  effect, whatever its members, guards and retries, and on an attempt that runs the error names the
  staleness and is a conflict.\<close>

theorem stale_batch_refused:
  assumes "validateBatch c b = None" "loadProjection c (bat_ProjectID b) db = Inr q"
    and "bat_ExpectedStateRevision b \<noteq> StateRevision (p_HighWatermark q)"
  shows "snd (ApplyBatch c cancelled env oc b db) = db \<and>
    (at_Start (env 0) = None \<longrightarrow> at_Cancelled (env 0) = None \<longrightarrow> \<not> at_BudgetSpent (env 0) \<longrightarrow>
       (\<exists>e. ApplyBatch c None env oc b db = (Inl e, db) \<and> Is_Sentinel e ''ErrStaleProjectState'' \<and>
          CategoryOf (Some e) = Some CategoryConflict))"
proof -
  have t: "batch_transaction c oc b db = Inl (wrapping ErrStaleProjectState)"
    using assms(2,3) by (auto simp: batch_transaction_def)
  have "snd (serialized_loop left env (batch_transaction c oc b) db) = db" for left
    by (induction left) (auto simp: t serializedAttempt_def Let_def split: option.splits)
  then have "snd (ApplyBatch c cancelled env oc b db) = db"
    by (auto simp: ApplyBatch_def assms(1) WriteSerialized_def split: option.splits prod.splits sum.splits)
      (metis snd_conv)+
  moreover have "\<exists>e. ApplyBatch c None env oc b db = (Inl e, db) \<and> Is_Sentinel e ''ErrStaleProjectState'' \<and>
      CategoryOf (Some e) = Some CategoryConflict"
    if "at_Start (env 0) = None" "at_Cancelled (env 0) = None" "\<not> at_BudgetSpent (env 0)"
  proof -
    have five: "MaxContentionAttempts = Suc 4" by (simp add: MaxContentionAttempts_def)
    have "WriteSerialized None env (batch_transaction c oc b) db = (Inl (wrapping ErrStaleProjectState), db)"
      using that unfolding WriteSerialized_def five option.case serialized_loop.simps(2)
      by (simp add: MaxContentionAttempts_def serializedAttempt_def t Let_def isBusy_def wrapping_def
           ErrStaleProjectState_def sqlite_busy_def New_def)
    then show ?thesis
      by (simp add: ApplyBatch_def assms(1) wrapping_def ErrStaleProjectState_def CategoryOf_def New_def)
  qed
  ultimately show ?thesis by blast
qed

theorem stale_batch_refused_witness:
  "snd (ApplyBatch rehearsed_codec None (\<lambda>_. calm) rehearsed_occasion
     (rehearsed_batch ''ps_000000007'' (take 1 rehearsed_steps)) empty_database) = empty_database"
proof -
  let ?b = "rehearsed_batch ''ps_000000007'' (take 1 rehearsed_steps)"
  have v: "validateBatch rehearsed_codec ?b = None" by code_simp
  have l: "loadProjection rehearsed_codec (bat_ProjectID ?b) empty_database = Inr New_Projection"
    by (simp add: loadProjection_def ReadEvents_whole project_rows_def empty_database_def Reduce_def
        rehearsed_batch_def)
  have "bat_ExpectedStateRevision ?b \<noteq> StateRevision (p_HighWatermark New_Projection)"
    by code_simp
  from stale_batch_refused [OF v l this] show ?thesis by blast
qed

end
