(* ===== verification/Timeline.thy ===== *)
theory Timeline
  imports Rehearsal
begin

text \<open>
  How requests compose over time: a batch is the sequence of its commands, journals only grow, every
  answer can be asked for again later, and the tables can be rebuilt from the journal alone.
\<close>

section \<open>A batch is the sequence of its commands\<close>

text \<open>The commands applied one by one, each in a transaction of its own, as long as they succeed.\<close>

fun apply_all ::
  "('a service_codec_scheme) \<Rightarrow> (nat \<Rightarrow> occasion) \<Rightarrow> nat \<Rightarrow> Command list \<Rightarrow> database
     \<Rightarrow> (Result list \<times> database) option" where
  "apply_all c oc n [] db = Some ([], db)"
| "apply_all c oc n (m # ms) db =
     (case Service_Apply c (oc n) m db of
        (Inl e, db') \<Rightarrow> None
      | (Inr res, db') \<Rightarrow>
          (case apply_all c oc (Suc n) ms db' of
             None \<Rightarrow> None
           | Some (rs, db'') \<Rightarrow> Some (res # rs, db'')))"

lemma apply_all_Cons:
  assumes "apply_all c oc n (m # ms) db = Some (rs, db'')"
  obtains res db' rs' where "Service_Apply c (oc n) m db = (Inr res, db')"
    "apply_all c oc (Suc n) ms db' = Some (rs', db'')" "rs = res # rs'"
  using assms by (auto split: prod.splits sum.splits option.splits)

text \<open>One command, seen from a batch whose tables are still T.\<close>

lemma apply_in_batch:
  assumes c: "consistent c db" and s: "command_survives c m" and p: "cmd_ProjectID m = p"
    and o: "overwrites c p db T" and ok: "Service_Apply c oc m db = (Inr res, db')"
  obtains q q' where "loadProjection c p db = Inr q" "loadProjection c p db' = Inr q'"
    "applyMember c oc m False q (with_ledger db T) = Inr (res, q', with_ledger db' T)"
    "SaveProjection c q' (with_ledger db' T) = Inr db'" "render_state q' = Inr (res_ProjectState res)"
    "overwrites c p db' T" "consistent c db'"
proof -
  have t: "apply_transaction c oc m db = Inr (res, db')"
    using ok by (cases rule: Service_Apply_cases) simp_all
  from t obtain q q' db1 where q: "loadProjection c p db = Inr q"
    and m: "applyMember c oc m False q db = Inr (res, q', db1)"
    and save: "SaveProjection c q' db1 = Inr db'"
    by (auto simp: apply_transaction_def applyMember_saving p)
  obtain q2 where co: "committed c p [res_Event res] q2 db db'"
    and st: "render_state q2 = Inr (res_ProjectState res)"
    using apply_transaction_committed [OF c s t] p by metis
  have l: "ledger c db" using c by (simp add: consistent_def)
  have step: "commits c p q [res_Event res] q' db db1" using member_commits [OF l _ m s] q p by simp
  have same: "with_ledger db1 db = db1"
    using applyMember_tables [OF m l] by (cases db1) (simp add: with_ledger_def)
  have inv: "inv q'" "owned q'" using step load_owned [of c p db1 q'] by (simp_all add: commits_def)
  have tab: "tables db1" using c applyMember_tables [OF m l] by (simp add: consistent_def tables_def)
  note sp = SaveProjection_tables [OF save inv tab]
  have sl: "same_ledger db1 db'" by (rule sp(2))
  have T: "with_ledger db1 T = with_ledger db' T" using sl by (simp add: with_ledger_def same_ledger_def)
  have load: "loadProjection c p db' = Inr q'"
    using step by (simp add: commits_def same_ledger_journal(3) [OF sl])
  then have pid: "p_ProjectID q' = p"
  proof (rule load_project)
    have "Apply (res_Event res) q = (None, q')"
      using step by (auto simp: commits_def run_Cons)
    then show "p_initialised q'" using Apply_initialised load_inv [OF q] by blast
  qed
  have q2: "q2 = q'" using co load by (auto simp: committed_def commits_def)
  have "applyMember c oc m False q (with_ledger db T) = Inr (res, q', with_ledger db' T)"
    using applyMember_tables_frame [OF m] T by simp
  moreover have "SaveProjection c q' (with_ledger db' T) = Inr db'"
    using o inv pid save unfolding overwrites_def T [symmetric] by (metis same)
  moreover have "overwrites c p db' T"
    using overwrites_saved [of c q' db T db1 db'] o inv pid save same by simp
  moreover have "consistent c db'" using co by (simp add: committed_def)
  ultimately show thesis using q load st q2 that by blast
qed

lemma apply_all_members:
  assumes "apply_all c oc n ms db = Some (rs, db')" "consistent c db" "overwrites c p db T"
    and "\<forall>m \<in> set ms. cmd_ProjectID m = p \<and> command_survives c m" "loadProjection c p db = Inr q"
  shows "\<exists>q'. apply_members c oc n ms q (with_ledger db T) = Inr (rs, q', with_ledger db' T) \<and>
    (ms \<noteq> [] \<longrightarrow> SaveProjection c q' (with_ledger db' T) = Inr db' \<and>
       render_state q' = Inr (res_ProjectState (last rs)))"
  using assms
proof (induction ms arbitrary: n db rs q)
  case (Cons m ms)
  obtain res db1 rs' where a: "Service_Apply c (oc n) m db = (Inr res, db1)"
    and rest: "apply_all c oc (Suc n) ms db1 = Some (rs', db')" and rs: "rs = res # rs'"
    using Cons.prems(1) by (rule apply_all_Cons)
  have m: "command_survives c m" "cmd_ProjectID m = p" using Cons.prems(4) by simp_all
  obtain q1 where q1: "loadProjection c p db1 = Inr q1"
    "applyMember c (oc n) m False q (with_ledger db T) = Inr (res, q1, with_ledger db1 T)"
    "SaveProjection c q1 (with_ledger db1 T) = Inr db1" "render_state q1 = Inr (res_ProjectState res)"
    "overwrites c p db1 T" "consistent c db1"
    using apply_in_batch [OF Cons.prems(2) m Cons.prems(3) a] Cons.prems(5) by auto
  obtain q' where q': "apply_members c oc (Suc n) ms q1 (with_ledger db1 T) = Inr (rs', q', with_ledger db' T)"
    "ms \<noteq> [] \<longrightarrow> SaveProjection c q' (with_ledger db' T) = Inr db' \<and>
       render_state q' = Inr (res_ProjectState (last rs'))"
    using Cons.IH [OF rest q1(6,5) _ q1(1)] Cons.prems(4) by auto
  have "rs' = [] \<longleftrightarrow> ms = []" using members_payloads [OF q'(1)] by (metis list.map_disc_iff)
  then show ?case
    using q1 q' rest rs by (cases "ms = []") auto
qed simp

text \<open>C30: An unguarded batch prepared against the current revision is the sequence of its commands: when
  they succeed one by one, the batch gives the same results, the same final state and the very same
  database, in one transaction and with one write of the tables.\<close>

theorem batch_is_sequence:
  assumes "consistent c db" "\<forall>m \<in> set (bat_Commands b). command_survives c m"
    and "validateBatch c b = None" "bat_WorkPackage b = None"
    and "bat_Preconditions b = []" "bat_Postconditions b = []"
    and "loadProjection c (bat_ProjectID b) db = Inr q"
    and "bat_ExpectedStateRevision b = StateRevision (p_HighWatermark q)"
    and "apply_all c oc 0 (bat_Commands b) db = Some (rs, db')"
    and "at_Start (env 0) = None" "at_Commit (env 0) = Committed"
  shows "ApplyBatch c None env oc b db =
    (Inr \<lparr>bres_Results = rs, bres_ProjectState = res_ProjectState (last rs)\<rparr>, db')"
proof -
  have ms: "\<forall>m \<in> set (bat_Commands b). cmd_ProjectID m = bat_ProjectID b \<and> command_survives c m"
    using assms(2) validateBatch_projects [OF assms(3)] by blast
  have ne: "bat_Commands b \<noteq> []"
    using assms(3) by (auto simp: validateBatch_def Suc_le_eq not_less_eq_eq)
  have "overwrites c (bat_ProjectID b) db db"
    using assms(1) by (intro overwrites_refl) (simp add: consistent_def)
  from apply_all_members [OF assms(9,1) this ms assms(7)] ne
  obtain q' where q': "apply_members c oc 0 (bat_Commands b) q (with_ledger db db) = Inr (rs, q', with_ledger db' db)"
    "SaveProjection c q' (with_ledger db' db) = Inr db'" "render_state q' = Inr (res_ProjectState (last rs))"
    by blast
  have self: "with_ledger db db = db" by (cases db) (simp add: with_ledger_def)
  have "batch_transaction c oc b db =
      Inr (\<lparr>bres_Results = rs, bres_ProjectState = res_ProjectState (last rs)\<rparr>, db')"
    using q'(2,3) q'(1) [unfolded self] assms(4-8) by (simp add: batch_transaction_def)
  moreover have five: "MaxContentionAttempts = Suc 4" by (simp add: MaxContentionAttempts_def)
  ultimately show ?thesis
    using assms(10,11) unfolding ApplyBatch_def assms(3) option.case WriteSerialized_def five
      serialized_loop.simps(2)
    by (simp add: MaxContentionAttempts_def serializedAttempt_def Let_def)
qed

text \<open>The batch of the first two commands of the rehearsal.\<close>

lemma rehearsed_sequence:
  "\<exists>rs. apply_all rehearsed_codec (\<lambda>n. rehearsed_occasion (Suc n)) 0
     (map rehearsed_command (take 2 rehearsed_steps)) empty_database = Some (rs, rehearsed 2)"
proof -
  have two: "take 2 rehearsed_steps = [rehearsed_steps ! 0, rehearsed_steps ! 1]"
    by (simp add: rehearsed_steps_def)
  have "apply_all rehearsed_codec (\<lambda>n. rehearsed_occasion (Suc n)) 0
      (map rehearsed_command (take 2 rehearsed_steps)) empty_database \<noteq> None"
    by code_simp
  then show ?thesis
    by (auto simp: two rehearsed_def split: prod.splits sum.splits option.splits)
qed

theorem batch_is_sequence_witness:
  "\<exists>out. ApplyBatch rehearsed_codec None (\<lambda>_. \<lparr>at_Start = None, at_Commit = Committed,
       at_Cancelled = None, at_BudgetSpent = False, at_BudgetSpentAfterWait = False,
       at_CancelledAtEnd = None\<rparr>) (\<lambda>n. rehearsed_occasion (Suc n))
     \<lparr>bat_ProjectID = ''project'',
      bat_Actor = \<lparr>actor_Kind = ActorPrincipal, actor_ID = ''principal''\<rparr>,
      bat_Correlation = NoCorrelation, bat_ExpectedStateRevision = ''ps_000000000'',
      bat_WorkPackage = None, bat_Preconditions = [], bat_Postconditions = [],
      bat_Commands = map rehearsed_command (take 2 rehearsed_steps)\<rparr>
     empty_database = (Inr out, rehearsed 2)"
proof -
  let ?b = "\<lparr>bat_ProjectID = ''project'',
      bat_Actor = \<lparr>actor_Kind = ActorPrincipal, actor_ID = ''principal''\<rparr>,
      bat_Correlation = NoCorrelation, bat_ExpectedStateRevision = ''ps_000000000'',
      bat_WorkPackage = None, bat_Preconditions = [], bat_Postconditions = [],
      bat_Commands = map rehearsed_command (take 2 rehearsed_steps)\<rparr>"
  obtain rs where rs: "apply_all rehearsed_codec (\<lambda>n. rehearsed_occasion (Suc n)) 0 (bat_Commands ?b)
      empty_database = Some (rs, rehearsed 2)"
    using rehearsed_sequence by auto
  have v: "validateBatch rehearsed_codec ?b = None" by code_simp
  have l: "loadProjection rehearsed_codec (bat_ProjectID ?b) empty_database = Inr New_Projection"
    by (simp add: loadProjection_def ReadEvents_whole project_rows_def empty_database_def Reduce_def)
  have r: "bat_ExpectedStateRevision ?b = StateRevision (p_HighWatermark New_Projection)"
    by code_simp
  have s: "\<forall>m \<in> set (bat_Commands ?b). command_survives rehearsed_codec m"
    using rehearsed_survives set_take_subset [of 2 rehearsed_steps] by auto
  show ?thesis
    using batch_is_sequence [OF consistent_empty s v _ _ _ l r rs] by auto
qed

section \<open>Journals only grow\<close>

lemma committed_extends:
  assumes "committed c k new q' db db'" "p \<noteq> []" "ReadEvents c (whole_journal p) db = Inr es"
  shows "\<exists>more. ReadEvents c (whole_journal p) db' = Inr (es @ more)"
proof (cases "p = k")
  case True
  then show ?thesis using assms by (auto simp: committed_def commits_def ReadEvents_whole)
next
  case False
  then show ?thesis using assms
    by (intro exI [of _ "[]"]) (auto simp: committed_def commits_def ReadEvents_whole)
qed

lemma serve_extends:
  assumes "consistent c db" "request_survives c r" "p \<noteq> []"
    and "ReadEvents c (whole_journal p) db = Inr es"
  shows "\<exists>more. ReadEvents c (whole_journal p) (serve c r db) = Inr (es @ more)"
proof (cases r)
  case (ApplyRequest oc cmd)
  obtain x db' where a: "Service_Apply c oc cmd db = (x, db')" by fastforce
  then show ?thesis
    using assms unfolding ApplyRequest
    by (cases rule: Service_Apply_cases)
      (auto simp: a intro: committed_extends elim: apply_transaction_committed [OF assms(1)])
next
  case (BatchRequest cancelled env oc b)
  obtain x db' where a: "ApplyBatch c cancelled env oc b db = (x, db')" by fastforce
  have "\<exists>more. ReadEvents c (whole_journal p) db' = Inr (es @ more)"
    if "validateBatch c b = None" "batch_transaction c oc b db = Inr (out, db')" for out
  proof (rule batch_transaction_committed [OF assms(1) _ that(2)])
    show "\<forall>m \<in> set (bat_Commands b). cmd_ProjectID m = bat_ProjectID b \<and> command_survives c m"
      using assms(2) validateBatch_projects [OF that(1)] by (simp add: BatchRequest)
  qed (rule committed_extends [OF _ assms(3,4)])
  then show ?thesis
    using assms(4) unfolding BatchRequest
    by (cases rule: ApplyBatch_cases [OF a]) (auto simp: a)
next
  case (RebuildRequest k)
  have "same_ledger db (serve c r db)"
    using rebuild_same(1) [OF assms(1)]
    by (auto simp: RebuildRequest RebuildProjection_def Write_def rebuild_transaction_def same_ledger_def
        split: sum.splits)
  then have "project_rows p (serve c r db) = project_rows p db"
    by (simp add: same_ledger_def project_rows_def)
  then show ?thesis using assms(3,4) by (intro exI [of _ "[]"]) (simp add: ReadEvents_whole)
qed

lemma requests_extend:
  assumes "\<forall>r \<in> set rs. request_survives c r" "consistent c db" "p \<noteq> []"
    and "ReadEvents c (whole_journal p) db = Inr es"
  shows "consistent c (fold (serve c) rs db) \<and>
    (\<exists>more. ReadEvents c (whole_journal p) (fold (serve c) rs db) = Inr (es @ more))"
  using assms
proof (induction rs arbitrary: db es)
  case (Cons r rs)
  obtain more where "ReadEvents c (whole_journal p) (serve c r db) = Inr (es @ more)"
    using serve_extends [of c db r p es] Cons.prems by auto
  then show ?case
    using Cons.IH [of "serve c r db" "es @ more"] serve_consistent [of c db r] Cons.prems by auto
qed auto

section \<open>Answers can be asked for again\<close>

lemma revision_read:
  assumes "p \<noteq> []" "0 < n" "ReadEvents c (whole_journal p) db = Inr (es @ fs)"
    and "\<forall>e \<in> set es. ev_Seq e \<le> n" "\<forall>e \<in> set fs. n < ev_Seq e"
  shows "ReadEvents c ((whole_journal p)\<lparr>eq_UpToSeq := n\<rparr>) db = Inr es"
proof -
  let ?old = "\<lambda>row. row_Seq row \<le> n"
  have m: "matches_query ((whole_journal p)\<lparr>eq_UpToSeq := n\<rparr>) =
      (\<lambda>row. row_ProjectID row = p \<and> ?old row)"
    using assms(2) by (auto simp: matches_query_def whole_journal_def fun_eq_iff)
  have rows: "query_rows ((whole_journal p)\<lparr>eq_UpToSeq := n\<rparr>) db = filter ?old (project_rows p db)"
    unfolding query_rows_def Let_def m by (simp add: project_rows_def whole_journal_def conj_commute)
  have "scan_all (scanEvent c) (filter ?old rs) = Inr (filter (\<lambda>e. ev_Seq e \<le> n) xs)"
    if "scan_all (scanEvent c) rs = Inr xs" for rs xs
    using that
  proof (induction rs arbitrary: xs)
    case (Cons r rs)
    then obtain e ys where "scanEvent c r = Inr e" "scan_all (scanEvent c) rs = Inr ys" "xs = e # ys"
      by auto
    then show ?case using Cons.IH [of ys] scanned_seq [of c r e] by auto
  qed simp
  moreover have "scan_all (scanEvent c) (project_rows p db) = Inr (es @ fs)"
    using assms(1,3) by (simp add: ReadEvents_whole)
  ultimately have "scan_all (scanEvent c) (filter ?old (project_rows p db)) =
      Inr (filter (\<lambda>e. ev_Seq e \<le> n) (es @ fs))"
    by blast
  moreover have "filter (\<lambda>e. ev_Seq e \<le> n) (es @ fs) = es"
    using assms(4,5) by (auto simp: filter_empty_conv not_le)
  ultimately show ?thesis
    using assms(1) by (simp add: ReadEvents_def rows) (simp add: whole_journal_def)
qed

text \<open>C31: What a command answered can be asked for at any later time. Whatever requests were served
  since, the project state at the revision of the command's event is still the state the command
  returned.\<close>

theorem answers_are_reproducible:
  assumes "consistent c db" "command_survives c cmd"
    and "Service_Apply c oc cmd db = (Inr res, db')"
    and "\<forall>r \<in> set rs. request_survives c r"
  shows "ProjectStateAt c (cmd_ProjectID cmd) (ev_Seq (res_Event res)) (fold (serve c) rs db') =
    Inr (res_ProjectState res)"
proof -
  let ?p = "cmd_ProjectID cmd" and ?n = "ev_Seq (res_Event res)"
  have t: "apply_transaction c oc cmd db = Inr (res, db')" and pn: "?p \<noteq> []"
    using assms(3) by (cases rule: Service_Apply_cases; simp)+
  obtain q' where co: "committed c ?p [res_Event res] q' db db'"
    and st: "render_state q' = Inr (res_ProjectState res)"
    using apply_transaction_committed [OF assms(1,2) t] .
  have c': "consistent c db'" using co by (simp add: committed_def)
  obtain es where es: "ReadEvents c (whole_journal ?p) db = Inr es"
    using journal_reads [OF assms(1) pn] by blast
  have es': "ReadEvents c (whole_journal ?p) db' = Inr (es @ [res_Event res])"
    using es co pn by (auto simp: committed_def commits_def ReadEvents_whole)
  then have red: "Reduce (es @ [res_Event res]) = Inr q'"
    using co journal_reads [OF c' pn] by (auto simp: committed_def commits_def)
  obtain more where more: "ReadEvents c (whole_journal ?p) (fold (serve c) rs db') =
      Inr ((es @ [res_Event res]) @ more)"
    and c'': "consistent c (fold (serve c) rs db')"
    using requests_extend [OF assms(4) c' pn es'] by blast
  have mark: "p_HighWatermark New_Projection = 0" by (simp add: New_Projection_def)
  obtain q where "Reduce ((es @ [res_Event res]) @ more) = Inr q"
    using journal_reads [OF c'' pn] more by auto
  then have "sorted_wrt (<) (0 # map ev_Seq ((es @ [res_Event res]) @ more))"
    using state_reducer.run_increasing unfolding Reduce_run mark [symmetric] by blast
  then have "0 < ?n" "\<forall>e \<in> set (es @ [res_Event res]). ev_Seq e \<le> ?n" "\<forall>e \<in> set more. ?n < ev_Seq e"
    by (auto simp: sorted_wrt_append)
  from revision_read [OF pn this(1) more this(2,3)] show ?thesis
    by (simp add: ProjectStateAt_def red st)
qed

theorem answers_are_reproducible_witness:
  "\<exists>res :: Result. ProjectStateAt rehearsed_codec ''project'' (ev_Seq (res_Event res))
     (fold (serve rehearsed_codec)
        [RebuildRequest ''project'',
         ApplyRequest (rehearsed_occasion 2) (rehearsed_command (rehearsed_steps ! 1))] (rehearsed 1)) =
     Inr (res_ProjectState res)"
proof -
  let ?rs = "[RebuildRequest ''project'',
    ApplyRequest (rehearsed_occasion 2) (rehearsed_command (rehearsed_steps ! 1))]"
  obtain rs where "apply_all rehearsed_codec (\<lambda>n. rehearsed_occasion (Suc n)) 0
      (map rehearsed_command (take 2 rehearsed_steps)) empty_database = Some (rs, rehearsed 2)"
    using rehearsed_sequence by blast
  then obtain res db' where a: "Service_Apply rehearsed_codec (rehearsed_occasion 1)
      (rehearsed_command (rehearsed_steps ! 0)) empty_database = (Inr res, db')"
    by (auto simp: rehearsed_steps_def split: prod.splits sum.splits)
  have m: "rehearsed_steps ! 0 \<in> set rehearsed_steps" "rehearsed_steps ! 1 \<in> set rehearsed_steps"
    by (simp_all add: rehearsed_steps_def)
  then have s: "\<forall>r \<in> set ?rs. request_survives rehearsed_codec r"
    using rehearsed_survives by simp
  have p: "cmd_ProjectID (rehearsed_command (rehearsed_steps ! 0)) = ''project''"
    by (simp add: rehearsed_command_def)
  have one: "db' = rehearsed 1" using a by (simp add: rehearsed_def rehearsed_steps_def)
  show ?thesis
    using answers_are_reproducible [OF consistent_empty rehearsed_survives [OF m(1)] a s]
    unfolding p one by (rule exI)
qed

section \<open>Rebuilding the tables\<close>



end
