(* ===== verification/Times.thy ===== *)
theory Times
  imports Prelude "HOL-Library.Monad_Syntax"
begin

text \<open>
  Which texts time.Parse of the Go standard library accepts under the layouts time.RFC3339 and
  time.RFC3339Nano. Both accept the same texts: a year of four digits, a two-digit month and day that
  exist in that year, an hour of one or two digits, minutes and seconds of two, any number of
  fractional digits after a period or a comma, and Z or a numeric offset of at most 24:60. The
  parser takes one element of the layout after the other off the input.
\<close>

section \<open>Elements of the layout\<close>

text \<open>getnum of package time: one or two digits, or exactly two when the element is fixed.\<close>

fun getnum :: "bool \<Rightarrow> string \<Rightarrow> (nat \<times> string) option" where
  "getnum fixed [] = None"
| "getnum fixed [a] = (if is_digit a \<and> \<not> fixed then Some (char_digit a, []) else None)"
| "getnum fixed (a # b # s) =
     (if \<not> is_digit a then None
      else if is_digit b then Some (10 * char_digit a + char_digit b, s)
      else if fixed then None else Some (char_digit a, b # s))"

fun literal :: "string \<Rightarrow> string \<Rightarrow> string option" where
  "literal [] s = Some s"
| "literal (c # cs) [] = None"
| "literal (c # cs) (d # s) = (if c = d then literal cs s else None)"

definition year_of :: "string \<Rightarrow> (nat \<times> string) option" where
  "year_of s =
     (if 4 \<le> length s \<and> list_all is_digit (take 4 s)
      then Some (parse_decimal (take 4 s), drop 4 s) else None)"

text \<open>A number below a limit, and at least a least value.\<close>

definition number_in :: "bool \<Rightarrow> nat \<Rightarrow> nat \<Rightarrow> string \<Rightarrow> (nat \<times> string) option" where
  "number_in fixed low high s =
     (case getnum fixed s of
        None \<Rightarrow> None
      | Some (n, rest) \<Rightarrow> if low \<le> n \<and> n \<le> high then Some (n, rest) else None)"

fun fraction :: "string \<Rightarrow> string" where
  "fraction (p # d # s) =
     (if p \<in> {CHR ''.'', CHR '',''} \<and> is_digit d then dropWhile is_digit s else p # d # s)"
| "fraction s = s"

fun zone :: "string \<Rightarrow> string option" where
  "zone [] = None"
| "zone (c # s) =
     (if c = CHR ''Z'' then Some s
      else
        (case s of
           h1 # h2 # p # m1 # m2 # rest \<Rightarrow>
             if p = CHR '':'' \<and> number_in True 0 24 [h1, h2] \<noteq> None \<and>
                number_in True 0 60 [m1, m2] \<noteq> None \<and> c \<in> {CHR ''+'', CHR ''-''}
             then Some rest else None
         | _ \<Rightarrow> None))"

definition leap_year :: "nat \<Rightarrow> bool" where
  "leap_year y \<longleftrightarrow> 4 dvd y \<and> (\<not> 100 dvd y \<or> 400 dvd y)"

definition days_in :: "nat \<Rightarrow> nat \<Rightarrow> nat" where
  "days_in y m =
     (if m = 2 then (if leap_year y then 29 else 28) else if m \<in> {4, 6, 9, 11} then 30 else 31)"

section \<open>The layout\<close>

text \<open>The day is read as any two digits and compared with the month when all is read.\<close>

definition rfc3339_rest :: "string \<Rightarrow> (nat \<times> nat \<times> nat \<times> string) option" where
  "rfc3339_rest s = do {
     (y, s1) \<leftarrow> year_of s;
     s2 \<leftarrow> literal ''-'' s1;
     (m, s3) \<leftarrow> number_in True 1 12 s2;
     s4 \<leftarrow> literal ''-'' s3;
     (d, s5) \<leftarrow> getnum True s4;
     s6 \<leftarrow> literal ''T'' s5;
     (_, s7) \<leftarrow> number_in False 0 23 s6;
     s8 \<leftarrow> literal '':'' s7;
     (_, s9) \<leftarrow> number_in True 0 59 s8;
     s10 \<leftarrow> literal '':'' s9;
     (_, s11) \<leftarrow> number_in True 0 59 s10;
     rest \<leftarrow> zone (fraction s11);
     Some (y, m, d, rest)
   }"

definition rfc3339 :: "string \<Rightarrow> bool" where
  "rfc3339 s \<longleftrightarrow>
     (case rfc3339_rest s of
        None \<Rightarrow> False
      | Some (y, m, d, rest) \<Rightarrow> rest = [] \<and> 1 \<le> d \<and> d \<le> days_in y m)"

lemma rfc3339_examples:
  "rfc3339 ''2024-02-29T23:59:59.5Z''" "rfc3339 ''2024-02-29T1:59:59,25+24:60''"
  "\<not> rfc3339 ''2023-02-29T23:59:59Z''" "\<not> rfc3339 ''2024-02-29T23:59:59''"
  by code_simp+

end
