(* ===== verification/Adjudication.thy ===== *)
theory Adjudication
  imports Documents Times
begin

text \<open>
  The review ledger of internal/protocol/review_ledger.go: material findings, the implementer's
  resolutions, an independent verifier's judgments, and the state of a finding that is derived from
  them and never stored. The state of a finding turns to fixed or dismissed only on the word of an
  actor who is independent of the one who resolved it.
\<close>

section \<open>Records\<close>

datatype ProvenanceRole =
    ProvenanceRoleReviewer | ProvenanceRoleImplementer | ProvenanceRoleVerifier
  | UnknownProvenanceRole string

definition ProvenanceRole_Valid :: "ProvenanceRole \<Rightarrow> bool" where
  [enum_defs]: "ProvenanceRole_Valid x \<longleftrightarrow> x \<in> set
     [ProvenanceRoleReviewer, ProvenanceRoleImplementer, ProvenanceRoleVerifier]"

datatype Materiality =
    MaterialityBlocking | MaterialityMaterialNonBlocking | MaterialityOpportunistic
  | UnknownMateriality string

definition Materiality_Valid :: "Materiality \<Rightarrow> bool" where
  [enum_defs]: "Materiality_Valid x \<longleftrightarrow> x \<in> set
     [MaterialityBlocking, MaterialityMaterialNonBlocking, MaterialityOpportunistic]"

datatype FindingConfidence =
    ConfidenceHigh | ConfidenceMedium | ConfidenceLow
  | UnknownFindingConfidence string

definition FindingConfidence_Valid :: "FindingConfidence \<Rightarrow> bool" where
  [enum_defs]: "FindingConfidence_Valid x \<longleftrightarrow> x \<in> set
     [ConfidenceHigh, ConfidenceMedium, ConfidenceLow]"

datatype ResolutionKind =
    ResolutionKindFixAttempted | ResolutionKindChallenge
  | UnknownResolutionKind string

definition ResolutionKind_Valid :: "ResolutionKind \<Rightarrow> bool" where
  [enum_defs]: "ResolutionKind_Valid x \<longleftrightarrow> x \<in> set
     [ResolutionKindFixAttempted, ResolutionKindChallenge]"

datatype VerificationOutcome =
    OutcomeVerifiedFixed | OutcomeVerifiedDismissed | OutcomeNotResolved
  | OutcomeReAdjudicationRequired
  | UnknownVerificationOutcome string

definition VerificationOutcome_Valid :: "VerificationOutcome \<Rightarrow> bool" where
  [enum_defs]: "VerificationOutcome_Valid x \<longleftrightarrow> x \<in> set
     [OutcomeVerifiedFixed, OutcomeVerifiedDismissed, OutcomeNotResolved,
      OutcomeReAdjudicationRequired]"

datatype FindingResolutionState =
    StateUnresolved | StateVerificationPending | StateVerifiedFixed | StateVerifiedDismissed
  | StateReAdjudicationRequired
  | UnknownFindingResolutionState string

definition FindingResolutionState_Valid :: "FindingResolutionState \<Rightarrow> bool" where
  [enum_defs]: "FindingResolutionState_Valid x \<longleftrightarrow> x \<in> set
     [StateUnresolved, StateVerificationPending, StateVerifiedFixed, StateVerifiedDismissed,
      StateReAdjudicationRequired]"

record ActorProvenance =
  apv_ActorID :: string
  apv_InvocationID :: string
  apv_Role :: ProvenanceRole
  apv_LineageActorIDs :: "string list"
  apv_EndpointRef :: "string option"
  apv_SessionRef :: "string option"
  apv_ModelRef :: "string option"

record ObservationRef =
  obs_ReviewID :: string
  obs_FindingIndex :: int

record ReviewFinding =
  rf_SchemaVersion :: SchemaVersion
  rf_FindingID :: string
  rf_ProjectID :: string
  rf_CampaignID :: string
  rf_CandidateCommit :: string
  rf_WorkPackageID :: string
  rf_ContractRevision :: int
  rf_Severity :: Severity
  rf_Materiality :: Materiality
  rf_Confidence :: "FindingConfidence option"
  rf_Claim :: string
  rf_Impact :: string
  rf_VerificationMethod :: string
  rf_WhyNow :: "string option"
  rf_EvidenceRefs :: "string list"
  rf_RequirementRefs :: "string list"
  rf_SourceObservations :: "ObservationRef list"
  rf_Reviewer :: ActorProvenance
  rf_RecordedAt :: string

record FindingResolution =
  fr_SchemaVersion :: SchemaVersion
  fr_ResolutionID :: string
  fr_ProjectID :: string
  fr_CampaignID :: string
  fr_FindingID :: string
  fr_DispositionID :: string
  fr_ContractRevision :: int
  fr_AttemptNo :: int
  fr_Kind :: ResolutionKind
  fr_TargetCandidateCommit :: string
  fr_ResolvedCandidateCommit :: "string option"
  fr_Rationale :: string
  fr_EvidenceRefs :: "string list"
  fr_Producer :: ActorProvenance
  fr_RecordedAt :: string

record ResolutionVerification =
  rv_SchemaVersion :: SchemaVersion
  rv_VerificationID :: string
  rv_ProjectID :: string
  rv_CampaignID :: string
  rv_FindingID :: string
  rv_ResolutionID :: string
  rv_ContractRevision :: int
  rv_VerifiedCandidateCommit :: string
  rv_Outcome :: VerificationOutcome
  rv_Rationale :: string
  rv_EvidenceRefs :: "string list"
  rv_Verifier :: ActorProvenance
  rv_RecordedAt :: string

section \<open>Validate\<close>

definition required_trimmed :: "string list \<Rightarrow> go_error option" where
  [validate_defs]: "required_trimmed vs = first_err (map requireNonEmptyTrimmed vs)"

definition parseRFC3339 :: "string \<Rightarrow> go_error option" where
  [validate_defs]: "parseRFC3339 value = first_err
     [check (TrimSpace value = []) CategoryInvalidArgument,
      check (\<not> rfc3339 value) CategoryInvalidArgument]"

text \<open>The loop over the lineage keeps the set of identifiers it has seen.\<close>

fun lineage_checks :: "string \<Rightarrow> string list \<Rightarrow> string list \<Rightarrow> go_error option" where
  "lineage_checks actor seen [] = None"
| "lineage_checks actor seen (i # ids) = first_err
     [requireNonEmptyTrimmed i,
      check (i = actor) CategoryInvalidArgument,
      check (i \<in> set seen) CategoryInvalidArgument,
      lineage_checks actor (i # seen) ids]"

definition ActorProvenance_Validate :: "ActorProvenance \<Rightarrow> ProvenanceRole \<Rightarrow> go_error option" where
  "ActorProvenance_Validate a expectedRole = first_err
     [requireNonEmptyTrimmed (apv_ActorID a),
      requireNonEmptyTrimmed (apv_InvocationID a),
      enum_check (ProvenanceRole_Valid (apv_Role a)),
      check (apv_Role a \<noteq> expectedRole) CategoryInvalidArgument,
      lineage_checks (apv_ActorID a) [] (apv_LineageActorIDs a)]"

definition ObservationRef_Validate :: "ObservationRef \<Rightarrow> go_error option" where
  "ObservationRef_Validate ob = first_err
     [requireNonEmptyTrimmed (obs_ReviewID ob),
      check (obs_FindingIndex ob < 0) CategoryInvalidArgument]"

definition ReviewFinding_Validate :: "ReviewFinding \<Rightarrow> go_error option" where
  "ReviewFinding_Validate f = first_err
     [SchemaVersion_Validate (rf_SchemaVersion f),
      required_trimmed [rf_FindingID f, rf_ProjectID f, rf_CampaignID f, rf_CandidateCommit f,
        rf_WorkPackageID f, rf_Claim f, rf_Impact f, rf_VerificationMethod f],
      check (rf_ContractRevision f < 1) CategoryInvalidArgument,
      enum_check (Severity_ValidFinding (rf_Severity f)),
      enum_check (Materiality_Valid (rf_Materiality f)),
      (case rf_Confidence f of None \<Rightarrow> None | Some k \<Rightarrow> enum_check (FindingConfidence_Valid k)),
      (case rf_WhyNow f of None \<Rightarrow> None | Some w \<Rightarrow> requireNonEmptyTrimmed w),
      requireMinItems (length (rf_EvidenceRefs f)) 1,
      required_trimmed (rf_EvidenceRefs f),
      required_trimmed (rf_RequirementRefs f),
      requireMinItems (length (rf_SourceObservations f)) 1,
      first_err (map ObservationRef_Validate (rf_SourceObservations f)),
      ActorProvenance_Validate (rf_Reviewer f) ProvenanceRoleReviewer,
      parseRFC3339 (rf_RecordedAt f)]"

definition FindingResolution_Validate :: "FindingResolution \<Rightarrow> go_error option" where
  "FindingResolution_Validate r = first_err
     [SchemaVersion_Validate (fr_SchemaVersion r),
      required_trimmed [fr_ResolutionID r, fr_ProjectID r, fr_CampaignID r, fr_FindingID r,
        fr_DispositionID r, fr_TargetCandidateCommit r, fr_Rationale r],
      check (fr_ContractRevision r < 1) CategoryInvalidArgument,
      check (fr_AttemptNo r < 1) CategoryInvalidArgument,
      enum_check (ResolutionKind_Valid (fr_Kind r)),
      (case fr_Kind r of
         ResolutionKindFixAttempted \<Rightarrow>
           check (case fr_ResolvedCandidateCommit r of None \<Rightarrow> True | Some k \<Rightarrow> TrimSpace k = [])
             CategoryInvalidArgument
       | ResolutionKindChallenge \<Rightarrow>
           check (fr_ResolvedCandidateCommit r \<noteq> None) CategoryInvalidArgument
       | UnknownResolutionKind _ \<Rightarrow> None),
      requireMinItems (length (fr_EvidenceRefs r)) 1,
      required_trimmed (fr_EvidenceRefs r),
      ActorProvenance_Validate (fr_Producer r) ProvenanceRoleImplementer,
      parseRFC3339 (fr_RecordedAt r)]"

definition ResolutionVerification_Validate :: "ResolutionVerification \<Rightarrow> go_error option" where
  "ResolutionVerification_Validate v = first_err
     [SchemaVersion_Validate (rv_SchemaVersion v),
      required_trimmed [rv_VerificationID v, rv_ProjectID v, rv_CampaignID v, rv_FindingID v,
        rv_ResolutionID v, rv_VerifiedCandidateCommit v, rv_Rationale v],
      check (rv_ContractRevision v < 1) CategoryInvalidArgument,
      enum_check (VerificationOutcome_Valid (rv_Outcome v)),
      requireMinItems (length (rv_EvidenceRefs v)) 1,
      required_trimmed (rv_EvidenceRefs v),
      ActorProvenance_Validate (rv_Verifier v) ProvenanceRoleVerifier,
      parseRFC3339 (rv_RecordedAt v)]"

section \<open>Independence and the check of one verification\<close>

definition independent :: "ActorProvenance \<Rightarrow> ActorProvenance \<Rightarrow> bool" where
  "independent a b \<longleftrightarrow>
     (if TrimSpace (apv_ActorID a) = [] \<or> TrimSpace (apv_InvocationID a) = [] \<or>
         TrimSpace (apv_ActorID b) = [] \<or> TrimSpace (apv_InvocationID b) = [] then False
      else if apv_ActorID a = apv_ActorID b then False
      else if apv_InvocationID a = apv_InvocationID b then False
      else apv_ActorID a \<notin> set (apv_LineageActorIDs b) \<and> apv_ActorID b \<notin> set (apv_LineageActorIDs a))"

text \<open>An invalid record is wrapped as a failed validation.\<close>

definition invalid :: "go_error option \<Rightarrow> go_error option" where
  "invalid e = map_option (\<lambda>err. Err CategoryValidationFailed (Some err)) e"

definition failed :: "bool \<Rightarrow> go_error option" where
  "failed bad = check bad CategoryValidationFailed"

definition candidate_rule ::
  "ReviewFinding \<Rightarrow> FindingResolution \<Rightarrow> ResolutionVerification \<Rightarrow> go_error option" where
  "candidate_rule f r v =
     (case fr_Kind r of
        ResolutionKindFixAttempted \<Rightarrow>
          failed (case fr_ResolvedCandidateCommit r of None \<Rightarrow> True
                  | Some k \<Rightarrow> rv_VerifiedCandidateCommit v \<noteq> k)
      | ResolutionKindChallenge \<Rightarrow> failed (rv_VerifiedCandidateCommit v \<noteq> rf_CandidateCommit f)
      | UnknownResolutionKind _ \<Rightarrow> failed True)"

definition outcome_rule :: "ResolutionKind \<Rightarrow> VerificationOutcome \<Rightarrow> go_error option" where
  "outcome_rule k out =
     (case k of
        ResolutionKindFixAttempted \<Rightarrow>
          failed (out \<notin> {OutcomeVerifiedFixed, OutcomeNotResolved, OutcomeReAdjudicationRequired})
      | ResolutionKindChallenge \<Rightarrow>
          failed (out \<notin> {OutcomeVerifiedDismissed, OutcomeNotResolved, OutcomeReAdjudicationRequired})
      | UnknownResolutionKind _ \<Rightarrow> None)"

definition CheckVerification ::
  "ReviewFinding option \<Rightarrow> FindingResolution option \<Rightarrow> ResolutionVerification option
     \<Rightarrow> go_error option" where
  "CheckVerification fo ro vo =
     (case (fo, ro, vo) of
        (Some f, Some r, Some v) \<Rightarrow> first_err
          [invalid (ReviewFinding_Validate f),
           invalid (FindingResolution_Validate r),
           invalid (ResolutionVerification_Validate v),
           failed (fr_ProjectID r \<noteq> rf_ProjectID f \<or> rv_ProjectID v \<noteq> rf_ProjectID f),
           failed (fr_CampaignID r \<noteq> rf_CampaignID f \<or> rv_CampaignID v \<noteq> rf_CampaignID f),
           failed (fr_FindingID r \<noteq> rf_FindingID f \<or> rv_FindingID v \<noteq> rf_FindingID f),
           failed (rv_ResolutionID v \<noteq> fr_ResolutionID r),
           failed (fr_ContractRevision r \<noteq> rf_ContractRevision f \<or>
                   rv_ContractRevision v \<noteq> rf_ContractRevision f),
           failed (fr_TargetCandidateCommit r \<noteq> rf_CandidateCommit f),
           candidate_rule f r v,
           outcome_rule (fr_Kind r) (rv_Outcome v),
           failed (\<not> independent (rv_Verifier v) (fr_Producer r)),
           failed (fr_Kind r = ResolutionKindChallenge \<and> \<not> independent (rv_Verifier v) (rf_Reviewer f))]
      | _ \<Rightarrow> failed True)"

section \<open>The derived state\<close>

definition links_to :: "ReviewFinding \<Rightarrow> FindingResolution \<Rightarrow> bool" where
  "links_to f r \<longleftrightarrow> fr_ProjectID r = rf_ProjectID f \<and> fr_CampaignID r = rf_CampaignID f \<and>
     fr_FindingID r = rf_FindingID f \<and> fr_ContractRevision r = rf_ContractRevision f"

text \<open>The maps seenAttempts and byID, for n resolutions.\<close>

fun index_resolutions ::
  "int \<Rightarrow> FindingResolution list \<Rightarrow> (int \<rightharpoonup> FindingResolution) \<Rightarrow> (string \<rightharpoonup> FindingResolution)
     \<Rightarrow> ((int \<rightharpoonup> FindingResolution) \<times> (string \<rightharpoonup> FindingResolution)) result" where
  "index_resolutions n [] seen byID = Inr (seen, byID)"
| "index_resolutions n (r # rs) seen byID =
     require (first_err
       [failed (fr_AttemptNo r < 1 \<or> n < fr_AttemptNo r),
        failed (seen (fr_AttemptNo r) \<noteq> None),
        failed (byID (fr_ResolutionID r) \<noteq> None)])
     (index_resolutions n rs (seen(fr_AttemptNo r \<mapsto> r)) (byID(fr_ResolutionID r \<mapsto> r)))"

text \<open>The map verificationsByResID.\<close>

fun judge_resolutions ::
  "ReviewFinding \<Rightarrow> (string \<rightharpoonup> FindingResolution) \<Rightarrow> ResolutionVerification list
     \<Rightarrow> (string \<rightharpoonup> ResolutionVerification) \<Rightarrow> (string \<rightharpoonup> ResolutionVerification) result" where
  "judge_resolutions f byID [] judged = Inr judged"
| "judge_resolutions f byID (v # vs) judged =
     (case byID (rv_ResolutionID v) of
        None \<Rightarrow> Inl (New CategoryValidationFailed)
      | Some r \<Rightarrow>
          require (failed (judged (rv_ResolutionID v) \<noteq> None))
          (require (CheckVerification (Some f) (Some r) (Some v))
          (judge_resolutions f byID vs (judged(rv_ResolutionID v \<mapsto> v)))))"

text \<open>Reading a key that is not in the map gives the zero value, whose identifier is empty.\<close>

definition judged_at ::
  "(int \<rightharpoonup> FindingResolution) \<Rightarrow> (string \<rightharpoonup> ResolutionVerification) \<Rightarrow> int
     \<Rightarrow> ResolutionVerification option" where
  "judged_at seen judged attempt =
     judged (case seen attempt of None \<Rightarrow> [] | Some r \<Rightarrow> fr_ResolutionID r)"

definition superseded_check ::
  "(int \<rightharpoonup> FindingResolution) \<Rightarrow> (string \<rightharpoonup> ResolutionVerification) \<Rightarrow> int \<Rightarrow> go_error option" where
  "superseded_check seen judged attempt =
     (case judged_at seen judged attempt of
        None \<Rightarrow> failed True
      | Some v \<Rightarrow> failed (rv_Outcome v \<noteq> OutcomeNotResolved))"

definition state_of_outcome :: "VerificationOutcome \<Rightarrow> FindingResolutionState result" where
  "state_of_outcome out =
     (case out of
        OutcomeVerifiedFixed \<Rightarrow> Inr StateVerifiedFixed
      | OutcomeVerifiedDismissed \<Rightarrow> Inr StateVerifiedDismissed
      | OutcomeReAdjudicationRequired \<Rightarrow> Inr StateReAdjudicationRequired
      | OutcomeNotResolved \<Rightarrow> Inr StateUnresolved
      | UnknownVerificationOutcome _ \<Rightarrow> Inl (New CategoryValidationFailed))"

definition DeriveFindingResolutionState ::
  "ReviewFinding option \<Rightarrow> FindingResolution list \<Rightarrow> ResolutionVerification list
     \<Rightarrow> FindingResolutionState result" where
  "DeriveFindingResolutionState fo rs vs =
     (case fo of
        None \<Rightarrow> Inl (New CategoryValidationFailed)
      | Some f \<Rightarrow>
          require (invalid (ReviewFinding_Validate f))
          (require (first_err (map (\<lambda>r. first_err
             [invalid (FindingResolution_Validate r), failed (\<not> links_to f r)]) rs))
          (require (first_err (map (\<lambda>v. invalid (ResolutionVerification_Validate v)) vs))
          (if rs = [] then require (failed (vs \<noteq> [])) (Inr StateUnresolved)
           else
             bind_result (index_resolutions (int (length rs)) rs Map.empty Map.empty)
               (\<lambda>(seen, byID).
             bind_result (judge_resolutions f byID vs Map.empty) (\<lambda>judged.
             require (first_err (map (superseded_check seen judged) [1..int (length rs) - 1]))
               (case judged_at seen judged (int (length rs)) of
                  None \<Rightarrow> Inr StateVerificationPending
                | Some v \<Rightarrow> state_of_outcome (rv_Outcome v))))))))"

section \<open>What the derived state means\<close>

text \<open>A ledger from which a state can be derived: valid records that belong together, attempts numbered
  from one without gaps, at most one judgment per resolution, each of them admissible, and every
  superseded attempt judged as not having resolved the finding.\<close>

definition sound_ledger ::
  "ReviewFinding \<Rightarrow> FindingResolution set \<Rightarrow> ResolutionVerification set \<Rightarrow> bool" where
  "sound_ledger f R V \<longleftrightarrow>
     ReviewFinding_Validate f = None \<and>
     (\<forall>r \<in> R. FindingResolution_Validate r = None \<and> links_to f r) \<and>
     (\<forall>v \<in> V. ResolutionVerification_Validate v = None) \<and>
     fr_AttemptNo ` R = {1..int (card R)} \<and>
     (\<forall>v \<in> V. \<exists>r \<in> R. fr_ResolutionID r = rv_ResolutionID v \<and>
        CheckVerification (Some f) (Some r) (Some v) = None) \<and>
     (\<forall>r \<in> R. fr_AttemptNo r < int (card R) \<longrightarrow>
        (\<exists>v \<in> V. rv_ResolutionID v = fr_ResolutionID r \<and> rv_Outcome v = OutcomeNotResolved))"

definition verdict ::
  "FindingResolution set \<Rightarrow> ResolutionVerification set \<Rightarrow> FindingResolutionState \<Rightarrow> bool" where
  "verdict R V s \<longleftrightarrow>
     (if R = {} then s = StateUnresolved
      else \<exists>r \<in> R. fr_AttemptNo r = int (card R) \<and>
        ((s = StateVerificationPending \<and> (\<forall>v \<in> V. rv_ResolutionID v \<noteq> fr_ResolutionID r)) \<or>
         (\<exists>v \<in> V. rv_ResolutionID v = fr_ResolutionID r \<and> state_of_outcome (rv_Outcome v) = Inr s)))"

definition keyed :: "('v \<Rightarrow> 'k) \<Rightarrow> 'v list \<Rightarrow> ('k \<rightharpoonup> 'v) \<Rightarrow> ('k \<rightharpoonup> 'v)" where
  "keyed key xs m = fold (\<lambda>x m. m(key x \<mapsto> x)) xs m"

lemma keyed_simps [simp]:
  "keyed key [] m = m" "keyed key (x # xs) m = keyed key xs (m(key x \<mapsto> x))"
  by (simp_all add: keyed_def)

lemma keyed_lookup:
  "distinct (map key xs) \<Longrightarrow> keyed key xs m k = Some x \<longleftrightarrow>
     (x \<in> set xs \<and> key x = k) \<or> (k \<notin> key ` set xs \<and> m k = Some x)"
  by (induction xs arbitrary: m) auto

lemma failed_None [simp]: "failed bad = None \<longleftrightarrow> \<not> bad"
  by (simp add: failed_def)

lemma invalid_None [simp]: "invalid e = None \<longleftrightarrow> e = None"
  by (simp add: invalid_def)

lemma index_resolutions_ok:
  "index_resolutions n rs seen byID = Inr (seen', byID') \<longleftrightarrow>
     (\<forall>r \<in> set rs. 1 \<le> fr_AttemptNo r \<and> fr_AttemptNo r \<le> n \<and> seen (fr_AttemptNo r) = None \<and>
        byID (fr_ResolutionID r) = None) \<and>
     distinct (map fr_AttemptNo rs) \<and> distinct (map fr_ResolutionID rs) \<and>
     seen' = keyed fr_AttemptNo rs seen \<and> byID' = keyed fr_ResolutionID rs byID"
  by (induction rs arbitrary: seen byID) (auto simp: image_iff)

lemma judge_resolutions_ok:
  "judge_resolutions f byID vs judged = Inr judged' \<longleftrightarrow>
     (\<forall>v \<in> set vs. (\<exists>r. byID (rv_ResolutionID v) = Some r \<and>
          CheckVerification (Some f) (Some r) (Some v) = None) \<and> judged (rv_ResolutionID v) = None) \<and>
     distinct (map rv_ResolutionID vs) \<and> judged' = keyed rv_ResolutionID vs judged"
  by (induction vs arbitrary: judged) (auto simp: image_iff split: option.splits)

lemma attempts_are_numbered:
  assumes "distinct (map fr_AttemptNo rs)"
  shows "(\<forall>r \<in> set rs. 1 \<le> fr_AttemptNo r \<and> fr_AttemptNo r \<le> int (length rs)) \<longleftrightarrow>
     fr_AttemptNo ` set rs = {1..int (length rs)}"
proof
  have c: "card (fr_AttemptNo ` set rs) = length rs"
    using distinct_card [OF assms] by simp
  assume "\<forall>r \<in> set rs. 1 \<le> fr_AttemptNo r \<and> fr_AttemptNo r \<le> int (length rs)"
  then have "fr_AttemptNo ` set rs \<subseteq> {1..int (length rs)}" by auto
  then show "fr_AttemptNo ` set rs = {1..int (length rs)}"
    using c by (intro card_subset_eq) simp_all
qed auto

text \<open>Two resolutions of the same number are the same, once as many numbers occur as resolutions.\<close>

lemma numbered_distinct:
  assumes "distinct rs" "fr_AttemptNo ` set rs = {1..int (length rs)}"
  shows "distinct (map fr_AttemptNo rs)"
  using assms by (simp add: distinct_map eq_card_imp_inj_on distinct_card)

lemma keyed_empty:
  "distinct (map key xs) \<Longrightarrow> keyed key xs Map.empty k = Some x \<longleftrightarrow> x \<in> set xs \<and> key x = k"
  by (simp add: keyed_lookup)

lemma judged_at_attempt:
  assumes "distinct (map fr_AttemptNo rs)" "distinct (map rv_ResolutionID vs)" "r \<in> set rs"
  shows "judged_at (keyed fr_AttemptNo rs Map.empty) (keyed rv_ResolutionID vs Map.empty) (fr_AttemptNo r) =
      Some v \<longleftrightarrow> v \<in> set vs \<and> rv_ResolutionID v = fr_ResolutionID r"
proof -
  have "keyed fr_AttemptNo rs Map.empty (fr_AttemptNo r) = Some r"
    using assms(3) by (simp add: keyed_empty [OF assms(1)])
  then show ?thesis by (simp add: judged_at_def keyed_empty [OF assms(2)])
qed

lemma only_judgment:
  assumes "distinct (map rv_ResolutionID vs)" "v \<in> set vs" "rv_ResolutionID v = k"
  shows "(\<exists>w \<in> set vs. rv_ResolutionID w = k \<and> P w) \<longleftrightarrow> P v"
  using assms by (auto simp: distinct_map inj_on_def)

lemma superseded_ok:
  assumes d: "distinct (map fr_AttemptNo rs)" "distinct (map rv_ResolutionID vs)"
    and n: "fr_AttemptNo ` set rs = {1..n}"
  shows "(\<forall>k \<in> {1..n - 1}. superseded_check (keyed fr_AttemptNo rs Map.empty)
        (keyed rv_ResolutionID vs Map.empty) k = None) \<longleftrightarrow>
     (\<forall>r \<in> set rs. fr_AttemptNo r < n \<longrightarrow>
        (\<exists>v \<in> set vs. rv_ResolutionID v = fr_ResolutionID r \<and> rv_Outcome v = OutcomeNotResolved))"
    (is "?checks \<longleftrightarrow> ?judged")
proof -
  have one: "superseded_check (keyed fr_AttemptNo rs Map.empty) (keyed rv_ResolutionID vs Map.empty)
        (fr_AttemptNo r) = None \<longleftrightarrow>
      (\<exists>v \<in> set vs. rv_ResolutionID v = fr_ResolutionID r \<and> rv_Outcome v = OutcomeNotResolved)"
    if "r \<in> set rs" for r
  proof (cases "judged_at (keyed fr_AttemptNo rs Map.empty) (keyed rv_ResolutionID vs Map.empty)
      (fr_AttemptNo r)")
    case None
    then show ?thesis using judged_at_attempt [OF d that] by (auto simp: superseded_check_def)
  next
    case (Some v)
    then have v: "v \<in> set vs" "rv_ResolutionID v = fr_ResolutionID r"
      using judged_at_attempt [OF d that] by auto
    show ?thesis using only_judgment [OF d(2) v] by (auto simp: superseded_check_def Some)
  qed
  have "{1..n - 1} = {k \<in> fr_AttemptNo ` set rs. k < n}" using n by auto
  then show ?thesis using one by (auto simp: image_iff)
qed

lemma last_state:
  assumes d: "distinct (map fr_AttemptNo rs)" "distinct (map rv_ResolutionID vs)"
    and r: "r \<in> set rs" "fr_AttemptNo r = n"
  shows "(case judged_at (keyed fr_AttemptNo rs Map.empty) (keyed rv_ResolutionID vs Map.empty) n of
        None \<Rightarrow> Inr StateVerificationPending | Some v \<Rightarrow> state_of_outcome (rv_Outcome v)) = Inr s \<longleftrightarrow>
     (s = StateVerificationPending \<and> (\<forall>v \<in> set vs. rv_ResolutionID v \<noteq> fr_ResolutionID r)) \<or>
     (\<exists>v \<in> set vs. rv_ResolutionID v = fr_ResolutionID r \<and> state_of_outcome (rv_Outcome v) = Inr s)"
proof (cases "judged_at (keyed fr_AttemptNo rs Map.empty) (keyed rv_ResolutionID vs Map.empty) n")
  case None
  then have "\<forall>v \<in> set vs. rv_ResolutionID v \<noteq> fr_ResolutionID r"
    using judged_at_attempt [OF d r(1)] r(2) by auto
  then show ?thesis using None by auto
next
  case (Some v)
  then have v: "v \<in> set vs" "rv_ResolutionID v = fr_ResolutionID r"
    using judged_at_attempt [OF d r(1)] r(2) by auto
  then show ?thesis using only_judgment [OF d(2) v] by (auto simp: Some)
qed

lemma derive_steps:
  assumes "rs \<noteq> []"
  shows "DeriveFindingResolutionState (Some f) rs vs = Inr s \<longleftrightarrow>
     ReviewFinding_Validate f = None \<and>
     (\<forall>r \<in> set rs. FindingResolution_Validate r = None \<and> links_to f r) \<and>
     (\<forall>v \<in> set vs. ResolutionVerification_Validate v = None) \<and>
     (\<forall>r \<in> set rs. 1 \<le> fr_AttemptNo r \<and> fr_AttemptNo r \<le> int (length rs)) \<and>
     distinct (map fr_AttemptNo rs) \<and> distinct (map fr_ResolutionID rs) \<and>
     (\<forall>v \<in> set vs. \<exists>r. keyed fr_ResolutionID rs Map.empty (rv_ResolutionID v) = Some r \<and>
        CheckVerification (Some f) (Some r) (Some v) = None) \<and>
     distinct (map rv_ResolutionID vs) \<and>
     (\<forall>k \<in> {1..int (length rs) - 1}. superseded_check (keyed fr_AttemptNo rs Map.empty)
        (keyed rv_ResolutionID vs Map.empty) k = None) \<and>
     (case judged_at (keyed fr_AttemptNo rs Map.empty) (keyed rv_ResolutionID vs Map.empty)
          (int (length rs)) of
        None \<Rightarrow> Inr StateVerificationPending | Some v \<Rightarrow> state_of_outcome (rv_Outcome v)) = Inr s"
  using assms
  by (simp add: DeriveFindingResolutionState_def index_resolutions_ok judge_resolutions_ok
      first_err_None_iff conj_assoc)

lemma derived_state:
  "DeriveFindingResolutionState (Some f) rs vs = Inr s \<longleftrightarrow>
     distinct (map fr_ResolutionID rs) \<and> distinct (map rv_ResolutionID vs) \<and>
     sound_ledger f (set rs) (set vs) \<and> verdict (set rs) (set vs) s"
proof (cases "rs = []")
  case True
  then show ?thesis
    by (auto simp: DeriveFindingResolutionState_def first_err_None_iff sound_ledger_def verdict_def)
next
  case False
  let ?n = "int (length rs)"
  show ?thesis
  proof (cases "distinct (map fr_ResolutionID rs)")
    case ids: True
    have card: "int (card (set rs)) = ?n"
      using ids distinct_card [of rs] by (simp add: distinct_map)
    have num: "(\<forall>r \<in> set rs. 1 \<le> fr_AttemptNo r \<and> fr_AttemptNo r \<le> ?n) \<and>
        distinct (map fr_AttemptNo rs) \<longleftrightarrow> fr_AttemptNo ` set rs = {1..?n}"
      using attempts_are_numbered numbered_distinct ids by (metis distinct_map)
    have links: "(\<exists>r. keyed fr_ResolutionID rs Map.empty k = Some r \<and> P r) \<longleftrightarrow>
        (\<exists>r \<in> set rs. fr_ResolutionID r = k \<and> P r)" for k P
      using keyed_empty [OF ids] by auto
    show ?thesis
    proof (cases "distinct (map rv_ResolutionID vs) \<and> fr_AttemptNo ` set rs = {1..?n}")
      case outer: True
      then have d: "distinct (map fr_AttemptNo rs)" "distinct (map rv_ResolutionID vs)"
        using num by blast+
      have range: "(\<forall>r \<in> set rs. 1 \<le> fr_AttemptNo r \<and> fr_AttemptNo r \<le> ?n) \<longleftrightarrow> True"
        using num outer by blast
      have "?n \<in> fr_AttemptNo ` set rs" using outer False by (cases rs) auto
      then obtain r where r: "r \<in> set rs" "fr_AttemptNo r = ?n" by auto
      have only: "(\<exists>q \<in> set rs. fr_AttemptNo q = ?n \<and> P q) \<longleftrightarrow> P r" for P
        using r d(1) by (auto simp: distinct_map inj_on_def)
      have verdict: "verdict (set rs) (set vs) s \<longleftrightarrow>
          (s = StateVerificationPending \<and> (\<forall>v \<in> set vs. rv_ResolutionID v \<noteq> fr_ResolutionID r)) \<or>
          (\<exists>v \<in> set vs. rv_ResolutionID v = fr_ResolutionID r \<and> state_of_outcome (rv_Outcome v) = Inr s)"
        using False by (simp only: verdict_def card only set_empty if_False)
      show ?thesis
        unfolding derive_steps [OF False] verdict last_state [OF d r] links sound_ledger_def card
          superseded_ok [OF d conjunct2 [OF outer]]
        by (simp only: ids d range conjunct2 [OF outer] simp_thms conj_assoc)
    next
      case outer: False
      then show ?thesis
        unfolding derive_steps [OF False] sound_ledger_def card using num by blast
    qed
  qed (simp add: derive_steps [OF False])
qed

text \<open>C35: The derived state of a finding is exactly what its ledger says: a state is derived if and only
  if the ledger is sound, and then it is the verdict on the last attempt. The loops over maps with
  their early returns compute this order-free description.\<close>

theorem derived_state_exact:
  "DeriveFindingResolutionState (Some f) rs vs = Inr s \<longleftrightarrow>
     distinct (map fr_ResolutionID rs) \<and> distinct (map rv_ResolutionID vs) \<and>
     sound_ledger f (set rs) (set vs) \<and> verdict (set rs) (set vs) s"
  by (rule derived_state)

lemma independent_sym: "independent a b \<longleftrightarrow> independent b a"
  by (auto simp: independent_def)

lemma checked_pair:
  assumes "CheckVerification (Some f) (Some r) (Some v) = None"
    and "rv_Outcome v \<in> {OutcomeVerifiedFixed, OutcomeVerifiedDismissed}"
  shows "independent (rv_Verifier v) (fr_Producer r)"
    "rv_Outcome v = OutcomeVerifiedFixed \<longleftrightarrow> fr_Kind r = ResolutionKindFixAttempted"
    "fr_Kind r = ResolutionKindFixAttempted \<Longrightarrow>
       fr_ResolvedCandidateCommit r = Some (rv_VerifiedCandidateCommit v)"
    "fr_Kind r \<noteq> ResolutionKindFixAttempted \<Longrightarrow> fr_Kind r = ResolutionKindChallenge \<and>
       independent (rv_Verifier v) (rf_Reviewer f) \<and> rv_VerifiedCandidateCommit v = rf_CandidateCommit f"
  using assms
  by (auto simp: CheckVerification_def candidate_rule_def outcome_rule_def
      split: ResolutionKind.splits option.splits)

lemma state_of_outcome_ok:
  "state_of_outcome out = Inr s \<Longrightarrow>
     (s = StateVerifiedFixed \<longleftrightarrow> out = OutcomeVerifiedFixed) \<and>
     (s = StateVerifiedDismissed \<longleftrightarrow> out = OutcomeVerifiedDismissed)"
  by (cases out) (auto simp: state_of_outcome_def)

text \<open>C36: No finding is settled by the actor who resolved it. A finding is derived as fixed only if an
  admissible judgment by an independent verifier saw exactly the commit of the last resolution, and as
  dismissed only if that verifier is independent of the reviewer as well and judged the finding's own
  commit; every earlier attempt was judged as not having resolved it.\<close>

theorem settled_finding_was_judged_independently:
  assumes "DeriveFindingResolutionState (Some f) rs vs = Inr s"
    and "s = StateVerifiedFixed \<or> s = StateVerifiedDismissed"
  shows "\<exists>r \<in> set rs. \<exists>v \<in> set vs.
     fr_AttemptNo r = int (length rs) \<and> rv_ResolutionID v = fr_ResolutionID r \<and>
     independent (rv_Verifier v) (fr_Producer r) \<and>
     (if s = StateVerifiedFixed
      then rv_Outcome v = OutcomeVerifiedFixed \<and>
           fr_ResolvedCandidateCommit r = Some (rv_VerifiedCandidateCommit v)
      else rv_Outcome v = OutcomeVerifiedDismissed \<and> independent (rv_Verifier v) (rf_Reviewer f) \<and>
           rv_VerifiedCandidateCommit v = rf_CandidateCommit f) \<and>
     (\<forall>q \<in> set rs. q \<noteq> r \<longrightarrow> (\<exists>w \<in> set vs. rv_ResolutionID w = fr_ResolutionID q \<and>
        rv_Outcome w = OutcomeNotResolved))"
proof -
  have ids: "distinct (map fr_ResolutionID rs)" and sound: "sound_ledger f (set rs) (set vs)"
    and verdict: "verdict (set rs) (set vs) s"
    using assms(1) by (simp_all add: derived_state)
  have card: "card (set rs) = length rs" using ids by (simp add: distinct_map distinct_card)
  obtain r v where r: "r \<in> set rs" "fr_AttemptNo r = int (length rs)"
    and v: "v \<in> set vs" "rv_ResolutionID v = fr_ResolutionID r" "state_of_outcome (rv_Outcome v) = Inr s"
    using verdict assms(2) card by (auto simp: verdict_def split: if_splits)
  obtain r' where "r' \<in> set rs" "fr_ResolutionID r' = rv_ResolutionID v"
    "CheckVerification (Some f) (Some r') (Some v) = None"
    using sound v(1) by (auto simp: sound_ledger_def)
  then have ok: "CheckVerification (Some f) (Some r) (Some v) = None"
    using ids r(1) v(2) by (auto simp: distinct_map inj_on_def)
  have out: "rv_Outcome v \<in> {OutcomeVerifiedFixed, OutcomeVerifiedDismissed}"
    using state_of_outcome_ok [OF v(3)] assms(2) by auto
  have "fr_AttemptNo ` set rs = {1..int (length rs)}" "distinct rs"
    using sound card ids by (simp_all add: sound_ledger_def distinct_map)
  then have num: "distinct (map fr_AttemptNo rs)" by (intro numbered_distinct)
  have "fr_AttemptNo q < int (length rs)" if "q \<in> set rs" "q \<noteq> r" for q
  proof -
    have "fr_AttemptNo q \<in> {1..int (length rs)}"
      using sound card that(1) unfolding sound_ledger_def by (metis imageI)
    moreover have "fr_AttemptNo q \<noteq> int (length rs)"
      using num r that by (auto simp: distinct_map inj_on_def)
    ultimately show ?thesis by simp
  qed
  then have "\<forall>q \<in> set rs. q \<noteq> r \<longrightarrow> (\<exists>w \<in> set vs. rv_ResolutionID w = fr_ResolutionID q \<and>
      rv_Outcome w = OutcomeNotResolved)"
    using sound card by (auto simp: sound_ledger_def)
  moreover note checked_pair [OF ok out] state_of_outcome_ok [OF v(3)]
  ultimately show ?thesis using r v assms(2)
    by (intro bexI [OF _ r(1)] bexI [OF _ v(1)]) auto
qed

text \<open>C37: The derived state does not depend on the order in which the records were stored.\<close>

theorem derived_state_ignores_order:
  assumes "mset rs' = mset rs" "mset vs' = mset vs"
  shows "DeriveFindingResolutionState (Some f) rs' vs' = Inr s \<longleftrightarrow>
    DeriveFindingResolutionState (Some f) rs vs = Inr s"
proof -
  have "mset (map g rs') = mset (map g rs)" "mset (map h vs') = mset (map h vs)" for g h
    using assms by simp_all
  then have "distinct (map g rs') = distinct (map g rs)" "distinct (map h vs') = distinct (map h vs)"
    for g h
    by (metis mset_eq_imp_distinct_iff)+
  note d = this
  have "set rs' = set rs" "set vs' = set vs"
    using assms by (metis mset_eq_setD)+
  then show ?thesis by (simp only: derived_state d)
qed

text \<open>Every check of the ledger fails as a failed validation.\<close>

definition refuses :: "go_error option \<Rightarrow> bool" where
  "refuses c \<longleftrightarrow> (c \<noteq> None \<longrightarrow> CategoryOf c = Some CategoryValidationFailed)"

definition refused :: "'b result \<Rightarrow> bool" where
  "refused r \<longleftrightarrow> (case r of Inl e \<Rightarrow> refuses (Some e) | Inr _ \<Rightarrow> True)"

lemma refuses_simps [simp]:
  "refuses None" "refuses (failed bad)" "refuses (invalid e)"
  by (cases e; simp add: refuses_def failed_def invalid_def check_def CategoryOf_def New_def)+

lemma refused_simps [simp]:
  "refused (Inr x)" "refused (Inl (New CategoryValidationFailed))"
  by (simp_all add: refused_def refuses_def)

lemma refuses_first: "list_all refuses cs \<Longrightarrow> refuses (first_err cs)"
  by (induction cs) (auto simp: first_err.simps(2) split: option.splits)

lemma refused_require: "refuses c \<Longrightarrow> refused k \<Longrightarrow> refused (require c k)"
  by (cases c) (simp_all add: refused_def)

lemma refused_bind: "refused r \<Longrightarrow> (\<And>x. r = Inr x \<Longrightarrow> refused (k x)) \<Longrightarrow> refused (bind_result r k)"
  by (cases r) (simp_all add: refused_def)

lemma refuses_CheckVerification: "refuses (CheckVerification fo ro vo)"
  by (auto simp: CheckVerification_def candidate_rule_def outcome_rule_def intro!: refuses_first
      split: option.splits ResolutionKind.splits)

lemma refused_index: "refused (index_resolutions n rs seen byID)"
  by (induction rs arbitrary: seen byID) (simp_all add: refused_require refuses_first)

lemma refused_judge: "refused (judge_resolutions f byID vs judged)"
  by (induction vs arbitrary: judged)
    (auto split: option.splits intro!: refused_require refuses_CheckVerification)

lemma refused_derive: "refused (DeriveFindingResolutionState fo rs vs)"
proof (cases fo)
  case (Some f)
  have "refuses (superseded_check seen judged k)" for seen judged k
    by (auto simp: superseded_check_def split: option.splits)
  moreover have "refused (state_of_outcome out)" for out
    by (auto simp: state_of_outcome_def split: VerificationOutcome.splits)
  ultimately show ?thesis
    by (auto simp: DeriveFindingResolutionState_def Some list_all_iff split: option.splits
        intro!: refused_require refused_bind refuses_first refused_index refused_judge)
qed (simp add: DeriveFindingResolutionState_def)

lemma derived_state_known:
  assumes "DeriveFindingResolutionState fo rs vs = Inr s"
  shows "FindingResolutionState_Valid s"
proof -
  obtain f where fo: "fo = Some f"
    using assms by (auto simp: DeriveFindingResolutionState_def split: option.splits)
  have "state_of_outcome out = Inr s \<Longrightarrow> FindingResolutionState_Valid s" for out
    by (cases out) (auto simp: state_of_outcome_def enum_defs)
  then show ?thesis using assms unfolding fo derived_state
    by (auto simp: verdict_def FindingResolutionState_Valid_def split: if_splits)
qed

text \<open>C38: Whatever the records, a refusal is a failed validation: no other category of error leaves the
  review ledger, and a state that is derived is one of the five known ones.\<close>

theorem review_refusals_are_validation_failures:
  "(case CheckVerification fo ro vo of
      None \<Rightarrow> True
    | Some e \<Rightarrow> CategoryOf (Some e) = Some CategoryValidationFailed) \<and>
   (case DeriveFindingResolutionState fo rs vs of
      Inr s \<Rightarrow> FindingResolutionState_Valid s
    | Inl e \<Rightarrow> CategoryOf (Some e) = Some CategoryValidationFailed)"
  using refuses_CheckVerification [of fo ro vo] refused_derive [of fo rs vs]
    derived_state_known [of fo rs vs]
  by (auto simp: refuses_def refused_def split: option.splits sum.splits)

section \<open>A sample ledger\<close>

definition sample_actor :: "string \<Rightarrow> ProvenanceRole \<Rightarrow> ActorProvenance" where
  "sample_actor i role = \<lparr>apv_ActorID = i, apv_InvocationID = i @ ''-1'', apv_Role = role,
     apv_LineageActorIDs = [], apv_EndpointRef = None, apv_SessionRef = None, apv_ModelRef = None\<rparr>"

definition sample_finding :: ReviewFinding where
  "sample_finding =
     \<lparr>rf_SchemaVersion = SchemaVersion1, rf_FindingID = ''f'', rf_ProjectID = ''p'',
      rf_CampaignID = ''c'', rf_CandidateCommit = ''aaa'', rf_WorkPackageID = ''w'',
      rf_ContractRevision = 1, rf_Severity = SeverityHigh, rf_Materiality = MaterialityBlocking,
      rf_Confidence = None, rf_Claim = ''claim'', rf_Impact = ''impact'',
      rf_VerificationMethod = ''test'', rf_WhyNow = None, rf_EvidenceRefs = [''e''],
      rf_RequirementRefs = [], rf_SourceObservations = [\<lparr>obs_ReviewID = ''r'', obs_FindingIndex = 0\<rparr>],
      rf_Reviewer = sample_actor ''reviewer'' ProvenanceRoleReviewer,
      rf_RecordedAt = ''2026-01-01T00:00:00Z''\<rparr>"

definition sample_fix :: "int \<Rightarrow> string \<Rightarrow> string \<Rightarrow> FindingResolution" where
  "sample_fix n i commit =
     \<lparr>fr_SchemaVersion = SchemaVersion1, fr_ResolutionID = i, fr_ProjectID = ''p'',
      fr_CampaignID = ''c'', fr_FindingID = ''f'', fr_DispositionID = ''d'', fr_ContractRevision = 1,
      fr_AttemptNo = n, fr_Kind = ResolutionKindFixAttempted, fr_TargetCandidateCommit = ''aaa'',
      fr_ResolvedCandidateCommit = Some commit, fr_Rationale = ''why'', fr_EvidenceRefs = [''e''],
      fr_Producer = sample_actor ''worker'' ProvenanceRoleImplementer,
      fr_RecordedAt = ''2026-01-01T00:00:00Z''\<rparr>"

definition sample_judgment ::
  "string \<Rightarrow> string \<Rightarrow> string \<Rightarrow> VerificationOutcome \<Rightarrow> ResolutionVerification" where
  "sample_judgment i resolution commit out =
     \<lparr>rv_SchemaVersion = SchemaVersion1, rv_VerificationID = i, rv_ProjectID = ''p'',
      rv_CampaignID = ''c'', rv_FindingID = ''f'', rv_ResolutionID = resolution,
      rv_ContractRevision = 1, rv_VerifiedCandidateCommit = commit, rv_Outcome = out,
      rv_Rationale = ''why'', rv_EvidenceRefs = [''e''],
      rv_Verifier = sample_actor ''judge'' ProvenanceRoleVerifier,
      rv_RecordedAt = ''2026-01-01T00:00:00Z''\<rparr>"

definition sample_fixes :: "FindingResolution list" where
  "sample_fixes = [sample_fix 1 ''r1'' ''bbb'', sample_fix 2 ''r2'' ''ccc'']"

definition sample_judgments :: "ResolutionVerification list" where
  "sample_judgments = [sample_judgment ''v2'' ''r2'' ''ccc'' OutcomeVerifiedFixed,
     sample_judgment ''v1'' ''r1'' ''bbb'' OutcomeNotResolved]"

lemma sample_ledger_fixed:
  "DeriveFindingResolutionState (Some sample_finding) sample_fixes sample_judgments =
     Inr StateVerifiedFixed"
  by code_simp

theorem settled_finding_was_judged_independently_witness:
  "\<exists>r \<in> set sample_fixes. \<exists>v \<in> set sample_judgments.
     fr_AttemptNo r = 2 \<and> rv_ResolutionID v = fr_ResolutionID r \<and>
     independent (rv_Verifier v) (fr_Producer r) \<and> rv_Outcome v = OutcomeVerifiedFixed"
  using settled_finding_was_judged_independently [OF sample_ledger_fixed disjI1 [OF refl]]
  by (fastforce simp: sample_fixes_def)

theorem derived_state_ignores_order_witness:
  "DeriveFindingResolutionState (Some sample_finding) (rev sample_fixes) (rev sample_judgments) =
     Inr StateVerifiedFixed"
  using derived_state_ignores_order [of "rev sample_fixes" sample_fixes "rev sample_judgments"
      sample_judgments sample_finding StateVerifiedFixed] sample_ledger_fixed
  by simp

end
