(* ===== verification/Spec2Isabelle.thy ===== *)
theory Spec2Isabelle
  imports Guarantees Render Revision Promises Batches Timeline Adjudication
begin

text \<open>
  DevCadence is an event-sourced control plane for engineering work done by agents.
\<close>

end
